(* ===== verification/Prelude.thy ===== *)
theory Prelude
  imports Main "HOL-Library.Word" "HOL-Library.Signed_Division" "HOL-Library.Sublist"
begin

text \<open>
  Shared vocabulary of the torch-ucc development: the status codes that cross
  component boundaries, the machine types of the C++ source, the C remainder
  operator, and the byte-buffer operations (\<open>memcpy\<close> into and out of a
  buffer viewed as consecutive blocks) used by the bootstrap allgather.
  Lemmas proved here are collected in \<open>ucc_simps\<close> or declared \<open>[simp]\<close>
  so that the component theories can use them by name.
\<close>

named_theorems ucc_simps "characteristic equations of the torch-ucc model"

section \<open>Status codes\<close>

text \<open>
  \<open>torch_ucc_status_t\<close> (declared in \<open>torch_ucc_sendrecv.hpp\<close>, outside src/)
  and the part of \<open>xccl_status_t\<close> the code distinguishes: \<open>XCCL_OK\<close>,
  \<open>XCCL_INPROGRESS\<close> and any error code.
\<close>

datatype torch_ucc_status = TORCH_UCC_OK | TORCH_UCC_INPROGRESS | TORCH_UCC_ERROR

datatype xccl_status = XCCL_OK | XCCL_INPROGRESS | XCCL_ERR int

type_synonym size_t = "64 word"

section \<open>Calls that may throw\<close>

text \<open>
  A C++ call that updates state and may throw (\<open>std::map::at\<close>,
  \<open>std::vector::at\<close>) or crash (a null dereference) is a function from the
  state to an outcome and the state reached: \<open>Inl e\<close> for the failure, with the
  state the code had changed before it. \<open>ebind\<close> sequences two calls.
\<close>

definition ereturn :: "'a \<Rightarrow> 's \<Rightarrow> ('e + 'a) \<times> 's" where
  "ereturn a s = (Inr a, s)"

definition ethrow :: "'e \<Rightarrow> 's \<Rightarrow> ('e + 'a) \<times> 's" where
  "ethrow e s = (Inl e, s)"

definition ebind :: "('s \<Rightarrow> ('e + 'a) \<times> 's) \<Rightarrow> ('a \<Rightarrow> 's \<Rightarrow> ('e + 'b) \<times> 's) \<Rightarrow> 's \<Rightarrow> ('e + 'b) \<times> 's" where
  "ebind m f s = (case m s of (Inl e, s') \<Rightarrow> (Inl e, s') | (Inr a, s') \<Rightarrow> f a s')"

definition emodify :: "('s \<Rightarrow> 's) \<Rightarrow> 's \<Rightarrow> ('e + unit) \<times> 's" where
  "emodify f s = (Inr (), f s)"

definition egets :: "('s \<Rightarrow> 'a) \<Rightarrow> 's \<Rightarrow> ('e + 'a) \<times> 's" where
  "egets f s = (Inr (f s), s)"

definition elift :: "'e + 'a \<Rightarrow> 's \<Rightarrow> ('e + 'a) \<times> 's" where
  "elift r s = (r, s)"

section \<open>Buffers as consecutive blocks\<close>

text \<open>
  A receive buffer of \<open>size * msglen\<close> bytes is read and written a block at a
  time. \<open>write_block\<close> is \<open>memcpy(buf + off, d, length d)\<close>,
  \<open>read_block\<close> the \<open>len\<close> bytes at \<open>buf + off\<close>.
\<close>

definition read_block :: "'a list \<Rightarrow> nat \<Rightarrow> nat \<Rightarrow> 'a list" where
  "read_block xs off len = take len (drop off xs)"

definition write_block :: "'a list \<Rightarrow> nat \<Rightarrow> 'a list \<Rightarrow> 'a list" where
  "write_block xs off d = take off xs @ d @ drop (off + length d) xs"

section \<open>C remainder\<close>

text \<open>
  C's \<open>%\<close> on \<open>int\<close> truncates towards zero; that is \<open>smod\<close> of
  HOL-Library.Signed\_Division. On a non-negative dividend and a positive divisor it
  agrees with HOL's \<open>mod\<close>, which is the form the proofs use.
\<close>

lemma smod_nonneg_eq_mod [simp]:
  fixes a b :: int
  assumes "0 \<le> a" "0 < b"
  shows "a smod b = a mod b"
  using assms by (simp add: smod_int_alt_def sgn_if)

lemma length_write_block [simp]:
  "off + length d \<le> length xs \<Longrightarrow> length (write_block xs off d) = length xs"
  by (simp add: write_block_def)

lemma length_read_block [simp]:
  "off + len \<le> length xs \<Longrightarrow> length (read_block xs off len) = len"
  by (simp add: read_block_def)

lemma nth_write_block:
  assumes "off + length d \<le> length xs" "p < length xs"
  shows "write_block xs off d ! p =
           (if p < off then xs ! p else if p < off + length d then d ! (p - off) else xs ! p)"
  using assms by (auto simp: write_block_def nth_append min_def)

lemma read_write_block_same [ucc_simps]:
  "off + length d \<le> length xs \<Longrightarrow> read_block (write_block xs off d) off (length d) = d"
  by (simp add: read_block_def write_block_def)

lemma read_write_block_other [ucc_simps]:
  assumes "length d = m" "i \<noteq> k" "(Suc i) * m \<le> length xs" "(Suc k) * m \<le> length xs"
  shows "read_block (write_block xs (k * m) d) (i * m) m = read_block xs (i * m) m"
proof (rule nth_equalityI)
  have lw: "length (write_block xs (k * m) d) = length xs"
    using assms by simp
  show "length (read_block (write_block xs (k * m) d) (i * m) m) = length (read_block xs (i * m) m)"
    using assms lw by simp
next
  fix t
  assume t: "t < length (read_block (write_block xs (k * m) d) (i * m) m)"
  then have tm: "t < m" and im: "i * m + m \<le> length xs"
    using assms by (auto simp: read_block_def)
  have "i * m + t < k * m \<or> k * m + m \<le> i * m + t"
  proof (cases "i < k")
    case True
    then have "Suc i * m \<le> k * m" by (metis Suc_leI mult_le_mono1)
    then show ?thesis using tm by simp
  next
    case False
    with assms(2) have "k < i" by simp
    then have "Suc k * m \<le> i * m" by (metis Suc_leI mult_le_mono1)
    then show ?thesis by simp
  qed
  then show "read_block (write_block xs (k * m) d) (i * m) m ! t = read_block xs (i * m) m ! t"
    using assms tm im by (auto simp: read_block_def nth_write_block)
qed

lemma read_block_take:
  "off + len \<le> n \<Longrightarrow> read_block (take n xs) off len = read_block xs off len"
  by (simp add: read_block_def take_drop min_def)

text \<open>A buffer whose every block is known is the concatenation of the blocks.\<close>

lemma blocks_concat:
  "length xs = n * m \<Longrightarrow> (\<forall>i<n. read_block xs (i * m) m = f i) \<Longrightarrow>
   xs = concat (map f [0..<n])"
proof (induction n arbitrary: xs)
  case 0
  then show ?case by simp
next
  case (Suc n)
  let ?ys = "take (n * m) xs"
  have len: "length ?ys = n * m"
    using Suc.prems(1) by simp
  have "\<forall>i<n. read_block ?ys (i * m) m = f i"
  proof (intro allI impI)
    fix i
    assume "i < n"
    then have "i * m + m \<le> n * m"
      by (metis add.commute mult_Suc mult_le_mono1 Suc_leI)
    then show "read_block ?ys (i * m) m = f i"
      using Suc.prems(2) \<open>i < n\<close> by (simp add: read_block_take)
  qed
  then have ys: "?ys = concat (map f [0..<n])"
    using Suc.IH len by blast
  have "drop (n * m) xs = read_block xs (n * m) m"
    using Suc.prems(1) by (simp add: read_block_def)
  then have last: "drop (n * m) xs = f n"
    using Suc.prems(2) by simp
  have "xs = ?ys @ drop (n * m) xs"
    by simp
  then show ?case
    using ys last by simp
qed

section \<open>Sequencing lemmas\<close>

lemma ebind_ereturn [simp]: "ebind (ereturn a) f = f a"
  by (rule ext) (simp add: ebind_def ereturn_def)

lemma ebind_ethrow [simp]: "ebind (ethrow e) f = ethrow e"
  by (rule ext) (simp add: ebind_def ethrow_def)

lemma ebind_emodify [simp]: "ebind (emodify g) f s = f () (g s)"
  by (simp add: ebind_def emodify_def)

lemma ebind_egets [simp]: "ebind (egets g) f s = f (g s) s"
  by (simp add: ebind_def egets_def)

lemma ebind_elift_Inl [simp]: "ebind (elift (Inl e)) f = ethrow e"
  by (rule ext) (simp add: ebind_def elift_def ethrow_def)

lemma ebind_elift_Inr [simp]: "ebind (elift (Inr a)) f = f a"
  by (rule ext) (simp add: ebind_def elift_def)

lemma ebind_Inr:
  "m s = (Inr a, s') \<Longrightarrow> ebind m f s = f a s'"
  by (simp add: ebind_def)

lemma ebind_Inl:
  "m s = (Inl e, s') \<Longrightarrow> ebind m f s = (Inl e, s')"
  by (simp add: ebind_def)

lemma ebind_assoc [simp]: "ebind (ebind m f) g = ebind m (\<lambda>a. ebind (f a) g)"
  by (rule ext) (simp add: ebind_def split: prod.splits sum.splits)

lemma ereturn_apply [simp]: "ereturn a s = (Inr a, s)"
  and ethrow_apply [simp]: "ethrow e s = (Inl e, s)"
  by (simp_all add: ereturn_def ethrow_def)

end
