(* ===== verification/Bootstrap.thy ===== *)
theory Bootstrap
  imports Prelude
begin

text \<open>
  The out-of-band bootstrap allgather of \<open>src/src/torch_xccl.cpp\<close>
  (\<open>xccl_oob_allgather_req_t\<close>, \<open>oob_allgather_test\<close>,
  \<open>oob_allgather\<close>): one process's side of the ring exchange. A call of
  \<open>oob_allgather_test\<close> is a function from the request record to the returned
  status, the updated record and the sends it posted; the point-to-point layer it
  calls (\<open>torch_ucx_send_nb\<close>, \<open>torch_ucx_recv_nb\<close>,
  \<open>torch_ucx_req_test\<close>, outside src/) appears as request values whose
  completion the transport decides. The theory \<open>Ring\<close> composes the processes.
\<close>

section \<open>Endpoint ranges and the point-to-point layer\<close>

datatype xccl_ep_range_type =
  XCCL_EP_RANGE_UNDEFINED | XCCL_EP_RANGE_FULL | XCCL_EP_RANGE_STRIDED | XCCL_EP_RANGE_MAP

record xccl_ep_range =
  range_type :: xccl_ep_range_type
  ep_num :: int
  strided_start :: int
  strided_stride :: int
  range_map :: "int list"

text \<open>\<open>xccl_range_to_rank\<close> of the XCCL library: logical rank to endpoint.\<close>

definition xccl_range_to_rank :: "xccl_ep_range \<Rightarrow> int \<Rightarrow> int" where
  "xccl_range_to_rank rg r =
     (case range_type rg of
        XCCL_EP_RANGE_STRIDED \<Rightarrow> strided_start rg + r * strided_stride rg
      | XCCL_EP_RANGE_MAP \<Rightarrow> range_map rg ! nat r
      | _ \<Rightarrow> r)"

text \<open>\<open>torch_ucx_comm_t\<close>: the rank and size of the point-to-point communicator.\<close>

record ucx_comm =
  comm_rank :: int
  comm_size :: int

text \<open>
  A \<open>torch_ucx_request_t*\<close> slot: empty, or a posted send (to a peer) or receive
  (from a peer, into a byte offset of the receive buffer) with its completion flag.
\<close>

datatype ucx_req = UCX_REQ_NULL | UCX_SEND int bool | UCX_RECV int nat bool

fun ucx_req_done :: "ucx_req \<Rightarrow> bool" where
  "ucx_req_done UCX_REQ_NULL = True"
| "ucx_req_done (UCX_SEND _ c) = c"
| "ucx_req_done (UCX_RECV _ _ c) = c"

text \<open>\<open>torch_ucx_req_test(ctx, reqs, n, ...)\<close>: done when the first \<open>n\<close> requests are.\<close>

definition torch_ucx_req_test :: "ucx_req list \<Rightarrow> int \<Rightarrow> torch_ucc_status" where
  "torch_ucx_req_test rs n =
     (if list_all ucx_req_done (take (nat n) rs) then TORCH_UCC_OK else TORCH_UCC_INPROGRESS)"

text \<open>A send posted with \<open>TORCH_UCX_OOB_TAG\<close>: destination and payload.\<close>

datatype 'a send_msg = Send_Msg int "'a list"

section \<open>The request record\<close>

record 'a oob_req =
  ep_range :: xccl_ep_range
  sbuf :: "'a list"
  rbuf :: "'a list"
  oob_coll_ctx :: ucx_comm
  my_rank :: int
  msglen :: nat
  iter :: int
  num_active_reqs :: int
  reqs :: "ucx_req list"
  is_done :: bool

text \<open>Size and rank the request works with (lines 40--46).\<close>

definition oob_size_rank :: "'a oob_req \<Rightarrow> int \<times> int" where
  "oob_size_rank r =
     (if range_type (ep_range r) = XCCL_EP_RANGE_UNDEFINED
      then (comm_size (oob_coll_ctx r), comm_rank (oob_coll_ctx r))
      else (ep_num (ep_range r), my_rank r))"

section \<open>One ring step and the loop\<close>

text \<open>
  The body of the \<open>for\<close> loop after the test (lines 72--96): send the block
  learnt in the previous step to \<open>sendto\<close>, post the receive of the next block
  from \<open>recvfrom\<close>, count two active requests, advance \<open>iter\<close>.
\<close>

definition oob_ring_iteration ::
  "int \<Rightarrow> int \<Rightarrow> int \<Rightarrow> int \<Rightarrow> 'a oob_req \<Rightarrow> 'a oob_req \<times> 'a send_msg" where
  "oob_ring_iteration sz rank sendto recvfrom r =
     (let recvdatafrom = (rank - iter r - 1 + sz) smod sz;
          senddatafrom = (rank - iter r + sz) smod sz;
          tmpsend = read_block (rbuf r) (nat senddatafrom * msglen r) (msglen r)
      in (r\<lparr>reqs := [UCX_SEND sendto False, UCX_RECV recvfrom (nat recvdatafrom * msglen r) False],
            num_active_reqs := num_active_reqs r + 2,
            iter := iter r + 1\<rparr>,
          Send_Msg sendto tmpsend))"

text \<open>
  The loop of lines 58--97. \<open>Inl\<close> is the early \<open>return XCCL_INPROGRESS\<close>
  when the previous step's requests are still outstanding, \<open>Inr\<close> the normal
  exit once \<open>iter = size - 1\<close>. The sends posted so far are accumulated.
\<close>

function oob_ring_loop ::
  "int \<Rightarrow> int \<Rightarrow> int \<Rightarrow> int \<Rightarrow> 'a oob_req \<Rightarrow> 'a send_msg list \<Rightarrow>
   ('a oob_req \<times> 'a send_msg list) + ('a oob_req \<times> 'a send_msg list)" where
  "oob_ring_loop sz rank sendto recvfrom r sent =
     (if iter r < sz - 1 then
        (if 0 < iter r \<and> torch_ucx_req_test (reqs r) (num_active_reqs r) = TORCH_UCC_INPROGRESS
         then Inl (r, sent)
         else
           (let r1 = (if 0 < iter r then r\<lparr>num_active_reqs := 0\<rparr> else r);
                (r2, m) = oob_ring_iteration sz rank sendto recvfrom r1
            in oob_ring_loop sz rank sendto recvfrom r2 (sent @ [m])))
      else Inr (r, sent))"
  by pat_completeness auto
termination
proof (relation "measure (\<lambda>(sz, rank, sendto, recvfrom, r, sent). nat (sz - 1 - iter r))")
  show "wf (measure (\<lambda>(sz, rank, sendto, recvfrom, r, sent). nat (sz - 1 - iter r)))"
    by simp
next
  fix sz rank sendto recvfrom :: int and r :: "'a oob_req" and sent r1 x r2 m
  assume "iter r < sz - 1"
    and r1: "r1 = (if 0 < iter r then r\<lparr>num_active_reqs := 0\<rparr> else r)"
    and x: "x = oob_ring_iteration sz rank sendto recvfrom r1"
    and "(r2, m) = x"
  then have "iter r2 = iter r + 1"
    by (simp add: oob_ring_iteration_def Let_def)
  with \<open>iter r < sz - 1\<close>
  show "((sz, rank, sendto, recvfrom, r2, sent @ [m]), sz, rank, sendto, recvfrom, r, sent)
          \<in> measure (\<lambda>(sz, rank, sendto, recvfrom, r, sent). nat (sz - 1 - iter r))"
    by simp
qed

declare oob_ring_loop.simps [simp del]

section \<open>The test and start entry points\<close>

text \<open>Ring neighbours (lines 52--57), mapped through the endpoint range if there is one.\<close>

definition oob_peers :: "'a oob_req \<Rightarrow> int \<Rightarrow> int \<Rightarrow> int \<times> int" where
  "oob_peers r sz rank =
     (let sendto = (rank + 1) smod sz;
          recvfrom = (rank - 1 + sz) smod sz
      in if range_type (ep_range r) \<noteq> XCCL_EP_RANGE_UNDEFINED
         then (xccl_range_to_rank (ep_range r) sendto, xccl_range_to_rank (ep_range r) recvfrom)
         else (sendto, recvfrom))"

text \<open>
  \<open>oob_allgather_test\<close> (lines 26--112): a finished request answers
  \<open>XCCL_OK\<close> at once; otherwise the first call copies the local block to
  position \<open>rank\<close>, the ring loop runs as far as the transport allows, and a
  final test of the outstanding requests decides between
  \<open>XCCL_INPROGRESS\<close> and marking the request done.
\<close>

definition oob_allgather_test :: "'a oob_req \<Rightarrow> xccl_status \<times> 'a oob_req \<times> 'a send_msg list" where
  "oob_allgather_test r =
     (if is_done r then (XCCL_OK, r, [])
      else
        (let (sz, rank) = oob_size_rank r;
             r0 = (if iter r = 0
                   then r\<lparr>rbuf := write_block (rbuf r) (nat rank * msglen r) (take (msglen r) (sbuf r))\<rparr>
                   else r);
             (sendto, recvfrom) = oob_peers r sz rank
         in (case oob_ring_loop sz rank sendto recvfrom r0 [] of
               Inl (r', sent) \<Rightarrow> (XCCL_INPROGRESS, r', sent)
             | Inr (r', sent) \<Rightarrow>
                 (if torch_ucx_req_test (reqs r') (num_active_reqs r') = TORCH_UCC_INPROGRESS
                  then (XCCL_INPROGRESS, r', sent)
                  else (XCCL_OK, r'\<lparr>is_done := True\<rparr>, sent)))))"

text \<open>The fresh request of \<open>oob_allgather\<close> (lines 130--140).\<close>

definition oob_req_new ::
  "'a list \<Rightarrow> 'a list \<Rightarrow> nat \<Rightarrow> int \<Rightarrow> xccl_ep_range \<Rightarrow> ucx_comm \<Rightarrow> 'a oob_req" where
  "oob_req_new sb rb len rk rg ctx =
     \<lparr>ep_range = rg, sbuf = sb, rbuf = rb, oob_coll_ctx = ctx, my_rank = rk, msglen = len,
      iter = 0, num_active_reqs = 0, reqs = [UCX_REQ_NULL, UCX_REQ_NULL], is_done = False\<rparr>"

text \<open>\<open>oob_allgather\<close> (lines 122--145): allocate, then test once.\<close>

definition oob_allgather ::
  "'a list \<Rightarrow> 'a list \<Rightarrow> nat \<Rightarrow> int \<Rightarrow> xccl_ep_range \<Rightarrow> ucx_comm \<Rightarrow>
   xccl_status \<times> 'a oob_req \<times> 'a send_msg list" where
  "oob_allgather sb rb len rk rg ctx = oob_allgather_test (oob_req_new sb rb len rk rg ctx)"

section \<open>Well-formed requests\<close>

text \<open>
  What every request reachable from \<open>oob_allgather\<close> satisfies: a positive group
  size with the rank inside it, the counter between 0 and \<open>size - 1\<close>, buffers of
  \<open>size * msglen\<close> and \<open>msglen\<close> bytes, two request slots, two active requests
  after the first step and none before, \<open>done\<close> only after the last step, and the
  posted receive inside the receive buffer.
\<close>

fun recv_in_bounds :: "ucx_req \<Rightarrow> nat \<Rightarrow> nat \<Rightarrow> bool" where
  "recv_in_bounds (UCX_RECV _ off _) len n = (off + len \<le> n)"
| "recv_in_bounds _ len n = False"

definition oob_wf_at :: "int \<Rightarrow> int \<Rightarrow> 'a oob_req \<Rightarrow> bool" where
  "oob_wf_at sz rank r \<longleftrightarrow>
     0 < sz \<and> 0 \<le> rank \<and> rank < sz \<and> 0 \<le> iter r \<and> iter r \<le> sz - 1 \<and>
     length (rbuf r) = nat sz * msglen r \<and> length (sbuf r) = msglen r \<and>
     length (reqs r) = 2 \<and>
     (iter r = 0 \<longrightarrow> num_active_reqs r = 0) \<and> (0 < iter r \<longrightarrow> num_active_reqs r = 2) \<and>
     (is_done r \<longrightarrow> iter r = sz - 1) \<and>
     (0 < iter r \<longrightarrow> recv_in_bounds (reqs r ! 1) (msglen r) (length (rbuf r)))"

definition oob_wf :: "'a oob_req \<Rightarrow> bool" where
  "oob_wf r \<longleftrightarrow> (case oob_size_rank r of (sz, rank) \<Rightarrow> oob_wf_at sz rank r)"

section \<open>Behaviour of one call\<close>

lemma oob_wfD: "oob_wf r \<Longrightarrow> oob_size_rank r = (sz, rank) \<Longrightarrow> oob_wf_at sz rank r"
  by (simp add: oob_wf_def)

lemma oob_wfI: "oob_wf_at sz rank r \<Longrightarrow> oob_size_rank r = (sz, rank) \<Longrightarrow> oob_wf r"
  by (simp add: oob_wf_def)

lemma oob_size_rank_cong:
  "ep_range r' = ep_range r \<Longrightarrow> oob_coll_ctx r' = oob_coll_ctx r \<Longrightarrow> my_rank r' = my_rank r \<Longrightarrow>
   oob_size_rank r' = oob_size_rank r"
  by (simp add: oob_size_rank_def)

lemma oob_ring_loop_exit:
  "\<not> iter r < sz - 1 \<Longrightarrow> oob_ring_loop sz rank st rf r sent = Inr (r, sent)"
  by (simp add: oob_ring_loop.simps)

lemma oob_ring_loop_blocked:
  "0 < iter r \<Longrightarrow> iter r < sz - 1 \<Longrightarrow>
   torch_ucx_req_test (reqs r) (num_active_reqs r) = TORCH_UCC_INPROGRESS \<Longrightarrow>
   oob_ring_loop sz rank st rf r sent = Inl (r, sent)"
  by (simp add: oob_ring_loop.simps)

lemma req_test_fresh:
  "torch_ucx_req_test [UCX_SEND a False, UCX_RECV b off False] 2 = TORCH_UCC_INPROGRESS"
  by (simp add: torch_ucx_req_test_def)

lemma oob_ring_iteration_fields:
  "oob_ring_iteration sz rank st rf r = (r2, m) \<Longrightarrow>
     iter r2 = iter r + 1 \<and> num_active_reqs r2 = num_active_reqs r + 2 \<and>
     rbuf r2 = rbuf r \<and> sbuf r2 = sbuf r \<and> is_done r2 = is_done r \<and>
     ep_range r2 = ep_range r \<and> oob_coll_ctx r2 = oob_coll_ctx r \<and> my_rank r2 = my_rank r \<and>
     msglen r2 = msglen r \<and> (\<exists>a b off. reqs r2 = [UCX_SEND a False, UCX_RECV b off False])"
  by (auto simp: oob_ring_iteration_def Let_def)

lemma oob_ring_loop_once:
  assumes "iter r < sz - 1" "0 \<le> iter r"
    and "0 < iter r \<Longrightarrow> torch_ucx_req_test (reqs r) (num_active_reqs r) = TORCH_UCC_OK"
    and "iter r = 0 \<Longrightarrow> num_active_reqs r = 0"
    and it: "oob_ring_iteration sz rank st rf
               (if 0 < iter r then r\<lparr>num_active_reqs := 0\<rparr> else r) = (r2, m)"
  shows "oob_ring_loop sz rank st rf r sent =
           (if iter r2 < sz - 1 then Inl (r2, sent @ [m]) else Inr (r2, sent @ [m]))"
proof -
  have f: "iter r2 = iter r + 1" "num_active_reqs r2 = 2"
    "\<exists>a b off. reqs r2 = [UCX_SEND a False, UCX_RECV b off False]"
    using oob_ring_iteration_fields [OF it] assms(2,4) by (auto split: if_splits)
  have unfold: "oob_ring_loop sz rank st rf r sent = oob_ring_loop sz rank st rf r2 (sent @ [m])"
    using assms(1,3) it by (subst oob_ring_loop.simps) (auto simp: Let_def)
  show ?thesis
  proof (cases "iter r2 < sz - 1")
    case True
    with f assms(2) have "oob_ring_loop sz rank st rf r2 (sent @ [m]) = Inl (r2, sent @ [m])"
      by (auto intro!: oob_ring_loop_blocked simp: req_test_fresh)
    with True unfold show ?thesis by simp
  next
    case False
    then show ?thesis using unfold by (simp add: oob_ring_loop_exit)
  qed
qed

lemma oob_ring_iteration_pending:
  "oob_ring_iteration sz rank st rf r1 = (r2, m) \<Longrightarrow> num_active_reqs r1 = 0 \<Longrightarrow>
   torch_ucx_req_test (reqs r2) (num_active_reqs r2) = TORCH_UCC_INPROGRESS"
  using oob_ring_iteration_fields [of sz rank st rf r1 r2 m] by (auto simp: req_test_fresh)

lemma oob_allgather_test_step:
  assumes wf: "oob_wf r" and nd: "\<not> is_done r"
    and sr: "oob_size_rank r = (sz, rank)" and pe: "oob_peers r sz rank = (st, rf)"
  shows "oob_allgather_test r =
    (if iter r = 0 then
       (let r0 = r\<lparr>rbuf := write_block (rbuf r) (nat rank * msglen r) (take (msglen r) (sbuf r))\<rparr>
        in if sz = 1 then (XCCL_OK, r0\<lparr>is_done := True\<rparr>, [])
           else (case oob_ring_iteration sz rank st rf r0 of (r2, m) \<Rightarrow> (XCCL_INPROGRESS, r2, [m])))
     else if torch_ucx_req_test (reqs r) (num_active_reqs r) = TORCH_UCC_INPROGRESS
     then (XCCL_INPROGRESS, r, [])
     else if iter r < sz - 1 then
       (case oob_ring_iteration sz rank st rf (r\<lparr>num_active_reqs := 0\<rparr>) of
          (r2, m) \<Rightarrow> (XCCL_INPROGRESS, r2, [m]))
     else (XCCL_OK, r\<lparr>is_done := True\<rparr>, []))"
proof -
  have w: "0 < sz" "0 \<le> iter r" "iter r \<le> sz - 1" "iter r = 0 \<longrightarrow> num_active_reqs r = 0"
    using oob_wfD [OF wf sr] by (auto simp: oob_wf_at_def)
  have unf: "oob_allgather_test r =
     (let r0 = (if iter r = 0
                then r\<lparr>rbuf := write_block (rbuf r) (nat rank * msglen r) (take (msglen r) (sbuf r))\<rparr>
                else r)
      in case oob_ring_loop sz rank st rf r0 [] of
           Inl (r', sent) \<Rightarrow> (XCCL_INPROGRESS, r', sent)
         | Inr (r', sent) \<Rightarrow>
             (if torch_ucx_req_test (reqs r') (num_active_reqs r') = TORCH_UCC_INPROGRESS
              then (XCCL_INPROGRESS, r', sent)
              else (XCCL_OK, r'\<lparr>is_done := True\<rparr>, sent)))"
    using nd sr pe by (simp add: oob_allgather_test_def Let_def)
  show ?thesis
  proof (cases "iter r = 0")
    case True
    let ?r0 = "r\<lparr>rbuf := write_block (rbuf r) (nat rank * msglen r) (take (msglen r) (sbuf r))\<rparr>"
    show ?thesis
    proof (cases "sz = 1")
      case True
      with \<open>iter r = 0\<close> w unf show ?thesis
        by (simp add: oob_ring_loop_exit torch_ucx_req_test_def)
    next
      case False
      obtain r2 m where it: "oob_ring_iteration sz rank st rf ?r0 = (r2, m)"
        by fastforce
      have "oob_ring_loop sz rank st rf ?r0 [] =
              (if iter r2 < sz - 1 then Inl (r2, [] @ [m]) else Inr (r2, [] @ [m]))"
        by (rule oob_ring_loop_once) (use \<open>iter r = 0\<close> False w it in auto)
      moreover have "torch_ucx_req_test (reqs r2) (num_active_reqs r2) = TORCH_UCC_INPROGRESS"
        using oob_ring_iteration_pending [OF it] \<open>iter r = 0\<close> w by simp
      ultimately show ?thesis
        using \<open>iter r = 0\<close> False unf it by simp
    qed
  next
    case False
    then have pos: "0 < iter r" using w by simp
    show ?thesis
    proof (cases "torch_ucx_req_test (reqs r) (num_active_reqs r) = TORCH_UCC_INPROGRESS")
      case True
      then show ?thesis
        using pos unf by (cases "iter r < sz - 1") (simp_all add: oob_ring_loop_blocked oob_ring_loop_exit)
    next
      case ok: False
      show ?thesis
      proof (cases "iter r < sz - 1")
        case True
        obtain r2 m where it: "oob_ring_iteration sz rank st rf (r\<lparr>num_active_reqs := 0\<rparr>) = (r2, m)"
          by fastforce
        have "oob_ring_loop sz rank st rf r [] =
                (if iter r2 < sz - 1 then Inl (r2, [] @ [m]) else Inr (r2, [] @ [m]))"
          by (rule oob_ring_loop_once)
             (use True pos ok w it in \<open>auto simp: torch_ucx_req_test_def split: if_splits\<close>)
        moreover have "torch_ucx_req_test (reqs r2) (num_active_reqs r2) = TORCH_UCC_INPROGRESS"
          using oob_ring_iteration_pending [OF it] by simp
        ultimately show ?thesis
          using pos ok True unf it by simp
      next
        case False
        then show ?thesis
          using pos ok unf by (simp add: oob_ring_loop_exit)
      qed
    qed
  qed
qed

lemma smod_ring_bound:
  fixes a sz :: int
  assumes "0 \<le> a" "0 < sz"
  shows "nat (a smod sz) * m + m \<le> nat sz * m"
proof -
  have "a smod sz = a mod sz" using assms by simp
  moreover have "0 \<le> a mod sz" "a mod sz < sz" using assms(2) by simp_all
  ultimately have "Suc (nat (a smod sz)) \<le> nat sz" by linarith
  then show ?thesis by (metis add.commute mult_Suc mult_le_mono1)
qed

lemma oob_ring_iteration_wf:
  assumes wf: "oob_wf_at sz rank r" and lt: "iter r < sz - 1"
    and r1: "r1 = (if 0 < iter r then r\<lparr>num_active_reqs := 0\<rparr> else r)"
    and it: "oob_ring_iteration sz rank st rf r1 = (r2, m)"
  shows "oob_wf_at sz rank r2"
proof -
  let ?off = "nat ((rank - iter r - 1 + sz) smod sz) * msglen r"
  have b: "?off + msglen r \<le> nat sz * msglen r"
    using wf lt by (intro smod_ring_bound) (auto simp: oob_wf_at_def)
  have f: "num_active_reqs r1 = 0" "iter r1 = iter r" "rbuf r1 = rbuf r" "msglen r1 = msglen r"
       "sbuf r1 = sbuf r" "is_done r1 = is_done r"
    using wf r1 by (auto simp: oob_wf_at_def)
  have r2: "r2 = r1\<lparr>reqs := [UCX_SEND st False, UCX_RECV rf ?off False],
                    num_active_reqs := 2, iter := iter r + 1\<rparr>"
    using it f by (simp add: oob_ring_iteration_def Let_def)
  show ?thesis
    using wf lt b f unfolding r2 oob_wf_at_def by simp
qed

lemma oob_ring_iteration_msg:
  assumes "oob_wf_at sz rank r" "iter r < sz - 1"
    and "iter r1 = iter r" "rbuf r1 = rbuf r" "msglen r1 = msglen r"
    and "oob_ring_iteration sz rank st rf r1 = (r2, Send_Msg d data)"
  shows "d = st \<and> length data = msglen r"
proof -
  have "nat ((rank - iter r + sz) smod sz) * msglen r + msglen r \<le> nat sz * msglen r"
    using assms(1,2) by (intro smod_ring_bound) (auto simp: oob_wf_at_def)
  then show ?thesis
    using assms by (auto simp: oob_ring_iteration_def Let_def oob_wf_at_def)
qed

lemma rank_block_bound:
  fixes rank sz :: int
  assumes "0 \<le> rank" "rank < sz"
  shows "nat rank * m + m \<le> nat sz * m"
proof -
  have "Suc (nat rank) \<le> nat sz" using assms by linarith
  then show ?thesis by (metis add.commute mult_Suc mult_le_mono1)
qed

lemma oob_wf_at_first_copy:
  assumes "oob_wf_at sz rank r" "iter r = 0"
  shows "oob_wf_at sz rank (r\<lparr>rbuf := write_block (rbuf r) (nat rank * msglen r) (take (msglen r) (sbuf r))\<rparr>)"
proof -
  have "nat rank * msglen r + msglen r \<le> nat sz * msglen r"
    using assms(1) by (intro rank_block_bound) (auto simp: oob_wf_at_def)
  then show ?thesis
    using assms by (simp add: oob_wf_at_def)
qed

lemma oob_wf_at_set_done:
  "oob_wf_at sz rank r \<Longrightarrow> iter r = sz - 1 \<Longrightarrow> oob_wf_at sz rank (r\<lparr>is_done := True\<rparr>)"
  by (auto simp: oob_wf_at_def)

lemma oob_wf_set_done:
  assumes "oob_wf_at sz rank q" "iter q = sz - 1" "oob_size_rank q = (sz, rank)"
  shows "oob_wf (q\<lparr>is_done := True\<rparr>)"
proof (rule oob_wfI [OF oob_wf_at_set_done [OF assms(1,2)]])
  show "oob_size_rank (q\<lparr>is_done := True\<rparr>) = (sz, rank)"
    using oob_size_rank_cong [of "q\<lparr>is_done := True\<rparr>" q] assms(3) by simp
qed

text \<open>One ring iteration from a well-formed request keeps it well formed, advances
  the counter by one and sends one block of \<open>msglen\<close> bytes.\<close>

lemma oob_ring_iteration_post:
  assumes w: "oob_wf_at sz rank q" and lt: "iter q < sz - 1"
    and q1: "q1 = (if 0 < iter q then q\<lparr>num_active_reqs := 0\<rparr> else q)"
    and sr: "oob_size_rank q = (sz, rank)"
    and it: "oob_ring_iteration sz rank st rf q1 = (r2, Send_Msg d data)"
  shows "oob_wf r2 \<and> iter r2 = iter q + 1 \<and> length data = msglen q"
proof -
  have f: "iter r2 = iter q + 1" "ep_range r2 = ep_range q" "oob_coll_ctx r2 = oob_coll_ctx q"
    "my_rank r2 = my_rank q"
    using oob_ring_iteration_fields [OF it] q1 by (simp_all split: if_splits)
  have "length data = msglen q"
    using oob_ring_iteration_msg [OF w lt _ _ _ it] q1 by (simp split: if_splits)
  moreover have "oob_size_rank r2 = (sz, rank)" using oob_size_rank_cong [OF f(2-4)] sr by simp
  ultimately show ?thesis using oob_wfI [OF oob_ring_iteration_wf [OF w lt q1 it]] f(1) by simp
qed

text \<open>The first call: the local block is copied in, then one ring iteration runs
  unless the group has one member.\<close>

lemma oob_first_call_wf:
  assumes w: "oob_wf_at sz rank r" and first: "iter r = 0" and sr: "oob_size_rank r = (sz, rank)"
    and r0: "r0 = r\<lparr>rbuf := write_block (rbuf r) (nat rank * msglen r) (take (msglen r) (sbuf r))\<rparr>"
    and res: "(r', ms) = (if sz = 1 then (r0\<lparr>is_done := True\<rparr>, [])
                          else (case oob_ring_iteration sz rank st rf r0 of (r2, m) \<Rightarrow> (r2, [m])))"
    and pos: "0 < sz"
  shows "oob_wf r' \<and> iter r \<le> iter r' \<and>
         length ms = nat (iter r' - iter r) \<and>
         (\<forall>d data. Send_Msg d data \<in> set ms \<longrightarrow> length data = msglen r)"
proof -
  have w1: "oob_wf_at sz rank r0" using oob_wf_at_first_copy [OF w first] r0 by simp
  have sr0: "oob_size_rank r0 = (sz, rank)" using oob_size_rank_cong [of r0 r] sr r0 by simp
  show ?thesis
  proof (cases "sz = 1")
    case True
    then show ?thesis using res oob_wf_set_done [OF w1 _ sr0] first r0 by simp
  next
    case False
    obtain r2 d data where it: "oob_ring_iteration sz rank st rf r0 = (r2, Send_Msg d data)"
      by (metis send_msg.exhaust surj_pair)
    have "r' = r2" "ms = [Send_Msg d data]" using res False it by simp_all
    then show ?thesis using oob_ring_iteration_post [OF w1 _ _ sr0 it] first False pos r0 by simp
  qed
qed

text \<open>
  C2. Well-formedness is an invariant of \<open>oob_allgather_test\<close>: one call
  keeps the request well formed, never moves the ring counter back, posts exactly
  one send per ring iteration it runs, and every send carries exactly
  \<open>msglen\<close> bytes read from inside the receive buffer.
\<close>

theorem oob_allgather_test_wf:
  assumes wf: "oob_wf r" and call: "oob_allgather_test r = (st, r', ms)"
  shows "oob_wf r' \<and> iter r \<le> iter r' \<and>
         length ms = nat (iter r' - iter r) \<and>
         (\<forall>d data. Send_Msg d data \<in> set ms \<longrightarrow> length data = msglen r)"
proof (cases "is_done r")
  case True
  then show ?thesis using wf call by (simp add: oob_allgather_test_def)
next
  case nd: False
  obtain sz rank where sr: "oob_size_rank r = (sz, rank)" by fastforce
  obtain sto rfrom where pe: "oob_peers r sz rank = (sto, rfrom)" by fastforce
  have w: "oob_wf_at sz rank r" using oob_wfD [OF wf sr] .
  then have w0: "0 < sz" "0 \<le> iter r" "iter r \<le> sz - 1" by (simp_all add: oob_wf_at_def)
  note step = oob_allgather_test_step [OF wf nd sr pe]
  let ?r0 = "r\<lparr>rbuf := write_block (rbuf r) (nat rank * msglen r) (take (msglen r) (sbuf r))\<rparr>"
  have sr_upd: "\<And>r2. ep_range r2 = ep_range r \<Longrightarrow> oob_coll_ctx r2 = oob_coll_ctx r \<Longrightarrow>
                  my_rank r2 = my_rank r \<Longrightarrow> oob_size_rank r2 = (sz, rank)"
    using sr oob_size_rank_cong by metis
  consider (first) "iter r = 0" | (blocked) "0 < iter r"
      "torch_ucx_req_test (reqs r) (num_active_reqs r) = TORCH_UCC_INPROGRESS"
    | (advance) "0 < iter r" "torch_ucx_req_test (reqs r) (num_active_reqs r) \<noteq> TORCH_UCC_INPROGRESS"
      "iter r < sz - 1"
    | (finish) "0 < iter r" "torch_ucx_req_test (reqs r) (num_active_reqs r) \<noteq> TORCH_UCC_INPROGRESS"
      "\<not> iter r < sz - 1"
    using w0 by linarith
  then show ?thesis
  proof cases
    case first
    have "(r', ms) = (if sz = 1 then (?r0\<lparr>is_done := True\<rparr>, [])
                      else (case oob_ring_iteration sz rank sto rfrom ?r0 of (r2, m) \<Rightarrow> (r2, [m])))"
      using call step first by (auto simp: Let_def split: prod.splits if_splits)
    then show ?thesis using oob_first_call_wf [OF w first sr refl] w0 by blast
  next
    case blocked
    then show ?thesis using call step wf by simp
  next
    case advance
    let ?r1 = "r\<lparr>num_active_reqs := 0\<rparr>"
    obtain r2 d data where it: "oob_ring_iteration sz rank sto rfrom ?r1 = (r2, Send_Msg d data)"
      by (metis send_msg.exhaust surj_pair)
    have "r' = r2" "ms = [Send_Msg d data]" using call step advance it by simp_all
    then show ?thesis using oob_ring_iteration_post [OF w advance(3) _ sr it] advance(1) by simp
  next
    case finish
    then have "r' = r\<lparr>is_done := True\<rparr>" "ms = []" using call step by simp_all
    then show ?thesis using oob_wf_set_done [OF w _ sr] finish w0 by simp
  qed
qed

text \<open>
  C3. Polling a request whose previous step is still outstanding is idempotent:
  the call answers \<open>XCCL_INPROGRESS\<close>, leaves the resumable state exactly as it
  was and posts no network operation.
\<close>

theorem oob_allgather_test_blocked:
  assumes "\<not> is_done r" "0 < iter r"
    and "torch_ucx_req_test (reqs r) (num_active_reqs r) = TORCH_UCC_INPROGRESS"
  shows "oob_allgather_test r = (XCCL_INPROGRESS, r, [])"
proof -
  obtain sz rank where sr: "oob_size_rank r = (sz, rank)" by fastforce
  obtain sto rfrom where pe: "oob_peers r sz rank = (sto, rfrom)" by fastforce
  show ?thesis
    using assms sr pe
    by (cases "iter r < sz - 1")
       (simp_all add: oob_allgather_test_def oob_ring_loop_blocked oob_ring_loop_exit)
qed

text \<open>
  C4. With a group of one, \<open>oob_allgather\<close> finishes in its first call:
  the local block is copied into the receive buffer, no network operation is
  posted and the request is marked done.
\<close>

theorem oob_allgather_single_rank:
  assumes sr: "oob_size_rank (oob_req_new sb rb len rk rg ctx) = (1, 0)"
    and "length sb = len" "length rb = len"
  shows "oob_allgather sb rb len rk rg ctx =
           (XCCL_OK, (oob_req_new sb sb len rk rg ctx)\<lparr>is_done := True\<rparr>, [])"
proof -
  have "write_block rb 0 (take len sb) = sb"
    using assms(2,3) by (simp add: write_block_def)
  moreover have "oob_size_rank (oob_req_new sb rb len rk rg ctx) = oob_size_rank (oob_req_new sb sb len rk rg ctx)"
    by (simp add: oob_size_rank_def oob_req_new_def)
  ultimately show ?thesis
    using sr by (simp add: oob_allgather_def oob_allgather_test_def oob_req_new_def oob_ring_loop_exit
                           torch_ucx_req_test_def Let_def split: prod.splits)
qed

section \<open>Witnesses\<close>

theorem oob_allgather_test_wf_witness:
  "oob_wf (oob_req_new [7::nat] [0, 0] 1 0
             \<lparr>range_type = XCCL_EP_RANGE_UNDEFINED, ep_num = 0, strided_start = 0,
              strided_stride = 0, range_map = []\<rparr> \<lparr>comm_rank = 0, comm_size = 2\<rparr>) \<and>
   (case oob_allgather_test (oob_req_new [7::nat] [0, 0] 1 0
             \<lparr>range_type = XCCL_EP_RANGE_UNDEFINED, ep_num = 0, strided_start = 0,
              strided_stride = 0, range_map = []\<rparr> \<lparr>comm_rank = 0, comm_size = 2\<rparr>) of
      (st, r', ms) \<Rightarrow> oob_wf r' \<and> length ms = nat (iter r'))"
proof -
  let ?r = "oob_req_new [7::nat] [0, 0] 1 0
             \<lparr>range_type = XCCL_EP_RANGE_UNDEFINED, ep_num = 0, strided_start = 0,
              strided_stride = 0, range_map = []\<rparr> \<lparr>comm_rank = 0, comm_size = 2\<rparr>"
  have wf: "oob_wf ?r"
    by (simp add: oob_wf_def oob_wf_at_def oob_req_new_def oob_size_rank_def)
  obtain st r' ms where call: "oob_allgather_test ?r = (st, r', ms)"
    by (metis prod_cases3)
  have "iter ?r = 0" by (simp add: oob_req_new_def)
  then show ?thesis
    using oob_allgather_test_wf [OF wf call] wf call by simp
qed

theorem oob_allgather_test_blocked_witness:
  "oob_allgather_test ((oob_req_new [7::nat] [0, 0] 1 0
       \<lparr>range_type = XCCL_EP_RANGE_UNDEFINED, ep_num = 0, strided_start = 0,
        strided_stride = 0, range_map = []\<rparr> \<lparr>comm_rank = 0, comm_size = 3\<rparr>)
       \<lparr>iter := 1, num_active_reqs := 2, reqs := [UCX_SEND 1 False, UCX_RECV 2 1 False]\<rparr>) =
   (XCCL_INPROGRESS, (oob_req_new [7::nat] [0, 0] 1 0
       \<lparr>range_type = XCCL_EP_RANGE_UNDEFINED, ep_num = 0, strided_start = 0,
        strided_stride = 0, range_map = []\<rparr> \<lparr>comm_rank = 0, comm_size = 3\<rparr>)
       \<lparr>iter := 1, num_active_reqs := 2, reqs := [UCX_SEND 1 False, UCX_RECV 2 1 False]\<rparr>, [])"
  by (rule oob_allgather_test_blocked) (simp_all add: oob_req_new_def torch_ucx_req_test_def)

theorem oob_allgather_single_rank_witness:
  "oob_allgather [7::nat] [0] 1 0
     \<lparr>range_type = XCCL_EP_RANGE_UNDEFINED, ep_num = 0, strided_start = 0,
      strided_stride = 0, range_map = []\<rparr> \<lparr>comm_rank = 0, comm_size = 1\<rparr> =
   (XCCL_OK, (oob_req_new [7] [7] 1 0
     \<lparr>range_type = XCCL_EP_RANGE_UNDEFINED, ep_num = 0, strided_start = 0,
      strided_stride = 0, range_map = []\<rparr> \<lparr>comm_rank = 0, comm_size = 1\<rparr>)\<lparr>is_done := True\<rparr>, [])"
  by (rule oob_allgather_single_rank) (simp_all add: oob_size_rank_def oob_req_new_def)

end
