(* ===== verification/Ring.thy ===== *)
theory Ring
  imports Bootstrap
begin

text \<open>
  The bootstrap allgather run by a whole group. Every process owns one request of
  \<open>Bootstrap\<close>; the point-to-point layer is a set of FIFO channels, one per ordered
  pair of ranks, holding the payloads of sends posted with \<open>TORCH_UCX_OOB_TAG\<close>
  and not yet matched (UCX matches messages of one source and one tag in order).
  A step of the system is one of:
  \<^item> \<open>poll\<close>: a process calls \<open>oob_allgather_test\<close>; its sends are appended to
    its outgoing channels;
  \<^item> \<open>recv_match\<close>: the transport matches a posted receive with the oldest message
    from its source, copies the payload into the receive buffer and completes it;
  \<^item> \<open>send_complete\<close>: the transport completes a posted send (eager or rendezvous).
  The scheduler is arbitrary. The processes use \<open>XCCL_EP_RANGE_UNDEFINED\<close>, the
  case of context creation, where rank and size come from the point-to-point
  communicator.
\<close>

record 'a ring_state =
  procs :: "'a oob_req list"
  chans :: "int \<times> int \<Rightarrow> 'a list list"

definition no_range :: xccl_ep_range where
  "no_range = \<lparr>range_type = XCCL_EP_RANGE_UNDEFINED, ep_num = 0, strided_start = 0,
                strided_stride = 0, range_map = []\<rparr>"

text \<open>The transport enqueues each posted send on the channel from its source.\<close>

fun post_sends :: "int \<Rightarrow> 'a send_msg list \<Rightarrow> (int \<times> int \<Rightarrow> 'a list list) \<Rightarrow> (int \<times> int \<Rightarrow> 'a list list)" where
  "post_sends src [] ch = ch"
| "post_sends src (Send_Msg d data # ms) ch = post_sends src ms (ch((src, d) := ch (src, d) @ [data]))"

text \<open>A receive matched with payload \<open>d\<close>: \<open>memcpy\<close> into the buffer, then complete.\<close>

definition recv_complete :: "'a oob_req \<Rightarrow> int \<Rightarrow> nat \<Rightarrow> 'a list \<Rightarrow> 'a oob_req" where
  "recv_complete r src off d =
     r\<lparr>rbuf := write_block (rbuf r) off d, reqs := (reqs r)[1 := UCX_RECV src off True]\<rparr>"

definition send_done :: "'a oob_req \<Rightarrow> int \<Rightarrow> 'a oob_req" where
  "send_done r dst = r\<lparr>reqs := (reqs r)[0 := UCX_SEND dst True]\<rparr>"

inductive ring_step :: "'a ring_state \<Rightarrow> 'a ring_state \<Rightarrow> bool" where
  poll: "j < length (procs s) \<Longrightarrow> oob_allgather_test (procs s ! j) = (st, r', ms) \<Longrightarrow>
         ring_step s (s\<lparr>procs := (procs s)[j := r'], chans := post_sends (int j) ms (chans s)\<rparr>)"
| recv_match: "j < length (procs s) \<Longrightarrow> reqs (procs s ! j) ! 1 = UCX_RECV src off False \<Longrightarrow>
         chans s (src, int j) = d # rest \<Longrightarrow>
         ring_step s (s\<lparr>procs := (procs s)[j := recv_complete (procs s ! j) src off d],
                         chans := (chans s)((src, int j) := rest)\<rparr>)"
| send_complete: "j < length (procs s) \<Longrightarrow> reqs (procs s ! j) ! 0 = UCX_SEND dst False \<Longrightarrow>
         ring_step s (s\<lparr>procs := (procs s)[j := send_done (procs s ! j) dst]\<rparr>)"

text \<open>
  The start: process \<open>j\<close> has called \<open>oob_allgather\<close> with its block
  \<open>blocks ! j\<close> and a receive buffer of any content; the test inside
  \<open>oob_allgather\<close> is its first \<open>poll\<close>.
\<close>

definition ring_init :: "nat \<Rightarrow> 'a list list \<Rightarrow> 'a list list \<Rightarrow> 'a ring_state" where
  "ring_init m blocks rbufs =
     \<lparr>procs = map (\<lambda>j. oob_req_new (blocks ! j) (rbufs ! j) m (int j) no_range
                          \<lparr>comm_rank = int j, comm_size = int (length blocks)\<rparr>) [0..<length blocks],
      chans = (\<lambda>_. [])\<rparr>"

inductive ring_reach :: "nat \<Rightarrow> 'a list list \<Rightarrow> 'a list list \<Rightarrow> 'a ring_state \<Rightarrow> bool"
  for m blocks rbufs where
  init: "ring_reach m blocks rbufs (ring_init m blocks rbufs)"
| step: "ring_reach m blocks rbufs s \<Longrightarrow> ring_step s s' \<Longrightarrow> ring_reach m blocks rbufs s'"

text \<open>Inputs of a well-posed exchange: blocks of \<open>m\<close> bytes, buffers of \<open>N * m\<close>.\<close>

definition ring_input_ok :: "nat \<Rightarrow> 'a list list \<Rightarrow> 'a list list \<Rightarrow> bool" where
  "ring_input_ok m blocks rbufs \<longleftrightarrow>
     blocks \<noteq> [] \<and> length rbufs = length blocks \<and> list_all (\<lambda>b. length b = m) blocks \<and>
     list_all (\<lambda>b. length b = length blocks * m) rbufs"

section \<open>The invariant\<close>

text \<open>Receives a request has completed, and the block index \<open>x mod N\<close>.\<close>

definition ring_recvd :: "'a oob_req \<Rightarrow> int" where
  "ring_recvd r =
     (if iter r = 0 then 0 else if ucx_req_done (reqs r ! 1) then iter r else iter r - 1)"

definition ring_blk :: "int \<Rightarrow> int \<Rightarrow> nat" where
  "ring_blk n x = nat (x mod n)"

text \<open>
  Process \<open>j\<close> after \<open>t\<close> completed receives holds the blocks of ranks
  \<open>j, j - 1, \<dots>, j - t\<close>; its posted send goes to \<open>j + 1\<close> and its posted
  receive comes from \<open>j - 1\<close> into the slot of rank \<open>j - iter\<close>.
\<close>

definition ring_proc_inv :: "nat \<Rightarrow> 'a list list \<Rightarrow> nat \<Rightarrow> 'a oob_req \<Rightarrow> bool" where
  "ring_proc_inv m blocks j r \<longleftrightarrow>
     (let n = int (length blocks) in
      ep_range r = no_range \<and> oob_coll_ctx r = \<lparr>comm_rank = int j, comm_size = n\<rparr> \<and>
      sbuf r = blocks ! j \<and> msglen r = m \<and> oob_wf_at n (int j) r \<and>
      (iter r = 0 \<longrightarrow> reqs r = [UCX_REQ_NULL, UCX_REQ_NULL]) \<and>
      (0 < iter r \<longrightarrow>
         reqs r ! 0 \<in> {UCX_SEND ((int j + 1) mod n) False, UCX_SEND ((int j + 1) mod n) True} \<and>
         reqs r ! 1 \<in> {UCX_RECV ((int j - 1) mod n) (ring_blk n (int j - iter r) * m) False,
                       UCX_RECV ((int j - 1) mod n) (ring_blk n (int j - iter r) * m) True}) \<and>
      (is_done r \<longrightarrow> ring_recvd r = iter r) \<and>
      ((0 < iter r \<or> is_done r) \<longrightarrow>
         (\<forall>t. 0 \<le> t \<and> t \<le> ring_recvd r \<longrightarrow>
            read_block (rbuf r) (ring_blk n (int j - t) * m) m = blocks ! ring_blk n (int j - t))))"

text \<open>
  The channel into process \<open>b\<close> from its left neighbour \<open>a\<close> holds the blocks
  \<open>a\<close> has sent and \<open>b\<close> has not yet received, in order; every other channel is
  empty.
\<close>

definition ring_chan_inv :: "'a list list \<Rightarrow> 'a ring_state \<Rightarrow> bool" where
  "ring_chan_inv blocks s \<longleftrightarrow>
     (let n = int (length blocks) in
      (\<forall>b. 0 \<le> b \<and> b < n \<longrightarrow>
         ring_recvd (procs s ! nat b) \<le> iter (procs s ! nat ((b - 1) mod n))) \<and>
      (\<forall>a b. chans s (a, b) =
         (if 0 \<le> b \<and> b < n \<and> a = (b - 1) mod n
          then map (\<lambda>t. blocks ! ring_blk n (a - int t))
                 [nat (ring_recvd (procs s ! nat b)) ..< nat (iter (procs s ! nat a))]
          else [])))"

definition ring_inv :: "nat \<Rightarrow> 'a list list \<Rightarrow> 'a ring_state \<Rightarrow> bool" where
  "ring_inv m blocks s \<longleftrightarrow>
     length (procs s) = length blocks \<and> list_all (\<lambda>b. length b = m) blocks \<and>
     (\<forall>j < length blocks. ring_proc_inv m blocks j (procs s ! j)) \<and> ring_chan_inv blocks s"


section \<open>Arithmetic on ring positions\<close>

lemma ring_blk_self:
  fixes j i n :: int
  assumes "0 \<le> i" "i < n"
  shows "ring_blk n (j - (j - i) mod n) = nat i"
proof -
  have "(j - (j - i) mod n) mod n = (j - (j - i)) mod n"
    by (simp add: mod_diff_right_eq)
  then show ?thesis using assms by (simp add: ring_blk_def)
qed

lemma nat_mod_lt [simp]: "0 < n \<Longrightarrow> nat (x mod int n) < n"
  by (simp add: nat_less_iff)

lemma ring_init_inv:
  assumes "ring_input_ok m blocks rbufs"
  shows "ring_inv m blocks (ring_init m blocks rbufs)"
proof -
  have ok: "blocks \<noteq> []" "length rbufs = length blocks" "\<forall>b\<in>set blocks. length b = m"
    "\<forall>b\<in>set rbufs. length b = length blocks * m"
    using assms by (auto simp: ring_input_ok_def list_all_iff)
  have p: "ring_proc_inv m blocks j (procs (ring_init m blocks rbufs) ! j)" if "j < length blocks" for j
  proof -
    have "length (rbufs ! j) = length blocks * m" "length (blocks ! j) = m"
      using ok that by auto
    then show ?thesis
      using that ok(1)
      by (simp add: ring_proc_inv_def ring_init_def oob_req_new_def oob_wf_at_def Let_def)
  qed
  have c: "ring_chan_inv blocks (ring_init m blocks rbufs)"
    using ok(1) by (auto simp: ring_chan_inv_def ring_init_def oob_req_new_def ring_recvd_def Let_def
                   nth_map_upt)
  show ?thesis
    using p c ok(3) by (simp add: ring_inv_def list_all_iff ring_init_def)
qed

lemma ring_inv_done:
  assumes inv: "ring_inv m blocks s" and j: "j < length blocks" and d: "is_done (procs s ! j)"
  shows "rbuf (procs s ! j) = concat blocks"
proof -
  let ?r = "procs s ! j" and ?n = "int (length blocks)"
  have pi: "ring_proc_inv m blocks j ?r" using inv j by (simp add: ring_inv_def)
  then have wf: "oob_wf_at ?n (int j) ?r" and mr: "msglen ?r = m"
    and rc: "ring_recvd ?r = iter ?r"
    and blk: "\<And>t. 0 \<le> t \<Longrightarrow> t \<le> ring_recvd ?r \<Longrightarrow>
               read_block (rbuf ?r) (ring_blk ?n (int j - t) * m) m = blocks ! ring_blk ?n (int j - t)"
    using d by (auto simp: ring_proc_inv_def Let_def)
  have it: "iter ?r = ?n - 1" and len: "length (rbuf ?r) = length blocks * m"
    using wf d mr by (auto simp: oob_wf_at_def)
  have "\<forall>i<length blocks. read_block (rbuf ?r) (i * m) m = blocks ! i"
  proof (intro allI impI)
    fix i assume i: "i < length blocks"
    let ?t = "(int j - int i) mod ?n"
    have np: "0 < ?n" using i by (cases blocks) simp_all
    have t: "0 \<le> ?t" "?t \<le> ring_recvd ?r"
      using i rc it np pos_mod_bound [OF np, of "int j - int i"] by auto
    have "ring_blk ?n (int j - ?t) = i"
      using ring_blk_self [of "int i" ?n "int j"] i by simp
    then show "read_block (rbuf ?r) (i * m) m = blocks ! i"
      using blk [OF t] by simp
  qed
  then have "rbuf ?r = concat (map (\<lambda>i. blocks ! i) [0..<length blocks])"
    using len by (intro blocks_concat) auto
  then show ?thesis by (simp add: map_nth)
qed

lemma ring_chan_inv_frame:
  assumes "ring_chan_inv blocks s" "chans s' = chans s"
    and "\<And>k. iter (procs s' ! k) = iter (procs s ! k)"
    and "\<And>k. ring_recvd (procs s' ! k) = ring_recvd (procs s ! k)"
  shows "ring_chan_inv blocks s'"
  using assms(1) unfolding ring_chan_inv_def by (simp only: assms(2,3,4))

lemma ring_inv_send_complete:
  assumes inv: "ring_inv m blocks s" and j: "j < length (procs s)"
    and sq: "reqs (procs s ! j) ! 0 = UCX_SEND dst False"
  shows "ring_inv m blocks (s\<lparr>procs := (procs s)[j := send_done (procs s ! j) dst]\<rparr>)"
proof -
  let ?r = "procs s ! j" and ?n = "int (length blocks)"
  let ?r' = "send_done ?r dst"
  have pi: "ring_proc_inv m blocks j ?r" using inv j by (simp add: ring_inv_def)
  have pos: "0 < iter ?r"
  proof (rule ccontr)
    assume "\<not> 0 < iter ?r"
    moreover have "0 \<le> iter ?r" using pi by (simp add: ring_proc_inv_def oob_wf_at_def Let_def)
    ultimately have "reqs ?r = [UCX_REQ_NULL, UCX_REQ_NULL]" using pi by (simp add: ring_proc_inv_def Let_def)
    with sq show False by simp
  qed
  have len2: "length (reqs ?r) = 2" using pi by (simp add: ring_proc_inv_def oob_wf_at_def Let_def)
  have dst: "dst = (int j + 1) mod ?n" using pi pos sq by (auto simp: ring_proc_inv_def Let_def)
  have same: "iter ?r' = iter ?r" "ring_recvd ?r' = ring_recvd ?r" "reqs ?r' ! 1 = reqs ?r ! 1"
    "is_done ?r' = is_done ?r" "rbuf ?r' = rbuf ?r" "sbuf ?r' = sbuf ?r" "msglen ?r' = msglen ?r"
    "ep_range ?r' = ep_range ?r" "oob_coll_ctx ?r' = oob_coll_ctx ?r"
    "num_active_reqs ?r' = num_active_reqs ?r" "length (reqs ?r') = 2"
    "reqs ?r' ! 0 = UCX_SEND dst True"
    using len2 by (simp_all add: send_done_def ring_recvd_def)
  have "ring_proc_inv m blocks j ?r'"
    using pi pos dst
    unfolding ring_proc_inv_def Let_def oob_wf_at_def same by auto
  then have p: "\<forall>k < length blocks. ring_proc_inv m blocks k ((procs s)[j := ?r'] ! k)"
    using inv j by (simp add: ring_inv_def nth_list_update)
  have c: "ring_chan_inv blocks (s\<lparr>procs := (procs s)[j := ?r']\<rparr>)"
    by (rule ring_chan_inv_frame [where s = s])
       (use inv same j in \<open>auto simp: ring_inv_def nth_list_update\<close>)
  show ?thesis using inv p c by (simp add: ring_inv_def)
qed

lemma read_write_block_if:
  assumes "length d = m" "Suc x * m \<le> length xs" "Suc y * m \<le> length xs"
  shows "read_block (write_block xs (x * m) d) (y * m) m = (if y = x then d else read_block xs (y * m) m)"
proof (cases "y = x")
  case True
  have "x * m + length d \<le> length xs" using assms by simp
  then show ?thesis using True read_write_block_same [of "x * m" d xs] assms(1) by simp
next
  case False
  then show ?thesis using read_write_block_other [OF assms(1) False assms(3,2)] by simp
qed

lemma pred_mod:
  fixes j n :: int
  assumes "0 \<le> j" "j < n"
  shows "(j - 1) mod n = (if j = 0 then n - 1 else j - 1)"
proof (cases "j = 0")
  case True
  have "(-1) mod n = n - 1" using assms by (simp add: zmod_minus1)
  then show ?thesis using True by simp
next
  case False
  then show ?thesis using assms by simp
qed

lemma ring_blk_bound: "0 < n \<Longrightarrow> Suc (ring_blk n x) * m \<le> nat n * m"
proof -
  assume "0 < n"
  then have "Suc (ring_blk n x) \<le> nat n"
    unfolding ring_blk_def using pos_mod_bound [of n x] pos_mod_sign [of n x] by linarith
  then show ?thesis by (rule mult_le_mono1)
qed

lemma ring_blocks_after_recv:
  assumes n: "0 < n" and len: "length xs = nat n * m" and dl: "length d = m"
    and dv: "d = blocks ! ring_blk n (j - k)"
    and old: "\<forall>t. 0 \<le> t \<and> t \<le> k - 1 \<longrightarrow>
                 read_block xs (ring_blk n (j - t) * m) m = blocks ! ring_blk n (j - t)"
  shows "\<forall>t. 0 \<le> t \<and> t \<le> k \<longrightarrow>
           read_block (write_block xs (ring_blk n (j - k) * m) d) (ring_blk n (j - t) * m) m =
           blocks ! ring_blk n (j - t)"
proof (intro allI impI)
  fix t assume t: "0 \<le> t \<and> t \<le> k"
  have eq: "read_block (write_block xs (ring_blk n (j - k) * m) d) (ring_blk n (j - t) * m) m =
            (if ring_blk n (j - t) = ring_blk n (j - k) then d else read_block xs (ring_blk n (j - t) * m) m)"
    by (rule read_write_block_if) (use dl len ring_blk_bound [OF n] in simp_all)
  show "read_block (write_block xs (ring_blk n (j - k) * m) d) (ring_blk n (j - t) * m) m =
        blocks ! ring_blk n (j - t)"
  proof (cases "ring_blk n (j - t) = ring_blk n (j - k)")
    case True
    then show ?thesis using eq dv by simp
  next
    case False
    then have "t \<noteq> k" by auto
    then show ?thesis using eq False old t by simp
  qed
qed

lemma ring_inv_recv_match:
  assumes inv: "ring_inv m blocks s" and j: "j < length (procs s)"
    and rq: "reqs (procs s ! j) ! 1 = UCX_RECV src off False"
    and ch: "chans s (src, int j) = d # rest"
  shows "ring_inv m blocks (s\<lparr>procs := (procs s)[j := recv_complete (procs s ! j) src off d],
                               chans := (chans s)((src, int j) := rest)\<rparr>)"
proof -
  let ?r = "procs s ! j" and ?n = "int (length blocks)"
  let ?k = "iter ?r" and ?r' = "recv_complete (procs s ! j) src off d"
  let ?s' = "s\<lparr>procs := (procs s)[j := ?r'], chans := (chans s)((src, int j) := rest)\<rparr>"
  have jl: "j < length blocks" using inv j by (simp add: ring_inv_def)
  have pi: "ring_proc_inv m blocks j ?r" using inv jl by (simp add: ring_inv_def)
  have ci: "ring_chan_inv blocks s" using inv by (simp add: ring_inv_def)
  have bl: "\<forall>b\<in>set blocks. length b = m" using inv by (simp add: ring_inv_def list_all_iff)
  have np: "0 < ?n" using jl by (cases blocks) simp_all
  have wf: "oob_wf_at ?n (int j) ?r" and mr: "msglen ?r = m"
    using pi by (simp_all add: ring_proc_inv_def Let_def)
  have k0: "0 \<le> ?k" "?k \<le> ?n - 1" "length (rbuf ?r) = nat ?n * m" "length (reqs ?r) = 2"
    using wf mr by (simp_all add: oob_wf_at_def)
  have kpos: "0 < ?k"
  proof (rule ccontr)
    assume "\<not> 0 < ?k"
    then have "?k = 0" using k0 by simp
    then have "reqs ?r = [UCX_REQ_NULL, UCX_REQ_NULL]" using pi by (simp add: ring_proc_inv_def Let_def)
    with rq show False by simp
  qed
  have src: "src = (int j - 1) mod ?n" and off: "off = ring_blk ?n (int j - ?k) * m"
    using pi kpos rq by (auto simp: ring_proc_inv_def Let_def)
  have rc: "ring_recvd ?r = ?k - 1" using kpos rq by (simp add: ring_recvd_def)
  have old: "\<forall>t. 0 \<le> t \<and> t \<le> ?k - 1 \<longrightarrow>
               read_block (rbuf ?r) (ring_blk ?n (int j - t) * m) m = blocks ! ring_blk ?n (int j - t)"
    using pi kpos rc by (simp add: ring_proc_inv_def Let_def)
  have srcr: "0 \<le> src" "src < ?n" using src np by simp_all
  let ?ia = "iter (procs s ! nat src)"
  let ?f = "\<lambda>t. blocks ! ring_blk ?n (src - int t)"
  have chf: "chans s (src, int j) = map ?f [nat (?k - 1) ..< nat ?ia]"
    using ci src jl rc by (simp add: ring_chan_inv_def Let_def)
  have lt: "nat (?k - 1) < nat ?ia"
    using ch chf by (cases "nat (?k - 1) < nat ?ia") auto
  have split: "[nat (?k - 1) ..< nat ?ia] = nat (?k - 1) # [nat ?k ..< nat ?ia]"
    using lt kpos by (simp add: upt_conv_Cons Suc_nat_eq_nat_zadd1)
  have "ring_blk ?n (src - (?k - 1)) = ring_blk ?n (int j - ?k)"
  proof -
    have "((int j - 1) mod ?n - (?k - 1)) mod ?n = (int j - 1 - (?k - 1)) mod ?n"
      by (rule mod_diff_left_eq)
    then show ?thesis unfolding ring_blk_def src by simp
  qed
  then have dv: "d = blocks ! ring_blk ?n (int j - ?k)" and rest: "rest = map ?f [nat ?k ..< nat ?ia]"
    using ch chf split kpos by simp_all
  have dl: "length d = m"
    using dv bl jl np by (simp add: ring_blk_def nat_less_iff)
  have f': "iter ?r' = ?k" "ring_recvd ?r' = ?k" "rbuf ?r' = write_block (rbuf ?r) off d"
    "reqs ?r' ! 0 = reqs ?r ! 0" "reqs ?r' ! 1 = UCX_RECV src off True" "length (reqs ?r') = 2"
    "is_done ?r' = is_done ?r" "sbuf ?r' = sbuf ?r" "msglen ?r' = msglen ?r"
    "ep_range ?r' = ep_range ?r" "oob_coll_ctx ?r' = oob_coll_ctx ?r"
    "num_active_reqs ?r' = num_active_reqs ?r"
    using k0 kpos by (simp_all add: recv_complete_def ring_recvd_def)
  have offb: "off + m \<le> length (rbuf ?r)"
    using off k0 ring_blk_bound [OF np, of "int j - ?k" m] by simp
  have nd: "\<not> is_done ?r" using pi rc by (auto simp: ring_proc_inv_def Let_def)
  have newblk0: "\<forall>t. 0 \<le> t \<and> t \<le> ?k \<longrightarrow>
      read_block (write_block (rbuf ?r) (ring_blk ?n (int j - ?k) * m) d) (ring_blk ?n (int j - t) * m) m =
      blocks ! ring_blk ?n (int j - t)"
    by (rule ring_blocks_after_recv [OF np k0(3) dl dv old])
  have newblk: "\<forall>t. 0 \<le> t \<and> t \<le> ?k \<longrightarrow>
      read_block (rbuf ?r') (ring_blk ?n (int j - t) * m) m = blocks ! ring_blk ?n (int j - t)"
    using newblk0 f'(3) off by simp
  have "ring_proc_inv m blocks j ?r'"
    using pi kpos nd newblk offb dl src off
    unfolding ring_proc_inv_def Let_def oob_wf_at_def f' by auto
  then have p: "\<forall>i < length blocks. ring_proc_inv m blocks i ((procs s)[j := ?r'] ! i)"
    using inv j by (simp add: ring_inv_def nth_list_update)
  have it': "\<And>i. iter ((procs s)[j := ?r'] ! i) = iter (procs s ! i)"
    using f'(1) j by (auto simp: nth_list_update)
  have rc': "\<And>i. ring_recvd ((procs s)[j := ?r'] ! i) =
                 (if i = j then ?k else ring_recvd (procs s ! i))"
    using f'(2) j by (auto simp: nth_list_update)
  have c1: "\<forall>b. 0 \<le> b \<and> b < ?n \<longrightarrow>
              ring_recvd ((procs s)[j := ?r'] ! nat b) \<le> iter ((procs s)[j := ?r'] ! nat ((b - 1) mod ?n))"
  proof (intro allI impI)
    fix b assume b: "0 \<le> b \<and> b < ?n"
    show "ring_recvd ((procs s)[j := ?r'] ! nat b) \<le> iter ((procs s)[j := ?r'] ! nat ((b - 1) mod ?n))"
    proof (cases "nat b = j")
      case True
      then have "b = int j" using b by linarith
      then show ?thesis using rc' it' lt src kpos by simp
    next
      case False
      then show ?thesis using rc' it' ci b by (simp add: ring_chan_inv_def Let_def)
    qed
  qed
  have c2: "\<forall>a b. chans ?s' (a, b) =
         (if 0 \<le> b \<and> b < ?n \<and> a = (b - 1) mod ?n
          then map (\<lambda>t. blocks ! ring_blk ?n (a - int t))
                 [nat (ring_recvd (procs ?s' ! nat b)) ..< nat (iter (procs ?s' ! nat a))]
          else [])"
  proof (intro allI)
    fix a b
    show "chans ?s' (a, b) =
         (if 0 \<le> b \<and> b < ?n \<and> a = (b - 1) mod ?n
          then map (\<lambda>t. blocks ! ring_blk ?n (a - int t))
                 [nat (ring_recvd (procs ?s' ! nat b)) ..< nat (iter (procs ?s' ! nat a))]
          else [])"
    proof (cases "(a, b) = (src, int j)")
      case True
      then show ?thesis using rest rc' it' src jl by simp
    next
      case False
      have old_ab: "chans s (a, b) =
         (if 0 \<le> b \<and> b < ?n \<and> a = (b - 1) mod ?n
          then map (\<lambda>t. blocks ! ring_blk ?n (a - int t))
                 [nat (ring_recvd (procs s ! nat b)) ..< nat (iter (procs s ! nat a))]
          else [])"
        using ci by (simp add: ring_chan_inv_def Let_def)
      have same_ab: "chans ?s' (a, b) = chans s (a, b)" using False by auto
      show ?thesis
      proof (cases "b = int j")
        case True
        then have "a \<noteq> (b - 1) mod ?n" using False src by auto
        then show ?thesis using same_ab old_ab by simp
      next
        case bj: False
        then have "0 \<le> b \<longrightarrow> nat b \<noteq> j" by auto
        then show ?thesis using same_ab old_ab rc' it' by auto
      qed
    qed
  qed
  have "ring_chan_inv blocks ?s'"
    using c1 c2 by (simp add: ring_chan_inv_def Let_def)
  then show ?thesis using inv p by (simp add: ring_inv_def)
qed


section \<open>Preservation by a poll\<close>

lemma succ_of_pred:
  fixes a b n :: int
  assumes "0 \<le> b" "b < n" "a = (b - 1) mod n"
  shows "b = (a + 1) mod n"
proof -
  have "(a + 1) mod n = ((b - 1) mod n + 1) mod n" using assms(3) by simp
  also have "\<dots> = (b - 1 + 1) mod n" by (rule mod_add_left_eq)
  finally show ?thesis using assms(1,2) by simp
qed

lemma pred_of_succ:
  fixes j n :: int
  assumes "0 \<le> j" "j < n"
  shows "((j + 1) mod n - 1) mod n = j"
proof -
  have "((j + 1) mod n - 1) mod n = (j + 1 - 1) mod n" by (rule mod_diff_left_eq)
  then show ?thesis using assms by simp
qed

lemma ring_inv_update:
  assumes "ring_inv m blocks s" "j < length (procs s)" "ring_proc_inv m blocks j r'"
    and "ring_chan_inv blocks s'" "procs s' = (procs s)[j := r']"
  shows "ring_inv m blocks s'"
  using assms by (auto simp: ring_inv_def nth_list_update)

lemma ring_chan_inv_post:
  assumes ci: "ring_chan_inv blocks s" and jl: "j < length blocks" and jp: "j < length (procs s)"
    and it': "iter r' = iter (procs s ! j) + 1" and rc': "ring_recvd r' = ring_recvd (procs s ! j)"
    and k0: "0 \<le> iter (procs s ! j)"
    and dv: "data = blocks ! ring_blk (int (length blocks)) (int j - iter (procs s ! j))"
  shows "ring_chan_inv blocks
           (s\<lparr>procs := (procs s)[j := r'],
               chans := post_sends (int j) [Send_Msg ((int j + 1) mod int (length blocks)) data] (chans s)\<rparr>)"
    (is "ring_chan_inv blocks ?s'")
proof -
  let ?n = "int (length blocks)" and ?k = "iter (procs s ! j)"
  let ?b0 = "(int j + 1) mod ?n"
  have np: "0 < ?n" using jl by (cases blocks) simp_all
  have ch': "chans ?s' = (chans s)((int j, ?b0) := chans s (int j, ?b0) @ [data])" by simp
  have it: "\<And>i. iter (procs ?s' ! i) = (if i = j then ?k + 1 else iter (procs s ! i))"
    using it' jp by (auto simp: nth_list_update)
  have rc: "\<And>i. ring_recvd (procs ?s' ! i) = ring_recvd (procs s ! i)"
    using rc' jp by (auto simp: nth_list_update)
  have c1old: "\<And>b. 0 \<le> b \<Longrightarrow> b < ?n \<Longrightarrow> ring_recvd (procs s ! nat b) \<le> iter (procs s ! nat ((b - 1) mod ?n))"
    using ci by (simp add: ring_chan_inv_def Let_def)
  have c2old: "\<And>a b. chans s (a, b) =
         (if 0 \<le> b \<and> b < ?n \<and> a = (b - 1) mod ?n
          then map (\<lambda>t. blocks ! ring_blk ?n (a - int t))
                 [nat (ring_recvd (procs s ! nat b)) ..< nat (iter (procs s ! nat a))]
          else [])"
    using ci by (simp add: ring_chan_inv_def Let_def)
  have b0r: "0 \<le> ?b0" "?b0 < ?n" using np by simp_all
  have pb0: "(?b0 - 1) mod ?n = int j" using pred_of_succ [of "int j" ?n] jl by simp
  have le0: "ring_recvd (procs s ! nat ?b0) \<le> ?k" using c1old [OF b0r] pb0 by simp
  have c1: "\<forall>b. 0 \<le> b \<and> b < ?n \<longrightarrow> ring_recvd (procs ?s' ! nat b) \<le> iter (procs ?s' ! nat ((b - 1) mod ?n))"
  proof (intro allI impI)
    fix b assume b: "0 \<le> b \<and> b < ?n"
    have "iter (procs s ! nat ((b - 1) mod ?n)) \<le> iter (procs ?s' ! nat ((b - 1) mod ?n))"
      using it [of "nat ((b - 1) mod ?n)"] by auto
    then show "ring_recvd (procs ?s' ! nat b) \<le> iter (procs ?s' ! nat ((b - 1) mod ?n))"
      using c1old [of b] b rc [of "nat b"] by simp
  qed
  have c2: "\<forall>a b. chans ?s' (a, b) =
         (if 0 \<le> b \<and> b < ?n \<and> a = (b - 1) mod ?n
          then map (\<lambda>t. blocks ! ring_blk ?n (a - int t))
                 [nat (ring_recvd (procs ?s' ! nat b)) ..< nat (iter (procs ?s' ! nat a))]
          else [])"
  proof (intro allI)
    fix a b
    show "chans ?s' (a, b) =
         (if 0 \<le> b \<and> b < ?n \<and> a = (b - 1) mod ?n
          then map (\<lambda>t. blocks ! ring_blk ?n (a - int t))
                 [nat (ring_recvd (procs ?s' ! nat b)) ..< nat (iter (procs ?s' ! nat a))]
          else [])"
    proof (cases "(a, b) = (int j, ?b0)")
      case True
      then have ab: "a = int j" "b = ?b0" by simp_all
      have "[nat (ring_recvd (procs s ! nat ?b0)) ..< nat (?k + 1)] =
            [nat (ring_recvd (procs s ! nat ?b0)) ..< nat ?k] @ [nat ?k]"
        using le0 k0 by (simp add: nat_add_distrib upt_Suc_append)
      moreover have "blocks ! ring_blk ?n (int j - int (nat ?k)) = data" using dv k0 by simp
      ultimately show ?thesis
        using ab ch' c2old [of "int j" ?b0] b0r pb0 it [of j] rc jp by simp
    next
      case False
      have same: "chans ?s' (a, b) = chans s (a, b)" using False ch' by auto
      show ?thesis
      proof (cases "0 \<le> b \<and> b < ?n \<and> a = (b - 1) mod ?n")
        case True
        then have "a \<noteq> int j"
          using False succ_of_pred [of b ?n a] by auto
        then have "nat a \<noteq> j" using True np by auto
        then have ia: "iter (procs ?s' ! nat a) = iter (procs s ! nat a)" using it [of "nat a"] by simp
        have rb: "ring_recvd (procs ?s' ! nat b) = ring_recvd (procs s ! nat b)" by (rule rc)
        show ?thesis unfolding same c2old [of a b] ia rb by simp
      next
        case False
        show ?thesis by (simp only: same c2old [of a b] if_not_P [OF False])
      qed
    qed
  qed
  show ?thesis using c1 c2 by (simp add: ring_chan_inv_def Let_def)
qed

lemma ring_iteration_offsets:
  fixes j k n :: int
  assumes "0 \<le> j" "j < n" "0 \<le> k" "k < n - 1"
  shows "(j - k - 1 + n) smod n = (j - (k + 1)) mod n" "(j - k + n) smod n = (j - k) mod n"
proof -
  have p: "0 \<le> j - k - 1 + n" "0 \<le> j - k + n" "0 < n" using assms by linarith+
  have "(j - k - 1 + n) smod n = (j - k - 1 + n) mod n" using p by simp
  also have "\<dots> = (j - k - 1) mod n" by (rule mod_add_self2)
  finally show "(j - k - 1 + n) smod n = (j - (k + 1)) mod n" by (simp add: algebra_simps)
  have "(j - k + n) smod n = (j - k + n) mod n" using p by simp
  also have "\<dots> = (j - k) mod n" by (rule mod_add_self2)
  finally show "(j - k + n) smod n = (j - k) mod n" .
qed

lemma ring_proc_inv_advance:
  fixes r1 :: "'a oob_req" and blocks :: "'a list list"
  defines "n \<equiv> int (length blocks)"
  assumes jl: "j < length blocks"
    and f1: "ep_range r1 = no_range" "oob_coll_ctx r1 = \<lparr>comm_rank = int j, comm_size = n\<rparr>"
      "sbuf r1 = blocks ! j" "msglen r1 = m" "length (rbuf r1) = nat n * m" "length (sbuf r1) = m"
      "num_active_reqs r1 = 0" "\<not> is_done r1"
    and k: "0 \<le> iter r1" "iter r1 < n - 1"
    and blk: "\<forall>t. 0 \<le> t \<and> t \<le> iter r1 \<longrightarrow>
                read_block (rbuf r1) (ring_blk n (int j - t) * m) m = blocks ! ring_blk n (int j - t)"
    and it: "oob_ring_iteration n (int j) ((int j + 1) mod n) ((int j - 1) mod n) r1 = (r2, Send_Msg d data)"
  shows "ring_proc_inv m blocks j r2 \<and> iter r2 = iter r1 + 1 \<and> ring_recvd r2 = iter r1 \<and>
         d = (int j + 1) mod n \<and> data = blocks ! ring_blk n (int j - iter r1)"
proof -
  let ?k = "iter r1"
  have jn: "0 \<le> int j" "int j < n" using jl by (simp_all add: n_def)
  note offs = ring_iteration_offsets [OF jn k]
  let ?off = "ring_blk n (int j - (?k + 1)) * m"
  have r2: "r2 = r1\<lparr>reqs := [UCX_SEND ((int j + 1) mod n) False, UCX_RECV ((int j - 1) mod n) ?off False],
                    num_active_reqs := 2, iter := ?k + 1\<rparr>"
    and dd: "d = (int j + 1) mod n" "data = read_block (rbuf r1) (ring_blk n (int j - ?k) * m) m"
    using it f1(4,7) offs by (auto simp: oob_ring_iteration_def Let_def ring_blk_def)
  have len: "length (rbuf r1) = nat n * m" "length (sbuf r1) = m" "?k \<le> n - 1" "0 < n"
    using f1(5,6) k jn by simp_all
  have offb: "?off + m \<le> nat n * m"
    using ring_blk_bound [OF len(4), of "int j - (?k + 1)" m] by (simp add: add.commute)
  have "ring_proc_inv m blocks j r2"
    unfolding ring_proc_inv_def Let_def n_def [symmetric] r2
    using f1 k blk len offb jn by (auto simp: oob_wf_at_def ring_recvd_def)
  moreover have "data = blocks ! ring_blk n (int j - ?k)" using dd blk k by simp
  ultimately show ?thesis using r2 dd k by (simp add: ring_recvd_def)
qed

lemma req_test_ok_recv_done:
  "torch_ucx_req_test rs 2 \<noteq> TORCH_UCC_INPROGRESS \<Longrightarrow> length rs = 2 \<Longrightarrow> ucx_req_done (rs ! 1)"
  by (auto simp: torch_ucx_req_test_def list_all_length split: if_splits)

lemma ring_proc_inv_set_done:
  assumes "ring_proc_inv m blocks j r" "iter r = int (length blocks) - 1" "ring_recvd r = iter r"
    and "0 < iter r"
  shows "ring_proc_inv m blocks j (r\<lparr>is_done := True\<rparr>)"
proof -
  have "oob_wf_at (int (length blocks)) (int j) (r\<lparr>is_done := True\<rparr>)"
    using assms(1,2) oob_wf_at_set_done by (auto simp: ring_proc_inv_def Let_def)
  moreover have "ring_recvd (r\<lparr>is_done := True\<rparr>) = ring_recvd r" by (simp add: ring_recvd_def)
  ultimately show ?thesis using assms unfolding ring_proc_inv_def Let_def by simp
qed

lemma ring_oob_view:
  assumes "ep_range r = no_range" "oob_coll_ctx r = \<lparr>comm_rank = int j, comm_size = n\<rparr>"
    and "0 \<le> int j" "int j < n"
  shows "oob_size_rank r = (n, int j)"
    "oob_peers r n (int j) = ((int j + 1) mod n, (int j - 1) mod n)"
proof -
  show "oob_size_rank r = (n, int j)" using assms by (simp add: oob_size_rank_def no_range_def)
  have "(int j - 1 + n) smod n = (int j - 1 + n) mod n" using assms(3,4) by simp
  also have "\<dots> = (int j - 1) mod n" by (rule mod_add_self2)
  finally show "oob_peers r n (int j) = ((int j + 1) mod n, (int j - 1) mod n)"
    using assms by (simp add: oob_peers_def no_range_def Let_def)
qed

lemma ring_inv_poll:
  assumes inv: "ring_inv m blocks s" and j: "j < length (procs s)"
    and call: "oob_allgather_test (procs s ! j) = (st, r', ms)"
  shows "ring_inv m blocks (s\<lparr>procs := (procs s)[j := r'], chans := post_sends (int j) ms (chans s)\<rparr>)"
proof -
  let ?r = "procs s ! j" and ?n = "int (length blocks)"
  let ?s' = "s\<lparr>procs := (procs s)[j := r'], chans := post_sends (int j) ms (chans s)\<rparr>"
  have jl: "j < length blocks" using inv j by (simp add: ring_inv_def)
  have pi: "ring_proc_inv m blocks j ?r" using inv jl by (simp add: ring_inv_def)
  have ci: "ring_chan_inv blocks s" using inv by (simp add: ring_inv_def)
  have bl: "\<forall>b\<in>set blocks. length b = m" using inv by (simp add: ring_inv_def list_all_iff)
  have np: "0 < ?n" using jl by (cases blocks) simp_all
  have jn: "0 \<le> int j" "int j < ?n" using jl by simp_all
  have f: "ep_range ?r = no_range" "oob_coll_ctx ?r = \<lparr>comm_rank = int j, comm_size = ?n\<rparr>"
    "sbuf ?r = blocks ! j" "msglen ?r = m" "oob_wf_at ?n (int j) ?r"
    using pi by (simp_all add: ring_proc_inv_def Let_def)
  have w0: "0 \<le> iter ?r" "iter ?r \<le> ?n - 1" "length (reqs ?r) = 2"
    "iter ?r = 0 \<longrightarrow> num_active_reqs ?r = 0" "0 < iter ?r \<longrightarrow> num_active_reqs ?r = 2"
    "length (rbuf ?r) = nat ?n * m"
    using f(4,5) by (simp_all add: oob_wf_at_def)
  note view = ring_oob_view [OF f(1,2) jn]
  have wf: "oob_wf ?r" by (rule oob_wfI [OF f(5) view(1)])
  have unchanged: "?s' = s" if "r' = ?r" "ms = []" using that by simp
  show ?thesis
  proof (cases "is_done ?r")
    case True
    then show ?thesis using call unchanged inv by (simp add: oob_allgather_test_def)
  next
    case nd: False
    note step = oob_allgather_test_step [OF wf nd view]
    consider (first) "iter ?r = 0"
      | (blocked) "0 < iter ?r" "torch_ucx_req_test (reqs ?r) (num_active_reqs ?r) = TORCH_UCC_INPROGRESS"
      | (advance) "0 < iter ?r" "torch_ucx_req_test (reqs ?r) (num_active_reqs ?r) \<noteq> TORCH_UCC_INPROGRESS"
          "iter ?r < ?n - 1"
      | (finish) "0 < iter ?r" "torch_ucx_req_test (reqs ?r) (num_active_reqs ?r) \<noteq> TORCH_UCC_INPROGRESS"
          "\<not> iter ?r < ?n - 1"
      using w0 by linarith
    then show ?thesis
    proof cases
      case blocked
      then show ?thesis using call step unchanged inv by simp
    next
      case first
      let ?rc = "?r\<lparr>rbuf := write_block (rbuf ?r) (nat (int j) * msglen ?r) (take (msglen ?r) (sbuf ?r))\<rparr>"
      have lb: "length (blocks ! j) = m" using bl jl by simp
      have blkj: "ring_blk ?n (int j - 0) = j" using jn by (simp add: ring_blk_def)
      have b0: "read_block (rbuf ?rc) (ring_blk ?n (int j - 0) * m) m = blocks ! ring_blk ?n (int j - 0)"
      proof -
        have "j * m + length (blocks ! j) \<le> length (rbuf ?r)"
          using w0(6) lb rank_block_bound [OF jn, of m] by simp
        moreover have "rbuf ?rc = write_block (rbuf ?r) (j * m) (blocks ! j)" using f(3,4) lb by simp
        ultimately show ?thesis using blkj lb read_write_block_same [of "j * m" "blocks ! j" "rbuf ?r"]
          by simp
      qed
      have w1: "oob_wf_at ?n (int j) ?rc" using oob_wf_at_first_copy [OF f(5) first] .
      have rc0: "ring_recvd ?r = 0" using first by (simp add: ring_recvd_def)
      show ?thesis
      proof (cases "?n = 1")
        case True
        have r': "r' = ?rc\<lparr>is_done := True\<rparr>" and ms: "ms = []" using call step first True by simp_all
        have "ring_proc_inv m blocks j (?rc\<lparr>is_done := True\<rparr>)"
          using pi first b0 oob_wf_at_set_done [OF w1] True
          unfolding ring_proc_inv_def Let_def by (auto simp: ring_recvd_def)
        moreover have "ring_chan_inv blocks ?s'"
          by (rule ring_chan_inv_frame [OF ci])
             (use j r' ms first in \<open>auto simp: nth_list_update ring_recvd_def\<close>)
        ultimately show ?thesis using r' by (intro ring_inv_update [OF inv j, where r' = r']) simp_all
      next
        case False
        have n2: "0 < ?n - 1" using False np by linarith
        obtain r2 d data where it: "oob_ring_iteration ?n (int j) ((int j + 1) mod ?n) ((int j - 1) mod ?n) ?rc
                                      = (r2, Send_Msg d data)"
          by (metis send_msg.exhaust surj_pair)
        have r': "r' = r2" and ms: "ms = [Send_Msg d data]" using call step first False it by simp_all
        have adv: "ring_proc_inv m blocks j r2 \<and> iter r2 = iter ?rc + 1 \<and> ring_recvd r2 = iter ?rc \<and>
                   d = (int j + 1) mod ?n \<and> data = blocks ! ring_blk ?n (int j - iter ?rc)"
          by (rule ring_proc_inv_advance [OF jl _ _ _ _ _ _ _ _ _ _ _ it])
             (use f first w0 nd b0 n2 w1 in \<open>auto simp: oob_wf_at_def\<close>)
        have ch: "ring_chan_inv blocks ?s'"
          using ring_chan_inv_post [OF ci jl j, of r2 data] adv first rc0 ms r' by simp
        show ?thesis by (rule ring_inv_update [OF inv j, where r' = r2]) (use adv r' ch in simp_all)
      qed
    next
      case advance
      let ?k = "iter ?r"
      have rdone: "ucx_req_done (reqs ?r ! 1)"
        using req_test_ok_recv_done [of "reqs ?r"] advance w0 by simp
      have rck: "ring_recvd ?r = ?k" using advance rdone by (simp add: ring_recvd_def)
      have blk: "\<forall>t. 0 \<le> t \<and> t \<le> ?k \<longrightarrow>
                  read_block (rbuf ?r) (ring_blk ?n (int j - t) * m) m = blocks ! ring_blk ?n (int j - t)"
        using pi advance rck by (simp add: ring_proc_inv_def Let_def)
      let ?ra = "?r\<lparr>num_active_reqs := 0\<rparr>"
      obtain r2 d data where it: "oob_ring_iteration ?n (int j) ((int j + 1) mod ?n) ((int j - 1) mod ?n) ?ra
                                    = (r2, Send_Msg d data)"
        by (metis send_msg.exhaust surj_pair)
      have r': "r' = r2" and ms: "ms = [Send_Msg d data]" using call step advance it by simp_all
      have adv: "ring_proc_inv m blocks j r2 \<and> iter r2 = iter ?ra + 1 \<and> ring_recvd r2 = iter ?ra \<and>
                 d = (int j + 1) mod ?n \<and> data = blocks ! ring_blk ?n (int j - iter ?ra)"
        by (rule ring_proc_inv_advance [OF jl _ _ _ _ _ _ _ _ _ _ _ it])
           (use f advance w0 nd blk in \<open>auto simp: oob_wf_at_def\<close>)
      have ch: "ring_chan_inv blocks ?s'"
        using ring_chan_inv_post [OF ci jl j, of r2 data] adv rck ms r' w0 by simp
      show ?thesis by (rule ring_inv_update [OF inv j, where r' = r2]) (use adv r' ch in simp_all)
    next
      case finish
      have rdone: "ucx_req_done (reqs ?r ! 1)"
        using req_test_ok_recv_done [of "reqs ?r"] finish w0 by simp
      have rck: "ring_recvd ?r = iter ?r" using finish rdone by (simp add: ring_recvd_def)
      have r': "r' = ?r\<lparr>is_done := True\<rparr>" and ms: "ms = []" using call step finish by simp_all
      have "ring_proc_inv m blocks j (?r\<lparr>is_done := True\<rparr>)"
        using ring_proc_inv_set_done [OF pi _ rck] finish w0 by simp
      moreover have "ring_chan_inv blocks ?s'"
        by (rule ring_chan_inv_frame [OF ci])
           (use j r' ms in \<open>auto simp: nth_list_update ring_recvd_def\<close>)
      ultimately show ?thesis using r' by (intro ring_inv_update [OF inv j, where r' = r']) simp_all
    qed
  qed
qed


section \<open>Every reachable state satisfies the invariant\<close>

lemma ring_step_inv:
  assumes "ring_step s s'" and "ring_inv m blocks s"
  shows "ring_inv m blocks s'"
  using assms
proof (induction rule: ring_step.induct)
  case (poll j s st r' ms)
  show ?case by (rule ring_inv_poll [OF poll.prems poll.hyps(1,2)])
next
  case (recv_match j s src off d rest)
  show ?case by (rule ring_inv_recv_match [OF recv_match.prems recv_match.hyps])
next
  case (send_complete j s dst)
  show ?case by (rule ring_inv_send_complete [OF send_complete.prems send_complete.hyps])
qed

lemma ring_reach_inv:
  assumes "ring_reach m blocks rbufs s" and "ring_input_ok m blocks rbufs"
  shows "ring_inv m blocks s"
  using assms
proof (induction rule: ring_reach.induct)
  case init
  then show ?case by (rule ring_init_inv)
next
  case (step s s')
  then show ?case using ring_step_inv by blast
qed

text \<open>
  C1. Correctness of the bootstrap allgather: in every state the group can reach,
  under any interleaving of polls and transport events, a process whose request is
  done holds in its receive buffer the rank-ordered concatenation of every
  process's block.
\<close>

theorem ring_allgather_correct:
  assumes "ring_reach m blocks rbufs s" and "ring_input_ok m blocks rbufs"
    and "j < length blocks" and "is_done (procs s ! j)"
  shows "rbuf (procs s ! j) = concat blocks"
  using ring_inv_done [OF ring_reach_inv [OF assms(1,2)] assms(3,4)] .

section \<open>Witnesses\<close>

lemma ring_single_poll:
  "ring_step (ring_init 1 [[7::nat]] [[0]])
     \<lparr>procs = [(oob_req_new [7] [7] 1 0 no_range \<lparr>comm_rank = 0, comm_size = 1\<rparr>)\<lparr>is_done := True\<rparr>],
      chans = (\<lambda>_. [])\<rparr>"
proof -
  have "oob_allgather_test (procs (ring_init 1 [[7::nat]] [[0]]) ! 0) =
          (XCCL_OK, (oob_req_new [7] [7] 1 0 no_range \<lparr>comm_rank = 0, comm_size = 1\<rparr>)\<lparr>is_done := True\<rparr>, [])"
    by (simp add: ring_init_def oob_req_new_def oob_allgather_test_def oob_size_rank_def no_range_def
                  oob_peers_def oob_ring_loop_exit torch_ucx_req_test_def write_block_def)
  from ring_step.poll [OF _ this] show ?thesis
    by (simp add: ring_init_def)
qed

theorem ring_allgather_correct_witness:
  "rbuf (procs \<lparr>procs = [(oob_req_new [7::nat] [7] 1 0 no_range \<lparr>comm_rank = 0, comm_size = 1\<rparr>)\<lparr>is_done := True\<rparr>],
                 chans = (\<lambda>_. [])\<rparr> ! 0) = concat [[7]]"
proof -
  have reach: "ring_reach 1 [[7::nat]] [[0]]
      \<lparr>procs = [(oob_req_new [7] [7] 1 0 no_range \<lparr>comm_rank = 0, comm_size = 1\<rparr>)\<lparr>is_done := True\<rparr>],
       chans = (\<lambda>_. [])\<rparr>"
    by (rule ring_reach.step [OF ring_reach.init ring_single_poll])
  have ok: "ring_input_ok 1 [[7::nat]] [[0]]" by (simp add: ring_input_ok_def)
  show ?thesis by (rule ring_allgather_correct [OF reach ok]) simp_all
qed

end
