(* ===== verification/RingFree.thy ===== *)
theory RingFree
  imports Ring
begin

text \<open>
  Freeing the bootstrap request. XCCL calls \<open>oob_allgather_free\<close> (lines
  113--120 of \<open>torch_xccl.cpp\<close>) on a request once \<open>oob_allgather_test\<close> has
  returned \<open>XCCL_OK\<close>, which is exactly when the request's \<open>done\<close> flag is set;
  the call deletes the request. The heap is the set of requests deleted so far, and
  \<open>ring_run\<close> is the group of \<open>Ring\<close> with these deletions between its steps.
  What makes the deletion safe is that a request the test reported done is
  quiescent: every point-to-point request it posted is complete, no message for it
  is in flight, and no later step of the group changes it.
\<close>

definition oob_allgather_free :: "nat set \<Rightarrow> nat \<Rightarrow> xccl_status \<times> nat set" where
  "oob_allgather_free freed j = (XCCL_OK, insert j freed)"

inductive ring_run :: "nat \<Rightarrow> 'a list list \<Rightarrow> 'a list list \<Rightarrow> 'a ring_state \<Rightarrow> nat set \<Rightarrow> bool"
  for m blocks rbufs where
  init: "ring_run m blocks rbufs (ring_init m blocks rbufs) {}"
| step: "ring_run m blocks rbufs s F \<Longrightarrow> ring_step s s' \<Longrightarrow> ring_run m blocks rbufs s' F"
| free: "ring_run m blocks rbufs s F \<Longrightarrow> j < length (procs s) \<Longrightarrow> is_done (procs s ! j) \<Longrightarrow>
         oob_allgather_free F j = (st, F') \<Longrightarrow> ring_run m blocks rbufs s F'"

text \<open>A request marked done has completed the requests its last test covered.\<close>

definition req_quiet :: "'a oob_req \<Rightarrow> bool" where
  "req_quiet r \<longleftrightarrow> (is_done r \<longrightarrow> list_all ucx_req_done (take (nat (num_active_reqs r)) (reqs r)))"

section \<open>Lemmas\<close>

lemma all_done_update:
  "list_all ucx_req_done (take n xs) \<Longrightarrow> ucx_req_done v \<Longrightarrow> list_all ucx_req_done (take n (xs[i := v]))"
  by (auto simp: take_update_swap list_all_iff dest: subsetD [OF set_update_subset_insert])

lemma oob_ring_loop_is_done:
  "is_done (fst (case_sum id id (oob_ring_loop sz rank st rf r sent))) = is_done r"
proof (induction sz rank st rf r sent rule: oob_ring_loop.induct)
  case (1 sz rank st rf r sent)
  show ?case
  proof (cases "iter r < sz - 1 \<and> \<not> (0 < iter r \<and> torch_ucx_req_test (reqs r) (num_active_reqs r) = TORCH_UCC_INPROGRESS)")
    case True
    let ?r1 = "if 0 < iter r then r\<lparr>num_active_reqs := 0\<rparr> else r"
    obtain r2 m where it: "oob_ring_iteration sz rank st rf ?r1 = (r2, m)" by fastforce
    have "is_done r2 = is_done r" using oob_ring_iteration_fields [OF it] by simp
    then show ?thesis
      using True 1 [OF _ _ refl it [symmetric] refl] it by (subst oob_ring_loop.simps) simp
  next
    case False
    then show ?thesis by (subst oob_ring_loop.simps) auto
  qed
qed

lemma oob_allgather_test_quiet:
  assumes "oob_allgather_test r = (st, r', ms)" "req_quiet r"
  shows "req_quiet r'"
proof (cases "is_done r")
  case True
  then show ?thesis using assms by (simp add: oob_allgather_test_def)
next
  case False
  then show ?thesis
    using assms(1) oob_ring_loop_is_done
    by (fastforce simp: oob_allgather_test_def req_quiet_def torch_ucx_req_test_def Let_def
                  split: prod.splits sum.splits if_splits)
qed

lemma ring_step_length: "ring_step s s' \<Longrightarrow> length (procs s') = length (procs s)"
  by (induction rule: ring_step.induct) simp_all

lemma ring_step_quiet:
  assumes "ring_step s s'" "\<forall>k < length (procs s). req_quiet (procs s ! k)" "j < length (procs s')"
  shows "req_quiet (procs s' ! j)"
  using assms
proof (induction rule: ring_step.induct)
  case (poll k s st r' ms)
  then show ?case by (cases "j = k") (auto intro: oob_allgather_test_quiet)
next
  case (recv_match k s src off d rest)
  then show ?case
    by (cases "j = k") (auto simp: recv_complete_def req_quiet_def intro: all_done_update)
next
  case (send_complete k s dst)
  then show ?case
    by (cases "j = k") (auto simp: send_done_def req_quiet_def intro: all_done_update)
qed

lemma ring_done_reqs:
  assumes inv: "ring_inv m blocks s" and j: "j < length blocks"
    and d: "is_done (procs s ! j)" and q: "req_quiet (procs s ! j)"
  shows "length (reqs (procs s ! j)) = 2 \<and> list_all ucx_req_done (reqs (procs s ! j))"
proof -
  let ?r = "procs s ! j"
  have pi: "ring_proc_inv m blocks j ?r" using inv j by (simp add: ring_inv_def)
  then have wf: "oob_wf_at (int (length blocks)) (int j) ?r"
    and z: "iter ?r = 0 \<Longrightarrow> reqs ?r = [UCX_REQ_NULL, UCX_REQ_NULL]"
    by (simp_all add: ring_proc_inv_def Let_def)
  have l: "length (reqs ?r) = 2" using wf by (simp add: oob_wf_at_def)
  show ?thesis
  proof (cases "iter ?r = 0")
    case True
    then show ?thesis using z by simp
  next
    case False
    then have "num_active_reqs ?r = 2" using wf by (simp add: oob_wf_at_def)
    then show ?thesis using q d l by (simp add: req_quiet_def)
  qed
qed

lemma ring_step_frozen:
  assumes "ring_step s s'" "j < length (procs s)" "is_done (procs s ! j)"
    and "list_all ucx_req_done (reqs (procs s ! j))" "length (reqs (procs s ! j)) = 2"
  shows "procs s' ! j = procs s ! j"
  using assms
proof (induction rule: ring_step.induct)
  case (poll k s st r' ms)
  then show ?case by (cases "j = k") (auto simp: oob_allgather_test_def)
next
  case (recv_match k s src off d rest)
  have "ucx_req_done (reqs (procs s ! j) ! 1)" using recv_match.prems(3,4) by (simp add: list_all_length)
  then show ?case using recv_match.hyps(2) by (cases "j = k") auto
next
  case (send_complete k s dst)
  have "ucx_req_done (reqs (procs s ! j) ! 0)" using send_complete.prems(3,4) by (simp add: list_all_length)
  then show ?case using send_complete.hyps(2) by (cases "j = k") auto
qed

lemma ring_chan_done:
  assumes inv: "ring_inv m blocks s" and j: "j < length blocks" and d: "is_done (procs s ! j)"
  shows "chans s (a, int j) = []"
proof -
  let ?n = "int (length blocks)" and ?a = "(int j - 1) mod int (length blocks)"
  have np: "0 < ?n" using j by (cases blocks) auto
  have pj: "ring_proc_inv m blocks j (procs s ! j)" using inv j by (simp add: ring_inv_def)
  then have "ring_recvd (procs s ! j) = ?n - 1"
    using d by (auto simp: ring_proc_inv_def oob_wf_at_def Let_def)
  moreover have "nat ?a < length blocks" using np by (simp add: nat_less_iff)
  then have "iter (procs s ! nat ?a) \<le> ?n - 1"
    using inv by (auto simp: ring_inv_def ring_proc_inv_def oob_wf_at_def Let_def)
  ultimately show ?thesis
    using inv by (simp add: ring_inv_def ring_chan_inv_def Let_def)
qed

lemma ring_run_inv:
  assumes "ring_run m blocks rbufs s F" "ring_input_ok m blocks rbufs"
  shows "ring_reach m blocks rbufs s \<and> (\<forall>k < length (procs s). req_quiet (procs s ! k)) \<and>
         (\<forall>k \<in> F. k < length (procs s) \<and> is_done (procs s ! k))"
  using assms
proof (induction rule: ring_run.induct)
  case init
  show ?case
    by (intro conjI ring_reach.init) (simp_all add: ring_init_def oob_req_new_def req_quiet_def)
next
  case (step s F s')
  then have r: "ring_reach m blocks rbufs s" and q: "\<forall>k < length (procs s). req_quiet (procs s ! k)"
    and f: "\<forall>k \<in> F. k < length (procs s) \<and> is_done (procs s ! k)" by simp_all
  have inv: "ring_inv m blocks s" by (rule ring_reach_inv [OF r step.prems])
  have len: "length (procs s') = length (procs s)" "length (procs s) = length blocks"
    using ring_step_length [OF step.hyps(2)] inv by (simp_all add: ring_inv_def)
  have "procs s' ! k = procs s ! k" if "k \<in> F" for k
    using f that ring_done_reqs [OF inv, of k] q len
    by (intro ring_step_frozen [OF step.hyps(2)]) auto
  then show ?case
    using ring_reach.step [OF r step.hyps(2)] ring_step_quiet [OF step.hyps(2) q] f len by auto
next
  case (free s F j st F')
  then show ?case by (auto simp: oob_allgather_free_def)
qed

section \<open>Properties\<close>

text \<open>C32. Freeing a finished bootstrap request is safe: in every state the group
  reaches, with requests deleted by \<open>oob_allgather_free\<close> after their test
  returned \<open>XCCL_OK\<close>, a deleted request already holds the gathered result, every
  point-to-point request it posted is complete, no message addressed to it is in
  flight, and no later step of the group (a poll, a receive match, a send completion)
  changes it.\<close>

theorem freed_request_quiescent:
  assumes "ring_run m blocks rbufs s F" "ring_input_ok m blocks rbufs" "j \<in> F"
  shows "rbuf (procs s ! j) = concat blocks \<and> list_all ucx_req_done (reqs (procs s ! j)) \<and>
         (\<forall>a. chans s (a, int j) = []) \<and> (\<forall>s'. ring_step s s' \<longrightarrow> procs s' ! j = procs s ! j)"
proof -
  have i: "ring_reach m blocks rbufs s" "\<forall>k < length (procs s). req_quiet (procs s ! k)"
    "j < length (procs s)" "is_done (procs s ! j)"
    using ring_run_inv [OF assms(1,2)] assms(3) by auto
  have inv: "ring_inv m blocks s" by (rule ring_reach_inv [OF i(1) assms(2)])
  then have j: "j < length blocks" using i(3) by (simp add: ring_inv_def)
  have reqs: "length (reqs (procs s ! j)) = 2 \<and> list_all ucx_req_done (reqs (procs s ! j))"
    using ring_done_reqs [OF inv j i(4)] i(2,3) by simp
  show ?thesis
    using ring_inv_done [OF inv j i(4)] reqs ring_chan_done [OF inv j i(4)]
      ring_step_frozen [OF _ i(3,4)] by simp
qed

section \<open>Witnesses\<close>

theorem freed_request_quiescent_witness:
  "rbuf (procs \<lparr>procs = [(oob_req_new [7::nat] [7] 1 0 no_range \<lparr>comm_rank = 0, comm_size = 1\<rparr>)\<lparr>is_done := True\<rparr>],
      chans = (\<lambda>_. [])\<rparr> ! 0) = concat [[7]] \<and>
   list_all ucx_req_done (reqs (procs \<lparr>procs = [(oob_req_new [7::nat] [7] 1 0 no_range \<lparr>comm_rank = 0, comm_size = 1\<rparr>)\<lparr>is_done := True\<rparr>],
      chans = (\<lambda>_. [])\<rparr> ! 0)) \<and>
   (\<forall>a. chans \<lparr>procs = [(oob_req_new [7::nat] [7] 1 0 no_range \<lparr>comm_rank = 0, comm_size = 1\<rparr>)\<lparr>is_done := True\<rparr>],
      chans = (\<lambda>_. [])\<rparr> (a, 0) = [])"
proof -
  have r: "ring_run 1 [[7::nat]] [[0]] \<lparr>procs = [(oob_req_new [7::nat] [7] 1 0 no_range \<lparr>comm_rank = 0, comm_size = 1\<rparr>)\<lparr>is_done := True\<rparr>],
      chans = (\<lambda>_. [])\<rparr> {}"
    by (rule ring_run.step [OF ring_run.init ring_single_poll])
  have r0: "ring_run 1 [[7::nat]] [[0]] \<lparr>procs = [(oob_req_new [7::nat] [7] 1 0 no_range \<lparr>comm_rank = 0, comm_size = 1\<rparr>)\<lparr>is_done := True\<rparr>],
      chans = (\<lambda>_. [])\<rparr> {0}"
    by (rule ring_run.free [OF r, of 0 XCCL_OK "{0}"]) (simp_all add: oob_allgather_free_def)
  have ok: "ring_input_ok 1 [[7::nat]] [[0]]" by (simp add: ring_input_ok_def)
  show ?thesis using freed_request_quiescent [OF r0 ok, of 0] by simp
qed

end
