(* ===== verification/RingLive.thy ===== *)
theory RingLive
  imports Ring
begin

text \<open>
  The bootstrap allgather cannot deadlock. In every state the group of \<open>Ring\<close>
  reaches, some schedule of polls and transport events brings every process's
  request to done. The argument is a progress measure (\<open>ring_progress\<close>: three
  per ring iteration, one per completed point-to-point request, one for the done
  flag), bounded by the invariant, and raised by some enabled step whenever a
  process is not done: a poll when the requests its test covers are complete, a
  send completion when a send is pending, a receive match when a receive is pending
  and its message is in the channel, and otherwise the left neighbour, whose ring
  iteration is strictly smaller, has such a step.
\<close>

definition ring_all_done :: "'a ring_state \<Rightarrow> bool" where
  "ring_all_done s \<longleftrightarrow> list_all is_done (procs s)"

definition oob_progress :: "'a oob_req \<Rightarrow> nat" where
  "oob_progress r = 3 * nat (iter r) + length (filter ucx_req_done (reqs r)) + (if is_done r then 1 else 0)"

definition ring_progress :: "'a ring_state \<Rightarrow> nat" where
  "ring_progress s = sum_list (map oob_progress (procs s))"

section \<open>The measure\<close>

lemma sum_list_map_update_less:
  "j < length xs \<Longrightarrow> (f :: 'a \<Rightarrow> nat) (xs ! j) < f y \<Longrightarrow> sum_list (map f xs) < sum_list (map f (xs[j := y]))"
proof (induction xs arbitrary: j)
  case Nil
  then show ?case by simp
next
  case (Cons x xs)
  then show ?case by (cases j) auto
qed

lemma sum_list_map_bound: "(\<And>x. x \<in> set xs \<Longrightarrow> (f :: 'a \<Rightarrow> nat) x \<le> c) \<Longrightarrow> sum_list (map f xs) \<le> length xs * c"
  by (induction xs) (auto simp: add_mono)

lemma filter_update_more:
  "i < length xs \<Longrightarrow> \<not> P (xs ! i) \<Longrightarrow> P v \<Longrightarrow> length (filter P xs) < length (filter P (xs[i := v]))"
proof (induction xs arbitrary: i)
  case Nil
  then show ?case by simp
next
  case (Cons x xs)
  then show ?case by (cases i) auto
qed

lemma oob_progress_bound: "oob_wf_at sz rank r \<Longrightarrow> oob_progress r \<le> 3 * nat sz"
proof -
  assume wf: "oob_wf_at sz rank r"
  then have "nat (iter r) \<le> nat sz - 1" "length (filter ucx_req_done (reqs r)) \<le> 2"
    using length_filter_le [of ucx_req_done "reqs r"] by (auto simp: oob_wf_at_def)
  moreover have "0 < nat sz" using wf by (simp add: oob_wf_at_def)
  ultimately have "3 * nat (iter r) + length (filter ucx_req_done (reqs r)) + 1 \<le> 3 * nat sz" by linarith
  then show ?thesis by (simp add: oob_progress_def)
qed

text \<open>A poll of a request that is not done and whose tested requests are complete
  advances it: it posts the next ring iteration or sets it done.\<close>

lemma poll_progress:
  assumes wf: "oob_wf r" and nd: "\<not> is_done r"
    and sr: "oob_size_rank r = (sz, rank)" and pe: "oob_peers r sz rank = (st, rf)"
    and ok: "0 < iter r \<Longrightarrow> list_all ucx_req_done (reqs r)"
    and call: "oob_allgather_test r = (x, r', ms)"
  shows "oob_progress r < oob_progress r'"
proof -
  have w: "0 \<le> iter r" "iter r \<le> sz - 1" "length (reqs r) = 2" "0 < iter r \<longrightarrow> num_active_reqs r = 2"
    using oob_wfD [OF wf sr] by (simp_all add: oob_wf_at_def)
  have le2: "length (filter ucx_req_done (reqs r)) \<le> 2"
    using length_filter_le [of ucx_req_done "reqs r"] w(3) by simp
  have adv: "oob_progress r < oob_progress r2" if "oob_ring_iteration sz rank st rf r1 = (r2, m)"
    "iter r1 = iter r" for r1 r2 m
    using oob_ring_iteration_fields [OF that(1)] that(2) le2 w(1) nd
    by (auto simp: oob_progress_def nat_add_distrib)
  show ?thesis
  proof (cases "iter r = 0")
    case True
    let ?r0 = "r\<lparr>rbuf := write_block (rbuf r) (nat rank * msglen r) (take (msglen r) (sbuf r))\<rparr>"
    obtain r2 m where it: "oob_ring_iteration sz rank st rf ?r0 = (r2, m)" by fastforce
    have "oob_progress r < oob_progress r2" using adv [OF it] True by simp
    then show ?thesis
      using call oob_allgather_test_step [OF wf nd sr pe] True nd le2 it
      by (auto simp: oob_progress_def Let_def split: if_splits)
  next
    case False
    then have t: "torch_ucx_req_test (reqs r) (num_active_reqs r) = TORCH_UCC_OK"
      using ok w by (simp add: torch_ucx_req_test_def)
    obtain r2 m where it: "oob_ring_iteration sz rank st rf (r\<lparr>num_active_reqs := 0\<rparr>) = (r2, m)" by fastforce
    have "oob_progress r < oob_progress r2" using adv [OF it] by simp
    then show ?thesis
      using call oob_allgather_test_step [OF wf nd sr pe] False nd le2 it t
      by (auto simp: oob_progress_def Let_def split: if_splits)
  qed
qed

lemma ring_progress_update:
  "j < length (procs s) \<Longrightarrow> oob_progress (procs s ! j) < oob_progress r' \<Longrightarrow>
   ring_progress s < ring_progress (s\<lparr>procs := (procs s)[j := r'], chans := c\<rparr>)"
  by (simp add: ring_progress_def sum_list_map_update_less)

section \<open>Some step always makes progress\<close>

lemma ring_step_progress:
  assumes inv: "ring_inv m blocks s"
  shows "j < length blocks \<Longrightarrow> \<not> is_done (procs s ! j) \<Longrightarrow>
         \<exists>s'. ring_step s s' \<and> ring_progress s < ring_progress s'"
proof (induction "nat (iter (procs s ! j))" arbitrary: j rule: less_induct)
  case less
  let ?r = "procs s ! j" and ?n = "int (length blocks)"
  have jl: "j < length (procs s)" using inv less.prems(1) by (simp add: ring_inv_def)
  have pi: "ring_proc_inv m blocks j ?r" using inv less.prems(1) by (simp add: ring_inv_def)
  have jn: "0 \<le> int j" "int j < ?n" using less.prems(1) by simp_all
  have f: "ep_range ?r = no_range" "oob_coll_ctx ?r = \<lparr>comm_rank = int j, comm_size = ?n\<rparr>"
    "oob_wf_at ?n (int j) ?r"
    using pi by (simp_all add: ring_proc_inv_def Let_def)
  note view = ring_oob_view [OF f(1,2) jn]
  have wf: "oob_wf ?r" by (rule oob_wfI [OF f(3) view(1)])
  have l2: "length (reqs ?r) = 2" "0 \<le> iter ?r" using f(3) by (simp_all add: oob_wf_at_def)
  have poll: "\<exists>s'. ring_step s s' \<and> ring_progress s < ring_progress s'"
    if "0 < iter ?r \<Longrightarrow> list_all ucx_req_done (reqs ?r)"
  proof -
    obtain x r' ms where call: "oob_allgather_test ?r = (x, r', ms)" by (cases "oob_allgather_test ?r") auto
    have "oob_progress ?r < oob_progress r'"
      by (rule poll_progress [OF wf less.prems(2) view(1,2) that call])
    then show ?thesis using ring_step.poll [OF jl call] ring_progress_update [OF jl] by blast
  qed
  show ?case
  proof (cases "0 < iter ?r")
    case False
    then show ?thesis using poll by blast
  next
    case it: True
    let ?a = "(int j - 1) mod ?n" and ?off = "ring_blk ?n (int j - iter ?r) * m"
    have rq: "reqs ?r ! 0 \<in> {UCX_SEND ((int j + 1) mod ?n) False, UCX_SEND ((int j + 1) mod ?n) True}"
      "reqs ?r ! 1 \<in> {UCX_RECV ?a ?off False, UCX_RECV ?a ?off True}"
      using pi it by (simp_all add: ring_proc_inv_def Let_def)
    show ?thesis
    proof (cases "reqs ?r ! 0 = UCX_SEND ((int j + 1) mod ?n) False")
      case True
      have "oob_progress ?r < oob_progress (send_done ?r ((int j + 1) mod ?n))"
        using filter_update_more [of 0 "reqs ?r" ucx_req_done] True l2 by (simp add: send_done_def oob_progress_def)
      then show ?thesis
        using ring_step.send_complete [OF jl True] ring_progress_update [OF jl, of _ "chans s"] by auto
    next
      case sent: False
      show ?thesis
      proof (cases "reqs ?r ! 1 = UCX_RECV ?a ?off False")
        case recv: True
        show ?thesis
        proof (cases "chans s (?a, int j)")
          case (Cons d rest)
          have "oob_progress ?r < oob_progress (recv_complete ?r ?a ?off d)"
            using filter_update_more [of 1 "reqs ?r" ucx_req_done] recv l2 by (simp add: recv_complete_def oob_progress_def)
          then show ?thesis
            using ring_step.recv_match [OF jl recv Cons] ring_progress_update [OF jl] by blast
        next
          case Nil
          have np: "0 < ?n" using jn by linarith
          have al: "nat ?a < length blocks" using np by (simp add: nat_less_iff)
          have "ring_recvd ?r = iter ?r - 1" using it recv by (simp add: ring_recvd_def)
          then have "iter (procs s ! nat ?a) \<le> 0 \<or> nat (iter (procs s ! nat ?a)) \<le> nat (iter ?r - 1)"
            using Nil inv jn by (simp add: ring_inv_def ring_chan_inv_def Let_def)
          then have lt: "nat (iter (procs s ! nat ?a)) < nat (iter ?r)" using it by auto
          have "ring_proc_inv m blocks (nat ?a) (procs s ! nat ?a)" using inv al by (simp add: ring_inv_def)
          then have pa: "oob_wf_at ?n (int (nat ?a)) (procs s ! nat ?a)" by (simp add: ring_proc_inv_def Let_def)
          have "\<not> is_done (procs s ! nat ?a)"
            using pa f(3) lt by (auto simp: oob_wf_at_def)
          then show ?thesis using less.hyps [OF lt al] by blast
        qed
      next
        case False
        then have "list_all ucx_req_done (reqs ?r)"
          using rq sent l2 by (auto simp: list_all_length less_2_cases_iff)
        then show ?thesis using poll by blast
      qed
    qed
  qed
qed

lemma ring_progress_le:
  assumes inv: "ring_inv m blocks s"
  shows "ring_progress s \<le> length blocks * (3 * length blocks)"
proof -
  have l: "length (procs s) = length blocks" using inv by (simp add: ring_inv_def)
  have b: "oob_progress x \<le> 3 * length blocks" if x: "x \<in> set (procs s)" for x
  proof -
    obtain j where j: "j < length blocks" "x = procs s ! j" using x l by (auto simp: in_set_conv_nth)
    then have "ring_proc_inv m blocks j x" using inv by (simp add: ring_inv_def)
    then have "oob_wf_at (int (length blocks)) (int j) x" by (simp add: ring_proc_inv_def Let_def)
    then show ?thesis using oob_progress_bound [of "int (length blocks)" "int j" x] by simp
  qed
  have "sum_list (map oob_progress (procs s)) \<le> length (procs s) * (3 * length blocks)"
    by (rule sum_list_map_bound) (rule b)
  then show ?thesis using l by (simp add: ring_progress_def)
qed

section \<open>Properties\<close>

text \<open>C34. The bootstrap allgather cannot deadlock: from every state the group
  reaches, whatever polls and transport events happened so far, some continuation of
  polls, receive matches and send completions brings every process's request to
  done (and then, by C1, every process holds the gathered blocks).\<close>

theorem ring_allgather_terminates:
  assumes "ring_reach m blocks rbufs s" and ok: "ring_input_ok m blocks rbufs"
  shows "\<exists>s'. ring_step\<^sup>*\<^sup>* s s' \<and> ring_all_done s'"
  using assms(1)
proof (induction "length blocks * (3 * length blocks) - ring_progress s" arbitrary: s rule: less_induct)
  case less
  show ?case
  proof (cases "ring_all_done s")
    case True
    then show ?thesis by blast
  next
    case False
    then obtain j where j: "j < length (procs s)" "\<not> is_done (procs s ! j)"
      by (auto simp: ring_all_done_def list_all_length)
    have inv: "ring_inv m blocks s" by (rule ring_reach_inv [OF less.prems ok])
    have jl: "j < length blocks" using inv j(1) by (simp add: ring_inv_def)
    obtain s' where st: "ring_step s s'" and lt: "ring_progress s < ring_progress s'"
      using ring_step_progress [OF inv jl j(2)] by blast
    have r': "ring_reach m blocks rbufs s'" by (rule ring_reach.step [OF less.prems st])
    have le: "ring_progress s' \<le> length blocks * (3 * length blocks)"
      by (rule ring_progress_le [OF ring_reach_inv [OF r' ok]])
    have "length blocks * (3 * length blocks) - ring_progress s' <
          length blocks * (3 * length blocks) - ring_progress s"
      using lt le by (intro diff_less_mono2) auto
    then obtain s'' where s'': "ring_step\<^sup>*\<^sup>* s' s''" "ring_all_done s''"
      using less.hyps [OF _ r'] by blast
    show ?thesis using converse_rtranclp_into_rtranclp [OF st s''(1)] s''(2) by blast
  qed
qed

section \<open>Witnesses\<close>

theorem ring_allgather_terminates_witness:
  "\<exists>s'. ring_step\<^sup>*\<^sup>* (ring_init 1 [[1::nat], [2]] [[0, 0], [0, 0]]) s' \<and> ring_all_done s'"
proof -
  have ok: "ring_input_ok 1 [[1::nat], [2]] [[0, 0], [0, 0]]" by (simp add: ring_input_ok_def)
  show ?thesis by (rule ring_allgather_terminates [OF ring_reach.init ok])
qed

end
