(* ===== verification/Device.thy ===== *)
theory Device
  imports Prelude
begin

text \<open>
  The device synchronisation layer of \<open>src/include/torch_ucc_ops.hpp\<close>: the
  collective communicator state \<open>torch_ucc_coll_comm_t\<close> (one communication
  stream, created lazily, and a queue of reusable CUDA events), the request record
  \<open>torch_ucc_coll_request_t\<close>, \<open>torch_ucc_coll_request_init\<close> and the request
  destructor. The CUDA runtime (outside src/) is a log of the operations enqueued on
  streams, in host issue order; \<open>dev_hb\<close> is the order in which the device
  executes them: stream order, plus \<open>cudaStreamWaitEvent\<close> waiting for the latest
  record of the event issued before it. The build modelled is the \<open>USE_CUDA\<close> one.
  The properties proved here are the shape of a request built from source tensors
  and the first-available reuse of pooled events.
\<close>

section \<open>Devices, tensors, streams and events\<close>

datatype device_type = kCPU | kCUDA | kMKLDNN | kOPENGL | kOPENCL | kIDEEP | kHIP | kFPGA
  | kMSNPU | kXLA | kVulkan | kMetal

record device =
  dev_type :: device_type
  dev_index :: int

definition cpu_device :: device where
  "cpu_device = \<lparr>dev_type = kCPU, dev_index = -1\<rparr>"

definition is_cuda :: "device \<Rightarrow> bool" where
  "is_cuda d \<longleftrightarrow> dev_type d = kCUDA"

datatype scalar_type = kByte | kChar | kShort | kInt | kLong | kHalf | kFloat | kDouble | kBool
  | kBFloat16

text \<open>An \<open>at::Tensor\<close>: device, element type, storage address and elements.\<close>

record 'v tensor =
  t_device :: device
  t_scalar :: scalar_type
  t_ptr :: nat
  t_data :: "'v list"

text \<open>
  Streams: the caller's current stream of a device
  (\<open>getCurrentCUDAStream\<close>) and a stream of the pool
  (\<open>getStreamFromPool(high_priority, index)\<close>).
\<close>

datatype stream = Current_Stream int | Pool_Stream int bool

fun stream_device :: "stream \<Rightarrow> device" where
  "stream_device (Current_Stream i) = \<lparr>dev_type = kCUDA, dev_index = i\<rparr>"
| "stream_device (Pool_Stream i _) = \<lparr>dev_type = kCUDA, dev_index = i\<rparr>"

text \<open>
  Device work in host issue order: \<open>CUDAEvent::record(stream)\<close>,
  \<open>CUDAEvent::block(stream)\<close> and kernels (caller compute, collective work).
\<close>

datatype dev_op = Ev_Record nat stream | Ev_Block nat stream | Kernel stream string

fun op_stream :: "dev_op \<Rightarrow> stream" where
  "op_stream (Ev_Record _ s) = s"
| "op_stream (Ev_Block _ s) = s"
| "op_stream (Kernel s _) = s"

fun records :: "nat \<Rightarrow> dev_op \<Rightarrow> bool" where
  "records e (Ev_Record e' _) = (e = e')"
| "records e _ = False"

record dev_state =
  dev_log :: "dev_op list"
  next_event :: nat

text \<open>
  Execution order on the device between positions of the log: earlier work of the
  same stream, and a block on an event after the latest record of that event
  issued before the block.
\<close>

inductive dev_hb :: "dev_op list \<Rightarrow> nat \<Rightarrow> nat \<Rightarrow> bool" for log where
  stream_order: "i < j \<Longrightarrow> j < length log \<Longrightarrow> op_stream (log ! i) = op_stream (log ! j) \<Longrightarrow>
                 dev_hb log i j"
| event_wait: "log ! i = Ev_Record e s \<Longrightarrow> log ! j = Ev_Block e t \<Longrightarrow> i < j \<Longrightarrow> j < length log \<Longrightarrow>
               (\<forall>k. i < k \<and> k < j \<longrightarrow> \<not> records e (log ! k)) \<Longrightarrow> dev_hb log i j"
| trans: "dev_hb log i j \<Longrightarrow> dev_hb log j k \<Longrightarrow> dev_hb log i k"

section \<open>Communicator state and requests\<close>

datatype coll_type = TORCH_UCC_BARRIER | TORCH_UCC_BCAST | TORCH_UCC_ALLREDUCE
  | TORCH_UCC_ALLTOALL | TORCH_UCC_ALLTOALLV | TORCH_UCC_ALLGATHER

record coll_config =
  blocking_wait :: "coll_type \<Rightarrow> bool"
  gpu_barrier :: bool
  high_priority_stream :: bool
  serialize :: bool

text \<open>
  \<open>torch_ucc_coll_comm_t\<close>: the communication stream (\<open>None\<close> for the null
  \<open>unique_ptr\<close>), the event pool as a FIFO queue of event pointers (\<open>None\<close> a
  null \<open>unique_ptr\<close>), and the configuration. The pool mutex is implicit: every
  operation below is one atomic step on this state.
\<close>

record coll_comm =
  cc_stream :: "stream option"
  event_pool :: "nat option list"
  cc_config :: coll_config

record 'v coll_request =
  req_type :: coll_type
  req_device :: device
  req_src :: "'v tensor list"
  req_dst :: "'v tensor list"
  req_event :: "nat option"

text \<open>The default constructor: a CPU request with no event and no buffers.\<close>

definition coll_request_new :: "coll_type \<Rightarrow> 'v coll_request" where
  "coll_request_new ct =
     \<lparr>req_type = ct, req_device = cpu_device, req_src = [], req_dst = [], req_event = None\<rparr>"

text \<open>Failures of the C++ code that are not status returns: null dereferences,
  out-of-range vector access, \<open>std::map::at\<close> throwing, \<open>Tensor::copy_\<close>
  of a tensor of another size throwing, a call on a finalized XCCL handle, a call
  on a request that was already freed, and a use of a communicator that
  \<open>torch_xccl_comm_close\<close> already deleted.\<close>

datatype ucc_error = Null_Stream_Deref | Null_Event_Deref | Index_Out_Of_Range | Map_At_Missing_Key
  | Copy_Shape_Mismatch | Handle_Use_After_Finalize | Request_Use_After_Free | Comm_Use_After_Close

section \<open>Event pool and event operations\<close>

text \<open>Lines 149--157: reuse the oldest pooled event, or allocate a fresh one.\<close>

definition event_pool_acquire :: "coll_comm \<Rightarrow> dev_state \<Rightarrow> nat option \<times> coll_comm \<times> dev_state" where
  "event_pool_acquire c d =
     (if event_pool c = []
      then (Some (next_event d), c, d\<lparr>next_event := Suc (next_event d)\<rparr>)
      else (hd (event_pool c), c\<lparr>event_pool := tl (event_pool c)\<rparr>, d))"

text \<open>\<open>event->record(stream)\<close> and \<open>event->block(stream)\<close> through the pointer.\<close>

definition event_record :: "nat option \<Rightarrow> stream \<Rightarrow> dev_state \<Rightarrow> ucc_error + dev_state" where
  "event_record ev s d =
     (case ev of None \<Rightarrow> Inl Null_Event_Deref
      | Some e \<Rightarrow> Inr (d\<lparr>dev_log := dev_log d @ [Ev_Record e s]\<rparr>))"

definition event_block :: "nat option \<Rightarrow> stream \<Rightarrow> dev_state \<Rightarrow> ucc_error + dev_state" where
  "event_block ev s d =
     (case ev of None \<Rightarrow> Inl Null_Event_Deref
      | Some e \<Rightarrow> Inr (d\<lparr>dev_log := dev_log d @ [Ev_Block e s]\<rparr>))"

section \<open>Request initialisation\<close>

text \<open>
  Lines 131--137: a barrier with \<open>gpu_barrier\<close> takes the device of the
  communication stream; when the stream was never created the code prints a
  warning and dereferences the null pointer.
\<close>

definition request_init_barrier ::
  "coll_comm \<Rightarrow> coll_type \<Rightarrow> 'v coll_request \<Rightarrow> ucc_error + 'v coll_request" where
  "request_init_barrier c ct r =
     (if ct = TORCH_UCC_BARRIER \<and> gpu_barrier (cc_config c)
      then (case cc_stream c of None \<Rightarrow> Inl Null_Stream_Deref
            | Some s \<Rightarrow> Inr (r\<lparr>req_device := stream_device s\<rparr>))
      else Inr r)"

text \<open>
  Lines 138--167: take the sources and the device of the first; for a CUDA device
  create the communication stream on first use, take an event from the pool,
  record it on the caller's current stream and make the communication stream
  wait for it.
\<close>

definition request_init_src ::
  "coll_comm \<Rightarrow> 'v tensor list \<Rightarrow> 'v coll_request \<Rightarrow> dev_state \<Rightarrow>
   ucc_error + (coll_comm \<times> 'v coll_request \<times> dev_state)" where
  "request_init_src c ts r d =
     (case ts of [] \<Rightarrow> Inl Index_Out_Of_Range
      | t # _ \<Rightarrow>
        (let r1 = r\<lparr>req_src := ts, req_device := t_device t, req_event := None\<rparr>
         in if \<not> is_cuda (t_device t) then Inr (c, r1, d)
            else
              (let idx = dev_index (t_device t);
                   c1 = (if cc_stream c = None
                         then c\<lparr>cc_stream := Some (Pool_Stream idx (high_priority_stream (cc_config c)))\<rparr>
                         else c);
                   (ev, c2, d1) = event_pool_acquire c1 d;
                   r2 = r1\<lparr>req_event := ev\<rparr>
               in case event_record ev (Current_Stream idx) d1 of
                    Inl e \<Rightarrow> Inl e
                  | Inr d2 \<Rightarrow>
                      (case event_block ev (the (cc_stream c2)) d2 of
                         Inl e \<Rightarrow> Inl e
                       | Inr d3 \<Rightarrow> Inr (c2, r2, d3)))))"

text \<open>
  Lines 168--173: take the destinations. A device mismatch between the first source
  and the first destination is only printed.
\<close>

definition request_init_dst ::
  "'v tensor list \<Rightarrow> 'v coll_request \<Rightarrow> ucc_error + 'v coll_request" where
  "request_init_dst ts r =
     (case (req_src r, ts) of
        (s # _, t # _) \<Rightarrow> Inr (r\<lparr>req_dst := ts\<rparr>)
      | _ \<Rightarrow> Inl Index_Out_Of_Range)"

text \<open>\<open>torch_ucc_coll_request_init\<close> (lines 123--174) on a fresh request.\<close>

definition torch_ucc_coll_request_init ::
  "coll_comm \<Rightarrow> coll_type \<Rightarrow> 'v tensor list option \<Rightarrow> 'v tensor list option \<Rightarrow> dev_state \<Rightarrow>
   ucc_error + (coll_comm \<times> 'v coll_request \<times> dev_state)" where
  "torch_ucc_coll_request_init c ct srcp dstp d =
     (case request_init_barrier c ct (coll_request_new ct) of
        Inl e \<Rightarrow> Inl e
      | Inr r0 \<Rightarrow>
          (case (case srcp of None \<Rightarrow> Inr (c, r0, d) | Some ts \<Rightarrow> request_init_src c ts r0 d) of
             Inl e \<Rightarrow> Inl e
           | Inr (c1, r1, d1) \<Rightarrow>
               (case dstp of None \<Rightarrow> Inr (c1, r1, d1)
                | Some ts \<Rightarrow>
                    (case request_init_dst ts r1 of
                       Inl e \<Rightarrow> Inl e
                     | Inr r2 \<Rightarrow> Inr (c1, r2, d1)))))"

text \<open>\<open>~torch_ucc_coll_request_t\<close> (lines 56--63): a CUDA request gives its event
  pointer back to the pool, whatever it holds.\<close>

definition coll_request_destroy :: "coll_comm \<Rightarrow> 'v coll_request \<Rightarrow> coll_comm" where
  "coll_request_destroy c r =
     (if is_cuda (req_device r) then c\<lparr>event_pool := event_pool c @ [req_event r]\<rparr> else c)"

section \<open>Lemmas\<close>

lemma request_init_barrier_shape:
  "request_init_barrier c ct (coll_request_new ct) = Inr r0 \<Longrightarrow> req_type r0 = ct \<and> req_dst r0 = [] \<and> req_src r0 = []"
  by (auto simp: request_init_barrier_def coll_request_new_def split: if_splits option.splits)

section \<open>Properties\<close>

text \<open>C30. A request that \<open>torch_ucc_coll_request_init\<close> builds from source
  tensors is well formed: its type is the collective's, its sources and destinations
  are the buffers passed, its device is the first source's, it holds an event exactly
  when that device is a CUDA device, and then the communicator has its stream.\<close>

theorem request_init_wf:
  fixes q :: "'v coll_request"
  assumes "torch_ucc_coll_request_init c ct (Some ts) dstp d = Inr (c1, q, d1)"
  shows "ts \<noteq> [] \<and> req_type q = ct \<and> req_src q = ts \<and> req_device q = t_device (hd ts) \<and>
         req_dst q = (case dstp of None \<Rightarrow> [] | Some ds \<Rightarrow> ds) \<and>
         (req_event q \<noteq> None \<longleftrightarrow> is_cuda (req_device q)) \<and>
         (is_cuda (req_device q) \<longrightarrow> cc_stream c1 \<noteq> None)"
proof -
  have "\<exists>r0 :: 'v coll_request. request_init_barrier c ct (coll_request_new ct) = Inr r0"
    using assms by (auto simp: torch_ucc_coll_request_init_def split: sum.split_asm)
  then obtain r0 :: "'v coll_request" where b: "request_init_barrier c ct (coll_request_new ct) = Inr r0"
    by blast
  note r0 = request_init_barrier_shape [OF b]
  obtain q' where src: "request_init_src c ts r0 d = Inr (c1, q', d1)"
    and dst: "q = (case dstp of None \<Rightarrow> q' | Some ds \<Rightarrow> q'\<lparr>req_dst := ds\<rparr>)"
    and ne: "\<forall>ds. dstp = Some ds \<longrightarrow> ds \<noteq> []"
    using assms b
    by (auto simp: torch_ucc_coll_request_init_def request_init_dst_def request_init_src_def
             split: sum.split_asm option.split_asm list.split_asm)
  have "ts \<noteq> [] \<and> req_type q' = ct \<and> req_src q' = ts \<and> req_device q' = t_device (hd ts) \<and> req_dst q' = [] \<and>
        (req_event q' \<noteq> None \<longleftrightarrow> is_cuda (req_device q')) \<and> (is_cuda (req_device q') \<longrightarrow> cc_stream c1 \<noteq> None)"
    using src r0
    by (auto simp: request_init_src_def event_pool_acquire_def event_record_def event_block_def Let_def
             split: list.splits if_splits option.splits prod.splits sum.splits)
  then show ?thesis using dst by (cases dstp) auto
qed

text \<open>C31. Events are reused first-available: on a CUDA source the request takes
  the oldest event of the pool when the pool is not empty, and allocates a new event
  only when it is empty.\<close>

theorem event_reuse_first:
  assumes "request_init_src c ts r d = Inr (c1, q, d1)" "is_cuda (req_device q)"
  shows "(event_pool c \<noteq> [] \<longrightarrow> req_event q = hd (event_pool c) \<and> event_pool c1 = tl (event_pool c) \<and>
                                   next_event d1 = next_event d) \<and>
         (event_pool c = [] \<longrightarrow> req_event q = Some (next_event d) \<and> event_pool c1 = [] \<and>
                                next_event d1 = Suc (next_event d))"
  using assms
  by (auto simp: request_init_src_def event_pool_acquire_def event_record_def event_block_def Let_def
           split: list.splits if_splits option.splits prod.splits sum.splits)

section \<open>Witnesses\<close>

lemma request_init_wf_witness:
  "\<exists>c1 q d1. torch_ucc_coll_request_init \<lparr>cc_stream = None, event_pool = [Some 3], cc_config = \<lparr>blocking_wait = (\<lambda>_. False), gpu_barrier = False, high_priority_stream = False, serialize = False\<rparr>\<rparr> TORCH_UCC_ALLGATHER (Some [\<lparr>t_device = \<lparr>dev_type = kCUDA, dev_index = 1\<rparr>, t_scalar = kFloat, t_ptr = 100, t_data = [1 :: int, 2]\<rparr>]) (Some [\<lparr>t_device = \<lparr>dev_type = kCUDA, dev_index = 1\<rparr>, t_scalar = kFloat, t_ptr = 200, t_data = [0, 0, 0, 0]\<rparr>]) \<lparr>dev_log = [], next_event = 4\<rparr> = Inr (c1, q, d1) \<and>
     req_dst q = [\<lparr>t_device = \<lparr>dev_type = kCUDA, dev_index = 1\<rparr>, t_scalar = kFloat, t_ptr = 200, t_data = [0, 0, 0, 0]\<rparr>] \<and> req_event q \<noteq> None \<and> cc_stream c1 \<noteq> None"
proof -
  have "\<exists>c1 q d1. torch_ucc_coll_request_init \<lparr>cc_stream = None, event_pool = [Some 3], cc_config = \<lparr>blocking_wait = (\<lambda>_. False), gpu_barrier = False, high_priority_stream = False, serialize = False\<rparr>\<rparr> TORCH_UCC_ALLGATHER (Some [\<lparr>t_device = \<lparr>dev_type = kCUDA, dev_index = 1\<rparr>, t_scalar = kFloat, t_ptr = 100, t_data = [1 :: int, 2]\<rparr>]) (Some [\<lparr>t_device = \<lparr>dev_type = kCUDA, dev_index = 1\<rparr>, t_scalar = kFloat, t_ptr = 200, t_data = [0, 0, 0, 0]\<rparr>]) \<lparr>dev_log = [], next_event = 4\<rparr> = Inr (c1, q, d1)"
    by (simp add: torch_ucc_coll_request_init_def request_init_barrier_def request_init_src_def request_init_dst_def
                  coll_request_new_def is_cuda_def event_pool_acquire_def event_record_def event_block_def Let_def)
  then obtain c1 q d1 where e: "torch_ucc_coll_request_init \<lparr>cc_stream = None, event_pool = [Some 3], cc_config = \<lparr>blocking_wait = (\<lambda>_. False), gpu_barrier = False, high_priority_stream = False, serialize = False\<rparr>\<rparr> TORCH_UCC_ALLGATHER (Some [\<lparr>t_device = \<lparr>dev_type = kCUDA, dev_index = 1\<rparr>, t_scalar = kFloat, t_ptr = 100, t_data = [1 :: int, 2]\<rparr>]) (Some [\<lparr>t_device = \<lparr>dev_type = kCUDA, dev_index = 1\<rparr>, t_scalar = kFloat, t_ptr = 200, t_data = [0, 0, 0, 0]\<rparr>]) \<lparr>dev_log = [], next_event = 4\<rparr> = Inr (c1, q, d1)" by blast
  have "is_cuda (req_device q)" using request_init_wf [OF e] by (simp add: is_cuda_def)
  then show ?thesis using request_init_wf [OF e] e by auto
qed

lemma event_reuse_first_witness:
  "\<exists>c1 q d1. request_init_src \<lparr>cc_stream = None, event_pool = [Some 3], cc_config = \<lparr>blocking_wait = (\<lambda>_. False), gpu_barrier = False, high_priority_stream = False, serialize = False\<rparr>\<rparr> [\<lparr>t_device = \<lparr>dev_type = kCUDA, dev_index = 1\<rparr>, t_scalar = kFloat, t_ptr = 100, t_data = [1 :: int, 2]\<rparr>] (coll_request_new TORCH_UCC_ALLGATHER) \<lparr>dev_log = [], next_event = 4\<rparr> = Inr (c1, q, d1) \<and>
     req_event q = Some 3 \<and> event_pool c1 = [] \<and> next_event d1 = 4"
proof -
  have "\<exists>c1 q d1. request_init_src \<lparr>cc_stream = None, event_pool = [Some 3], cc_config = \<lparr>blocking_wait = (\<lambda>_. False), gpu_barrier = False, high_priority_stream = False, serialize = False\<rparr>\<rparr> [\<lparr>t_device = \<lparr>dev_type = kCUDA, dev_index = 1\<rparr>, t_scalar = kFloat, t_ptr = 100, t_data = [1 :: int, 2]\<rparr>] (coll_request_new TORCH_UCC_ALLGATHER) \<lparr>dev_log = [], next_event = 4\<rparr> = Inr (c1, q, d1)"
    by (simp add: torch_ucc_coll_request_init_def request_init_barrier_def request_init_src_def request_init_dst_def
                  coll_request_new_def is_cuda_def event_pool_acquire_def event_record_def event_block_def Let_def)
  then obtain c1 q d1 where e: "request_init_src \<lparr>cc_stream = None, event_pool = [Some 3], cc_config = \<lparr>blocking_wait = (\<lambda>_. False), gpu_barrier = False, high_priority_stream = False, serialize = False\<rparr>\<rparr> [\<lparr>t_device = \<lparr>dev_type = kCUDA, dev_index = 1\<rparr>, t_scalar = kFloat, t_ptr = 100, t_data = [1 :: int, 2]\<rparr>] (coll_request_new TORCH_UCC_ALLGATHER) \<lparr>dev_log = [], next_event = 4\<rparr> = Inr (c1, q, d1)"
    by blast
  have cu: "is_cuda (req_device q)"
    using e by (auto simp: request_init_src_def is_cuda_def Let_def split: prod.splits sum.splits if_splits)
  show ?thesis using event_reuse_first [OF e cu] e by auto
qed

end
