(* ===== verification/Xccl.thy ===== *)
theory Xccl
  imports Device
begin

text \<open>
  The collective transport as \<open>src/src/torch_xccl.cpp\<close> uses it: the lookup
  tables of lines 341--376, the operation descriptor \<open>xccl_coll_op_args_t\<close>,
  and the life of a collective handle (\<open>xccl_collective_init\<close>,
  \<open>_post\<close>, \<open>_test\<close>, \<open>_finalize\<close>). XCCL itself is outside src/; its
  handles are modelled by what the code relies on: init and post either succeed or
  report an error, a posted handle reports \<open>XCCL_INPROGRESS\<close> until the transport
  completes it with a final status, and a finalized handle must not be used.
\<close>

section \<open>Enumerations and lookup tables\<close>

datatype reduce_op = ReduceOp_SUM | ReduceOp_PRODUCT | ReduceOp_MIN | ReduceOp_MAX | ReduceOp_BAND
  | ReduceOp_BOR | ReduceOp_BXOR | ReduceOp_UNUSED

datatype xccl_op = XCCL_OP_MAX | XCCL_OP_MIN | XCCL_OP_SUM | XCCL_OP_PROD | XCCL_OP_AND
  | XCCL_OP_OR | XCCL_OP_XOR | XCCL_OP_LAND | XCCL_OP_LOR | XCCL_OP_LXOR | XCCL_OP_BAND
  | XCCL_OP_BOR | XCCL_OP_BXOR | XCCL_OP_MAXLOC | XCCL_OP_MINLOC

datatype xccl_dt = XCCL_DT_INT8 | XCCL_DT_INT16 | XCCL_DT_INT32 | XCCL_DT_INT64 | XCCL_DT_INT128
  | XCCL_DT_UINT8 | XCCL_DT_UINT16 | XCCL_DT_UINT32 | XCCL_DT_UINT64 | XCCL_DT_UINT128
  | XCCL_DT_FLOAT16 | XCCL_DT_FLOAT32 | XCCL_DT_FLOAT64

datatype xccl_collective_type = XCCL_BARRIER | XCCL_BCAST | XCCL_ALLREDUCE | XCCL_ALLTOALL
  | XCCL_ALLTOALLV | XCCL_ALLGATHER

datatype ucs_memory_type = UCS_MEMORY_TYPE_HOST | UCS_MEMORY_TYPE_CUDA
  | UCS_MEMORY_TYPE_CUDA_MANAGED | UCS_MEMORY_TYPE_ROCM | UCS_MEMORY_TYPE_ROCM_MANAGED
  | UCS_MEMORY_TYPE_UNKNOWN

text \<open>The \<open>std::map\<close> tables; a key absent from the map is \<open>None\<close>.\<close>

fun xccl_op_map :: "reduce_op \<Rightarrow> xccl_op option" where
  "xccl_op_map ReduceOp_MIN = Some XCCL_OP_MIN"
| "xccl_op_map ReduceOp_MAX = Some XCCL_OP_MAX"
| "xccl_op_map ReduceOp_SUM = Some XCCL_OP_SUM"
| "xccl_op_map ReduceOp_PRODUCT = Some XCCL_OP_PROD"
| "xccl_op_map _ = None"

fun xccl_type_map :: "scalar_type \<Rightarrow> xccl_dt option" where
  "xccl_type_map kByte = Some XCCL_DT_UINT8"
| "xccl_type_map kChar = Some XCCL_DT_INT8"
| "xccl_type_map kHalf = Some XCCL_DT_FLOAT16"
| "xccl_type_map kDouble = Some XCCL_DT_FLOAT64"
| "xccl_type_map kFloat = Some XCCL_DT_FLOAT32"
| "xccl_type_map kInt = Some XCCL_DT_INT32"
| "xccl_type_map kLong = Some XCCL_DT_INT64"
| "xccl_type_map _ = None"

fun xccl_collective_name :: "xccl_collective_type \<Rightarrow> string" where
  "xccl_collective_name XCCL_BARRIER = ''Barrier''"
| "xccl_collective_name XCCL_BCAST = ''Broadcast''"
| "xccl_collective_name XCCL_ALLREDUCE = ''Allreduce''"
| "xccl_collective_name XCCL_ALLTOALL = ''Alltoall''"
| "xccl_collective_name XCCL_ALLTOALLV = ''Alltoallv''"
| "xccl_collective_name XCCL_ALLGATHER = ''Allgather''"

fun xccl_mtype_map :: "device_type \<Rightarrow> ucs_memory_type option" where
  "xccl_mtype_map kCPU = Some UCS_MEMORY_TYPE_HOST"
| "xccl_mtype_map kCUDA = Some UCS_MEMORY_TYPE_CUDA"
| "xccl_mtype_map kHIP = Some UCS_MEMORY_TYPE_ROCM"
| "xccl_mtype_map kFPGA = Some UCS_MEMORY_TYPE_UNKNOWN"
| "xccl_mtype_map kMSNPU = Some UCS_MEMORY_TYPE_UNKNOWN"
| "xccl_mtype_map kXLA = Some UCS_MEMORY_TYPE_UNKNOWN"
| "xccl_mtype_map kVulkan = Some UCS_MEMORY_TYPE_UNKNOWN"
| "xccl_mtype_map kMetal = Some UCS_MEMORY_TYPE_UNKNOWN"
| "xccl_mtype_map _ = None"

text \<open>\<open>m.at(k)\<close>: the value, or \<open>std::out_of_range\<close> thrown.\<close>

definition map_at :: "('k \<Rightarrow> 'v option) \<Rightarrow> 'k \<Rightarrow> 's \<Rightarrow> (ucc_error + 'v) \<times> 's" where
  "map_at m k = elift (case m k of None \<Rightarrow> Inl Map_At_Missing_Key | Some v \<Rightarrow> Inr v)"

text \<open>\<open>Tensor::element_size()\<close> (c10, outside src/).\<close>

fun element_size :: "scalar_type \<Rightarrow> nat" where
  "element_size kByte = 1"
| "element_size kChar = 1"
| "element_size kShort = 2"
| "element_size kInt = 4"
| "element_size kLong = 8"
| "element_size kHalf = 2"
| "element_size kFloat = 4"
| "element_size kDouble = 8"
| "element_size kBool = 1"
| "element_size kBFloat16 = 2"

section \<open>The operation descriptor\<close>

text \<open>
  \<open>xccl_coll_op_args_t\<close>. The code declares it on the stack without
  initialising it, so every field is \<open>None\<close> until a statement sets it.
  \<open>field_mask\<close> is read only for its \<open>XCCL_COLL_OP_ARGS_FIELD_STREAM\<close> bit;
  the \<open>uint32_t*\<close> count and displacement arrays of alltoallv are pointers.
\<close>

record xccl_coll_op_args =
  field_mask_stream :: "bool option"
  args_coll_type :: "xccl_collective_type option"
  src_buffer :: "nat option"
  src_mtype :: "ucs_memory_type option"
  dst_buffer :: "nat option"
  dst_mtype :: "ucs_memory_type option"
  args_len :: "size_t option"
  src_displacements :: "nat option"
  src_counts :: "nat option"
  src_datatype :: "xccl_dt option"
  dst_displacements :: "nat option"
  dst_counts :: "nat option"
  dst_datatype :: "xccl_dt option"
  reduce_dt :: "xccl_dt option"
  reduce_op_x :: "xccl_op option"
  reduce_count :: "int option"
  args_root :: "int option"
  set_by_user :: "bool option"
  args_stream :: "stream option"

definition coll_args_uninit :: xccl_coll_op_args where
  "coll_args_uninit =
     \<lparr>field_mask_stream = None, args_coll_type = None, src_buffer = None, src_mtype = None,
      dst_buffer = None, dst_mtype = None, args_len = None, src_displacements = None,
      src_counts = None, src_datatype = None, dst_displacements = None, dst_counts = None,
      dst_datatype = None, reduce_dt = None, reduce_op_x = None, reduce_count = None,
      args_root = None, set_by_user = None, args_stream = None\<rparr>"

section \<open>Collective handles\<close>

text \<open>
  A handle of the team: initialised, posted with the status the transport reports
  for it (\<open>XCCL_INPROGRESS\<close> until it completes), or finalized. Handles are
  numbered by their position in the team's list.
\<close>

datatype xccl_handle = XH_Initialized xccl_coll_op_args
  | XH_Posted xccl_coll_op_args xccl_status
  | XH_Finalized xccl_coll_op_args

record xccl_team_state =
  xccl_handles :: "xccl_handle list"

text \<open>\<open>xccl_collective_init\<close> with the outcome \<open>st\<close> chosen by XCCL: on success a
  new handle is written to the caller's variable.\<close>

definition xccl_collective_init ::
  "xccl_status \<Rightarrow> xccl_coll_op_args \<Rightarrow> xccl_team_state \<Rightarrow> xccl_status \<times> nat option \<times> xccl_team_state" where
  "xccl_collective_init st a t =
     (if st = XCCL_OK
      then (XCCL_OK, Some (length (xccl_handles t)), t\<lparr>xccl_handles := xccl_handles t @ [XH_Initialized a]\<rparr>)
      else (st, None, t))"

definition xccl_collective_post :: "xccl_status \<Rightarrow> nat \<Rightarrow> xccl_team_state \<Rightarrow> xccl_status \<times> xccl_team_state" where
  "xccl_collective_post st h t =
     (if st = XCCL_OK \<and> h < length (xccl_handles t)
      then (case xccl_handles t ! h of
              XH_Initialized a \<Rightarrow> (XCCL_OK, t\<lparr>xccl_handles := (xccl_handles t)[h := XH_Posted a XCCL_INPROGRESS]\<rparr>)
            | _ \<Rightarrow> (st, t))
      else (st, t))"

fun handle_args :: "xccl_handle \<Rightarrow> xccl_coll_op_args" where
  "handle_args (XH_Initialized a) = a"
| "handle_args (XH_Posted a _) = a"
| "handle_args (XH_Finalized a) = a"

text \<open>Posting a collective whose descriptor names a stream (the
  \<open>XCCL_COLL_OP_ARGS_FIELD_STREAM\<close> bit) enqueues its device work on that
  stream.\<close>

definition xccl_collective_post_dev ::
  "xccl_status \<Rightarrow> nat \<Rightarrow> xccl_team_state \<Rightarrow> dev_state \<Rightarrow> xccl_status \<times> xccl_team_state \<times> dev_state" where
  "xccl_collective_post_dev st h t d =
     (let (st', t') = xccl_collective_post st h t;
          a = handle_args (xccl_handles t ! h)
      in (st', t',
          if st' = XCCL_OK \<and> h < length (xccl_handles t) \<and> field_mask_stream a = Some True
          then (case args_stream a of None \<Rightarrow> d
                | Some cs \<Rightarrow> d\<lparr>dev_log := dev_log d @ [Kernel cs ''xccl_collective'']\<rparr>)
          else d))"

definition xccl_collective_finalize :: "nat \<Rightarrow> xccl_team_state \<Rightarrow> xccl_team_state" where
  "xccl_collective_finalize h t =
     (if h < length (xccl_handles t)
      then t\<lparr>xccl_handles := (xccl_handles t)[h := XH_Finalized (handle_args (xccl_handles t ! h))]\<rparr>
      else t)"

text \<open>\<open>xccl_collective_test\<close>: the status of a live handle; a finalized (freed) or
  unknown handle is a use after free.\<close>

definition xccl_collective_test :: "nat \<Rightarrow> xccl_team_state \<Rightarrow> ucc_error + xccl_status" where
  "xccl_collective_test h t =
     (if h < length (xccl_handles t)
      then (case xccl_handles t ! h of
              XH_Posted _ st \<Rightarrow> Inr st
            | XH_Initialized _ \<Rightarrow> Inr XCCL_INPROGRESS
            | XH_Finalized _ \<Rightarrow> Inl Handle_Use_After_Finalize)
      else Inl Handle_Use_After_Finalize)"

text \<open>The transport completing a posted collective with a final status (a step of
  the environment, between calls of the program).\<close>

definition xccl_complete :: "nat \<Rightarrow> xccl_status \<Rightarrow> xccl_team_state \<Rightarrow> xccl_team_state" where
  "xccl_complete h st t =
     (if h < length (xccl_handles t) \<and> st \<noteq> XCCL_INPROGRESS
      then (case xccl_handles t ! h of
              XH_Posted a XCCL_INPROGRESS \<Rightarrow> t\<lparr>xccl_handles := (xccl_handles t)[h := XH_Posted a st]\<rparr>
            | _ \<Rightarrow> t)
      else t)"

end
