(* ===== verification/Collectives.thy ===== *)
theory Collectives
  imports Xccl "HOL-Library.Multiset"
begin

text \<open>
  The collective factory of \<open>src/src/torch_xccl.cpp\<close>:
  \<open>coll_args_init_with_stream\<close>, \<open>xccl_init_and_post\<close> and the six post
  functions (allgather, alltoall, alltoallv, allreduce, barrier, broadcast), with
  the lemmas on their error paths and on the \<open>size_t\<close> lengths they pass to
  XCCL. Each is a call on the process state
  \<open>xccl_sys\<close> that returns its outcome, or the exception it throws, with the
  state reached (\<open>ebind\<close> of the prelude sequences the statements). The results
  of \<open>xccl_collective_init\<close> and \<open>_post\<close> are parameters: XCCL chooses them.
\<close>

section \<open>State\<close>

text \<open>
  The state of one process: the collective communicator (\<open>super\<close> of
  \<open>torch_xccl_comm_t\<close>), the device, the XCCL team's handles, and
  \<open>p2p_comm->size\<close>.
\<close>

record xccl_sys =
  sys_comm :: coll_comm
  sys_dev :: dev_state
  sys_team :: xccl_team_state
  sys_size :: int

text \<open>
  \<open>torch_xccl_request_t\<close> (declared outside src/): the generic request, the XCCL
  handle, the status, and the scratch tensor of allgather as its rows and data
  pointer. \<open>new torch_xccl_request_t\<close> leaves the handle and the status
  indeterminate (\<open>None\<close>) and the scratch tensor undefined.
\<close>

record 'v xccl_request =
  xr_super :: "'v coll_request"
  xr_handle :: "nat option"
  xr_status :: "torch_ucc_status option"
  xr_flat :: "'v list list"
  xr_flat_ptr :: "nat option"

definition xr_new :: "'v coll_request \<Rightarrow> 'v xccl_request" where
  "xr_new r = \<lparr>xr_super = r, xr_handle = None, xr_status = None, xr_flat = [], xr_flat_ptr = None\<rparr>"

text \<open>\<open>torch_ucc_coll_request_init\<close> run on the process state (a crash stops the
  process, so the state it leaves is not observed).\<close>

definition request_init_m ::
  "coll_type \<Rightarrow> 'v tensor list option \<Rightarrow> 'v tensor list option \<Rightarrow> xccl_sys \<Rightarrow>
   (ucc_error + 'v xccl_request) \<times> xccl_sys" where
  "request_init_m ct srcp dstp s =
     (case torch_ucc_coll_request_init (sys_comm s) ct srcp dstp (sys_dev s) of
        Inl e \<Rightarrow> (Inl e, s)
      | Inr (c, r, d) \<Rightarrow> (Inr (xr_new r), s\<lparr>sys_comm := c, sys_dev := d\<rparr>))"

text \<open>\<open>newLikeFlat(tensors)\<close> (c10d, outside src/): an uninitialised tensor with one
  row per tensor, each of the first tensor's size; \<open>junk\<close> is its contents.\<close>

definition newLikeFlat :: "'v tensor list \<Rightarrow> 'v \<Rightarrow> 'v list list" where
  "newLikeFlat ts junk = replicate (length ts) (replicate (length (t_data (hd ts))) junk)"

text \<open>\<open>numel()\<close> of a tensor.\<close>

definition numel :: "'v tensor \<Rightarrow> nat" where
  "numel t = length (t_data t)"

text \<open>The byte lengths passed to XCCL (lines 440--441 and 479--480):
  \<open>element_size() * numel() * size\<close> and \<open>element_size() * numel() / size\<close>,
  computed in \<open>size_t\<close>: the \<open>int64_t\<close> element count and the \<open>int\<close>
  group size are converted to \<open>size_t\<close> first.\<close>

definition allgather_len :: "nat \<Rightarrow> nat \<Rightarrow> int \<Rightarrow> size_t" where
  "allgather_len es n sz = of_nat es * of_nat n * word_of_int sz"

definition alltoall_len :: "nat \<Rightarrow> nat \<Rightarrow> int \<Rightarrow> size_t" where
  "alltoall_len es n sz = of_nat es * of_nat n div word_of_int sz"

section \<open>Posting a collective\<close>

text \<open>Lines 378--389.\<close>

definition coll_args_init_with_stream ::
  "xccl_coll_op_args \<Rightarrow> 'v xccl_request \<Rightarrow> xccl_sys \<Rightarrow> (ucc_error + xccl_coll_op_args) \<times> xccl_sys" where
  "coll_args_init_with_stream a r s =
     (if \<not> is_cuda (req_device (xr_super r)) then (Inr a, s)
      else (case cc_stream (sys_comm s) of
              None \<Rightarrow> (Inl Null_Stream_Deref, s)
            | Some st \<Rightarrow> (Inr (a\<lparr>field_mask_stream := Some True, args_stream := Some st\<rparr>), s)))"

text \<open>Lines 391--419: init, post (finalizing the handle when post fails), mark the
  request in progress, and record its event on the communication stream unless the
  collective type waits blocking.\<close>

definition xccl_init_and_post ::
  "xccl_status \<Rightarrow> xccl_status \<Rightarrow> xccl_coll_op_args \<Rightarrow> 'v xccl_request \<Rightarrow> xccl_sys \<Rightarrow>
   (ucc_error + torch_ucc_status \<times> 'v xccl_request) \<times> xccl_sys" where
  "xccl_init_and_post ist pst a r s =
     (let (st, h, t) = xccl_collective_init ist a (sys_team s)
      in if st \<noteq> XCCL_OK then (Inr (TORCH_UCC_ERROR, r), s\<lparr>sys_team := t\<rparr>)
         else
           (let r1 = r\<lparr>xr_handle := h\<rparr>;
                (st2, t2, d2) = xccl_collective_post_dev pst (the h) t (sys_dev s)
            in if st2 \<noteq> XCCL_OK
               then (Inr (TORCH_UCC_ERROR, r1), s\<lparr>sys_team := xccl_collective_finalize (the h) t2\<rparr>)
               else
                 (let r2 = r1\<lparr>xr_status := Some TORCH_UCC_INPROGRESS\<rparr>;
                      s2 = s\<lparr>sys_team := t2, sys_dev := d2\<rparr>;
                      q = xr_super r2
                  in if is_cuda (req_device q) \<and> \<not> blocking_wait (cc_config (sys_comm s2)) (req_type q)
                     then (case cc_stream (sys_comm s2) of
                             None \<Rightarrow> (Inl Null_Stream_Deref, s2)
                           | Some cs \<Rightarrow>
                               (case event_record (req_event q) cs (sys_dev s2) of
                                  Inl e \<Rightarrow> (Inl e, s2)
                                | Inr d \<Rightarrow> (Inr (TORCH_UCC_OK, r2), s2\<lparr>sys_dev := d\<rparr>)))
                     else (Inr (TORCH_UCC_OK, r2), s2))))"

text \<open>The common tail of the post functions: on failure \<open>delete coll_req\<close>
  (its destructor returns the event to the pool) and report the error.\<close>

definition post_finish ::
  "xccl_status \<Rightarrow> xccl_status \<Rightarrow> xccl_coll_op_args \<Rightarrow> 'v xccl_request \<Rightarrow> xccl_sys \<Rightarrow>
   (ucc_error + torch_ucc_status \<times> 'v xccl_request option) \<times> xccl_sys" where
  "post_finish ist pst a r =
     ebind (xccl_init_and_post ist pst a r) (\<lambda>(st, r').
       if st \<noteq> TORCH_UCC_OK
       then ebind (emodify (\<lambda>s. s\<lparr>sys_comm := coll_request_destroy (sys_comm s) (xr_super r')\<rparr>))
              (\<lambda>_. ereturn (TORCH_UCC_ERROR, None))
       else ereturn (TORCH_UCC_OK, Some r'))"

text \<open>Lines 421--458: \<open>len\<close> is \<open>element_size * numel * size\<close> in
  \<open>size_t\<close> arithmetic; the destination is the scratch tensor.\<close>

definition torch_xccl_allgather ::
  "xccl_status \<Rightarrow> xccl_status \<Rightarrow> 'v tensor list \<Rightarrow> 'v tensor list \<Rightarrow> nat \<Rightarrow> 'v \<Rightarrow> xccl_sys \<Rightarrow>
   (ucc_error + torch_ucc_status \<times> 'v xccl_request option) \<times> xccl_sys" where
  "torch_xccl_allgather ist pst ins outs fptr junk =
     ebind (request_init_m TORCH_UCC_ALLGATHER (Some ins) (Some outs)) (\<lambda>r0.
     ebind (egets sys_size) (\<lambda>sz.
     (let r = r0\<lparr>xr_flat := newLikeFlat outs junk, xr_flat_ptr := Some fptr\<rparr>;
          t0 = hd ins;
          buf_len = allgather_len (element_size (t_scalar t0)) (numel t0) sz
      in ebind (map_at xccl_mtype_map (dev_type (t_device t0))) (\<lambda>mt.
         ebind (coll_args_init_with_stream
                  (coll_args_uninit\<lparr>field_mask_stream := Some False, args_coll_type := Some XCCL_ALLGATHER,
                     src_buffer := Some (t_ptr t0), src_mtype := Some mt, dst_buffer := Some fptr,
                     dst_mtype := Some mt, args_len := Some buf_len, set_by_user := Some False\<rparr>) r)
           (\<lambda>a. post_finish ist pst a r)))))"

text \<open>Lines 460--497: \<open>len\<close> is \<open>element_size * numel / size\<close>.\<close>

definition torch_xccl_alltoall ::
  "xccl_status \<Rightarrow> xccl_status \<Rightarrow> 'v tensor \<Rightarrow> 'v tensor \<Rightarrow> xccl_sys \<Rightarrow>
   (ucc_error + torch_ucc_status \<times> 'v xccl_request option) \<times> xccl_sys" where
  "torch_xccl_alltoall ist pst tin tout =
     ebind (request_init_m TORCH_UCC_ALLTOALL (Some [tin]) (Some [tout])) (\<lambda>r.
     ebind (egets sys_size) (\<lambda>sz.
     (let buf_len = alltoall_len (element_size (t_scalar tin)) (numel tin) sz
      in ebind (map_at xccl_mtype_map (dev_type (t_device tin))) (\<lambda>smt.
         ebind (map_at xccl_mtype_map (dev_type (t_device tout))) (\<lambda>dmt.
         ebind (coll_args_init_with_stream
                  (coll_args_uninit\<lparr>field_mask_stream := Some False, args_coll_type := Some XCCL_ALLTOALL,
                     src_buffer := Some (t_ptr tin), src_mtype := Some smt, dst_buffer := Some (t_ptr tout),
                     dst_mtype := Some dmt, args_len := Some buf_len, set_by_user := Some False\<rparr>) r)
           (\<lambda>a. post_finish ist pst a r))))))"

text \<open>Lines 499--546: counts and displacements are the caller's arrays.\<close>

definition torch_xccl_alltoallv ::
  "xccl_status \<Rightarrow> xccl_status \<Rightarrow> 'v tensor \<Rightarrow> nat \<Rightarrow> nat \<Rightarrow> 'v tensor \<Rightarrow> nat \<Rightarrow> nat \<Rightarrow> xccl_sys \<Rightarrow>
   (ucc_error + torch_ucc_status \<times> 'v xccl_request option) \<times> xccl_sys" where
  "torch_xccl_alltoallv ist pst tin slen soff tout rlen roff =
     ebind (request_init_m TORCH_UCC_ALLTOALLV (Some [tin]) (Some [tout])) (\<lambda>r.
     ebind (map_at xccl_type_map (t_scalar tin)) (\<lambda>sdt.
     ebind (map_at xccl_mtype_map (dev_type (t_device tin))) (\<lambda>smt.
     ebind (map_at xccl_type_map (t_scalar tout)) (\<lambda>ddt.
     ebind (map_at xccl_mtype_map (dev_type (t_device tout))) (\<lambda>dmt.
     ebind (coll_args_init_with_stream
              (coll_args_uninit\<lparr>field_mask_stream := Some False, args_coll_type := Some XCCL_ALLTOALLV,
                 src_buffer := Some (t_ptr tin), src_displacements := Some soff, src_counts := Some slen,
                 src_datatype := Some sdt, src_mtype := Some smt, dst_buffer := Some (t_ptr tout),
                 dst_displacements := Some roff, dst_counts := Some rlen, dst_datatype := Some ddt,
                 dst_mtype := Some dmt, set_by_user := Some False\<rparr>) r)
       (\<lambda>a. post_finish ist pst a r))))))"

text \<open>Lines 548--583: in place on the first tensor.\<close>

definition torch_xccl_allreduce ::
  "xccl_status \<Rightarrow> xccl_status \<Rightarrow> 'v tensor list \<Rightarrow> reduce_op \<Rightarrow> xccl_sys \<Rightarrow>
   (ucc_error + torch_ucc_status \<times> 'v xccl_request option) \<times> xccl_sys" where
  "torch_xccl_allreduce ist pst ts op =
     ebind (request_init_m TORCH_UCC_ALLREDUCE (Some ts) None) (\<lambda>r.
     (let t0 = hd ts
      in ebind (map_at xccl_mtype_map (dev_type (t_device t0))) (\<lambda>mt.
         ebind (map_at xccl_type_map (t_scalar t0)) (\<lambda>dt.
         ebind (map_at xccl_op_map op) (\<lambda>xop.
         ebind (coll_args_init_with_stream
                  (coll_args_uninit\<lparr>field_mask_stream := Some False, args_coll_type := Some XCCL_ALLREDUCE,
                     src_buffer := Some (t_ptr t0), src_mtype := Some mt, dst_buffer := Some (t_ptr t0),
                     dst_mtype := Some mt, args_len := Some (of_nat (numel t0) * of_nat (element_size (t_scalar t0))),
                     reduce_dt := Some dt, reduce_op_x := Some xop, reduce_count := Some (int (numel t0)),
                     set_by_user := Some False\<rparr>) r)
           (\<lambda>a. post_finish ist pst a r))))))"

text \<open>Lines 585--619: with \<open>gpu_barrier\<close> the barrier runs on the communication
  stream and records the request's event there before posting.\<close>

definition torch_xccl_barrier ::
  "xccl_status \<Rightarrow> xccl_status \<Rightarrow> xccl_sys \<Rightarrow>
   (ucc_error + torch_ucc_status \<times> 'v xccl_request option) \<times> xccl_sys" where
  "torch_xccl_barrier ist pst =
     ebind (request_init_m TORCH_UCC_BARRIER None None) (\<lambda>r s.
     (let a = coll_args_uninit\<lparr>field_mask_stream := Some False, args_coll_type := Some XCCL_BARRIER,
                set_by_user := Some False, src_mtype := Some UCS_MEMORY_TYPE_HOST\<rparr>
      in if gpu_barrier (cc_config (sys_comm s))
         then (case cc_stream (sys_comm s) of
                 None \<Rightarrow> (Inl Null_Stream_Deref, s)
               | Some cs \<Rightarrow>
                   (case event_record (req_event (xr_super r)) cs (sys_dev s) of
                      Inl e \<Rightarrow> (Inl e, s)
                    | Inr d \<Rightarrow> post_finish ist pst
                                (a\<lparr>src_mtype := Some UCS_MEMORY_TYPE_CUDA, field_mask_stream := Some True,
                                    args_stream := Some cs\<rparr>) r (s\<lparr>sys_dev := d\<rparr>)))
         else post_finish ist pst a r s))"

text \<open>Lines 621--654.\<close>

definition torch_xccl_broadcast ::
  "xccl_status \<Rightarrow> xccl_status \<Rightarrow> 'v tensor list \<Rightarrow> int \<Rightarrow> xccl_sys \<Rightarrow>
   (ucc_error + torch_ucc_status \<times> 'v xccl_request option) \<times> xccl_sys" where
  "torch_xccl_broadcast ist pst ts root =
     ebind (request_init_m TORCH_UCC_BCAST (Some ts) None) (\<lambda>r.
     (let t0 = hd ts
      in ebind (map_at xccl_mtype_map (dev_type (t_device t0))) (\<lambda>mt.
         ebind (coll_args_init_with_stream
                  (coll_args_uninit\<lparr>field_mask_stream := Some False, args_coll_type := Some XCCL_BCAST,
                     src_buffer := Some (t_ptr t0), src_mtype := Some mt, dst_buffer := Some (t_ptr t0),
                     dst_mtype := Some mt, args_len := Some (of_nat (numel t0) * of_nat (element_size (t_scalar t0))),
                     args_root := Some root, set_by_user := Some False\<rparr>) r)
           (\<lambda>a. post_finish ist pst a r))))"

section \<open>Error paths and lengths\<close>


text \<open>C12. With \<open>gpu_barrier\<close> configured, a barrier never reaches XCCL: it
  dereferences the null communication stream when none was created, and otherwise
  records the request's event, which a barrier request never has.\<close>

theorem barrier_gpu_crashes:
  assumes "gpu_barrier (cc_config (sys_comm s))"
  shows "fst (torch_xccl_barrier ist pst s) =
           Inl (if cc_stream (sys_comm s) = None then Null_Stream_Deref else Null_Event_Deref)"
  using assms
  by (auto simp: torch_xccl_barrier_def request_init_m_def torch_ucc_coll_request_init_def
                 request_init_barrier_def coll_request_new_def ebind_def xr_new_def event_record_def
           split: option.splits)

text \<open>C13. An allreduce on a CUDA tensor whose element type has no XCCL datatype
  throws from \<open>xccl_type_map.at\<close> after the request took an event from the pool;
  the request is never deleted, so the event is lost to the pool.\<close>

theorem allreduce_unsupported_type_leaks_event:
  assumes "ts \<noteq> []" "is_cuda (t_device (hd ts))" "xccl_type_map (t_scalar (hd ts)) = None"
    and "event_pool (sys_comm s) = Some e # pool"
  shows "\<exists>s'. torch_xccl_allreduce ist pst ts op s = (Inl Map_At_Missing_Key, s') \<and>
           event_pool (sys_comm s') = pool"
  using assms
  by (cases ts)
     (auto simp: torch_xccl_allreduce_def request_init_m_def torch_ucc_coll_request_init_def
        request_init_barrier_def request_init_src_def coll_request_new_def is_cuda_def
        event_pool_acquire_def event_record_def event_block_def map_at_def elift_def ebind_def Let_def)

text \<open>C14. When XCCL rejects an allreduce at init or post, the call reports an
  error, the request's event goes back to the pool (the pool holds the same events
  as before) and no live XCCL handle is left behind.\<close>

theorem allreduce_post_failure_returns_event:
  assumes "ts \<noteq> []" "is_cuda (t_device (hd ts))" "xccl_type_map (t_scalar (hd ts)) \<noteq> None"
    and "xccl_op_map op \<noteq> None" "event_pool (sys_comm s) = Some e # pool"
    and "ist \<noteq> XCCL_OK \<or> pst \<noteq> XCCL_OK"
  shows "\<exists>s'. torch_xccl_allreduce ist pst ts op s = (Inr (TORCH_UCC_ERROR, None), s') \<and>
           mset (event_pool (sys_comm s')) = mset (event_pool (sys_comm s)) \<and>
           (\<forall>x \<in> set (xccl_handles (sys_team s')). x \<in> set (xccl_handles (sys_team s)) \<or> (\<exists>a. x = XH_Finalized a))"
  using assms
  by (cases ts)
     (auto simp: torch_xccl_allreduce_def request_init_m_def torch_ucc_coll_request_init_def
        request_init_barrier_def request_init_src_def coll_request_new_def is_cuda_def
        event_pool_acquire_def event_record_def event_block_def map_at_def elift_def ebind_def Let_def
        coll_args_init_with_stream_def post_finish_def xccl_init_and_post_def xccl_collective_init_def
        xccl_collective_post_dev_def xccl_collective_post_def xccl_collective_finalize_def
        coll_request_destroy_def xr_new_def emodify_def
        split: option.splits)

lemma alltoall_len_unat:
  assumes "es * n < 2 ^ 64" "0 < sz" "sz < 2 ^ 63"
  shows "unat (alltoall_len es n sz) = es * n div nat sz \<and> unat (alltoall_len es n sz) * nat sz \<le> es * n"
proof -
  have "unat (word_of_nat (nat sz) :: size_t) = nat sz"
    using assms(2,3) unfolding unat_of_nat by simp
  then have sz: "unat (word_of_int sz :: size_t) = nat sz"
    using assms(2) by simp
  have "unat (word_of_nat (es * n) :: size_t) = es * n"
    using assms(1) unfolding unat_of_nat by simp
  then have p: "unat (of_nat es * of_nat n :: size_t) = es * n"
    by simp
  have "unat (alltoall_len es n sz) = es * n div nat sz"
    by (simp add: alltoall_len_def unat_div sz p)
  then show ?thesis using div_times_less_eq_dividend [of "es * n" "nat sz"] by simp
qed

lemma allgather_len_unat:
  assumes "0 \<le> sz" "sz < 2 ^ 63"
  shows "unat (allgather_len es n sz) = (es * n * nat sz) mod 2 ^ 64"
proof -
  have e: "allgather_len es n sz = word_of_nat (es * n * nat sz)"
    using assms(1) by (simp add: allgather_len_def)
  show ?thesis by (simp only: e unat_of_nat) simp
qed

lemma barrier_gpu_crashes_witness:
  "(fst (torch_xccl_barrier XCCL_OK XCCL_OK (\<lparr>sys_comm = \<lparr>cc_stream = Some (Pool_Stream 0 False), event_pool = [Some 0], cc_config = \<lparr>blocking_wait = (\<lambda>_. False), gpu_barrier = True, high_priority_stream = False, serialize = False\<rparr>\<rparr>,
         sys_dev = \<lparr>dev_log = [], next_event = 1\<rparr>, sys_team = \<lparr>xccl_handles = []\<rparr>, sys_size = 2\<rparr>)) :: ucc_error + torch_ucc_status \<times> int xccl_request option)
     = Inl Null_Event_Deref"
  using barrier_gpu_crashes [of "\<lparr>sys_comm = \<lparr>cc_stream = Some (Pool_Stream 0 False), event_pool = [Some 0], cc_config = \<lparr>blocking_wait = (\<lambda>_. False), gpu_barrier = True, high_priority_stream = False, serialize = False\<rparr>\<rparr>,
         sys_dev = \<lparr>dev_log = [], next_event = 1\<rparr>, sys_team = \<lparr>xccl_handles = []\<rparr>, sys_size = 2\<rparr>" XCCL_OK XCCL_OK] by simp

lemma allreduce_unsupported_type_leaks_event_witness:
  "\<exists>s'. torch_xccl_allreduce XCCL_OK XCCL_OK [\<lparr>t_device = \<lparr>dev_type = kCUDA, dev_index = 0\<rparr>, t_scalar = kBool, t_ptr = 100, t_data = [1 :: int, 2]\<rparr>] ReduceOp_SUM (\<lparr>sys_comm = \<lparr>cc_stream = Some (Pool_Stream 0 False), event_pool = [Some 0], cc_config = \<lparr>blocking_wait = (\<lambda>_. False), gpu_barrier = False, high_priority_stream = False, serialize = False\<rparr>\<rparr>,
         sys_dev = \<lparr>dev_log = [], next_event = 1\<rparr>, sys_team = \<lparr>xccl_handles = []\<rparr>, sys_size = 2\<rparr>)
     = (Inl Map_At_Missing_Key, s') \<and> event_pool (sys_comm s') = []"
  by (rule allreduce_unsupported_type_leaks_event) (simp_all add: is_cuda_def)

lemma allreduce_post_failure_returns_event_witness:
  "\<exists>s'. torch_xccl_allreduce XCCL_OK (XCCL_ERR (-1)) [\<lparr>t_device = \<lparr>dev_type = kCUDA, dev_index = 0\<rparr>, t_scalar = kFloat, t_ptr = 100, t_data = [1 :: int, 2]\<rparr>] ReduceOp_SUM (\<lparr>sys_comm = \<lparr>cc_stream = Some (Pool_Stream 0 False), event_pool = [Some 0], cc_config = \<lparr>blocking_wait = (\<lambda>_. False), gpu_barrier = False, high_priority_stream = False, serialize = False\<rparr>\<rparr>,
         sys_dev = \<lparr>dev_log = [], next_event = 1\<rparr>, sys_team = \<lparr>xccl_handles = []\<rparr>, sys_size = 2\<rparr>)
     = (Inr (TORCH_UCC_ERROR, None), s') \<and>
     mset (event_pool (sys_comm s')) = mset (event_pool (sys_comm (\<lparr>sys_comm = \<lparr>cc_stream = Some (Pool_Stream 0 False), event_pool = [Some 0], cc_config = \<lparr>blocking_wait = (\<lambda>_. False), gpu_barrier = False, high_priority_stream = False, serialize = False\<rparr>\<rparr>,
         sys_dev = \<lparr>dev_log = [], next_event = 1\<rparr>, sys_team = \<lparr>xccl_handles = []\<rparr>, sys_size = 2\<rparr>))) \<and>
     (\<forall>x \<in> set (xccl_handles (sys_team s')). x \<in> set (xccl_handles (sys_team (\<lparr>sys_comm = \<lparr>cc_stream = Some (Pool_Stream 0 False), event_pool = [Some 0], cc_config = \<lparr>blocking_wait = (\<lambda>_. False), gpu_barrier = False, high_priority_stream = False, serialize = False\<rparr>\<rparr>,
         sys_dev = \<lparr>dev_log = [], next_event = 1\<rparr>, sys_team = \<lparr>xccl_handles = []\<rparr>, sys_size = 2\<rparr>))) \<or> (\<exists>a. x = XH_Finalized a))"
  by (rule allreduce_post_failure_returns_event) (simp_all add: is_cuda_def)

end
