(* ===== verification/Request.thy ===== *)
theory Request
  imports Collectives
begin

text \<open>
  The request state machine of \<open>src/src/torch_xccl.cpp\<close> (lines 656--701):
  \<open>torch_xccl_progress\<close> tests the XCCL handle and, when it has finished,
  copies the allgather scratch rows into the caller's tensors and finalizes the
  handle; \<open>torch_xccl_test\<close> reads the status; \<open>torch_xccl_fence\<close> makes
  the caller's stream wait for the request's event; \<open>torch_xccl_free\<close> deletes
  the request. A driver runs these calls interleaved with the transport completing
  the collective.
\<close>

section \<open>Operations\<close>

text \<open>\<open>output_vec[i].copy_(src)\<close>: copying a row of another size throws.\<close>

definition tensor_copy :: "'v tensor \<Rightarrow> 'v list \<Rightarrow> ucc_error + 'v tensor" where
  "tensor_copy t d =
     (if length (t_data t) = length d then Inr (t\<lparr>t_data := d\<rparr>) else Inl Copy_Shape_Mismatch)"

text \<open>Lines 670--673: \<open>for (int i = 0; i < comm_size; ++i)\<close> the copy of row
  \<open>i\<close> of the scratch tensor into output \<open>i\<close>.\<close>

function unflatten_from :: "nat \<Rightarrow> nat \<Rightarrow> 'v tensor list \<Rightarrow> 'v list list \<Rightarrow> ucc_error + 'v tensor list" where
  "unflatten_from i n outs flat =
     (if i < n
      then (if i < length outs \<and> i < length flat
            then (case tensor_copy (outs ! i) (flat ! i) of
                    Inl e \<Rightarrow> Inl e
                  | Inr t \<Rightarrow> unflatten_from (Suc i) n (outs[i := t]) flat)
            else Inl Index_Out_Of_Range)
      else Inr outs)"
  by pat_completeness auto
termination by (relation "measure (\<lambda>(i, n, _, _). n - i)") auto

text \<open>Lines 656--679.\<close>

definition torch_xccl_progress ::
  "'v xccl_request \<Rightarrow> xccl_sys \<Rightarrow> (ucc_error + torch_ucc_status \<times> 'v xccl_request) \<times> xccl_sys" where
  "torch_xccl_progress r s =
     (case xr_handle r of
        None \<Rightarrow> (Inl Handle_Use_After_Finalize, s)
      | Some h \<Rightarrow>
          (case xccl_collective_test h (sys_team s) of
             Inl e \<Rightarrow> (Inl e, s)
           | Inr st \<Rightarrow>
               (if st = XCCL_INPROGRESS then (Inr (TORCH_UCC_OK, r), s)
                else if st \<noteq> XCCL_OK then (Inr (TORCH_UCC_ERROR, r\<lparr>xr_status := Some TORCH_UCC_ERROR\<rparr>), s)
                else
                  (case (if req_type (xr_super r) = TORCH_UCC_ALLGATHER
                         then unflatten_from 0 (nat (sys_size s)) (req_dst (xr_super r)) (xr_flat r)
                         else Inr (req_dst (xr_super r))) of
                     Inl e \<Rightarrow> (Inl e, s)
                   | Inr outs \<Rightarrow>
                       (Inr (TORCH_UCC_OK, r\<lparr>xr_super := (xr_super r)\<lparr>req_dst := outs\<rparr>,
                                             xr_status := Some TORCH_UCC_OK\<rparr>),
                        s\<lparr>sys_team := xccl_collective_finalize h (sys_team s)\<rparr>)))))"

text \<open>Lines 681--684: the status field (\<open>None\<close> while indeterminate).\<close>

definition torch_xccl_test :: "'v xccl_request \<Rightarrow> torch_ucc_status option" where
  "torch_xccl_test r = xr_status r"

text \<open>Lines 686--695: while in progress, the caller's current stream of the
  request's device waits for the request's event.\<close>

definition torch_xccl_fence ::
  "'v xccl_request \<Rightarrow> xccl_sys \<Rightarrow> (ucc_error + torch_ucc_status) \<times> xccl_sys" where
  "torch_xccl_fence r s =
     (if xr_status r = Some TORCH_UCC_INPROGRESS
      then (case event_block (req_event (xr_super r)) (Current_Stream (dev_index (req_device (xr_super r))))
                   (sys_dev s) of
              Inl e \<Rightarrow> (Inl e, s)
            | Inr d \<Rightarrow> (Inr TORCH_UCC_OK, s\<lparr>sys_dev := d\<rparr>))
      else (Inr TORCH_UCC_OK, s))"

text \<open>Lines 697--701: \<open>delete req\<close> runs the destructor of the generic request.\<close>

definition torch_xccl_free :: "'v xccl_request \<Rightarrow> xccl_sys \<Rightarrow> torch_ucc_status \<times> xccl_sys" where
  "torch_xccl_free r s = (TORCH_UCC_OK, s\<lparr>sys_comm := coll_request_destroy (sys_comm s) (xr_super r)\<rparr>)"

text \<open>The posting entries of the operation table \<open>xccl_coll_ops\<close> (lines
  703--714), one constructor per post function with its arguments.\<close>

datatype 'v post_call =
    Call_Allgather "'v tensor list" "'v tensor list" nat 'v
  | Call_Alltoall "'v tensor" "'v tensor"
  | Call_Alltoallv "'v tensor" nat nat "'v tensor" nat nat
  | Call_Allreduce "'v tensor list" reduce_op
  | Call_Barrier
  | Call_Broadcast "'v tensor list" int

fun torch_xccl_post ::
  "xccl_status \<Rightarrow> xccl_status \<Rightarrow> 'v post_call \<Rightarrow> xccl_sys \<Rightarrow>
   (ucc_error + torch_ucc_status \<times> 'v xccl_request option) \<times> xccl_sys" where
  "torch_xccl_post ist pst (Call_Allgather ins outs fp junk) = torch_xccl_allgather ist pst ins outs fp junk"
| "torch_xccl_post ist pst (Call_Alltoall tin tout) = torch_xccl_alltoall ist pst tin tout"
| "torch_xccl_post ist pst (Call_Alltoallv tin sl so tout rl ro) = torch_xccl_alltoallv ist pst tin sl so tout rl ro"
| "torch_xccl_post ist pst (Call_Allreduce ts op) = torch_xccl_allreduce ist pst ts op"
| "torch_xccl_post ist pst Call_Barrier = torch_xccl_barrier ist pst"
| "torch_xccl_post ist pst (Call_Broadcast ts root) = torch_xccl_broadcast ist pst ts root"

section \<open>The request's life\<close>

text \<open>
  \<open>xr_inv\<close> ties a request's status to its XCCL handle: in progress while the
  handle is posted, failed when the transport reported an error for it, completed
  once it is finalized. \<open>req_step\<close> is one step of a run seen from one request:
  a progress or fence call on it, the transport completing any handle, another
  collective creating a handle, or another request finalizing its own.
\<close>

fun handle_matches :: "torch_ucc_status \<Rightarrow> xccl_handle \<Rightarrow> bool" where
  "handle_matches TORCH_UCC_INPROGRESS (XH_Posted _ _) = True"
| "handle_matches TORCH_UCC_ERROR (XH_Posted _ (XCCL_ERR _)) = True"
| "handle_matches TORCH_UCC_OK (XH_Finalized _) = True"
| "handle_matches _ _ = False"

definition xr_inv :: "'v xccl_request \<Rightarrow> xccl_team_state \<Rightarrow> bool" where
  "xr_inv r t =
     (case (xr_status r, xr_handle r) of
        (Some st, Some h) \<Rightarrow> h < length (xccl_handles t) \<and> handle_matches st (xccl_handles t ! h)
      | _ \<Rightarrow> False)"

inductive req_step :: "'v xccl_request \<times> xccl_sys \<Rightarrow> 'v xccl_request \<times> xccl_sys \<Rightarrow> bool" where
  progress: "torch_xccl_progress r s = (Inr (st, r'), s') \<Longrightarrow> req_step (r, s) (r', s')"
| fence: "torch_xccl_fence r s = (Inr st, s') \<Longrightarrow> req_step (r, s) (r, s')"
| complete: "req_step (r, s) (r, s\<lparr>sys_team := xccl_complete h st (sys_team s)\<rparr>)"
| new_handle: "req_step (r, s) (r, s\<lparr>sys_team := (sys_team s)\<lparr>xccl_handles := xccl_handles (sys_team s) @ [x]\<rparr>\<rparr>)"
| other_finalize: "xr_handle r \<noteq> Some h \<Longrightarrow>
                   req_step (r, s) (r, s\<lparr>sys_team := xccl_collective_finalize h (sys_team s)\<rparr>)"

text \<open>A post call that, when it reports success, returns a request in progress
  whose invariant holds.\<close>

definition yields_inprogress ::
  "(xccl_sys \<Rightarrow> (ucc_error + torch_ucc_status \<times> 'v xccl_request option) \<times> xccl_sys) \<Rightarrow> bool" where
  "yields_inprogress m \<longleftrightarrow>
     (\<forall>s r s'. m s = (Inr (TORCH_UCC_OK, Some r), s') \<longrightarrow>
        xr_status r = Some TORCH_UCC_INPROGRESS \<and> xr_inv r (sys_team s'))"

section \<open>Lemmas\<close>

lemma unflatten_from_Inr:
  assumes "n \<le> length outs" "n \<le> length flat"
    and "\<forall>k. i \<le> k \<and> k < n \<longrightarrow> length (t_data (outs ! k)) = length (flat ! k)"
  shows "\<exists>outs'. unflatten_from i n outs flat = Inr outs' \<and> length outs' = length outs \<and>
           (\<forall>k < length outs. outs' ! k = (if i \<le> k \<and> k < n then (outs ! k)\<lparr>t_data := flat ! k\<rparr> else outs ! k))"
  using assms
proof (induction i n outs flat rule: unflatten_from.induct)
  case (1 i n outs flat)
  show ?case
  proof (cases "i < n")
    case True
    let ?t = "(outs ! i)\<lparr>t_data := flat ! i\<rparr>"
    have cp: "tensor_copy (outs ! i) (flat ! i) = Inr ?t"
      using "1.prems"(3) True by (simp add: tensor_copy_def)
    have ih: "\<exists>outs'. unflatten_from (Suc i) n (outs[i := ?t]) flat = Inr outs' \<and>
               length outs' = length (outs[i := ?t]) \<and>
               (\<forall>k < length (outs[i := ?t]). outs' ! k =
                  (if Suc i \<le> k \<and> k < n then ((outs[i := ?t]) ! k)\<lparr>t_data := flat ! k\<rparr> else (outs[i := ?t]) ! k))"
      using "1.IH" [OF True _ cp] True "1.prems" by (simp add: nth_list_update)
    then obtain outs' where u: "unflatten_from (Suc i) n (outs[i := ?t]) flat = Inr outs'"
      and l: "length outs' = length outs"
      and nth: "\<forall>k < length outs. outs' ! k =
                  (if Suc i \<le> k \<and> k < n then ((outs[i := ?t]) ! k)\<lparr>t_data := flat ! k\<rparr> else (outs[i := ?t]) ! k)"
      by auto
    have step: "unflatten_from i n outs flat = unflatten_from (Suc i) n (outs[i := ?t]) flat"
      using True "1.prems"(1,2) cp by (subst unflatten_from.simps) simp
    show ?thesis
    proof (intro exI conjI allI impI)
      show "unflatten_from i n outs flat = Inr outs'" using step u by simp
      show "length outs' = length outs" by (rule l)
    next
      fix k assume k: "k < length outs"
      then show "outs' ! k = (if i \<le> k \<and> k < n then (outs ! k)\<lparr>t_data := flat ! k\<rparr> else outs ! k)"
        using nth True by (cases "k = i") (auto simp: nth_list_update)
    qed
  next
    case False
    then show ?thesis by (subst unflatten_from.simps) auto
  qed
qed


lemma xr_invE:
  assumes "xr_inv r t"
  obtains st h where "xr_status r = Some st" "xr_handle r = Some h" "h < length (xccl_handles t)"
    "handle_matches st (xccl_handles t ! h)"
  using assms by (auto simp: xr_inv_def split: option.splits)

lemma xr_invI:
  "xr_status r = Some st \<Longrightarrow> xr_handle r = Some h \<Longrightarrow> h < length (xccl_handles t) \<Longrightarrow>
   handle_matches st (xccl_handles t ! h) \<Longrightarrow> xr_inv r t"
  by (simp add: xr_inv_def)

lemma progress_test_Inl:
  "xr_handle r = Some h \<Longrightarrow> xccl_collective_test h (sys_team s) = Inl e \<Longrightarrow>
   torch_xccl_progress r s = (Inl e, s)"
  by (simp add: torch_xccl_progress_def)

lemma progress_test_inprogress:
  "xr_handle r = Some h \<Longrightarrow> xccl_collective_test h (sys_team s) = Inr XCCL_INPROGRESS \<Longrightarrow>
   torch_xccl_progress r s = (Inr (TORCH_UCC_OK, r), s)"
  by (simp add: torch_xccl_progress_def)

lemma progress_test_err:
  "xr_handle r = Some h \<Longrightarrow> xccl_collective_test h (sys_team s) = Inr (XCCL_ERR e) \<Longrightarrow>
   torch_xccl_progress r s = (Inr (TORCH_UCC_ERROR, r\<lparr>xr_status := Some TORCH_UCC_ERROR\<rparr>), s)"
  by (simp add: torch_xccl_progress_def)

lemma progress_test_ok:
  "xr_handle r = Some h \<Longrightarrow> xccl_collective_test h (sys_team s) = Inr XCCL_OK \<Longrightarrow>
   torch_xccl_progress r s = (Inr (st, r'), s') \<Longrightarrow>
   xr_status r' = Some TORCH_UCC_OK \<and> xr_handle r' = Some h \<and>
   s' = s\<lparr>sys_team := xccl_collective_finalize h (sys_team s)\<rparr>"
  by (simp add: torch_xccl_progress_def split: sum.splits) auto

lemma length_finalize [simp]:
  "length (xccl_handles (xccl_collective_finalize h t)) = length (xccl_handles t)"
  by (simp add: xccl_collective_finalize_def)

lemma nth_finalize:
  "k < length (xccl_handles t) \<Longrightarrow> xccl_handles (xccl_collective_finalize h t) ! k =
     (if k = h then XH_Finalized (handle_args (xccl_handles t ! h)) else xccl_handles t ! k)"
  by (simp add: xccl_collective_finalize_def nth_list_update)

lemma progress_preserves_inv:
  assumes inv: "xr_inv r (sys_team s)"
    and pr: "torch_xccl_progress r s = (Inr (st, r'), s')"
  shows "xr_inv r' (sys_team s') \<and> xr_handle r' = xr_handle r \<and>
         (xr_status r \<noteq> Some TORCH_UCC_INPROGRESS \<longrightarrow> xr_status r' = xr_status r)"
proof -
  obtain stt h where st: "xr_status r = Some stt" and h: "xr_handle r = Some h"
    and hl: "h < length (xccl_handles (sys_team s))"
    and m: "handle_matches stt (xccl_handles (sys_team s) ! h)"
    using inv by (rule xr_invE)
  show ?thesis
  proof (cases "xccl_handles (sys_team s) ! h")
    case (XH_Initialized a)
    then show ?thesis using m by (cases stt) simp_all
  next
    case (XH_Finalized a)
    then have "xccl_collective_test h (sys_team s) = Inl Handle_Use_After_Finalize"
      using hl by (simp add: xccl_collective_test_def)
    then show ?thesis using pr progress_test_Inl [OF h] by simp
  next
    case (XH_Posted a xs)
    then have test: "xccl_collective_test h (sys_team s) = Inr xs"
      using hl by (simp add: xccl_collective_test_def)
    show ?thesis
    proof (cases xs)
      case XCCL_INPROGRESS
      then show ?thesis using pr progress_test_inprogress [OF h] test inv by simp
    next
      case (XCCL_ERR e)
      then have "r' = r\<lparr>xr_status := Some TORCH_UCC_ERROR\<rparr>" "s' = s"
        using pr progress_test_err [OF h] test by simp_all
      moreover have "stt \<noteq> TORCH_UCC_OK" using m XH_Posted by (cases stt) simp_all
      ultimately show ?thesis
        using h hl XH_Posted XCCL_ERR st by (cases stt) (auto intro: xr_invI)
    next
      case XCCL_OK
      then have "stt = TORCH_UCC_INPROGRESS"
        using m XH_Posted by (cases stt) simp_all
      moreover have "xr_status r' = Some TORCH_UCC_OK \<and> xr_handle r' = Some h \<and>
                     s' = s\<lparr>sys_team := xccl_collective_finalize h (sys_team s)\<rparr>"
        using progress_test_ok [OF h _ pr] test XCCL_OK by simp
      ultimately show ?thesis
        using h hl st by (auto intro!: xr_invI simp: nth_finalize)
    qed
  qed
qed

lemma fence_team:
  "torch_xccl_fence r s = (x, s') \<Longrightarrow> sys_team s' = sys_team s"
  unfolding torch_xccl_fence_def event_block_def
  by (cases "req_event (xr_super r)") (auto split: if_splits)

lemma length_complete [simp]:
  "length (xccl_handles (xccl_complete h st t)) = length (xccl_handles t)"
  by (auto simp: xccl_complete_def split: xccl_handle.splits xccl_status.splits)

lemma complete_nth:
  assumes "k < length (xccl_handles t)"
  shows "xccl_handles (xccl_complete h st t) ! k =
           (if k = h \<and> st \<noteq> XCCL_INPROGRESS \<and> (\<exists>a. xccl_handles t ! k = XH_Posted a XCCL_INPROGRESS)
            then XH_Posted (handle_args (xccl_handles t ! k)) st else xccl_handles t ! k)"
proof (cases "k = h \<and> st \<noteq> XCCL_INPROGRESS")
  case True
  then show ?thesis using assms
    by (cases "xccl_handles t ! h" rule: handle_args.cases)
       (auto simp: xccl_complete_def split: xccl_status.split)
next
  case False
  then show ?thesis using assms
    by (auto simp: xccl_complete_def nth_list_update split: xccl_handle.split xccl_status.split)
qed

lemma complete_matches:
  assumes "k < length (xccl_handles t)" "handle_matches st' (xccl_handles t ! k)"
  shows "handle_matches st' (xccl_handles (xccl_complete h st t) ! k)"
  using assms by (cases st') (auto simp: complete_nth)

lemma req_step_inv:
  assumes "req_step x y" "xr_inv (fst x) (sys_team (snd x))"
  shows "xr_inv (fst y) (sys_team (snd y)) \<and>
         (xr_status (fst x) \<noteq> Some TORCH_UCC_INPROGRESS \<longrightarrow> xr_status (fst y) = xr_status (fst x))"
  using assms(1)
proof (cases rule: req_step.cases)
  case (progress r s st r' s')
  then show ?thesis using progress_preserves_inv [of r s st r' s'] assms(2) by simp
next
  case (fence r s st s')
  then show ?thesis using fence_team [of r s "Inr st" s'] assms(2) by (simp add: xr_inv_def)
next
  case (complete r s h st)
  then show ?thesis using assms(2) by (auto elim!: xr_invE intro!: xr_invI complete_matches)
next
  case (new_handle r s x)
  then show ?thesis using assms(2) by (auto elim!: xr_invE intro!: xr_invI simp: nth_append)
next
  case (other_finalize r h s)
  then show ?thesis using assms(2) by (auto elim!: xr_invE intro!: xr_invI simp: nth_finalize)
qed

lemma req_steps_inv:
  assumes "req_step\<^sup>*\<^sup>* x y" "xr_inv (fst x) (sys_team (snd x))"
  shows "xr_inv (fst y) (sys_team (snd y)) \<and>
         (xr_status (fst x) \<noteq> Some TORCH_UCC_INPROGRESS \<longrightarrow> xr_status (fst y) = xr_status (fst x))"
  using assms
proof (induction rule: rtranclp_induct)
  case base
  then show ?case by simp
next
  case (step y z)
  then show ?case using req_step_inv [of y z] by auto
qed

lemma yields_inprogress_ebind:
  "(\<And>a. yields_inprogress (f a)) \<Longrightarrow> yields_inprogress (ebind m f)"
  unfolding yields_inprogress_def ebind_def
  by (auto split: prod.splits sum.splits)

text \<open>A successful init and post: the request gets the new handle, posted and in
  progress.\<close>

lemma init_and_post_ok_shape:
  assumes "xccl_init_and_post ist pst a r s = (Inr (TORCH_UCC_OK, r'), s')"
  shows "r' = r\<lparr>xr_handle := Some (length (xccl_handles (sys_team s))), xr_status := Some TORCH_UCC_INPROGRESS\<rparr> \<and>
         sys_team s' = (sys_team s)\<lparr>xccl_handles := xccl_handles (sys_team s) @ [XH_Posted a XCCL_INPROGRESS]\<rparr>"
proof -
  have ist: "ist = XCCL_OK" and pst: "pst = XCCL_OK"
    using assms
    by (auto simp: xccl_init_and_post_def xccl_collective_init_def xccl_collective_post_def xccl_collective_post_dev_def
                   Let_def split: if_splits)
  then show ?thesis
    using assms
    by (auto simp: xccl_init_and_post_def xccl_collective_init_def xccl_collective_post_def xccl_collective_post_dev_def
                   Let_def event_record_def split: if_splits option.splits sum.splits)
qed

lemma init_and_post_ok:
  assumes "xccl_init_and_post ist pst a r s = (Inr (TORCH_UCC_OK, r'), s')"
  shows "xr_status r' = Some TORCH_UCC_INPROGRESS \<and> xr_inv r' (sys_team s')"
  using init_and_post_ok_shape [OF assms] by (simp add: xr_inv_def)

lemma post_finish_inprogress: "yields_inprogress (post_finish ist pst a r)"
  unfolding yields_inprogress_def post_finish_def ebind_def
  by (auto dest: init_and_post_ok simp: emodify_def split: prod.splits sum.splits if_splits)

lemma post_finish_okD:
  "post_finish ist pst a r s = (Inr (TORCH_UCC_OK, Some r'), s') \<Longrightarrow>
   xr_status r' = Some TORCH_UCC_INPROGRESS \<and> xr_inv r' (sys_team s')"
  using post_finish_inprogress unfolding yields_inprogress_def by blast

lemma barrier_inprogress: "yields_inprogress (torch_xccl_barrier ist pst)"
  unfolding torch_xccl_barrier_def Let_def
  by (intro yields_inprogress_ebind)
     (auto simp: yields_inprogress_def dest: post_finish_okD split: option.splits sum.splits)

lemma post_inprogress_all: "yields_inprogress (torch_xccl_post ist pst c)"
proof (cases c)
  case Call_Barrier
  then show ?thesis by (simp add: barrier_inprogress)
qed (simp_all add: torch_xccl_allgather_def torch_xccl_alltoall_def torch_xccl_alltoallv_def
       torch_xccl_allreduce_def torch_xccl_broadcast_def Let_def yields_inprogress_ebind
       post_finish_inprogress)

lemma progress_final_non_allgather:
  assumes h: "xr_handle r = Some h" "h < length (xccl_handles (sys_team s))"
    and hp: "xccl_handles (sys_team s) ! h = XH_Posted a xs" "xs \<noteq> XCCL_INPROGRESS"
    and ty: "req_type (xr_super r) \<noteq> TORCH_UCC_ALLGATHER"
  shows "\<exists>st r' s'. torch_xccl_progress r s = (Inr (st, r'), s') \<and>
           torch_xccl_test r' \<in> {Some TORCH_UCC_OK, Some TORCH_UCC_ERROR}"
proof -
  have test: "xccl_collective_test h (sys_team s) = Inr xs"
    using h hp by (simp add: xccl_collective_test_def)
  show ?thesis
  proof (cases xs)
    case (XCCL_ERR e)
    then show ?thesis using progress_test_err [OF h(1)] test by (simp add: torch_xccl_test_def)
  qed (use hp test h ty in \<open>simp_all add: torch_xccl_progress_def torch_xccl_test_def\<close>)
qed

text \<open>C5. Request status is monotone: along any run of progress and fence calls
  interleaved with the transport completing collectives and with other requests'
  handles being created and finalized, a request whose status is terminal keeps it.\<close>

theorem request_status_monotone:
  assumes "req_step\<^sup>*\<^sup>* (r, s) (r', s')" "xr_inv r (sys_team s)"
    and "torch_xccl_test r \<in> {Some TORCH_UCC_OK, Some TORCH_UCC_ERROR}"
  shows "torch_xccl_test r' = torch_xccl_test r \<and> xr_inv r' (sys_team s')"
  using req_steps_inv [OF assms(1)] assms(2,3) by (auto simp: torch_xccl_test_def)

text \<open>C6. A successful post of any collective returns a request whose status reads
  in progress and whose XCCL handle is posted, before any progress call.\<close>

theorem post_then_test_inprogress:
  assumes "torch_xccl_post ist pst c s = (Inr (TORCH_UCC_OK, Some r), s')"
  shows "torch_xccl_test r = Some TORCH_UCC_INPROGRESS \<and> xr_inv r (sys_team s')"
  using post_inprogress_all [of ist pst c] assms
  unfolding yields_inprogress_def torch_xccl_test_def by blast

text \<open>C7. When the transport reports an allgather complete, one progress call copies
  row \<open>k\<close> of the scratch tensor into output \<open>k\<close> for every rank \<open>k\<close>,
  leaves the other outputs alone, reports completion and finalizes the handle.\<close>

theorem progress_allgather_unflatten:
  assumes h: "xr_handle r = Some h" "h < length (xccl_handles (sys_team s))"
    and hp: "xccl_handles (sys_team s) ! h = XH_Posted a XCCL_OK"
    and ty: "req_type (xr_super r) = TORCH_UCC_ALLGATHER"
    and len: "nat (sys_size s) \<le> length (req_dst (xr_super r))" "nat (sys_size s) \<le> length (xr_flat r)"
    and rows: "\<forall>k < nat (sys_size s). length (t_data (req_dst (xr_super r) ! k)) = length (xr_flat r ! k)"
  shows "\<exists>r' s'. torch_xccl_progress r s = (Inr (TORCH_UCC_OK, r'), s') \<and>
           torch_xccl_test r' = Some TORCH_UCC_OK \<and>
           length (req_dst (xr_super r')) = length (req_dst (xr_super r)) \<and>
           (\<forall>k < length (req_dst (xr_super r)).
              req_dst (xr_super r') ! k =
                (if k < nat (sys_size s) then (req_dst (xr_super r) ! k)\<lparr>t_data := xr_flat r ! k\<rparr>
                 else req_dst (xr_super r) ! k)) \<and>
           xccl_handles (sys_team s') ! h = XH_Finalized a"
proof -
  obtain outs' where u: "unflatten_from 0 (nat (sys_size s)) (req_dst (xr_super r)) (xr_flat r) = Inr outs'"
    and l: "length outs' = length (req_dst (xr_super r))"
    and nth: "\<forall>k < length (req_dst (xr_super r)). outs' ! k =
               (if 0 \<le> k \<and> k < nat (sys_size s) then (req_dst (xr_super r) ! k)\<lparr>t_data := xr_flat r ! k\<rparr>
                else req_dst (xr_super r) ! k)"
    using unflatten_from_Inr [OF len] rows by blast
  have test: "xccl_collective_test h (sys_team s) = Inr XCCL_OK"
    using h hp by (simp add: xccl_collective_test_def)
  show ?thesis
    using u l nth test h hp ty
    by (simp add: torch_xccl_progress_def torch_xccl_test_def nth_finalize)
qed

text \<open>C8. Every request in flight can be driven to a terminal status: the transport
  completes its collective and one progress call observes it (allgather, whose
  completion also needs the scratch rows to fit the outputs, is covered by C7).\<close>

theorem request_reaches_terminal:
  assumes inv: "xr_inv r (sys_team s)" and ip: "torch_xccl_test r = Some TORCH_UCC_INPROGRESS"
    and ty: "req_type (xr_super r) \<noteq> TORCH_UCC_ALLGATHER"
  shows "\<exists>r' s'. req_step\<^sup>*\<^sup>* (r, s) (r', s') \<and>
           torch_xccl_test r' \<in> {Some TORCH_UCC_OK, Some TORCH_UCC_ERROR}"
proof -
  obtain h where h: "xr_handle r = Some h" "h < length (xccl_handles (sys_team s))"
    and m: "handle_matches TORCH_UCC_INPROGRESS (xccl_handles (sys_team s) ! h)"
    using inv ip by (auto elim: xr_invE simp: torch_xccl_test_def)
  then obtain a xs where hp: "xccl_handles (sys_team s) ! h = XH_Posted a xs"
    by (cases "xccl_handles (sys_team s) ! h") simp_all
  let ?s1 = "s\<lparr>sys_team := xccl_complete h (if xs = XCCL_INPROGRESS then XCCL_OK else xs) (sys_team s)\<rparr>"
  have s1: "req_step (r, s) (r, ?s1)" by (rule req_step.complete)
  have hp1: "xccl_handles (sys_team ?s1) ! h = XH_Posted a (if xs = XCCL_INPROGRESS then XCCL_OK else xs)"
    using h hp by (auto simp: complete_nth)
  have ne: "(if xs = XCCL_INPROGRESS then XCCL_OK else xs) \<noteq> XCCL_INPROGRESS" by simp
  have hl1: "h < length (xccl_handles (sys_team ?s1))" using h by simp
  obtain st r' s' where pr: "torch_xccl_progress r ?s1 = (Inr (st, r'), s')"
    and fin: "torch_xccl_test r' \<in> {Some TORCH_UCC_OK, Some TORCH_UCC_ERROR}"
    using progress_final_non_allgather [OF h(1) hl1 hp1 ne ty] by blast
  have "req_step\<^sup>*\<^sup>* (r, s) (r', s')"
    using s1 req_step.progress [OF pr] by simp
  then show ?thesis using fin by blast
qed

text \<open>C9. Polling a request that already completed tests its finalized XCCL handle:
  the code has no guard, so the call is a use after finalize.\<close>

theorem progress_after_completion:
  assumes "xr_inv r (sys_team s)" "torch_xccl_test r = Some TORCH_UCC_OK"
  shows "torch_xccl_progress r s = (Inl Handle_Use_After_Finalize, s)"
proof -
  obtain h where h: "xr_handle r = Some h" "h < length (xccl_handles (sys_team s))"
    and m: "handle_matches TORCH_UCC_OK (xccl_handles (sys_team s) ! h)"
    using assms by (auto elim: xr_invE simp: torch_xccl_test_def)
  then have "xccl_collective_test h (sys_team s) = Inl Handle_Use_After_Finalize"
    by (cases "xccl_handles (sys_team s) ! h") (simp_all add: xccl_collective_test_def)
  then show ?thesis by (rule progress_test_Inl [OF h(1)])
qed

lemma request_status_monotone_witness:
  "torch_xccl_test (\<lparr>xr_super = coll_request_new TORCH_UCC_BCAST, xr_handle = Some 0,
      xr_status = Some TORCH_UCC_ERROR, xr_flat = [], xr_flat_ptr = None\<rparr> :: int xccl_request)
   = Some TORCH_UCC_ERROR"
proof -
  let ?r = "\<lparr>xr_super = coll_request_new TORCH_UCC_BCAST, xr_handle = Some 0,
      xr_status = Some TORCH_UCC_ERROR, xr_flat = [], xr_flat_ptr = None\<rparr> :: int xccl_request"
  let ?s = "(\<lparr>sys_comm = \<lparr>cc_stream = None, event_pool = [], cc_config = \<lparr>blocking_wait = (\<lambda>_. False), gpu_barrier = False, high_priority_stream = False, serialize = False\<rparr>\<rparr>,
      sys_dev = \<lparr>dev_log = [], next_event = 0\<rparr>, sys_team = \<lparr>xccl_handles = [XH_Posted coll_args_uninit (XCCL_ERR (-1))]\<rparr>, sys_size = 2\<rparr>)"
  have inv: "xr_inv ?r (sys_team ?s)" by (simp add: xr_inv_def)
  have pr: "torch_xccl_progress ?r ?s = (Inr (TORCH_UCC_ERROR, ?r), ?s)"
    by (simp add: torch_xccl_progress_def xccl_collective_test_def)
  have run: "req_step\<^sup>*\<^sup>* (?r, ?s) (?r, ?s)"
    using req_step.progress [OF pr] by simp
  show ?thesis
    using request_status_monotone [OF run inv] by (simp add: torch_xccl_test_def)
qed

lemma post_then_test_inprogress_witness:
  "\<exists>r s'. torch_xccl_post XCCL_OK XCCL_OK
            (Call_Allreduce [\<lparr>t_device = \<lparr>dev_type = kCUDA, dev_index = 0\<rparr>, t_scalar = kFloat,
                             t_ptr = 100, t_data = [1 :: int, 2]\<rparr>] ReduceOp_SUM) (\<lparr>sys_comm = \<lparr>cc_stream = None, event_pool = [], cc_config = \<lparr>blocking_wait = (\<lambda>_. False), gpu_barrier = False, high_priority_stream = False, serialize = False\<rparr>\<rparr>,
      sys_dev = \<lparr>dev_log = [], next_event = 0\<rparr>, sys_team = \<lparr>xccl_handles = []\<rparr>, sys_size = 2\<rparr>)
          = (Inr (TORCH_UCC_OK, Some r), s') \<and> torch_xccl_test r = Some TORCH_UCC_INPROGRESS"
proof -
  have "\<exists>r s'. torch_xccl_post XCCL_OK XCCL_OK
            (Call_Allreduce [\<lparr>t_device = \<lparr>dev_type = kCUDA, dev_index = 0\<rparr>, t_scalar = kFloat,
                             t_ptr = 100, t_data = [1 :: int, 2]\<rparr>] ReduceOp_SUM) (\<lparr>sys_comm = \<lparr>cc_stream = None, event_pool = [], cc_config = \<lparr>blocking_wait = (\<lambda>_. False), gpu_barrier = False, high_priority_stream = False, serialize = False\<rparr>\<rparr>,
      sys_dev = \<lparr>dev_log = [], next_event = 0\<rparr>, sys_team = \<lparr>xccl_handles = []\<rparr>, sys_size = 2\<rparr>)
          = (Inr (TORCH_UCC_OK, Some r), s')"
    by (simp add: torch_xccl_allreduce_def request_init_m_def torch_ucc_coll_request_init_def
          request_init_barrier_def request_init_src_def coll_request_new_def is_cuda_def
          event_pool_acquire_def event_record_def event_block_def map_at_def elift_def
          coll_args_init_with_stream_def post_finish_def xccl_init_and_post_def
          xccl_collective_init_def xccl_collective_post_def xccl_collective_post_dev_def xr_new_def Let_def ebind_def)
  then obtain r s' where eq: "torch_xccl_post XCCL_OK XCCL_OK
            (Call_Allreduce [\<lparr>t_device = \<lparr>dev_type = kCUDA, dev_index = 0\<rparr>, t_scalar = kFloat,
                             t_ptr = 100, t_data = [1 :: int, 2]\<rparr>] ReduceOp_SUM) (\<lparr>sys_comm = \<lparr>cc_stream = None, event_pool = [], cc_config = \<lparr>blocking_wait = (\<lambda>_. False), gpu_barrier = False, high_priority_stream = False, serialize = False\<rparr>\<rparr>,
      sys_dev = \<lparr>dev_log = [], next_event = 0\<rparr>, sys_team = \<lparr>xccl_handles = []\<rparr>, sys_size = 2\<rparr>)
          = (Inr (TORCH_UCC_OK, Some r), s')" by blast
  show ?thesis using eq post_then_test_inprogress [OF eq] by blast
qed

lemma progress_allgather_unflatten_witness:
  "\<exists>r' s'. torch_xccl_progress
      (\<lparr>xr_super = (coll_request_new TORCH_UCC_ALLGATHER)\<lparr>req_dst :=
          [\<lparr>t_device = cpu_device, t_scalar = kInt, t_ptr = 10, t_data = [0]\<rparr>,
           \<lparr>t_device = cpu_device, t_scalar = kInt, t_ptr = 20, t_data = [0]\<rparr>]\<rparr>,
        xr_handle = Some 0, xr_status = Some TORCH_UCC_INPROGRESS, xr_flat = [[5], [6 :: int]],
        xr_flat_ptr = Some 30\<rparr>) (\<lparr>sys_comm = \<lparr>cc_stream = None, event_pool = [], cc_config = \<lparr>blocking_wait = (\<lambda>_. False), gpu_barrier = False, high_priority_stream = False, serialize = False\<rparr>\<rparr>,
      sys_dev = \<lparr>dev_log = [], next_event = 0\<rparr>, sys_team = \<lparr>xccl_handles = [XH_Posted coll_args_uninit XCCL_OK]\<rparr>, sys_size = 2\<rparr>)
    = (Inr (TORCH_UCC_OK, r'), s') \<and> map t_data (req_dst (xr_super r')) = [[5], [6]]"
proof -
  let ?R = "(\<lparr>xr_super = (coll_request_new TORCH_UCC_ALLGATHER)\<lparr>req_dst :=
          [\<lparr>t_device = cpu_device, t_scalar = kInt, t_ptr = 10, t_data = [0]\<rparr>,
           \<lparr>t_device = cpu_device, t_scalar = kInt, t_ptr = 20, t_data = [0]\<rparr>]\<rparr>,
        xr_handle = Some 0, xr_status = Some TORCH_UCC_INPROGRESS, xr_flat = [[5], [6 :: int]],
        xr_flat_ptr = Some 30\<rparr>)"
  let ?S = "(\<lparr>sys_comm = \<lparr>cc_stream = None, event_pool = [], cc_config = \<lparr>blocking_wait = (\<lambda>_. False), gpu_barrier = False, high_priority_stream = False, serialize = False\<rparr>\<rparr>,
      sys_dev = \<lparr>dev_log = [], next_event = 0\<rparr>, sys_team = \<lparr>xccl_handles = [XH_Posted coll_args_uninit XCCL_OK]\<rparr>, sys_size = 2\<rparr>)"
  have "\<exists>r' s'. torch_xccl_progress ?R ?S = (Inr (TORCH_UCC_OK, r'), s') \<and>
           torch_xccl_test r' = Some TORCH_UCC_OK \<and>
           length (req_dst (xr_super r')) = length (req_dst (xr_super ?R)) \<and>
           (\<forall>k < length (req_dst (xr_super ?R)).
              req_dst (xr_super r') ! k =
                (if k < nat (sys_size ?S) then (req_dst (xr_super ?R) ! k)\<lparr>t_data := xr_flat ?R ! k\<rparr>
                 else req_dst (xr_super ?R) ! k)) \<and>
           xccl_handles (sys_team s') ! 0 = XH_Finalized coll_args_uninit"
    by (rule progress_allgather_unflatten) (simp_all add: coll_request_new_def less_2_cases_iff)
  then obtain r' s' where pr: "torch_xccl_progress ?R ?S = (Inr (TORCH_UCC_OK, r'), s')"
    and l: "length (req_dst (xr_super r')) = 2"
    and d: "\<forall>k < 2. t_data (req_dst (xr_super r') ! k) = [[5], [6 :: int]] ! k"
    by (auto simp: coll_request_new_def)
  have m: "map t_data (req_dst (xr_super r')) = [[5], [6]]"
    using l d by (simp add: list_eq_iff_nth_eq less_2_cases_iff)
  show ?thesis by (rule exI, rule exI, rule conjI [OF pr m])
qed

lemma request_reaches_terminal_witness:
  "\<exists>r' s'. req_step\<^sup>*\<^sup>* (\<lparr>xr_super = coll_request_new TORCH_UCC_BCAST, xr_handle = Some 0,
      xr_status = Some TORCH_UCC_INPROGRESS, xr_flat = [], xr_flat_ptr = None\<rparr> :: int xccl_request, (\<lparr>sys_comm = \<lparr>cc_stream = None, event_pool = [], cc_config = \<lparr>blocking_wait = (\<lambda>_. False), gpu_barrier = False, high_priority_stream = False, serialize = False\<rparr>\<rparr>,
      sys_dev = \<lparr>dev_log = [], next_event = 0\<rparr>, sys_team = \<lparr>xccl_handles = [XH_Posted coll_args_uninit XCCL_INPROGRESS]\<rparr>, sys_size = 2\<rparr>))
      (r', s') \<and> torch_xccl_test r' \<in> {Some TORCH_UCC_OK, Some TORCH_UCC_ERROR}"
  by (rule request_reaches_terminal)
     (simp_all add: xr_inv_def torch_xccl_test_def coll_request_new_def)

lemma progress_after_completion_witness:
  "torch_xccl_progress (\<lparr>xr_super = coll_request_new TORCH_UCC_BCAST, xr_handle = Some 0,
      xr_status = Some TORCH_UCC_OK, xr_flat = [], xr_flat_ptr = None\<rparr> :: int xccl_request) (\<lparr>sys_comm = \<lparr>cc_stream = None, event_pool = [], cc_config = \<lparr>blocking_wait = (\<lambda>_. False), gpu_barrier = False, high_priority_stream = False, serialize = False\<rparr>\<rparr>,
      sys_dev = \<lparr>dev_log = [], next_event = 0\<rparr>, sys_team = \<lparr>xccl_handles = [XH_Finalized coll_args_uninit]\<rparr>, sys_size = 2\<rparr>)
   = (Inl Handle_Use_After_Finalize, (\<lparr>sys_comm = \<lparr>cc_stream = None, event_pool = [], cc_config = \<lparr>blocking_wait = (\<lambda>_. False), gpu_barrier = False, high_priority_stream = False, serialize = False\<rparr>\<rparr>,
      sys_dev = \<lparr>dev_log = [], next_event = 0\<rparr>, sys_team = \<lparr>xccl_handles = [XH_Finalized coll_args_uninit]\<rparr>, sys_size = 2\<rparr>))"
  by (rule progress_after_completion) (simp_all add: xr_inv_def torch_xccl_test_def)

end
