(* ===== verification/Sync.thy ===== *)
theory Sync
  imports Request
begin

text \<open>
  The ordering contract of the device layer across components: a post
  (\<open>torch_ucc_coll_request_init\<close> then \<open>xccl_init_and_post\<close>) makes the
  collective's device work wait for what the caller had enqueued on its current
  stream, and \<open>torch_xccl_fence\<close> makes what the caller enqueues afterwards wait
  for the collective. The lemmas decompose every successful post other than barrier
  into its request initialisation and its common tail \<open>post_finish\<close>, and
  compute the device operations each part appends.
\<close>

text \<open>\<open>posts_via ist pst q K\<close>: the rest \<open>K\<close> of a post function, after
  \<open>torch_ucc_coll_request_init\<close> produced the generic request \<open>q\<close>, succeeds
  only through \<open>post_finish\<close> with a descriptor that names the communication
  stream when \<open>q\<close> is on a CUDA device.\<close>

definition posts_via ::
  "xccl_status \<Rightarrow> xccl_status \<Rightarrow> 'v coll_request \<Rightarrow>
   (xccl_sys \<Rightarrow> (ucc_error + torch_ucc_status \<times> 'v xccl_request option) \<times> xccl_sys) \<Rightarrow> bool" where
  "posts_via ist pst q K \<longleftrightarrow>
     (\<forall>s r' s'. K s = (Inr (TORCH_UCC_OK, Some r'), s') \<longrightarrow>
        (\<exists>a r. xr_super r = q \<and>
           (is_cuda (req_device q) \<longrightarrow> field_mask_stream a = Some True \<and> args_stream a = cc_stream (sys_comm s)) \<and>
           post_finish ist pst a r s = (Inr (TORCH_UCC_OK, Some r'), s')))"

section \<open>Lemmas\<close>

lemma dev_hb_append:
  "dev_hb L i j \<Longrightarrow> dev_hb (L @ M) i j"
proof (induction rule: dev_hb.induct)
  case (stream_order i j)
  then show ?case by (intro dev_hb.stream_order) (simp_all add: nth_append)
next
  case (event_wait i e s j t)
  then show ?case by (intro dev_hb.event_wait [of _ i e s j t]) (simp_all add: nth_append)
next
  case (trans i j k)
  then show ?case by (blast intro: dev_hb.trans)
qed

lemma dev_hb_wait_last:
  assumes "L ! q = Ev_Record e s" "q < length L" "\<forall>k. q < k \<and> k < length L \<longrightarrow> \<not> records e (L ! k)"
  shows "dev_hb (L @ [Ev_Block e t] @ M) q (length L)"
  using assms by (intro dev_hb.event_wait [of _ q e s _ t]) (auto simp: nth_append)

lemma dev_hb_same_stream:
  "i < j \<Longrightarrow> j < length L \<Longrightarrow> op_stream (L ! i) = op_stream (L ! j) \<Longrightarrow> dev_hb L i j"
  by (rule dev_hb.stream_order)

text \<open>Record on one stream, block on another: work before the record on the first
  stream runs before work after the block on the second.\<close>

lemma dev_hb_record_block:
  assumes rec: "L ! q = Ev_Record e s" "q < length L"
    and last: "\<forall>k. q < k \<and> k < length L \<longrightarrow> \<not> records e (L ! k)"
    and i: "i \<le> q" "op_stream (L ! i) = s"
    and p: "length L < p" "p < length (L @ [Ev_Block e t] @ M)" "op_stream ((L @ [Ev_Block e t] @ M) ! p) = t"
  shows "dev_hb (L @ [Ev_Block e t] @ M) i p"
proof -
  let ?L = "L @ [Ev_Block e t] @ M"
  have qb: "dev_hb ?L q (length L)" by (rule dev_hb_wait_last [OF rec last])
  have bp: "dev_hb ?L (length L) p"
    using p by (intro dev_hb.stream_order) (auto simp: nth_append)
  have qp: "dev_hb ?L q p" by (rule dev_hb.trans [OF qb bp])
  show ?thesis
  proof (cases "i = q")
    case True
    then show ?thesis using qp by simp
  next
    case False
    then have "dev_hb ?L i q"
      using i rec by (intro dev_hb.stream_order) (auto simp: nth_append)
    then show ?thesis using qp by (rule dev_hb.trans)
  qed
qed

lemma request_init_src_cuda:
  assumes "request_init_src c ts r d = Inr (c', r', d')" "is_cuda (req_device r')"
  shows "\<exists>e cs. dev_log d' = dev_log d @ [Ev_Record e (Current_Stream (dev_index (req_device r'))), Ev_Block e cs]
           \<and> cc_stream c' = Some cs \<and> req_event r' = Some e \<and> req_device r' = t_device (hd ts)
           \<and> cc_config c' = cc_config c"
  using assms
  by (auto simp: request_init_src_def event_pool_acquire_def event_record_def event_block_def Let_def
           split: list.splits if_splits option.splits prod.splits)

lemma posts_via_map_at:
  "(\<And>v. posts_via ist pst q (f v)) \<Longrightarrow> posts_via ist pst q (ebind (map_at m k) f)"
  by (auto simp: posts_via_def ebind_def map_at_def elift_def split: option.splits)

lemma posts_via_egets:
  "(\<And>v. posts_via ist pst q (f v)) \<Longrightarrow> posts_via ist pst q (ebind (egets g) f)"
  by (simp add: posts_via_def)

lemma posts_via_args:
  assumes q: "xr_super r = q"
  shows "posts_via ist pst q (ebind (coll_args_init_with_stream a r) (\<lambda>a'. post_finish ist pst a' r))"
  unfolding posts_via_def
proof (intro allI impI)
  fix s r' s'
  assume ok: "ebind (coll_args_init_with_stream a r) (\<lambda>a'. post_finish ist pst a' r) s =
              (Inr (TORCH_UCC_OK, Some r'), s')"
  show "\<exists>a r''. xr_super r'' = q \<and>
          (is_cuda (req_device q) \<longrightarrow> field_mask_stream a = Some True \<and> args_stream a = cc_stream (sys_comm s)) \<and>
          post_finish ist pst a r'' s = (Inr (TORCH_UCC_OK, Some r'), s')"
  proof (cases "is_cuda (req_device q)")
    case True
    then obtain cs where cs: "cc_stream (sys_comm s) = Some cs"
      using ok q by (cases "cc_stream (sys_comm s)") (simp_all add: ebind_def coll_args_init_with_stream_def)
    then show ?thesis
      using ok q True
      by (intro exI [of _ "a\<lparr>field_mask_stream := Some True, args_stream := Some cs\<rparr>"] exI [of _ r])
         (simp add: ebind_def coll_args_init_with_stream_def)
  next
    case False
    then show ?thesis
      using ok q by (intro exI [of _ a] exI [of _ r]) (simp add: ebind_def coll_args_init_with_stream_def)
  qed
qed

lemma post_decomp:
  assumes M: "M = ebind (request_init_m ct srcp dstp) K"
    and K: "\<And>r. posts_via ist pst (xr_super r) (K r)"
    and ok: "M s = (Inr (TORCH_UCC_OK, Some r'), s')"
  shows "\<exists>c1 q d1 a r. torch_ucc_coll_request_init (sys_comm s) ct srcp dstp (sys_dev s) = Inr (c1, q, d1) \<and>
           xr_super r = q \<and>
           (is_cuda (req_device q) \<longrightarrow> field_mask_stream a = Some True \<and> args_stream a = cc_stream c1) \<and>
           post_finish ist pst a r (s\<lparr>sys_comm := c1, sys_dev := d1\<rparr>) = (Inr (TORCH_UCC_OK, Some r'), s')"
proof (cases "torch_ucc_coll_request_init (sys_comm s) ct srcp dstp (sys_dev s)")
  case (Inl e)
  then show ?thesis using ok by (simp add: M ebind_def request_init_m_def)
next
  case (Inr x)
  then obtain c1 q d1 where x: "x = (c1, q, d1)" by (cases x) auto
  then have "K (xr_new q) (s\<lparr>sys_comm := c1, sys_dev := d1\<rparr>) = (Inr (TORCH_UCC_OK, Some r'), s')"
    using ok Inr by (simp add: M ebind_def request_init_m_def)
  then show ?thesis
    using K [of "xr_new q"] Inr x unfolding posts_via_def by (fastforce simp: xr_new_def)
qed

lemma post_decomp_all:
  assumes ok: "torch_xccl_post ist pst c s = (Inr (TORCH_UCC_OK, Some r'), s')" and nb: "c \<noteq> Call_Barrier"
  shows "\<exists>ct ts dstp c1 q d1 a r. torch_ucc_coll_request_init (sys_comm s) ct (Some ts) dstp (sys_dev s) = Inr (c1, q, d1) \<and>
           xr_super r = q \<and>
           (is_cuda (req_device q) \<longrightarrow> field_mask_stream a = Some True \<and> args_stream a = cc_stream c1) \<and>
           post_finish ist pst a r (s\<lparr>sys_comm := c1, sys_dev := d1\<rparr>) = (Inr (TORCH_UCC_OK, Some r'), s')"
proof (cases c)
  case (Call_Allgather ins outs fp junk)
  show ?thesis
    by (rule exI, rule exI, rule exI, rule post_decomp [OF torch_xccl_allgather_def])
       (use ok Call_Allgather in \<open>simp_all add: Let_def posts_via_egets posts_via_map_at posts_via_args\<close>)
next
  case (Call_Alltoall tin tout)
  show ?thesis
    by (rule exI, rule exI, rule exI, rule post_decomp [OF torch_xccl_alltoall_def])
       (use ok Call_Alltoall in \<open>simp_all add: Let_def posts_via_egets posts_via_map_at posts_via_args\<close>)
next
  case (Call_Alltoallv tin sl so tout rl ro)
  show ?thesis
    by (rule exI, rule exI, rule exI, rule post_decomp [OF torch_xccl_alltoallv_def])
       (use ok Call_Alltoallv in \<open>simp_all add: Let_def posts_via_egets posts_via_map_at posts_via_args\<close>)
next
  case (Call_Allreduce ts op)
  show ?thesis
    by (rule exI, rule exI, rule exI, rule post_decomp [OF torch_xccl_allreduce_def])
       (use ok Call_Allreduce in \<open>simp_all add: Let_def posts_via_egets posts_via_map_at posts_via_args\<close>)
next
  case (Call_Broadcast ts root)
  show ?thesis
    by (rule exI, rule exI, rule exI, rule post_decomp [OF torch_xccl_broadcast_def])
       (use ok Call_Broadcast in \<open>simp_all add: Let_def posts_via_egets posts_via_map_at posts_via_args\<close>)
qed (use nb in simp)

lemma init_and_post_ok_dev:
  assumes "xccl_init_and_post ist pst a r s = (Inr (TORCH_UCC_OK, r'), s')"
  shows "xr_super r' = xr_super r \<and> sys_comm s' = sys_comm s \<and>
         dev_log (sys_dev s') = dev_log (sys_dev s) @
           (if field_mask_stream a = Some True
            then (case args_stream a of None \<Rightarrow> [] | Some cs \<Rightarrow> [Kernel cs ''xccl_collective'']) else []) @
           (if is_cuda (req_device (xr_super r)) \<and> \<not> blocking_wait (cc_config (sys_comm s)) (req_type (xr_super r))
            then [Ev_Record (the (req_event (xr_super r))) (the (cc_stream (sys_comm s)))] else [])"
proof -
  let ?t = "sys_team s"
  let ?h = "length (xccl_handles ?t)"
  have ist: "ist = XCCL_OK" and pst: "pst = XCCL_OK"
    using assms
    by (auto simp: xccl_init_and_post_def xccl_collective_init_def xccl_collective_post_dev_def
                   xccl_collective_post_def Let_def split: if_splits)
  let ?d2 = "if field_mask_stream a = Some True
             then (case args_stream a of None \<Rightarrow> sys_dev s
                   | Some cs \<Rightarrow> (sys_dev s)\<lparr>dev_log := dev_log (sys_dev s) @ [Kernel cs ''xccl_collective'']\<rparr>)
             else sys_dev s"
  have pd: "xccl_collective_post_dev pst ?h (?t\<lparr>xccl_handles := xccl_handles ?t @ [XH_Initialized a]\<rparr>) (sys_dev s)
            = (XCCL_OK, ?t\<lparr>xccl_handles := xccl_handles ?t @ [XH_Posted a XCCL_INPROGRESS]\<rparr>, ?d2)"
    using pst by (simp add: xccl_collective_post_dev_def xccl_collective_post_def)
  show ?thesis
    using assms pd ist
    by (auto simp: xccl_init_and_post_def xccl_collective_init_def Let_def event_record_def
             split: if_splits option.splits sum.splits)
qed

lemma post_finish_ok_dev:
  assumes "post_finish ist pst a r s = (Inr (TORCH_UCC_OK, Some r'), s')"
  shows "xr_super r' = xr_super r \<and> sys_comm s' = sys_comm s \<and>
         dev_log (sys_dev s') = dev_log (sys_dev s) @
           (if field_mask_stream a = Some True
            then (case args_stream a of None \<Rightarrow> [] | Some cs \<Rightarrow> [Kernel cs ''xccl_collective'']) else []) @
           (if is_cuda (req_device (xr_super r)) \<and> \<not> blocking_wait (cc_config (sys_comm s)) (req_type (xr_super r))
            then [Ev_Record (the (req_event (xr_super r))) (the (cc_stream (sys_comm s)))] else [])"
proof -
  obtain x s1 where ip: "xccl_init_and_post ist pst a r s = (x, s1)" by fastforce
  show ?thesis
  proof (cases x)
    case (Inl e)
    then show ?thesis using assms ip by (simp add: post_finish_def ebind_def)
  next
    case (Inr y)
    obtain st r1 where y: "y = (st, r1)" by fastforce
    have "st = TORCH_UCC_OK \<and> r' = r1 \<and> s' = s1"
      using assms ip Inr y by (simp add: post_finish_def ebind_def emodify_def split: if_splits)
    then show ?thesis using init_and_post_ok_dev [of ist pst a r s r1 s1] ip Inr y by simp
  qed
qed

lemma request_init_cuda:
  fixes q :: "'v coll_request"
  assumes "torch_ucc_coll_request_init c ct (Some ts) dstp d = Inr (c1, q, d1)" "is_cuda (req_device q)"
  shows "\<exists>e cs. dev_log d1 = dev_log d @ [Ev_Record e (Current_Stream (dev_index (req_device q))), Ev_Block e cs]
           \<and> cc_stream c1 = Some cs \<and> req_event q = Some e \<and> cc_config c1 = cc_config c \<and> req_type q = ct"
proof -
  have "\<exists>r0 :: 'v coll_request. request_init_barrier c ct (coll_request_new ct) = Inr r0"
    using assms(1) by (auto simp: torch_ucc_coll_request_init_def split: sum.split_asm)
  then obtain r0 :: "'v coll_request" where b: "request_init_barrier c ct (coll_request_new ct) = Inr r0"
    by blast
  have ty: "req_type r0 = ct"
    using b by (auto simp: request_init_barrier_def coll_request_new_def split: if_splits option.splits)
  obtain q' where src: "request_init_src c ts r0 d = Inr (c1, q', d1)"
    and q: "req_device q = req_device q' \<and> req_event q = req_event q' \<and> req_type q = req_type q'"
    using assms(1) b
    by (cases "request_init_src c ts r0 d")
       (auto simp: torch_ucc_coll_request_init_def request_init_dst_def
             split: option.splits sum.splits list.splits prod.splits)
  have "req_type q' = req_type r0"
    using src by (auto simp: request_init_src_def event_pool_acquire_def event_record_def event_block_def
                   Let_def split: list.splits if_splits option.splits prod.splits)
  then show ?thesis
    using request_init_src_cuda [OF src] q assms(2) ty by auto
qed

lemma post_cuda_log:
  assumes ok: "torch_xccl_post ist pst c s = (Inr (TORCH_UCC_OK, Some r), s')"
    and nb: "c \<noteq> Call_Barrier" and cuda: "is_cuda (req_device (xr_super r))"
  shows "\<exists>e cs. dev_log (sys_dev s') =
           (dev_log (sys_dev s) @ [Ev_Record e (Current_Stream (dev_index (req_device (xr_super r))))]) @
           [Ev_Block e cs] @ ([Kernel cs ''xccl_collective''] @
           (if blocking_wait (cc_config (sys_comm s)) (req_type (xr_super r)) then [] else [Ev_Record e cs]))
           \<and> cc_stream (sys_comm s') = Some cs \<and> req_event (xr_super r) = Some e"
proof -
  obtain ct ts dstp c1 q d1 a r0 where init: "torch_ucc_coll_request_init (sys_comm s) ct (Some ts) dstp (sys_dev s) = Inr (c1, q, d1)"
    and q: "xr_super r0 = q"
    and a: "is_cuda (req_device q) \<longrightarrow> field_mask_stream a = Some True \<and> args_stream a = cc_stream c1"
    and pf: "post_finish ist pst a r0 (s\<lparr>sys_comm := c1, sys_dev := d1\<rparr>) = (Inr (TORCH_UCC_OK, Some r), s')"
    using post_decomp_all [OF ok nb] by blast
  note eff = post_finish_ok_dev [OF pf]
  have qr: "xr_super r = q" using eff q by simp
  obtain e cs where log1: "dev_log d1 = dev_log (sys_dev s) @ [Ev_Record e (Current_Stream (dev_index (req_device q))), Ev_Block e cs]"
    and cs: "cc_stream c1 = Some cs" and ev: "req_event q = Some e" and cfg: "cc_config c1 = cc_config (sys_comm s)"
    using request_init_cuda [OF init] cuda qr by blast
  show ?thesis
    by (rule exI [of _ e], rule exI [of _ cs]) (use eff log1 a cuda qr cs q ev cfg in simp)
qed

text \<open>C10. A post orders the caller's earlier work: every operation the caller had
  enqueued on its current stream runs on the device before the collective's work.\<close>

theorem post_orders_caller_work:
  assumes ok: "torch_xccl_post ist pst c s = (Inr (TORCH_UCC_OK, Some r), s')"
    and nb: "c \<noteq> Call_Barrier" and cuda: "is_cuda (req_device (xr_super r))"
    and i: "i < length (dev_log (sys_dev s))"
      "op_stream (dev_log (sys_dev s) ! i) = Current_Stream (dev_index (req_device (xr_super r)))"
  shows "\<exists>k cs. k < length (dev_log (sys_dev s')) \<and> dev_log (sys_dev s') ! k = Kernel cs ''xccl_collective'' \<and>
           cc_stream (sys_comm s') = Some cs \<and> dev_hb (dev_log (sys_dev s')) i k"
proof -
  obtain e cs where log: "dev_log (sys_dev s') =
           (dev_log (sys_dev s) @ [Ev_Record e (Current_Stream (dev_index (req_device (xr_super r))))]) @
           [Ev_Block e cs] @ ([Kernel cs ''xccl_collective''] @
           (if blocking_wait (cc_config (sys_comm s)) (req_type (xr_super r)) then [] else [Ev_Record e cs]))"
    and cs: "cc_stream (sys_comm s') = Some cs"
    using post_cuda_log [OF ok nb cuda] by blast
  let ?L = "dev_log (sys_dev s)"
  have hb: "dev_hb (dev_log (sys_dev s')) i (Suc (Suc (length ?L)))"
    unfolding log
    by (rule dev_hb_record_block [of _ "length ?L" e "Current_Stream (dev_index (req_device (xr_super r)))"])
       (use i in \<open>auto simp: nth_append\<close>)
  show ?thesis
    by (rule exI [of _ "Suc (Suc (length ?L))"], rule exI [of _ cs])
       (use log hb cs in \<open>simp add: nth_append\<close>)
qed

text \<open>C11. A fence orders the caller's later work: after a non-blocking CUDA post,
  a fence makes every operation the caller enqueues afterwards on its current stream
  run on the device after the collective's work.\<close>

theorem fence_orders_collective:
  assumes ok: "torch_xccl_post ist pst c s = (Inr (TORCH_UCC_OK, Some r), s1)"
    and nb: "c \<noteq> Call_Barrier" and cuda: "is_cuda (req_device (xr_super r))"
    and nbw: "\<not> blocking_wait (cc_config (sys_comm s)) (req_type (xr_super r))"
    and fe: "torch_xccl_fence r s1 = (Inr st, s2)"
  shows "\<exists>k cs. k < length (dev_log (sys_dev s1)) \<and> dev_log (sys_dev s1) ! k = Kernel cs ''xccl_collective'' \<and>
           (\<forall>M p. length (dev_log (sys_dev s2)) \<le> p \<longrightarrow> p < length (dev_log (sys_dev s2) @ M) \<longrightarrow>
              op_stream ((dev_log (sys_dev s2) @ M) ! p) = Current_Stream (dev_index (req_device (xr_super r))) \<longrightarrow>
              dev_hb (dev_log (sys_dev s2) @ M) k p)"
proof -
  let ?cur = "Current_Stream (dev_index (req_device (xr_super r)))"
  obtain e cs where log: "dev_log (sys_dev s1) =
           dev_log (sys_dev s) @ [Ev_Record e ?cur, Ev_Block e cs, Kernel cs ''xccl_collective'', Ev_Record e cs]"
    and ev: "req_event (xr_super r) = Some e"
    using post_cuda_log [OF ok nb cuda] nbw by auto
  have ip: "xr_status r = Some TORCH_UCC_INPROGRESS"
    using post_inprogress_all [of ist pst c] ok unfolding yields_inprogress_def by blast
  have log2: "dev_log (sys_dev s2) = dev_log (sys_dev s1) @ [Ev_Block e ?cur]"
    using fe ip ev by (auto simp: torch_xccl_fence_def event_block_def)
  let ?L = "dev_log (sys_dev s1)"
  let ?k = "length (dev_log (sys_dev s)) + 2"
  have k: "?k < length ?L" "?L ! ?k = Kernel cs ''xccl_collective''" using log by (simp_all add: nth_append)
  have rec: "?L ! Suc ?k = Ev_Record e cs" "Suc ?k < length ?L" using log by (simp_all add: nth_append)
  have hb: "dev_hb (?L @ [Ev_Block e ?cur] @ M) ?k p"
    if "length (dev_log (sys_dev s2)) \<le> p" "p < length (dev_log (sys_dev s2) @ M)"
       "op_stream ((dev_log (sys_dev s2) @ M) ! p) = ?cur" for M p
    by (rule dev_hb_record_block [OF rec]) (use that log log2 k in \<open>auto simp: nth_append\<close>)
  show ?thesis
    by (rule exI [of _ ?k], rule exI [of _ cs]) (use k hb log2 in simp)
qed

lemma post_orders_caller_work_witness:
  "\<exists>r s' k cs. torch_xccl_post XCCL_OK XCCL_OK (Call_Allreduce [\<lparr>t_device = \<lparr>dev_type = kCUDA, dev_index = 0\<rparr>, t_scalar = kFloat,
                          t_ptr = 100, t_data = [1 :: int, 2]\<rparr>] ReduceOp_SUM) \<lparr>sys_comm = \<lparr>cc_stream = None, event_pool = [], cc_config = \<lparr>blocking_wait = (\<lambda>_. False), gpu_barrier = False, high_priority_stream = False, serialize = False\<rparr>\<rparr>,
         sys_dev = \<lparr>dev_log = [Kernel (Current_Stream 0) ''compute''], next_event = 0\<rparr>,
         sys_team = \<lparr>xccl_handles = []\<rparr>, sys_size = 2\<rparr> = (Inr (TORCH_UCC_OK, Some r), s') \<and>
      dev_log (sys_dev s') ! k = Kernel cs ''xccl_collective'' \<and> dev_hb (dev_log (sys_dev s')) 0 k"
proof -
  have "\<exists>r s'. torch_xccl_post XCCL_OK XCCL_OK (Call_Allreduce [\<lparr>t_device = \<lparr>dev_type = kCUDA, dev_index = 0\<rparr>, t_scalar = kFloat,
                          t_ptr = 100, t_data = [1 :: int, 2]\<rparr>] ReduceOp_SUM) \<lparr>sys_comm = \<lparr>cc_stream = None, event_pool = [], cc_config = \<lparr>blocking_wait = (\<lambda>_. False), gpu_barrier = False, high_priority_stream = False, serialize = False\<rparr>\<rparr>,
         sys_dev = \<lparr>dev_log = [Kernel (Current_Stream 0) ''compute''], next_event = 0\<rparr>,
         sys_team = \<lparr>xccl_handles = []\<rparr>, sys_size = 2\<rparr> = (Inr (TORCH_UCC_OK, Some r), s') \<and>
          is_cuda (req_device (xr_super r))"
    by (simp add: torch_xccl_allreduce_def request_init_m_def torch_ucc_coll_request_init_def
          request_init_barrier_def request_init_src_def coll_request_new_def is_cuda_def
          event_pool_acquire_def event_record_def event_block_def map_at_def elift_def
          coll_args_init_with_stream_def post_finish_def xccl_init_and_post_def
          xccl_collective_init_def xccl_collective_post_def xccl_collective_post_dev_def xr_new_def Let_def ebind_def)
  then obtain r s' where eq: "torch_xccl_post XCCL_OK XCCL_OK (Call_Allreduce [\<lparr>t_device = \<lparr>dev_type = kCUDA, dev_index = 0\<rparr>, t_scalar = kFloat,
                          t_ptr = 100, t_data = [1 :: int, 2]\<rparr>] ReduceOp_SUM) \<lparr>sys_comm = \<lparr>cc_stream = None, event_pool = [], cc_config = \<lparr>blocking_wait = (\<lambda>_. False), gpu_barrier = False, high_priority_stream = False, serialize = False\<rparr>\<rparr>,
         sys_dev = \<lparr>dev_log = [Kernel (Current_Stream 0) ''compute''], next_event = 0\<rparr>,
         sys_team = \<lparr>xccl_handles = []\<rparr>, sys_size = 2\<rparr> = (Inr (TORCH_UCC_OK, Some r), s')"
    and cuda: "is_cuda (req_device (xr_super r))" and dev: "req_device (xr_super r) = \<lparr>dev_type = kCUDA, dev_index = 0\<rparr>"
    by (auto simp: torch_xccl_allreduce_def request_init_m_def torch_ucc_coll_request_init_def
          request_init_barrier_def request_init_src_def coll_request_new_def is_cuda_def
          event_pool_acquire_def event_record_def event_block_def map_at_def elift_def
          coll_args_init_with_stream_def post_finish_def xccl_init_and_post_def
          xccl_collective_init_def xccl_collective_post_def xccl_collective_post_dev_def xr_new_def Let_def ebind_def)
  obtain k cs where "k < length (dev_log (sys_dev s'))" "dev_log (sys_dev s') ! k = Kernel cs ''xccl_collective''"
      "dev_hb (dev_log (sys_dev s')) 0 k"
    using post_orders_caller_work [OF eq _ cuda, of 0] dev by auto
  then show ?thesis using eq by blast
qed

lemma fence_orders_collective_witness:
  "\<exists>r s1 s2 k. torch_xccl_post XCCL_OK XCCL_OK (Call_Allreduce [\<lparr>t_device = \<lparr>dev_type = kCUDA, dev_index = 0\<rparr>, t_scalar = kFloat,
                          t_ptr = 100, t_data = [1 :: int, 2]\<rparr>] ReduceOp_SUM) \<lparr>sys_comm = \<lparr>cc_stream = None, event_pool = [], cc_config = \<lparr>blocking_wait = (\<lambda>_. False), gpu_barrier = False, high_priority_stream = False, serialize = False\<rparr>\<rparr>,
         sys_dev = \<lparr>dev_log = [Kernel (Current_Stream 0) ''compute''], next_event = 0\<rparr>,
         sys_team = \<lparr>xccl_handles = []\<rparr>, sys_size = 2\<rparr> = (Inr (TORCH_UCC_OK, Some r), s1) \<and>
      torch_xccl_fence r s1 = (Inr TORCH_UCC_OK, s2) \<and>
      dev_hb (dev_log (sys_dev s2) @ [Kernel (Current_Stream 0) ''next'']) k (length (dev_log (sys_dev s2)))"
proof -
  have "\<exists>r s'. torch_xccl_post XCCL_OK XCCL_OK (Call_Allreduce [\<lparr>t_device = \<lparr>dev_type = kCUDA, dev_index = 0\<rparr>, t_scalar = kFloat,
                          t_ptr = 100, t_data = [1 :: int, 2]\<rparr>] ReduceOp_SUM) \<lparr>sys_comm = \<lparr>cc_stream = None, event_pool = [], cc_config = \<lparr>blocking_wait = (\<lambda>_. False), gpu_barrier = False, high_priority_stream = False, serialize = False\<rparr>\<rparr>,
         sys_dev = \<lparr>dev_log = [Kernel (Current_Stream 0) ''compute''], next_event = 0\<rparr>,
         sys_team = \<lparr>xccl_handles = []\<rparr>, sys_size = 2\<rparr> = (Inr (TORCH_UCC_OK, Some r), s') \<and>
          req_device (xr_super r) = \<lparr>dev_type = kCUDA, dev_index = 0\<rparr> \<and> req_type (xr_super r) = TORCH_UCC_ALLREDUCE"
    by (simp add: torch_xccl_allreduce_def request_init_m_def torch_ucc_coll_request_init_def
          request_init_barrier_def request_init_src_def coll_request_new_def is_cuda_def
          event_pool_acquire_def event_record_def event_block_def map_at_def elift_def
          coll_args_init_with_stream_def post_finish_def xccl_init_and_post_def
          xccl_collective_init_def xccl_collective_post_def xccl_collective_post_dev_def xr_new_def Let_def ebind_def)
  then obtain r s1 where eq: "torch_xccl_post XCCL_OK XCCL_OK (Call_Allreduce [\<lparr>t_device = \<lparr>dev_type = kCUDA, dev_index = 0\<rparr>, t_scalar = kFloat,
                          t_ptr = 100, t_data = [1 :: int, 2]\<rparr>] ReduceOp_SUM) \<lparr>sys_comm = \<lparr>cc_stream = None, event_pool = [], cc_config = \<lparr>blocking_wait = (\<lambda>_. False), gpu_barrier = False, high_priority_stream = False, serialize = False\<rparr>\<rparr>,
         sys_dev = \<lparr>dev_log = [Kernel (Current_Stream 0) ''compute''], next_event = 0\<rparr>,
         sys_team = \<lparr>xccl_handles = []\<rparr>, sys_size = 2\<rparr> = (Inr (TORCH_UCC_OK, Some r), s1)"
    and dev: "req_device (xr_super r) = \<lparr>dev_type = kCUDA, dev_index = 0\<rparr>"
    and ty: "req_type (xr_super r) = TORCH_UCC_ALLREDUCE"
    by blast
  have ip: "xr_status r = Some TORCH_UCC_INPROGRESS \<and> req_event (xr_super r) = Some 0"
    using eq by (auto simp: torch_xccl_allreduce_def request_init_m_def torch_ucc_coll_request_init_def
          request_init_barrier_def request_init_src_def coll_request_new_def is_cuda_def
          event_pool_acquire_def event_record_def event_block_def map_at_def elift_def
          coll_args_init_with_stream_def post_finish_def xccl_init_and_post_def
          xccl_collective_init_def xccl_collective_post_def xccl_collective_post_dev_def xr_new_def Let_def ebind_def)
  obtain s2 where fe: "torch_xccl_fence r s1 = (Inr TORCH_UCC_OK, s2)"
    using ip by (simp add: torch_xccl_fence_def event_block_def)
  obtain k where "\<forall>M p. length (dev_log (sys_dev s2)) \<le> p \<longrightarrow> p < length (dev_log (sys_dev s2) @ M) \<longrightarrow>
              op_stream ((dev_log (sys_dev s2) @ M) ! p) = Current_Stream 0 \<longrightarrow>
              dev_hb (dev_log (sys_dev s2) @ M) k p"
    using fence_orders_collective [OF eq _ _ _ fe] dev ty by (auto simp: is_cuda_def)
  then have "dev_hb (dev_log (sys_dev s2) @ [Kernel (Current_Stream 0) ''next'']) k (length (dev_log (sys_dev s2)))"
    by (auto simp: nth_append)
  then show ?thesis using eq fe by blast
qed

end
