(* ===== verification/PostArgs.thy ===== *)
theory PostArgs
  imports Sync
begin

text \<open>
  What a post hands to XCCL. A successful post appends exactly one collective to the
  team, posted and in progress, whose descriptor is the one the post function built:
  its type, buffers and byte length. For allgather and alltoall the length is the
  \<open>size_t\<close> arithmetic of lines 440--441 and 479--480 of \<open>torch_xccl.cpp\<close>;
  the theorems below state the number XCCL receives in terms of the tensors and the
  group size.
\<close>

section \<open>Lemmas\<close>

lemma ebind_eq_Inr:
  "ebind m f s = (Inr x, s') \<Longrightarrow> \<exists>v s1. m s = (Inr v, s1) \<and> f v s1 = (Inr x, s')"
  by (auto simp: ebind_def split: prod.splits sum.splits)

lemma post_finish_ok_team:
  assumes "post_finish ist pst a r s = (Inr (TORCH_UCC_OK, Some r'), s')"
  shows "xccl_handles (sys_team s') = xccl_handles (sys_team s) @ [XH_Posted a XCCL_INPROGRESS] \<and>
         xr_handle r' = Some (length (xccl_handles (sys_team s)))"
  using assms
  by (auto simp: post_finish_def ebind_def emodify_def ereturn_def
           dest!: init_and_post_ok_shape split: prod.splits sum.splits if_splits)

lemma coll_args_keeps:
  assumes "coll_args_init_with_stream a r s = (Inr a', s')"
  shows "s' = s \<and> args_coll_type a' = args_coll_type a \<and> src_buffer a' = src_buffer a \<and>
         dst_buffer a' = dst_buffer a \<and> args_len a' = args_len a"
  using assms by (auto simp: coll_args_init_with_stream_def split: if_splits option.splits)

lemma request_init_m_keeps:
  "request_init_m ct srcp dstp s = (Inr r, s') \<Longrightarrow> sys_team s' = sys_team s \<and> sys_size s' = sys_size s"
  by (auto simp: request_init_m_def split: sum.splits prod.splits)

lemma map_at_ok: "map_at m k s = (Inr v, s') \<Longrightarrow> s' = s"
  by (auto simp: map_at_def elift_def split: option.splits)

text \<open>The allgather descriptor as posted.\<close>

lemma allgather_posted:
  assumes "torch_xccl_allgather ist pst ins outs fptr junk s = (Inr (TORCH_UCC_OK, Some r), s')"
  shows "\<exists>a. xccl_handles (sys_team s') = xccl_handles (sys_team s) @ [XH_Posted a XCCL_INPROGRESS] \<and>
             args_coll_type a = Some XCCL_ALLGATHER \<and> src_buffer a = Some (t_ptr (hd ins)) \<and>
             dst_buffer a = Some fptr \<and>
             args_len a = Some (allgather_len (element_size (t_scalar (hd ins))) (numel (hd ins)) (sys_size s)) \<and>
             xr_handle r = Some (length (xccl_handles (sys_team s)))"
  apply (insert assms [unfolded torch_xccl_allgather_def Let_def])
  apply (drule ebind_eq_Inr, elim exE conjE)+
  apply (drule post_finish_ok_team)
  apply (auto simp: egets_def dest!: request_init_m_keeps map_at_ok coll_args_keeps)
  done

lemma alltoall_posted:
  assumes "torch_xccl_alltoall ist pst tin tout s = (Inr (TORCH_UCC_OK, Some r), s')"
  shows "\<exists>a. xccl_handles (sys_team s') = xccl_handles (sys_team s) @ [XH_Posted a XCCL_INPROGRESS] \<and>
             args_coll_type a = Some XCCL_ALLTOALL \<and> src_buffer a = Some (t_ptr tin) \<and>
             dst_buffer a = Some (t_ptr tout) \<and>
             args_len a = Some (alltoall_len (element_size (t_scalar tin)) (numel tin) (sys_size s)) \<and>
             xr_handle r = Some (length (xccl_handles (sys_team s)))"
  apply (insert assms [unfolded torch_xccl_alltoall_def Let_def])
  apply (drule ebind_eq_Inr, elim exE conjE)+
  apply (drule post_finish_ok_team)
  apply (auto simp: egets_def dest!: request_init_m_keeps map_at_ok coll_args_keeps)
  done

section \<open>Properties\<close>

text \<open>C15. A successful alltoall hands XCCL one new collective, posted and in
  progress, that exchanges the input tensor's buffer into the output tensor's buffer
  with a per-peer length, in bytes, of the input's byte size divided by the group size
  (rounded down, so a remainder of fewer than \<open>size\<close> bytes is never exchanged),
  as long as the byte size fits in \<open>size_t\<close>; the request returned owns that
  collective.\<close>

theorem alltoall_posts_chunk:
  assumes "torch_xccl_alltoall ist pst tin tout s = (Inr (TORCH_UCC_OK, Some r), s')"
    and "element_size (t_scalar tin) * numel tin < 2 ^ 64" "0 < sys_size s" "sys_size s < 2 ^ 63"
  shows "\<exists>a len. xccl_handles (sys_team s') = xccl_handles (sys_team s) @ [XH_Posted a XCCL_INPROGRESS] \<and>
           args_coll_type a = Some XCCL_ALLTOALL \<and> src_buffer a = Some (t_ptr tin) \<and>
           dst_buffer a = Some (t_ptr tout) \<and> args_len a = Some len \<and>
           unat len = element_size (t_scalar tin) * numel tin div nat (sys_size s) \<and>
           xr_handle r = Some (length (xccl_handles (sys_team s)))"
  using alltoall_posted [OF assms(1)] alltoall_len_unat [OF assms(2-4)] by blast

text \<open>C16. A successful allgather hands XCCL one new collective, posted and in
  progress, from the first input tensor's buffer into the scratch buffer, whose length
  is \<open>element_size * numel * size\<close> computed in \<open>size_t\<close>: the number XCCL
  receives is that product modulo \<open>2^64\<close>, so a scratch buffer of \<open>2^64\<close> bytes or
  more is announced with a wrapped, smaller length; the request returned owns that
  collective.\<close>

theorem allgather_posts_wrapped_len:
  assumes "torch_xccl_allgather ist pst ins outs fptr junk s = (Inr (TORCH_UCC_OK, Some r), s')"
    and "0 \<le> sys_size s" "sys_size s < 2 ^ 63"
  shows "\<exists>a len. xccl_handles (sys_team s') = xccl_handles (sys_team s) @ [XH_Posted a XCCL_INPROGRESS] \<and>
           args_coll_type a = Some XCCL_ALLGATHER \<and> src_buffer a = Some (t_ptr (hd ins)) \<and>
           dst_buffer a = Some fptr \<and> args_len a = Some len \<and>
           unat len = element_size (t_scalar (hd ins)) * numel (hd ins) * nat (sys_size s) mod 2 ^ 64 \<and>
           xr_handle r = Some (length (xccl_handles (sys_team s)))"
  using allgather_posted [OF assms(1)] allgather_len_unat [OF assms(2,3)] by blast

section \<open>Witnesses\<close>

lemma alltoall_posts_chunk_witness:
  "\<exists>a len. xccl_handles (sys_team (snd (torch_xccl_alltoall XCCL_OK XCCL_OK \<lparr>t_device = \<lparr>dev_type = kCPU, dev_index = 0\<rparr>, t_scalar = kFloat, t_ptr = 100, t_data = [1 :: int, 2]\<rparr> \<lparr>t_device = \<lparr>dev_type = kCPU, dev_index = 0\<rparr>, t_scalar = kFloat, t_ptr = 200, t_data = [0 :: int, 0]\<rparr> (\<lparr>sys_comm = \<lparr>cc_stream = None, event_pool = [], cc_config = \<lparr>blocking_wait = (\<lambda>_. False), gpu_barrier = False, high_priority_stream = False, serialize = False\<rparr>\<rparr>,
         sys_dev = \<lparr>dev_log = [], next_event = 0\<rparr>, sys_team = \<lparr>xccl_handles = []\<rparr>, sys_size = 2\<rparr>)))) = [XH_Posted a XCCL_INPROGRESS] \<and>
     args_len a = Some len \<and> unat len = 4"
proof -
  have "\<exists>R. fst (torch_xccl_alltoall XCCL_OK XCCL_OK \<lparr>t_device = \<lparr>dev_type = kCPU, dev_index = 0\<rparr>, t_scalar = kFloat, t_ptr = 100, t_data = [1 :: int, 2]\<rparr> \<lparr>t_device = \<lparr>dev_type = kCPU, dev_index = 0\<rparr>, t_scalar = kFloat, t_ptr = 200, t_data = [0 :: int, 0]\<rparr> (\<lparr>sys_comm = \<lparr>cc_stream = None, event_pool = [], cc_config = \<lparr>blocking_wait = (\<lambda>_. False), gpu_barrier = False, high_priority_stream = False, serialize = False\<rparr>\<rparr>,
         sys_dev = \<lparr>dev_log = [], next_event = 0\<rparr>, sys_team = \<lparr>xccl_handles = []\<rparr>, sys_size = 2\<rparr>)) = Inr (TORCH_UCC_OK, Some R)"
    by (simp add: torch_xccl_alltoall_def torch_ucc_coll_request_init_def request_init_m_def
        request_init_barrier_def request_init_src_def request_init_dst_def coll_request_new_def is_cuda_def
        event_pool_acquire_def map_at_def elift_def coll_args_init_with_stream_def post_finish_def
        xccl_init_and_post_def xccl_collective_init_def xccl_collective_post_def xccl_collective_post_dev_def
        xr_new_def Let_def ebind_def egets_def ereturn_def)
  then obtain R where "fst (torch_xccl_alltoall XCCL_OK XCCL_OK \<lparr>t_device = \<lparr>dev_type = kCPU, dev_index = 0\<rparr>, t_scalar = kFloat, t_ptr = 100, t_data = [1 :: int, 2]\<rparr> \<lparr>t_device = \<lparr>dev_type = kCPU, dev_index = 0\<rparr>, t_scalar = kFloat, t_ptr = 200, t_data = [0 :: int, 0]\<rparr> (\<lparr>sys_comm = \<lparr>cc_stream = None, event_pool = [], cc_config = \<lparr>blocking_wait = (\<lambda>_. False), gpu_barrier = False, high_priority_stream = False, serialize = False\<rparr>\<rparr>,
         sys_dev = \<lparr>dev_log = [], next_event = 0\<rparr>, sys_team = \<lparr>xccl_handles = []\<rparr>, sys_size = 2\<rparr>)) = Inr (TORCH_UCC_OK, Some R)" by blast
  then have "(torch_xccl_alltoall XCCL_OK XCCL_OK \<lparr>t_device = \<lparr>dev_type = kCPU, dev_index = 0\<rparr>, t_scalar = kFloat, t_ptr = 100, t_data = [1 :: int, 2]\<rparr> \<lparr>t_device = \<lparr>dev_type = kCPU, dev_index = 0\<rparr>, t_scalar = kFloat, t_ptr = 200, t_data = [0 :: int, 0]\<rparr> (\<lparr>sys_comm = \<lparr>cc_stream = None, event_pool = [], cc_config = \<lparr>blocking_wait = (\<lambda>_. False), gpu_barrier = False, high_priority_stream = False, serialize = False\<rparr>\<rparr>,
         sys_dev = \<lparr>dev_log = [], next_event = 0\<rparr>, sys_team = \<lparr>xccl_handles = []\<rparr>, sys_size = 2\<rparr>)) = (Inr (TORCH_UCC_OK, Some R), snd (torch_xccl_alltoall XCCL_OK XCCL_OK \<lparr>t_device = \<lparr>dev_type = kCPU, dev_index = 0\<rparr>, t_scalar = kFloat, t_ptr = 100, t_data = [1 :: int, 2]\<rparr> \<lparr>t_device = \<lparr>dev_type = kCPU, dev_index = 0\<rparr>, t_scalar = kFloat, t_ptr = 200, t_data = [0 :: int, 0]\<rparr> (\<lparr>sys_comm = \<lparr>cc_stream = None, event_pool = [], cc_config = \<lparr>blocking_wait = (\<lambda>_. False), gpu_barrier = False, high_priority_stream = False, serialize = False\<rparr>\<rparr>,
         sys_dev = \<lparr>dev_log = [], next_event = 0\<rparr>, sys_team = \<lparr>xccl_handles = []\<rparr>, sys_size = 2\<rparr>)))" by (metis prod.collapse)
  from alltoall_posts_chunk [OF this] show ?thesis by (simp add: numel_def) blast
qed

lemma allgather_posts_wrapped_len_witness:
  "\<exists>a len. xccl_handles (sys_team (snd (torch_xccl_allgather XCCL_OK XCCL_OK [\<lparr>t_device = \<lparr>dev_type = kCPU, dev_index = 0\<rparr>, t_scalar = kFloat, t_ptr = 100, t_data = [1 :: int, 2]\<rparr>] [\<lparr>t_device = \<lparr>dev_type = kCPU, dev_index = 0\<rparr>, t_scalar = kFloat, t_ptr = 200, t_data = [0 :: int, 0]\<rparr>, \<lparr>t_device = \<lparr>dev_type = kCPU, dev_index = 0\<rparr>, t_scalar = kFloat, t_ptr = 200, t_data = [0 :: int, 0]\<rparr>] 500 0 (\<lparr>sys_comm = \<lparr>cc_stream = None, event_pool = [], cc_config = \<lparr>blocking_wait = (\<lambda>_. False), gpu_barrier = False, high_priority_stream = False, serialize = False\<rparr>\<rparr>,
         sys_dev = \<lparr>dev_log = [], next_event = 0\<rparr>, sys_team = \<lparr>xccl_handles = []\<rparr>, sys_size = 2\<rparr>)))) = [XH_Posted a XCCL_INPROGRESS] \<and>
     args_len a = Some len \<and> unat len = 16"
proof -
  have "\<exists>R. fst (torch_xccl_allgather XCCL_OK XCCL_OK [\<lparr>t_device = \<lparr>dev_type = kCPU, dev_index = 0\<rparr>, t_scalar = kFloat, t_ptr = 100, t_data = [1 :: int, 2]\<rparr>] [\<lparr>t_device = \<lparr>dev_type = kCPU, dev_index = 0\<rparr>, t_scalar = kFloat, t_ptr = 200, t_data = [0 :: int, 0]\<rparr>, \<lparr>t_device = \<lparr>dev_type = kCPU, dev_index = 0\<rparr>, t_scalar = kFloat, t_ptr = 200, t_data = [0 :: int, 0]\<rparr>] 500 0 (\<lparr>sys_comm = \<lparr>cc_stream = None, event_pool = [], cc_config = \<lparr>blocking_wait = (\<lambda>_. False), gpu_barrier = False, high_priority_stream = False, serialize = False\<rparr>\<rparr>,
         sys_dev = \<lparr>dev_log = [], next_event = 0\<rparr>, sys_team = \<lparr>xccl_handles = []\<rparr>, sys_size = 2\<rparr>)) = Inr (TORCH_UCC_OK, Some R)"
    by (simp add: torch_xccl_allgather_def torch_ucc_coll_request_init_def request_init_m_def
        request_init_barrier_def request_init_src_def request_init_dst_def coll_request_new_def is_cuda_def
        event_pool_acquire_def map_at_def elift_def coll_args_init_with_stream_def post_finish_def
        xccl_init_and_post_def xccl_collective_init_def xccl_collective_post_def xccl_collective_post_dev_def
        xr_new_def Let_def ebind_def egets_def ereturn_def)
  then obtain R where "fst (torch_xccl_allgather XCCL_OK XCCL_OK [\<lparr>t_device = \<lparr>dev_type = kCPU, dev_index = 0\<rparr>, t_scalar = kFloat, t_ptr = 100, t_data = [1 :: int, 2]\<rparr>] [\<lparr>t_device = \<lparr>dev_type = kCPU, dev_index = 0\<rparr>, t_scalar = kFloat, t_ptr = 200, t_data = [0 :: int, 0]\<rparr>, \<lparr>t_device = \<lparr>dev_type = kCPU, dev_index = 0\<rparr>, t_scalar = kFloat, t_ptr = 200, t_data = [0 :: int, 0]\<rparr>] 500 0 (\<lparr>sys_comm = \<lparr>cc_stream = None, event_pool = [], cc_config = \<lparr>blocking_wait = (\<lambda>_. False), gpu_barrier = False, high_priority_stream = False, serialize = False\<rparr>\<rparr>,
         sys_dev = \<lparr>dev_log = [], next_event = 0\<rparr>, sys_team = \<lparr>xccl_handles = []\<rparr>, sys_size = 2\<rparr>)) = Inr (TORCH_UCC_OK, Some R)" by blast
  then have "(torch_xccl_allgather XCCL_OK XCCL_OK [\<lparr>t_device = \<lparr>dev_type = kCPU, dev_index = 0\<rparr>, t_scalar = kFloat, t_ptr = 100, t_data = [1 :: int, 2]\<rparr>] [\<lparr>t_device = \<lparr>dev_type = kCPU, dev_index = 0\<rparr>, t_scalar = kFloat, t_ptr = 200, t_data = [0 :: int, 0]\<rparr>, \<lparr>t_device = \<lparr>dev_type = kCPU, dev_index = 0\<rparr>, t_scalar = kFloat, t_ptr = 200, t_data = [0 :: int, 0]\<rparr>] 500 0 (\<lparr>sys_comm = \<lparr>cc_stream = None, event_pool = [], cc_config = \<lparr>blocking_wait = (\<lambda>_. False), gpu_barrier = False, high_priority_stream = False, serialize = False\<rparr>\<rparr>,
         sys_dev = \<lparr>dev_log = [], next_event = 0\<rparr>, sys_team = \<lparr>xccl_handles = []\<rparr>, sys_size = 2\<rparr>)) = (Inr (TORCH_UCC_OK, Some R), snd (torch_xccl_allgather XCCL_OK XCCL_OK [\<lparr>t_device = \<lparr>dev_type = kCPU, dev_index = 0\<rparr>, t_scalar = kFloat, t_ptr = 100, t_data = [1 :: int, 2]\<rparr>] [\<lparr>t_device = \<lparr>dev_type = kCPU, dev_index = 0\<rparr>, t_scalar = kFloat, t_ptr = 200, t_data = [0 :: int, 0]\<rparr>, \<lparr>t_device = \<lparr>dev_type = kCPU, dev_index = 0\<rparr>, t_scalar = kFloat, t_ptr = 200, t_data = [0 :: int, 0]\<rparr>] 500 0 (\<lparr>sys_comm = \<lparr>cc_stream = None, event_pool = [], cc_config = \<lparr>blocking_wait = (\<lambda>_. False), gpu_barrier = False, high_priority_stream = False, serialize = False\<rparr>\<rparr>,
         sys_dev = \<lparr>dev_log = [], next_event = 0\<rparr>, sys_team = \<lparr>xccl_handles = []\<rparr>, sys_size = 2\<rparr>)))" by (metis prod.collapse)
  from allgather_posts_wrapped_len [OF this] show ?thesis by (simp add: numel_def) blast
qed

end
