(* ===== verification/Context.thy ===== *)
theory Context
  imports Collectives
begin

text \<open>
  The context and team manager of \<open>src/src/torch_xccl.cpp\<close>:
  \<open>xccl_tls_str_to_bitmap\<close> (lines 147--161), \<open>torch_xccl_comm_init\<close> (lines
  163--328) and \<open>torch_xccl_comm_close\<close> (lines 330--339). XCCL's answers
  (library init, config read, context create, team post, and the answer of every
  \<open>xccl_team_create_test\<close> call) are the environment \<open>xccl_env\<close>. The
  resources the code acquires and releases are a log of events, so that leaks,
  double releases and the teardown order are statements about the log. The wait for
  team creation is a loop that need not end: \<open>partial_function (option)\<close>, whose
  \<open>None\<close> is a call that never returns.
\<close>

section \<open>Transport-layer selection\<close>

unbundle bit_operations_syntax

text \<open>The XCCL transport-layer ids, one bit each, and their names
  (\<open>xccl_tl_str\<close>, from XCCL's \<open>api/xccl.h\<close>, outside src/).\<close>

definition XCCL_TL_UCX :: "64 word" where "XCCL_TL_UCX = 1"

definition XCCL_TL_LAST :: "64 word" where "XCCL_TL_LAST = 128"

definition XCCL_TL_ALL :: "64 word" where "XCCL_TL_ALL = XCCL_TL_LAST - 1"

definition xccl_tl_str :: "64 word \<Rightarrow> string" where
  "xccl_tl_str i =
     (if i = 1 then ''ucx'' else if i = 2 then ''hier'' else if i = 4 then ''sharp''
      else if i = 8 then ''vmc'' else if i = 16 then ''shmseg'' else if i = 32 then ''mrail''
      else if i = 64 then ''nccl'' else '''')"

text \<open>Lines 153--157: for \<open>i = 1, 2, 4, \<dots>\<close> below \<open>XCCL_TL_LAST\<close>, set bit
  \<open>i\<close> when the name of layer \<open>i\<close> occurs in the string (\<open>strstr\<close>).\<close>

partial_function (option) tls_loop :: "string \<Rightarrow> 64 word \<Rightarrow> 64 word \<Rightarrow> 64 word option" where
  "tls_loop s i tls =
     (if i < XCCL_TL_LAST
      then tls_loop s (push_bit 1 i) (if sublist (xccl_tl_str i) s then tls OR i else tls)
      else Some tls)"

text \<open>Lines 147--161: a null string selects nothing.\<close>

definition xccl_tls_str_to_bitmap :: "string option \<Rightarrow> 64 word option" where
  "xccl_tls_str_to_bitmap sp = (case sp of None \<Rightarrow> Some 0 | Some s \<Rightarrow> tls_loop s 1 0)"

text \<open>The selection the loop is meant to compute: the bits of the seven layers whose
  names occur in the string.\<close>

definition tls_spec :: "string \<Rightarrow> 64 word" where
  "tls_spec s = foldl (\<lambda>acc k. if sublist (xccl_tl_str (2 ^ k)) s then acc OR 2 ^ k else acc) 0 [0..<7]"

section \<open>Context configuration\<close>

text \<open>The \<open>BLOCK_STREAM\<close> key of each collective, as XCCL's UCX layer names it.\<close>

fun block_key :: "coll_type \<Rightarrow> string" where
  "block_key TORCH_UCC_BARRIER = ''BLOCK_STREAM_BARRIER''"
| "block_key TORCH_UCC_BCAST = ''BLOCK_STREAM_BCAST''"
| "block_key TORCH_UCC_ALLREDUCE = ''BLOCK_STREAM_ALLREDUCE''"
| "block_key TORCH_UCC_ALLTOALL = ''BLOCK_STREAM_ALLTOALL''"
| "block_key TORCH_UCC_ALLTOALLV = ''BLOCK_STREAM_ALLTOALLV''"
| "block_key TORCH_UCC_ALLGATHER = ''BLOCK_STREAM_ALLGATHER''"

text \<open>Lines 207--243: the \<open>xccl_context_config_modify\<close> calls, in order, as
  (key, value) pairs.\<close>

definition config_mods :: "coll_config \<Rightarrow> (string \<times> string) list" where
  "config_mods cfg =
     [(''BLOCK_STREAM_BARRIER'', if blocking_wait cfg TORCH_UCC_BARRIER then ''no'' else ''yes''),
      (''BLOCK_STREAM_BCAST'', if blocking_wait cfg TORCH_UCC_BCAST then ''no'' else ''yes''),
      (''BLOCK_STREAM_ALLREDUCE'', if blocking_wait cfg TORCH_UCC_ALLREDUCE then ''no'' else ''yes''),
      (if blocking_wait cfg TORCH_UCC_ALLTOALL then (''BLOCK_STREAM_ALLTOLL'', ''no'')
       else (''BLOCK_STREAM_ALLTOALL'', ''yes'')),
      (''BLOCK_STREAM_ALLTOALLV'', if blocking_wait cfg TORCH_UCC_ALLTOALLV then ''no'' else ''yes''),
      (''BLOCK_STREAM_ALLGATHER'', if blocking_wait cfg TORCH_UCC_ALLGATHER then ''no'' else ''yes'')] @
     (if serialize cfg then [(''BLOCK_STREAM_ALLTOALLV'', ''yes''), (''BLOCK_STREAM_ALLTOALL'', ''yes'')]
      else [])"

text \<open>The value a key ends with: the last modification of it, if any.\<close>

definition cfg_value :: "(string \<times> string) list \<Rightarrow> string \<Rightarrow> string option" where
  "cfg_value mods k = foldl (\<lambda>v (k', x). if k' = k then Some x else v) None mods"

text \<open>The policy the configuration is meant to carry: blocking wait turns stream
  blocking off, and \<open>serialize\<close> turns it on for alltoall and alltoallv.\<close>

definition intended_block :: "coll_config \<Rightarrow> coll_type \<Rightarrow> string" where
  "intended_block cfg ct =
     (if serialize cfg \<and> ct \<in> {TORCH_UCC_ALLTOALL, TORCH_UCC_ALLTOALLV} then ''yes''
      else if blocking_wait cfg ct then ''no'' else ''yes'')"

section \<open>Waiting for the team\<close>

text \<open>Lines 290--291: \<open>while (XCCL_INPROGRESS == xccl_team_create_test(team))\<close>,
  with \<open>test k\<close> the answer of the \<open>k\<close>-th call; the result is the number of
  calls made and the answer that ended the loop, which the code discards.\<close>

partial_function (option) team_wait :: "(nat \<Rightarrow> xccl_status) \<Rightarrow> nat \<Rightarrow> (nat \<times> xccl_status) option" where
  "team_wait test k = (if test k = XCCL_INPROGRESS then team_wait test (Suc k) else Some (Suc k, test k))"

section \<open>Context creation and teardown\<close>

datatype resource = R_Comm | R_Lib | R_CtxCfg | R_Ctx | R_Team

datatype res_event = Acquire resource | Release resource

record xccl_env =
  env_lib_init :: xccl_status
  env_tls :: "string option"
  env_cfg_read :: xccl_status
  env_ctx_create :: xccl_status
  env_team_post :: xccl_status
  env_team_test :: "nat \<Rightarrow> xccl_status"

text \<open>
  What a call of \<open>torch_xccl_comm_init\<close> leaves: its status, the resource log,
  the configuration modifications applied, the \<open>super\<close> part of the new
  communicator (\<open>None\<close> for the null \<open>*comm\<close>), and the number of team tests.
\<close>

record init_result =
  ir_status :: torch_ucc_status
  ir_log :: "res_event list"
  ir_mods :: "(string \<times> string) list"
  ir_comm :: "coll_comm option"
  ir_tests :: nat

definition init_fail :: "res_event list \<Rightarrow> (string \<times> string) list \<Rightarrow> init_result" where
  "init_fail log mods =
     \<lparr>ir_status = TORCH_UCC_ERROR, ir_log = log, ir_mods = mods, ir_comm = None, ir_tests = 0\<rparr>"

text \<open>Lines 163--328, with the labels \<open>free_context\<close>, \<open>free_lib\<close> and
  \<open>free_comm\<close> as the release events of the failure paths.\<close>

definition torch_xccl_comm_init :: "xccl_env \<Rightarrow> coll_config \<Rightarrow> init_result option" where
  "torch_xccl_comm_init env cfg =
     (let l1 = [Acquire R_Comm]
      in if env_lib_init env \<noteq> XCCL_OK then Some (init_fail (l1 @ [Release R_Comm]) [])
         else
           (let l2 = l1 @ [Acquire R_Lib];
                tls = (case env_tls env of None \<Rightarrow> Some XCCL_TL_ALL
                       | Some s \<Rightarrow> xccl_tls_str_to_bitmap (Some s))
            in case tls of None \<Rightarrow> None
               | Some tls \<Rightarrow>
                 if env_cfg_read env \<noteq> XCCL_OK
                 then Some (init_fail (l2 @ [Release R_Lib, Release R_Comm]) [])
                 else
                   (let l3 = l2 @ [Acquire R_CtxCfg];
                        mods = (if tls AND XCCL_TL_UCX \<noteq> 0 then config_mods cfg else [])
                    in if env_ctx_create env \<noteq> XCCL_OK
                       then Some (init_fail (l3 @ [Release R_CtxCfg, Release R_Lib, Release R_Comm]) mods)
                       else
                         (let l4 = l3 @ [Acquire R_Ctx, Release R_CtxCfg]
                          in if env_team_post env \<noteq> XCCL_OK
                             then Some (init_fail (l4 @ [Release R_Ctx, Release R_Lib, Release R_Comm]) mods)
                             else
                               (case team_wait (env_team_test env) 0 of
                                  None \<Rightarrow> None
                                | Some (n, _) \<Rightarrow>
                                    Some \<lparr>ir_status = TORCH_UCC_OK, ir_log = l4 @ [Acquire R_Team],
                                          ir_mods = mods,
                                          ir_comm = Some \<lparr>cc_stream = None, event_pool = [], cc_config = cfg\<rparr>,
                                          ir_tests = n\<rparr>)))))"

text \<open>Lines 330--339: destroy the team, the context and the library, then free the
  communicator.\<close>

definition torch_xccl_comm_close :: "res_event list \<Rightarrow> res_event list" where
  "torch_xccl_comm_close log = log @ [Release R_Team, Release R_Ctx, Release R_Lib, Release R_Comm]"

text \<open>Replaying a log: an acquire needs the resource free, a release needs it held;
  \<open>None\<close> is a double acquire or a release of what is not held.\<close>

fun res_replay :: "res_event list \<Rightarrow> resource list \<Rightarrow> resource list option" where
  "res_replay [] held = Some held"
| "res_replay (Acquire r # es) held = (if r \<in> set held then None else res_replay es (r # held))"
| "res_replay (Release r # es) held = (if r \<in> set held then res_replay es (remove1 r held) else None)"

text \<open>A log is released in reverse order of acquisition when every release frees
  the most recently acquired resource still held, except the configuration handle,
  which XCCL lets go as soon as the context it configures exists.\<close>

fun lifo_replay :: "res_event list \<Rightarrow> resource list \<Rightarrow> bool" where
  "lifo_replay [] held = (held = [])"
| "lifo_replay (Acquire r # es) held = lifo_replay es (r # held)"
| "lifo_replay (Release r # es) held =
     (r \<in> set held \<and> (r = R_CtxCfg \<or> hd (filter (\<lambda>x. x \<noteq> R_CtxCfg) held) = r) \<and>
      lifo_replay es (remove1 r held))"

section \<open>Lemmas\<close>


lemma pow2_lt_last: "k \<le> 7 \<Longrightarrow> ((2 :: 64 word) ^ k < XCCL_TL_LAST) = (k < 7)"
proof -
  assume "k \<le> 7"
  then have "k \<in> {0, 1, 2, 3, 4, 5, 6, 7}" by auto
  then show ?thesis by (auto simp: XCCL_TL_LAST_def)
qed

lemma tls_loop_from:
  "k \<le> 7 \<Longrightarrow> tls_loop s (2 ^ k) acc =
     Some (foldl (\<lambda>acc k. if sublist (xccl_tl_str (2 ^ k)) s then acc OR 2 ^ k else acc) acc [k..<7])"
proof (induction "7 - k" arbitrary: k acc)
  case 0
  then have "k = 7" by simp
  then show ?case using pow2_lt_last [of 7] by (subst tls_loop.simps) simp
next
  case (Suc d)
  then have k: "k < 7" by simp
  have up: "[k..<7] = k # [Suc k..<7]" using k by (simp add: upt_rec)
  have push: "push_bit 1 ((2 :: 64 word) ^ k) = 2 ^ Suc k" by (simp add: push_bit_eq_mult)
  show ?case
    using Suc.hyps(1) [of "Suc k"] Suc.hyps(2) k pow2_lt_last [of k] up push
    by (subst tls_loop.simps) (simp add: mult.commute)
qed

text \<open>C17. \<open>xccl_tls_str_to_bitmap\<close> computes the reference selection: the
  bitmap of the layers whose names occur in the string, and returns for every
  string.\<close>

theorem tls_bitmap_equiv: "xccl_tls_str_to_bitmap (Some s) = Some (tls_spec s)"
  using tls_loop_from [of 0 s 0] by (simp add: xccl_tls_str_to_bitmap_def tls_spec_def)

lemma team_wait_returns:
  "test (k + d) \<noteq> XCCL_INPROGRESS \<Longrightarrow>
   \<exists>n. team_wait test k = Some (n, test (n - 1)) \<and> k < n \<and> n \<le> Suc (k + d) \<and>
       test (n - 1) \<noteq> XCCL_INPROGRESS \<and> (\<forall>i. k \<le> i \<and> i < n - 1 \<longrightarrow> test i = XCCL_INPROGRESS)"
proof (induction d arbitrary: k)
  case 0
  then show ?case by (subst team_wait.simps) auto
next
  case (Suc d)
  show ?case
  proof (cases "test k = XCCL_INPROGRESS")
    case True
    obtain n where n: "team_wait test (Suc k) = Some (n, test (n - 1))" "Suc k < n" "n \<le> Suc (Suc k + d)"
      "test (n - 1) \<noteq> XCCL_INPROGRESS" "\<forall>i. Suc k \<le> i \<and> i < n - 1 \<longrightarrow> test i = XCCL_INPROGRESS"
      using Suc.IH [of "Suc k"] Suc.prems by auto
    have "\<forall>i. k \<le> i \<and> i < n - 1 \<longrightarrow> test i = XCCL_INPROGRESS"
      using n(5) True by (metis Suc_leI le_neq_implies_less)
    then show ?thesis
      using n True by (subst team_wait.simps) auto
  next
    case False
    then show ?thesis by (subst team_wait.simps) auto
  qed
qed

lemma team_wait_some_finished:
  assumes "team_wait test k = Some r"
  shows "k < fst r \<and> test (fst r - 1) = snd r \<and> snd r \<noteq> XCCL_INPROGRESS"
proof (rule team_wait.raw_induct [where P = "\<lambda>test k r. k < fst r \<and> test (fst r - 1) = snd r \<and>
                                                 snd r \<noteq> XCCL_INPROGRESS", OF _ assms])
  fix f test k r
  assume IH: "\<And>test k r. f test k = Some r \<Longrightarrow> k < fst r \<and> test (fst r - 1) = snd r \<and> snd r \<noteq> XCCL_INPROGRESS"
    and eq: "(if test k = XCCL_INPROGRESS then f test (Suc k) else Some (Suc k, test k)) = Some r"
  show "k < fst r \<and> test (fst r - 1) = snd r \<and> snd r \<noteq> XCCL_INPROGRESS"
  proof (cases "test k = XCCL_INPROGRESS")
    case True
    then show ?thesis using eq IH [of test "Suc k" r] by simp
  next
    case False
    then show ?thesis using eq by auto
  qed
qed

lemma team_wait_forever:
  "(\<forall>i \<ge> k. test i = XCCL_INPROGRESS) \<Longrightarrow> team_wait test k = None"
  using team_wait_some_finished [of test k] by (cases "team_wait test k") force+

lemma tls_total: "\<exists>t. xccl_tls_str_to_bitmap sp = Some t"
proof (cases sp)
  case (Some s)
  then show ?thesis using tls_loop_from [of 0 s 0] by (simp add: xccl_tls_str_to_bitmap_def)
qed (simp add: xccl_tls_str_to_bitmap_def)

lemma comm_init_cases:
  assumes "torch_xccl_comm_init env cfg = Some r"
  shows "(ir_status r = TORCH_UCC_ERROR \<and> ir_comm r = None \<and>
          ir_log r \<in> {[Acquire R_Comm, Release R_Comm],
                      [Acquire R_Comm, Acquire R_Lib, Release R_Lib, Release R_Comm],
                      [Acquire R_Comm, Acquire R_Lib, Acquire R_CtxCfg, Release R_CtxCfg, Release R_Lib, Release R_Comm],
                      [Acquire R_Comm, Acquire R_Lib, Acquire R_CtxCfg, Acquire R_Ctx, Release R_CtxCfg,
                       Release R_Ctx, Release R_Lib, Release R_Comm]}) \<or>
         (ir_status r = TORCH_UCC_OK \<and> ir_comm r = Some \<lparr>cc_stream = None, event_pool = [], cc_config = cfg\<rparr> \<and>
          ir_log r = [Acquire R_Comm, Acquire R_Lib, Acquire R_CtxCfg, Acquire R_Ctx, Release R_CtxCfg,
                      Acquire R_Team])"
  using assms
  by (auto simp: torch_xccl_comm_init_def init_fail_def Let_def split: if_splits option.splits prod.splits)

text \<open>C18. The wait for team creation returns once some test call answers other
  than in progress: it returns after the first such call, having seen only
  \<open>XCCL_INPROGRESS\<close> before it.\<close>

theorem team_wait_terminates:
  assumes "test j \<noteq> XCCL_INPROGRESS" "k \<le> j"
  shows "\<exists>n. team_wait test k = Some (n, test (n - 1)) \<and> k < n \<and> n \<le> Suc j \<and>
           test (n - 1) \<noteq> XCCL_INPROGRESS \<and> (\<forall>i. k \<le> i \<and> i < n - 1 \<longrightarrow> test i = XCCL_INPROGRESS)"
  using team_wait_returns [of test k "j - k"] assms by simp

text \<open>C19. The wait has no timeout: when team creation stays in progress, the loop
  never returns.\<close>

theorem team_wait_spins:
  assumes "\<forall>i. test i = XCCL_INPROGRESS"
  shows "team_wait test k = None"
  using team_wait_forever [of k test] assms by simp

text \<open>C20. A failed context creation returns a null communicator and releases every
  resource it acquired, once each, in reverse order of acquisition.\<close>

theorem comm_init_failure_releases_all:
  assumes "torch_xccl_comm_init env cfg = Some r" "ir_status r = TORCH_UCC_ERROR"
  shows "ir_comm r = None \<and> res_replay (ir_log r) [] = Some [] \<and> lifo_replay (ir_log r) []"
  using comm_init_cases [OF assms(1)] assms(2) by auto

text \<open>C21. A successful context creation holds the communicator, library, context and
  team; closing it releases them all, once each, in reverse order. The new
  communicator has no stream and an empty event pool and carries the caller's
  configuration.\<close>

theorem comm_init_close_balanced:
  assumes "torch_xccl_comm_init env cfg = Some r" "ir_status r = TORCH_UCC_OK"
  shows "ir_comm r = Some \<lparr>cc_stream = None, event_pool = [], cc_config = cfg\<rparr> \<and>
         res_replay (ir_log r) [] = Some [R_Team, R_Ctx, R_Lib, R_Comm] \<and>
         res_replay (torch_xccl_comm_close (ir_log r)) [] = Some [] \<and>
         lifo_replay (torch_xccl_comm_close (ir_log r)) []"
  using comm_init_cases [OF assms(1)] assms(2) by (auto simp: torch_xccl_comm_close_def)

text \<open>C22. Context creation returns whenever some team test answers other than in
  progress.\<close>

theorem comm_init_returns:
  assumes "env_team_test env j \<noteq> XCCL_INPROGRESS"
  shows "\<exists>r. torch_xccl_comm_init env cfg = Some r"
proof -
  obtain t where t: "xccl_tls_str_to_bitmap (env_tls env) = Some t" using tls_total by blast
  have tl: "\<exists>t. (case env_tls env of None \<Rightarrow> Some XCCL_TL_ALL | Some s \<Rightarrow> xccl_tls_str_to_bitmap (Some s)) = Some t"
    using t by (cases "env_tls env") auto
  obtain n where "team_wait (env_team_test env) 0 = Some (n, env_team_test env (n - 1))"
    using team_wait_returns [of "env_team_test env" 0 j] assms by auto
  then show ?thesis using tl
    by (auto simp: torch_xccl_comm_init_def Let_def split: option.splits)
qed

text \<open>C23. The answer of the last team test is discarded: a team creation that
  fails still yields \<open>TORCH_UCC_OK\<close> and a communicator.\<close>

theorem comm_init_ignores_team_error:
  assumes "env_lib_init env = XCCL_OK" "env_cfg_read env = XCCL_OK" "env_ctx_create env = XCCL_OK"
    and "env_team_post env = XCCL_OK" "env_team_test env 0 = XCCL_ERR e"
  shows "\<exists>r. torch_xccl_comm_init env cfg = Some r \<and> ir_status r = TORCH_UCC_OK \<and> ir_comm r \<noteq> None"
proof -
  obtain t where t: "xccl_tls_str_to_bitmap (env_tls env) = Some t" using tls_total by blast
  have tl: "\<exists>t. (case env_tls env of None \<Rightarrow> Some XCCL_TL_ALL | Some s \<Rightarrow> xccl_tls_str_to_bitmap (Some s)) = Some t"
    using t by (cases "env_tls env") auto
  have "team_wait (env_team_test env) 0 = Some (1, XCCL_ERR e)"
    using assms(5) by (subst team_wait.simps) simp
  then show ?thesis using tl assms(1-4)
    by (auto simp: torch_xccl_comm_init_def Let_def split: option.splits)
qed

text \<open>C24. Every collective other than alltoall gets the stream-blocking setting the
  policy asks for: off under blocking wait, on otherwise, and on for alltoallv under
  \<open>serialize\<close>.\<close>

theorem config_mods_policy:
  assumes "ct \<noteq> TORCH_UCC_ALLTOALL"
  shows "cfg_value (config_mods cfg) (block_key ct) = Some (intended_block cfg ct)"
  using assms
  by (cases ct) (simp_all add: config_mods_def cfg_value_def intended_block_def)

text \<open>C25. Blocking wait for alltoall is never applied: the code sets the misspelt
  key \<open>BLOCK_STREAM_ALLTOLL\<close>, so without \<open>serialize\<close> the real key is left
  at XCCL's default although the policy asks for \<open>no\<close>.\<close>

theorem config_alltoall_typo:
  assumes "blocking_wait cfg TORCH_UCC_ALLTOALL" "\<not> serialize cfg"
  shows "cfg_value (config_mods cfg) (block_key TORCH_UCC_ALLTOALL) = None \<and>
         intended_block cfg TORCH_UCC_ALLTOALL = ''no''"
  using assms by (simp add: config_mods_def cfg_value_def intended_block_def)

section \<open>Witnesses\<close>

lemma team_wait_terminates_witness:
  "team_wait (\<lambda>k. if k < 2 then XCCL_INPROGRESS else XCCL_OK) 0 = Some (3, XCCL_OK)"
proof -
  obtain n where n: "team_wait (\<lambda>k. if k < 2 then XCCL_INPROGRESS else XCCL_OK) 0 = Some (n, (\<lambda>k. if k < 2 then XCCL_INPROGRESS else XCCL_OK) (n - 1))" "0 < n" "n \<le> 3" "(\<lambda>k. if k < 2 then XCCL_INPROGRESS else XCCL_OK) (n - 1) \<noteq> XCCL_INPROGRESS"
    using team_wait_terminates [of "\<lambda>k. if k < 2 then XCCL_INPROGRESS else XCCL_OK" 2 0] by auto
  then have "n = 3" by (auto split: if_splits)
  then show ?thesis using n by simp
qed

lemma team_wait_spins_witness: "team_wait (\<lambda>_. XCCL_INPROGRESS) 0 = None"
  by (rule team_wait_spins) simp

lemma comm_init_failure_releases_all_witness:
  "\<exists>r. torch_xccl_comm_init (\<lparr>env_lib_init = XCCL_ERR 3, env_tls = None, env_cfg_read = XCCL_OK, env_ctx_create = XCCL_OK,
      env_team_post = XCCL_OK, env_team_test = (\<lambda>k. if k < 2 then XCCL_INPROGRESS else XCCL_OK)\<rparr>) (\<lparr>blocking_wait = (\<lambda>ct. ct = TORCH_UCC_ALLTOALL), gpu_barrier = False, high_priority_stream = False, serialize = False\<rparr>) = Some r \<and> ir_comm r = None \<and>
       res_replay (ir_log r) [] = Some [] \<and> lifo_replay (ir_log r) []"
proof -
  have eq: "torch_xccl_comm_init (\<lparr>env_lib_init = XCCL_ERR 3, env_tls = None, env_cfg_read = XCCL_OK, env_ctx_create = XCCL_OK,
      env_team_post = XCCL_OK, env_team_test = (\<lambda>k. if k < 2 then XCCL_INPROGRESS else XCCL_OK)\<rparr>) (\<lparr>blocking_wait = (\<lambda>ct. ct = TORCH_UCC_ALLTOALL), gpu_barrier = False, high_priority_stream = False, serialize = False\<rparr>) = Some (init_fail [Acquire R_Comm, Release R_Comm] [])"
    by (simp add: torch_xccl_comm_init_def)
  show ?thesis
    using comm_init_failure_releases_all [OF eq] by (simp add: init_fail_def eq)
qed

lemma comm_init_close_balanced_witness:
  "\<exists>r. torch_xccl_comm_init (\<lparr>env_lib_init = XCCL_OK, env_tls = None, env_cfg_read = XCCL_OK, env_ctx_create = XCCL_OK,
      env_team_post = XCCL_OK, env_team_test = (\<lambda>k. if k < 2 then XCCL_INPROGRESS else XCCL_OK)\<rparr>) (\<lparr>blocking_wait = (\<lambda>ct. ct = TORCH_UCC_ALLTOALL), gpu_barrier = False, high_priority_stream = False, serialize = False\<rparr>) = Some r \<and> ir_status r = TORCH_UCC_OK \<and>
       res_replay (torch_xccl_comm_close (ir_log r)) [] = Some [] \<and> lifo_replay (torch_xccl_comm_close (ir_log r)) []"
proof -
  have tw: "team_wait (\<lambda>k. if k < 2 then XCCL_INPROGRESS else XCCL_OK) 0 = Some (3, XCCL_OK)"
    by (subst team_wait.simps, simp, subst team_wait.simps, simp, subst team_wait.simps, simp)
  obtain r where eq: "torch_xccl_comm_init (\<lparr>env_lib_init = XCCL_OK, env_tls = None, env_cfg_read = XCCL_OK, env_ctx_create = XCCL_OK,
      env_team_post = XCCL_OK, env_team_test = (\<lambda>k. if k < 2 then XCCL_INPROGRESS else XCCL_OK)\<rparr>) (\<lparr>blocking_wait = (\<lambda>ct. ct = TORCH_UCC_ALLTOALL), gpu_barrier = False, high_priority_stream = False, serialize = False\<rparr>) = Some r" and st: "ir_status r = TORCH_UCC_OK"
    using tw by (simp add: torch_xccl_comm_init_def Let_def)
  show ?thesis using comm_init_close_balanced [OF eq st] eq st by blast
qed

lemma comm_init_returns_witness:
  "\<exists>r. torch_xccl_comm_init (\<lparr>env_lib_init = XCCL_OK, env_tls = None, env_cfg_read = XCCL_OK, env_ctx_create = XCCL_OK,
      env_team_post = XCCL_OK, env_team_test = (\<lambda>k. if k < 2 then XCCL_INPROGRESS else XCCL_OK)\<rparr>) (\<lparr>blocking_wait = (\<lambda>ct. ct = TORCH_UCC_ALLTOALL), gpu_barrier = False, high_priority_stream = False, serialize = False\<rparr>) = Some r"
  by (rule comm_init_returns [of _ 2]) simp

lemma comm_init_ignores_team_error_witness:
  "\<exists>r. torch_xccl_comm_init (\<lparr>env_lib_init = XCCL_OK, env_tls = None, env_cfg_read = XCCL_OK, env_ctx_create = XCCL_OK,
      env_team_post = XCCL_OK, env_team_test = (\<lambda>_. XCCL_ERR 5)\<rparr>) (\<lparr>blocking_wait = (\<lambda>ct. ct = TORCH_UCC_ALLTOALL), gpu_barrier = False, high_priority_stream = False, serialize = False\<rparr>) = Some r \<and> ir_status r = TORCH_UCC_OK \<and> ir_comm r \<noteq> None"
  by (rule comm_init_ignores_team_error [of _ 5]) simp_all

lemma config_mods_policy_witness:
  "cfg_value (config_mods (\<lparr>blocking_wait = (\<lambda>ct. ct = TORCH_UCC_ALLTOALL), gpu_barrier = False, high_priority_stream = False, serialize = False\<rparr>)) (block_key TORCH_UCC_ALLREDUCE) = Some (intended_block (\<lparr>blocking_wait = (\<lambda>ct. ct = TORCH_UCC_ALLTOALL), gpu_barrier = False, high_priority_stream = False, serialize = False\<rparr>) TORCH_UCC_ALLREDUCE)"
  by (rule config_mods_policy) simp

lemma config_alltoall_typo_witness:
  "cfg_value (config_mods (\<lparr>blocking_wait = (\<lambda>ct. ct = TORCH_UCC_ALLTOALL), gpu_barrier = False, high_priority_stream = False, serialize = False\<rparr>)) (block_key TORCH_UCC_ALLTOALL) = None \<and>
   intended_block (\<lparr>blocking_wait = (\<lambda>ct. ct = TORCH_UCC_ALLTOALL), gpu_barrier = False, high_priority_stream = False, serialize = False\<rparr>) TORCH_UCC_ALLTOALL = ''no''"
  by (rule config_alltoall_typo) simp_all

end
