(* ===== verification/Ops.thy ===== *)
theory Ops
  imports Sync "HOL-Library.AList"
begin

text \<open>
  The operation table \<open>torch_ucc_coll_ops_t\<close> of
  \<open>src/include/torch_ucc_ops.hpp\<close> (lines 66--119) as the interface of one
  process: a datatype of the calls the orchestration layer makes on requests and a
  step function that runs them on the process state and the store of live requests
  (the \<open>torch_ucc_coll_request_t*\<close> pointers it holds, by number). The invariant
  of the event pool from the specification (an event is held by at most one live
  request, and never both by a request and by the pool) is proved for every call.
\<close>

section \<open>The operation table\<close>

record 'v ops_state =
  os_sys :: xccl_sys
  os_reqs :: "(nat \<times> 'v xccl_request) list"
  os_next :: nat

datatype 'v ucc_op =
    Op_Post xccl_status xccl_status "'v post_call"
  | Op_Progress nat
  | Op_Test nat
  | Op_Fence nat
  | Op_Free nat

text \<open>A call through a pointer the store does not hold uses a freed request.\<close>

fun ops_step :: "'v ucc_op \<Rightarrow> 'v ops_state \<Rightarrow> (ucc_error + torch_ucc_status option) \<times> 'v ops_state" where
  "ops_step (Op_Post ist pst c) st =
     (case torch_xccl_post ist pst c (os_sys st) of
        (Inl e, s') \<Rightarrow> (Inl e, st\<lparr>os_sys := s'\<rparr>)
      | (Inr (x, None), s') \<Rightarrow> (Inr (Some x), st\<lparr>os_sys := s'\<rparr>)
      | (Inr (x, Some r), s') \<Rightarrow>
          (Inr (Some x), st\<lparr>os_sys := s', os_reqs := (os_next st, r) # os_reqs st, os_next := Suc (os_next st)\<rparr>))"
| "ops_step (Op_Progress i) st =
     (case map_of (os_reqs st) i of
        None \<Rightarrow> (Inl Request_Use_After_Free, st)
      | Some r \<Rightarrow>
          (case torch_xccl_progress r (os_sys st) of
             (Inl e, s') \<Rightarrow> (Inl e, st\<lparr>os_sys := s'\<rparr>)
           | (Inr (x, r'), s') \<Rightarrow> (Inr (Some x), st\<lparr>os_sys := s', os_reqs := AList.update i r' (os_reqs st)\<rparr>)))"
| "ops_step (Op_Test i) st =
     (case map_of (os_reqs st) i of
        None \<Rightarrow> (Inl Request_Use_After_Free, st)
      | Some r \<Rightarrow> (Inr (torch_xccl_test r), st))"
| "ops_step (Op_Fence i) st =
     (case map_of (os_reqs st) i of
        None \<Rightarrow> (Inl Request_Use_After_Free, st)
      | Some r \<Rightarrow>
          (case torch_xccl_fence r (os_sys st) of
             (Inl e, s') \<Rightarrow> (Inl e, st\<lparr>os_sys := s'\<rparr>)
           | (Inr x, s') \<Rightarrow> (Inr (Some x), st\<lparr>os_sys := s'\<rparr>)))"
| "ops_step (Op_Free i) st =
     (case map_of (os_reqs st) i of
        None \<Rightarrow> (Inl Request_Use_After_Free, st)
      | Some r \<Rightarrow>
          (let (x, s') = torch_xccl_free r (os_sys st)
           in (Inr (Some x), st\<lparr>os_sys := s', os_reqs := AList.delete i (os_reqs st)\<rparr>)))"

section \<open>The event pool invariant\<close>

text \<open>The event a request holds, if it is on a CUDA device: what its destructor
  gives back to the pool.\<close>

definition req_ev :: "'v coll_request \<Rightarrow> nat option list" where
  "req_ev q = (if is_cuda (req_device q) then [req_event q] else [])"

definition live_events :: "(nat \<times> 'v xccl_request) list \<Rightarrow> nat option list" where
  "live_events rs = concat (map (\<lambda>(_, r). req_ev (xr_super r)) rs)"

text \<open>The pool and the events held elsewhere: no null event, no event twice, and
  every event allocated before.\<close>

definition pool_ok :: "xccl_sys \<Rightarrow> nat option list \<Rightarrow> bool" where
  "pool_ok s evs \<longleftrightarrow>
     (let es = event_pool (sys_comm s) @ evs
      in None \<notin> set es \<and> distinct es \<and> (\<forall>e. Some e \<in> set es \<longrightarrow> e < next_event (sys_dev s)))"

definition ops_inv :: "'v ops_state \<Rightarrow> bool" where
  "ops_inv st \<longleftrightarrow>
     pool_ok (os_sys st) (live_events (os_reqs st)) \<and> distinct (map fst (os_reqs st)) \<and>
     (\<forall>i \<in> fst ` set (os_reqs st). i < os_next st)"

text \<open>The events a post call leaves with a request it returns.\<close>

fun post_evs :: "ucc_error + torch_ucc_status \<times> 'v xccl_request option \<Rightarrow> nat option list" where
  "post_evs (Inr (_, Some r)) = req_ev (xr_super r)"
| "post_evs _ = []"

definition pool_tail ::
  "'v coll_request \<Rightarrow> (xccl_sys \<Rightarrow> (ucc_error + torch_ucc_status \<times> 'v xccl_request option) \<times> xccl_sys) \<Rightarrow> bool" where
  "pool_tail q K \<longleftrightarrow>
     (\<forall>s evs x s'. pool_ok s (req_ev q @ evs) \<longrightarrow> K s = (x, s') \<longrightarrow> pool_ok s' (post_evs x @ evs))"

text \<open>The states a process reaches: from a communicator whose event pool is still
  empty and no live request, by any sequence of calls of the operation table,
  interleaved with the transport completing posted collectives.\<close>

inductive ops_reach :: "'v ops_state \<Rightarrow> bool" where
  init: "event_pool (sys_comm s) = [] \<Longrightarrow> ops_reach \<lparr>os_sys = s, os_reqs = [], os_next = 0\<rparr>"
| step: "ops_reach st \<Longrightarrow> ops_step op st = (x, st') \<Longrightarrow> ops_reach st'"
| transport: "ops_reach st \<Longrightarrow>
              ops_reach (st\<lparr>os_sys := (os_sys st)\<lparr>sys_team := xccl_complete h xs (sys_team (os_sys st))\<rparr>\<rparr>)"

section \<open>Lemmas\<close>

lemma pool_ok_drop: "pool_ok s (xs @ evs) \<Longrightarrow> pool_ok s evs"
  by (auto simp: pool_ok_def Let_def)

lemma pool_ok_same:
  "event_pool (sys_comm s') = event_pool (sys_comm s) \<Longrightarrow> next_event (sys_dev s') = next_event (sys_dev s) \<Longrightarrow>
   pool_ok s evs \<Longrightarrow> pool_ok s' evs"
  by (simp add: pool_ok_def)

lemma request_init_src_pool:
  assumes "request_init_src c ts r d = Inr (c', r', d')"
    and "pool_ok \<lparr>sys_comm = c, sys_dev = d, sys_team = t, sys_size = n\<rparr> evs"
  shows "pool_ok \<lparr>sys_comm = c', sys_dev = d', sys_team = t, sys_size = n\<rparr> (req_ev r' @ evs)"
  using assms
  by (auto simp: request_init_src_def event_pool_acquire_def event_record_def event_block_def Let_def
                 pool_ok_def req_ev_def neq_Nil_conv
           split: list.splits if_splits option.splits prod.splits)

lemma request_init_m_pool:
  assumes "request_init_m ct (Some ts) dstp s = (x, s1)" "pool_ok s evs"
  shows "(\<forall>r0. x = Inr r0 \<longrightarrow> pool_ok s1 (req_ev (xr_super r0) @ evs)) \<and> (\<forall>e. x = Inl e \<longrightarrow> s1 = s)"
proof (cases "torch_ucc_coll_request_init (sys_comm s) ct (Some ts) dstp (sys_dev s)")
  case (Inl e)
  then show ?thesis using assms(1) by (auto simp: request_init_m_def)
next
  case (Inr y)
  obtain c1 q d1 where y: "y = (c1, q, d1)" by (cases y) auto
  obtain r0 where b: "request_init_barrier (sys_comm s) ct (coll_request_new ct) = Inr r0"
    and rest: "(case request_init_src (sys_comm s) ts r0 (sys_dev s) of Inl e \<Rightarrow> Inl e
               | Inr (c1, r1, d1) \<Rightarrow> (case dstp of None \<Rightarrow> Inr (c1, r1, d1)
                   | Some ts \<Rightarrow> (case request_init_dst ts r1 of Inl e \<Rightarrow> Inl e | Inr r2 \<Rightarrow> Inr (c1, r2, d1))))
               = Inr (c1, q, d1)"
    using Inr y by (auto simp: torch_ucc_coll_request_init_def split: sum.split_asm)
  obtain q' where src: "request_init_src (sys_comm s) ts r0 (sys_dev s) = Inr (c1, q', d1)"
    and qq: "req_ev q = req_ev q'"
    using rest by (auto simp: request_init_dst_def req_ev_def split: sum.split_asm prod.split_asm option.split_asm list.split_asm)
  have "pool_ok \<lparr>sys_comm = c1, sys_dev = d1, sys_team = sys_team s, sys_size = sys_size s\<rparr> (req_ev q' @ evs)"
    using request_init_src_pool [OF src, of "sys_team s" "sys_size s" evs] assms(2)
    by (cases s) simp
  then show ?thesis
    using assms(1) Inr y qq by (cases s) (auto simp: request_init_m_def xr_new_def pool_ok_def)
qed

lemma init_and_post_pool:
  assumes "xccl_init_and_post ist pst a r s = (x, s')"
  shows "sys_comm s' = sys_comm s \<and> next_event (sys_dev s') = next_event (sys_dev s) \<and>
         (\<forall>st r'. x = Inr (st, r') \<longrightarrow> xr_super r' = xr_super r)"
  using assms
  by (auto simp: xccl_init_and_post_def xccl_collective_init_def xccl_collective_post_dev_def
                 xccl_collective_post_def event_record_def Let_def
           split: if_splits option.splits sum.splits prod.splits xccl_handle.splits)

lemma post_finish_pool:
  assumes "post_finish ist pst a r s = (x, s')"
  shows "next_event (sys_dev s') = next_event (sys_dev s) \<and>
         event_pool (sys_comm s') = event_pool (sys_comm s) @
           (if x = Inr (TORCH_UCC_ERROR, None) then req_ev (xr_super r) else []) \<and>
         (\<forall>st r'. x = Inr (st, Some r') \<longrightarrow> xr_super r' = xr_super r)"
proof -
  obtain y s1 where ip: "xccl_init_and_post ist pst a r s = (y, s1)" by fastforce
  note e = init_and_post_pool [OF ip]
  show ?thesis
  proof (cases y)
    case (Inl err)
    then show ?thesis using assms ip e by (auto simp: post_finish_def ebind_def)
  next
    case (Inr z)
    obtain st r1 where z: "z = (st, r1)" by fastforce
    show ?thesis
      using assms ip e Inr z
      by (auto simp: post_finish_def ebind_def emodify_def coll_request_destroy_def req_ev_def split: if_splits)
  qed
qed

lemma pool_tail_map_at:
  "(\<And>v. pool_tail q (f v)) \<Longrightarrow> pool_tail q (ebind (map_at m k) f)"
  unfolding pool_tail_def ebind_def map_at_def elift_def
  by (auto split: option.splits dest: pool_ok_drop)

lemma pool_tail_egets:
  "(\<And>v. pool_tail q (f v)) \<Longrightarrow> pool_tail q (ebind (egets g) f)"
  by (simp add: pool_tail_def)

lemma pool_tail_finish:
  assumes "xr_super r = q"
  shows "pool_tail q (post_finish ist pst a r)"
  unfolding pool_tail_def
proof (intro allI impI)
  fix s evs x s'
  assume ok: "pool_ok s (req_ev q @ evs)" and pf: "post_finish ist pst a r s = (x, s')"
  note e = post_finish_pool [OF pf]
  show "pool_ok s' (post_evs x @ evs)"
  proof (cases "x = Inr (TORCH_UCC_ERROR, None)")
    case True
    then show ?thesis using ok e assms by (auto simp: pool_ok_def Let_def)
  next
    case False
    show ?thesis
    proof (cases x)
      case (Inl err)
      then show ?thesis using ok e by (auto simp: pool_ok_def Let_def)
    next
      case (Inr y)
      obtain st ro where y: "y = (st, ro)" by fastforce
      show ?thesis
      proof (cases ro)
        case None
        then show ?thesis using ok e Inr y False by (auto simp: pool_ok_def Let_def)
      next
        case (Some r')
        then show ?thesis using ok e Inr y assms False by (auto simp: pool_ok_def Let_def)
      qed
    qed
  qed
qed

lemma pool_tail_args:
  "xr_super r = q \<Longrightarrow> pool_tail q (ebind (coll_args_init_with_stream a r) (\<lambda>a'. post_finish ist pst a' r))"
  using pool_tail_finish [of r q ist pst]
  unfolding pool_tail_def ebind_def coll_args_init_with_stream_def
  by (auto split: option.splits if_splits dest: pool_ok_drop)

lemma pool_ok_perm: "mset evs = mset evs' \<Longrightarrow> pool_ok s evs = pool_ok s evs'"
  unfolding pool_ok_def Let_def
  by (metis mset_append mset_eq_imp_distinct_iff set_mset_mset)

lemma pool_decomp:
  assumes M: "M = ebind (request_init_m ct (Some ts) dstp) K"
    and K: "\<And>r. pool_tail (xr_super r) (K r)"
    and ok: "pool_ok s evs" and run: "M s = (x, s')"
  shows "pool_ok s' (post_evs x @ evs)"
proof -
  obtain y s1 where i: "request_init_m ct (Some ts) dstp s = (y, s1)" by fastforce
  note p = request_init_m_pool [OF i ok]
  show ?thesis
  proof (cases y)
    case (Inl e)
    then show ?thesis using run i p ok by (auto simp: M ebind_def)
  next
    case (Inr r0)
    then have "K r0 s1 = (x, s')" using run i by (simp add: M ebind_def)
    then show ?thesis using K [of r0] p Inr unfolding pool_tail_def by blast
  qed
qed

lemma barrier_pool:
  fixes x :: "ucc_error + torch_ucc_status \<times> 'v xccl_request option"
  assumes ok: "pool_ok s evs" and run: "torch_xccl_barrier ist pst s = (x, s')"
  shows "pool_ok s' (post_evs x @ evs)"
proof (cases "gpu_barrier (cc_config (sys_comm s))")
  case True
  then have "s' = s \<and> (\<exists>e. x = Inl e)"
    using run
    by (auto simp: torch_xccl_barrier_def ebind_def request_init_m_def torch_ucc_coll_request_init_def
                   request_init_barrier_def event_record_def xr_new_def coll_request_new_def Let_def
             split: option.splits)
  then show ?thesis using ok by auto
next
  case False
  let ?a = "coll_args_uninit\<lparr>field_mask_stream := Some False, args_coll_type := Some XCCL_BARRIER,
             set_by_user := Some False, src_mtype := Some UCS_MEMORY_TYPE_HOST\<rparr>"
  have pf: "post_finish ist pst ?a (xr_new (coll_request_new TORCH_UCC_BARRIER)) s = (x, s')"
    using run False
    by (simp add: torch_xccl_barrier_def ebind_def request_init_m_def torch_ucc_coll_request_init_def
                  request_init_barrier_def Let_def)
  have "req_ev (xr_super (xr_new (coll_request_new TORCH_UCC_BARRIER) :: 'v xccl_request)) = []"
    by (simp add: req_ev_def xr_new_def coll_request_new_def cpu_device_def is_cuda_def)
  then show ?thesis
    using pool_tail_finish [OF refl, of "xr_new (coll_request_new TORCH_UCC_BARRIER)" ist pst ?a] pf ok
    unfolding pool_tail_def by (metis append.left_neutral)
qed

lemma post_pool:
  assumes ok: "pool_ok s evs" and run: "torch_xccl_post ist pst c s = (x, s')"
  shows "pool_ok s' (post_evs x @ evs)"
proof (cases c)
  case (Call_Allgather ins outs fp junk)
  show ?thesis
    by (rule pool_decomp [OF torch_xccl_allgather_def _ ok])
       (use run Call_Allgather in \<open>simp_all add: Let_def pool_tail_egets pool_tail_map_at pool_tail_args\<close>)
next
  case (Call_Alltoall tin tout)
  show ?thesis
    by (rule pool_decomp [OF torch_xccl_alltoall_def _ ok])
       (use run Call_Alltoall in \<open>simp_all add: Let_def pool_tail_egets pool_tail_map_at pool_tail_args\<close>)
next
  case (Call_Alltoallv tin sl so tout rl ro)
  show ?thesis
    by (rule pool_decomp [OF torch_xccl_alltoallv_def _ ok])
       (use run Call_Alltoallv in \<open>simp_all add: Let_def pool_tail_egets pool_tail_map_at pool_tail_args\<close>)
next
  case (Call_Allreduce ts op)
  show ?thesis
    by (rule pool_decomp [OF torch_xccl_allreduce_def _ ok])
       (use run Call_Allreduce in \<open>simp_all add: Let_def pool_tail_egets pool_tail_map_at pool_tail_args\<close>)
next
  case Call_Barrier
  then show ?thesis using barrier_pool ok run by simp
next
  case (Call_Broadcast ts root)
  show ?thesis
    by (rule pool_decomp [OF torch_xccl_broadcast_def _ ok])
       (use run Call_Broadcast in \<open>simp_all add: Let_def pool_tail_egets pool_tail_map_at pool_tail_args\<close>)
qed

lemma live_events_cons [simp]: "live_events ((i, r) # rs) = req_ev (xr_super r) @ live_events rs"
  by (simp add: live_events_def)

text \<open>What each live request contributes, collected over the store: unchanged by
  an update that keeps the entry's contribution, and split off by a delete.\<close>

lemma concat_map_update:
  "map_of rs i = Some r \<Longrightarrow> f (i, r') = f (i, r) \<Longrightarrow>
   concat (map f (AList.update i r' rs)) = concat (map f rs)"
  by (induction rs) auto

lemma concat_map_delete:
  "distinct (map fst rs) \<Longrightarrow> map_of rs i = Some r \<Longrightarrow>
   mset (concat (map f rs)) = mset (f (i, r) @ concat (map f (AList.delete i rs)))"
proof (induction rs)
  case Nil
  then show ?case by simp
next
  case (Cons p rs)
  obtain k q where p: "p = (k, q)" by fastforce
  show ?case
  proof (cases "k = i")
    case True
    then have "i \<notin> fst ` set rs" using Cons.prems p by simp
    then have "AList.delete i rs = rs" by (simp add: AList.delete_id)
    then show ?thesis using Cons.prems p True by simp
  next
    case False
    then show ?thesis using Cons p by simp
  qed
qed

lemma live_events_update:
  "map_of rs i = Some r \<Longrightarrow> req_ev (xr_super r') = req_ev (xr_super r) \<Longrightarrow>
   live_events (AList.update i r' rs) = live_events rs"
  unfolding live_events_def by (rule concat_map_update) simp_all

lemma live_events_delete:
  "distinct (map fst rs) \<Longrightarrow> map_of rs i = Some r \<Longrightarrow>
   mset (live_events rs) = mset (req_ev (xr_super r) @ live_events (AList.delete i rs))"
  using concat_map_delete [of rs i r "\<lambda>(_, r). req_ev (xr_super r)"] by (simp add: live_events_def)

lemma progress_pool:
  "torch_xccl_progress r s = (x, s') \<Longrightarrow> sys_comm s' = sys_comm s \<and> sys_dev s' = sys_dev s \<and>
     (\<forall>st r'. x = Inr (st, r') \<longrightarrow> xr_super r' = (xr_super r)\<lparr>req_dst := req_dst (xr_super r')\<rparr>)"
  by (auto simp: torch_xccl_progress_def simp del: unflatten_from.simps split: option.splits sum.splits if_splits)

lemma fence_pool:
  "torch_xccl_fence r s = (x, s') \<Longrightarrow> sys_comm s' = sys_comm s \<and> next_event (sys_dev s') = next_event (sys_dev s)"
  by (auto simp: torch_xccl_fence_def event_block_def split: if_splits option.splits)

lemma free_pool:
  "pool_ok s (req_ev (xr_super r) @ evs) \<Longrightarrow> torch_xccl_free r s = (x, s') \<Longrightarrow> pool_ok s' evs"
  by (cases "is_cuda (req_device (xr_super r))")
     (auto simp: torch_xccl_free_def coll_request_destroy_def pool_ok_def req_ev_def Let_def)

lemma ops_step_inv_post:
  assumes inv: "ops_inv st" and run: "ops_step (Op_Post ist pst c) st = (x, st')"
  shows "ops_inv st'"
proof -
  obtain y s' where p: "torch_xccl_post ist pst c (os_sys st) = (y, s')" by fastforce
  have ok: "pool_ok s' (post_evs y @ live_events (os_reqs st))"
    using post_pool [OF _ p] inv by (simp add: ops_inv_def)
  have keys: "\<forall>k \<in> fst ` set (os_reqs st). k < os_next st" "distinct (map fst (os_reqs st))"
    using inv by (simp_all add: ops_inv_def)
  show ?thesis
  proof (cases y)
    case (Inl e)
    then have "st' = st\<lparr>os_sys := s'\<rparr>" using run p by auto
    then show ?thesis using ok keys Inl by (simp add: ops_inv_def)
  next
    case (Inr z)
    obtain sv ro where z: "z = (sv, ro)" by fastforce
    show ?thesis
    proof (cases ro)
      case None
      then have "st' = st\<lparr>os_sys := s'\<rparr>" using run p Inr z by auto
      then show ?thesis using ok keys Inr z None by (simp add: ops_inv_def)
    next
      case (Some r)
      have bound: "\<And>a b. (a, b) \<in> set (os_reqs st) \<Longrightarrow> a < os_next st" using keys(1) by force
      have "st' = st\<lparr>os_sys := s', os_reqs := (os_next st, r) # os_reqs st, os_next := Suc (os_next st)\<rparr>"
        using run p Inr z Some by auto
      moreover have "os_next st \<notin> fst ` set (os_reqs st)" using bound by fastforce
      ultimately show ?thesis using ok keys(2) bound Inr z Some by (fastforce simp: ops_inv_def less_Suc_eq)
    qed
  qed
qed


lemma ops_step_inv_progress:
  assumes inv: "ops_inv st" and run: "ops_step (Op_Progress i) st = (x, st')"
  shows "ops_inv st'"
proof (cases "map_of (os_reqs st) i")
  case None
  then show ?thesis using run inv by auto
next
  case (Some r)
  obtain y s' where p: "torch_xccl_progress r (os_sys st) = (y, s')" by fastforce
  note e = progress_pool [OF p]
  have ok: "pool_ok s' (live_events (os_reqs st))"
    using inv e pool_ok_same [of s' "os_sys st"] by (simp add: ops_inv_def)
  show ?thesis
  proof (cases y)
    case (Inl err)
    then have "st' = st\<lparr>os_sys := s'\<rparr>" using run Some p by auto
    then show ?thesis using ok inv by (simp add: ops_inv_def)
  next
    case (Inr z)
    obtain sv r' where z: "z = (sv, r')" by fastforce
    have ev: "req_ev (xr_super r') = req_ev (xr_super r)"
      using e Inr z by (metis (no_types) coll_request.select_convs(2,5) coll_request.surjective
                                          coll_request.update_convs(4) req_ev_def)
    have "st' = st\<lparr>os_sys := s', os_reqs := AList.update i r' (os_reqs st)\<rparr>" using run Some p Inr z by auto
    moreover have "i < os_next st" using inv map_of_SomeD [OF Some] by (force simp: ops_inv_def)
    ultimately show ?thesis
      using ok inv live_events_update [OF Some ev] by (simp add: ops_inv_def AList.distinct_update AList.dom_update)
  qed
qed

lemma ops_step_inv_fence:
  assumes inv: "ops_inv st" and run: "ops_step (Op_Fence i) st = (x, st')"
  shows "ops_inv st'"
proof (cases "map_of (os_reqs st) i")
  case None
  then show ?thesis using run inv by auto
next
  case (Some r)
  obtain y s' where p: "torch_xccl_fence r (os_sys st) = (y, s')" by fastforce
  note e = fence_pool [OF p]
  have ok: "pool_ok s' (live_events (os_reqs st))"
    using inv e pool_ok_same [of s' "os_sys st"] by (simp add: ops_inv_def)
  have "st' = st\<lparr>os_sys := s'\<rparr>" using run Some p by (auto split: sum.splits)
  then show ?thesis using ok inv by (simp add: ops_inv_def)
qed

lemma ops_step_inv_free:
  assumes inv: "ops_inv st" and run: "ops_step (Op_Free i) st = (x, st')"
  shows "ops_inv st'"
proof (cases "map_of (os_reqs st) i")
  case None
  then show ?thesis using run inv by auto
next
  case (Some r)
  obtain y s' where p: "torch_xccl_free r (os_sys st) = (y, s')" by fastforce
  have "pool_ok (os_sys st) (req_ev (xr_super r) @ live_events (AList.delete i (os_reqs st)))"
    using inv live_events_delete [OF _ Some] pool_ok_perm by (metis ops_inv_def)
  then have ok: "pool_ok s' (live_events (AList.delete i (os_reqs st)))" using free_pool p by blast
  have "st' = st\<lparr>os_sys := s', os_reqs := AList.delete i (os_reqs st)\<rparr>" using run Some p by auto
  then show ?thesis
    using ok inv AList.distinct_delete [of "os_reqs st" i] by (auto simp: ops_inv_def AList.delete_eq)
qed

lemma ops_step_inv:
  "ops_inv st \<Longrightarrow> ops_step op st = (x, st') \<Longrightarrow> ops_inv st'"
proof (cases op)
  case (Op_Test i)
  then show "ops_inv st \<Longrightarrow> ops_step op st = (x, st') \<Longrightarrow> ops_inv st'"
    by (auto split: option.splits)
qed (use ops_step_inv_post ops_step_inv_progress ops_step_inv_fence ops_step_inv_free in blast)+

lemma ops_reach_inv: "ops_reach st \<Longrightarrow> ops_inv st"
proof (induction rule: ops_reach.induct)
  case (init s)
  then show ?case by (simp add: ops_inv_def pool_ok_def live_events_def)
next
  case (step st op x st')
  then show ?case using ops_step_inv by blast
next
  case (transport st h xs)
  then show ?case by (simp add: ops_inv_def pool_ok_def)
qed

lemma live_events_mem:
  "(i, r) \<in> set rs \<Longrightarrow> is_cuda (req_device (xr_super r)) \<Longrightarrow> req_event (xr_super r) \<in> set (live_events rs)"
  by (induction rs) (auto simp: req_ev_def live_events_def)

lemma live_events_two:
  "distinct (map fst rs) \<Longrightarrow> distinct (live_events rs) \<Longrightarrow> (i, r) \<in> set rs \<Longrightarrow> (j, r') \<in> set rs \<Longrightarrow> i \<noteq> j \<Longrightarrow>
   is_cuda (req_device (xr_super r)) \<Longrightarrow> is_cuda (req_device (xr_super r')) \<Longrightarrow>
   req_event (xr_super r) \<noteq> req_event (xr_super r')"
proof (induction rs)
  case Nil
  then show ?case by simp
next
  case (Cons p rs)
  then show ?case
    by (cases p) (auto simp: req_ev_def dest: live_events_mem split: if_splits)
qed

text \<open>What the invariant says of two live CUDA requests.\<close>

lemma ops_inv_event_once:
  assumes "ops_inv st" "(i, r) \<in> set (os_reqs st)" "(j, r') \<in> set (os_reqs st)" "i \<noteq> j"
    and "is_cuda (req_device (xr_super r))" "is_cuda (req_device (xr_super r'))"
  shows "req_event (xr_super r) \<noteq> req_event (xr_super r') \<and>
         req_event (xr_super r) \<notin> set (event_pool (sys_comm (os_sys st))) \<and> req_event (xr_super r) \<noteq> None"
proof -
  have m: "req_event (xr_super r) \<in> set (live_events (os_reqs st))" using live_events_mem assms(2,5) .
  show ?thesis
    using assms(1) m live_events_two [OF _ _ assms(2-6)]
    by (auto simp: ops_inv_def pool_ok_def Let_def)
qed

section \<open>Properties\<close>

text \<open>C26. The invariant of the specification's data model: in every state the
  calls of the operation table reach, an event held by a live CUDA request is
  held by no other live request, is not in the event pool, and is not null.\<close>

theorem event_held_once:
  assumes "ops_reach st" "(i, r) \<in> set (os_reqs st)" "(j, r') \<in> set (os_reqs st)" "i \<noteq> j"
    and "is_cuda (req_device (xr_super r))" "is_cuda (req_device (xr_super r'))"
  shows "req_event (xr_super r) \<noteq> req_event (xr_super r') \<and>
         req_event (xr_super r) \<notin> set (event_pool (sys_comm (os_sys st))) \<and> req_event (xr_super r) \<noteq> None"
  using ops_inv_event_once [OF ops_reach_inv [OF assms(1)] assms(2-6)] .

text \<open>C27. \<open>torch_xccl_free\<close> on a live CUDA request succeeds, gives the
  request's event back at the tail of the pool, and drops the request from the store,
  so that any later call through the same pointer is a use after free.\<close>

theorem free_returns_event:
  assumes "map_of (os_reqs st) i = Some r" "is_cuda (req_device (xr_super r))"
  shows "\<exists>st'. ops_step (Op_Free i) st = (Inr (Some TORCH_UCC_OK), st') \<and>
           event_pool (sys_comm (os_sys st')) = event_pool (sys_comm (os_sys st)) @ [req_event (xr_super r)] \<and>
           ops_step (Op_Test i) st' = (Inl Request_Use_After_Free, st')"
  using assms by (simp add: torch_xccl_free_def coll_request_destroy_def AList.delete_conv')

section \<open>Witnesses\<close>

lemma event_held_once_witness:
  "ops_reach (snd (ops_step (Op_Post XCCL_OK XCCL_OK (Call_Allreduce [\<lparr>t_device = \<lparr>dev_type = kCUDA, dev_index = 0\<rparr>, t_scalar = kFloat, t_ptr = 100, t_data = [1 :: int, 2]\<rparr>] ReduceOp_SUM)) (snd (ops_step (Op_Post XCCL_OK XCCL_OK (Call_Allreduce [\<lparr>t_device = \<lparr>dev_type = kCUDA, dev_index = 0\<rparr>, t_scalar = kFloat, t_ptr = 100, t_data = [1 :: int, 2]\<rparr>] ReduceOp_SUM)) \<lparr>os_sys = \<lparr>sys_comm = \<lparr>cc_stream = None, event_pool = [], cc_config = \<lparr>blocking_wait = (\<lambda>_. False), gpu_barrier = False, high_priority_stream = False, serialize = False\<rparr>\<rparr>,
         sys_dev = \<lparr>dev_log = [], next_event = 0\<rparr>, sys_team = \<lparr>xccl_handles = []\<rparr>, sys_size = 2\<rparr>, os_reqs = [], os_next = 0\<rparr>)))) \<and>
   req_event (xr_super (the (map_of (os_reqs (snd (ops_step (Op_Post XCCL_OK XCCL_OK (Call_Allreduce [\<lparr>t_device = \<lparr>dev_type = kCUDA, dev_index = 0\<rparr>, t_scalar = kFloat, t_ptr = 100, t_data = [1 :: int, 2]\<rparr>] ReduceOp_SUM)) (snd (ops_step (Op_Post XCCL_OK XCCL_OK (Call_Allreduce [\<lparr>t_device = \<lparr>dev_type = kCUDA, dev_index = 0\<rparr>, t_scalar = kFloat, t_ptr = 100, t_data = [1 :: int, 2]\<rparr>] ReduceOp_SUM)) \<lparr>os_sys = \<lparr>sys_comm = \<lparr>cc_stream = None, event_pool = [], cc_config = \<lparr>blocking_wait = (\<lambda>_. False), gpu_barrier = False, high_priority_stream = False, serialize = False\<rparr>\<rparr>,
         sys_dev = \<lparr>dev_log = [], next_event = 0\<rparr>, sys_team = \<lparr>xccl_handles = []\<rparr>, sys_size = 2\<rparr>, os_reqs = [], os_next = 0\<rparr>))))) 1))) \<noteq>
   req_event (xr_super (the (map_of (os_reqs (snd (ops_step (Op_Post XCCL_OK XCCL_OK (Call_Allreduce [\<lparr>t_device = \<lparr>dev_type = kCUDA, dev_index = 0\<rparr>, t_scalar = kFloat, t_ptr = 100, t_data = [1 :: int, 2]\<rparr>] ReduceOp_SUM)) (snd (ops_step (Op_Post XCCL_OK XCCL_OK (Call_Allreduce [\<lparr>t_device = \<lparr>dev_type = kCUDA, dev_index = 0\<rparr>, t_scalar = kFloat, t_ptr = 100, t_data = [1 :: int, 2]\<rparr>] ReduceOp_SUM)) \<lparr>os_sys = \<lparr>sys_comm = \<lparr>cc_stream = None, event_pool = [], cc_config = \<lparr>blocking_wait = (\<lambda>_. False), gpu_barrier = False, high_priority_stream = False, serialize = False\<rparr>\<rparr>,
         sys_dev = \<lparr>dev_log = [], next_event = 0\<rparr>, sys_team = \<lparr>xccl_handles = []\<rparr>, sys_size = 2\<rparr>, os_reqs = [], os_next = 0\<rparr>))))) 0)))"
proof -
  have r1: "ops_reach (snd (ops_step (Op_Post XCCL_OK XCCL_OK (Call_Allreduce [\<lparr>t_device = \<lparr>dev_type = kCUDA, dev_index = 0\<rparr>, t_scalar = kFloat, t_ptr = 100, t_data = [1 :: int, 2]\<rparr>] ReduceOp_SUM)) \<lparr>os_sys = \<lparr>sys_comm = \<lparr>cc_stream = None, event_pool = [], cc_config = \<lparr>blocking_wait = (\<lambda>_. False), gpu_barrier = False, high_priority_stream = False, serialize = False\<rparr>\<rparr>,
         sys_dev = \<lparr>dev_log = [], next_event = 0\<rparr>, sys_team = \<lparr>xccl_handles = []\<rparr>, sys_size = 2\<rparr>, os_reqs = [], os_next = 0\<rparr>))"
    by (rule ops_reach.step [OF ops_reach.init prod.collapse [symmetric]]) simp
  have r2: "ops_reach (snd (ops_step (Op_Post XCCL_OK XCCL_OK (Call_Allreduce [\<lparr>t_device = \<lparr>dev_type = kCUDA, dev_index = 0\<rparr>, t_scalar = kFloat, t_ptr = 100, t_data = [1 :: int, 2]\<rparr>] ReduceOp_SUM)) (snd (ops_step (Op_Post XCCL_OK XCCL_OK (Call_Allreduce [\<lparr>t_device = \<lparr>dev_type = kCUDA, dev_index = 0\<rparr>, t_scalar = kFloat, t_ptr = 100, t_data = [1 :: int, 2]\<rparr>] ReduceOp_SUM)) \<lparr>os_sys = \<lparr>sys_comm = \<lparr>cc_stream = None, event_pool = [], cc_config = \<lparr>blocking_wait = (\<lambda>_. False), gpu_barrier = False, high_priority_stream = False, serialize = False\<rparr>\<rparr>,
         sys_dev = \<lparr>dev_log = [], next_event = 0\<rparr>, sys_team = \<lparr>xccl_handles = []\<rparr>, sys_size = 2\<rparr>, os_reqs = [], os_next = 0\<rparr>))))"
    by (rule ops_reach.step [OF r1 prod.collapse [symmetric]])
  have m: "(1, the (map_of (os_reqs (snd (ops_step (Op_Post XCCL_OK XCCL_OK (Call_Allreduce [\<lparr>t_device = \<lparr>dev_type = kCUDA, dev_index = 0\<rparr>, t_scalar = kFloat, t_ptr = 100, t_data = [1 :: int, 2]\<rparr>] ReduceOp_SUM)) (snd (ops_step (Op_Post XCCL_OK XCCL_OK (Call_Allreduce [\<lparr>t_device = \<lparr>dev_type = kCUDA, dev_index = 0\<rparr>, t_scalar = kFloat, t_ptr = 100, t_data = [1 :: int, 2]\<rparr>] ReduceOp_SUM)) \<lparr>os_sys = \<lparr>sys_comm = \<lparr>cc_stream = None, event_pool = [], cc_config = \<lparr>blocking_wait = (\<lambda>_. False), gpu_barrier = False, high_priority_stream = False, serialize = False\<rparr>\<rparr>,
         sys_dev = \<lparr>dev_log = [], next_event = 0\<rparr>, sys_team = \<lparr>xccl_handles = []\<rparr>, sys_size = 2\<rparr>, os_reqs = [], os_next = 0\<rparr>))))) 1)) \<in> set (os_reqs (snd (ops_step (Op_Post XCCL_OK XCCL_OK (Call_Allreduce [\<lparr>t_device = \<lparr>dev_type = kCUDA, dev_index = 0\<rparr>, t_scalar = kFloat, t_ptr = 100, t_data = [1 :: int, 2]\<rparr>] ReduceOp_SUM)) (snd (ops_step (Op_Post XCCL_OK XCCL_OK (Call_Allreduce [\<lparr>t_device = \<lparr>dev_type = kCUDA, dev_index = 0\<rparr>, t_scalar = kFloat, t_ptr = 100, t_data = [1 :: int, 2]\<rparr>] ReduceOp_SUM)) \<lparr>os_sys = \<lparr>sys_comm = \<lparr>cc_stream = None, event_pool = [], cc_config = \<lparr>blocking_wait = (\<lambda>_. False), gpu_barrier = False, high_priority_stream = False, serialize = False\<rparr>\<rparr>,
         sys_dev = \<lparr>dev_log = [], next_event = 0\<rparr>, sys_team = \<lparr>xccl_handles = []\<rparr>, sys_size = 2\<rparr>, os_reqs = [], os_next = 0\<rparr>))))) \<and>
           (0, the (map_of (os_reqs (snd (ops_step (Op_Post XCCL_OK XCCL_OK (Call_Allreduce [\<lparr>t_device = \<lparr>dev_type = kCUDA, dev_index = 0\<rparr>, t_scalar = kFloat, t_ptr = 100, t_data = [1 :: int, 2]\<rparr>] ReduceOp_SUM)) (snd (ops_step (Op_Post XCCL_OK XCCL_OK (Call_Allreduce [\<lparr>t_device = \<lparr>dev_type = kCUDA, dev_index = 0\<rparr>, t_scalar = kFloat, t_ptr = 100, t_data = [1 :: int, 2]\<rparr>] ReduceOp_SUM)) \<lparr>os_sys = \<lparr>sys_comm = \<lparr>cc_stream = None, event_pool = [], cc_config = \<lparr>blocking_wait = (\<lambda>_. False), gpu_barrier = False, high_priority_stream = False, serialize = False\<rparr>\<rparr>,
         sys_dev = \<lparr>dev_log = [], next_event = 0\<rparr>, sys_team = \<lparr>xccl_handles = []\<rparr>, sys_size = 2\<rparr>, os_reqs = [], os_next = 0\<rparr>))))) 0)) \<in> set (os_reqs (snd (ops_step (Op_Post XCCL_OK XCCL_OK (Call_Allreduce [\<lparr>t_device = \<lparr>dev_type = kCUDA, dev_index = 0\<rparr>, t_scalar = kFloat, t_ptr = 100, t_data = [1 :: int, 2]\<rparr>] ReduceOp_SUM)) (snd (ops_step (Op_Post XCCL_OK XCCL_OK (Call_Allreduce [\<lparr>t_device = \<lparr>dev_type = kCUDA, dev_index = 0\<rparr>, t_scalar = kFloat, t_ptr = 100, t_data = [1 :: int, 2]\<rparr>] ReduceOp_SUM)) \<lparr>os_sys = \<lparr>sys_comm = \<lparr>cc_stream = None, event_pool = [], cc_config = \<lparr>blocking_wait = (\<lambda>_. False), gpu_barrier = False, high_priority_stream = False, serialize = False\<rparr>\<rparr>,
         sys_dev = \<lparr>dev_log = [], next_event = 0\<rparr>, sys_team = \<lparr>xccl_handles = []\<rparr>, sys_size = 2\<rparr>, os_reqs = [], os_next = 0\<rparr>))))) \<and>
           is_cuda (req_device (xr_super (the (map_of (os_reqs (snd (ops_step (Op_Post XCCL_OK XCCL_OK (Call_Allreduce [\<lparr>t_device = \<lparr>dev_type = kCUDA, dev_index = 0\<rparr>, t_scalar = kFloat, t_ptr = 100, t_data = [1 :: int, 2]\<rparr>] ReduceOp_SUM)) (snd (ops_step (Op_Post XCCL_OK XCCL_OK (Call_Allreduce [\<lparr>t_device = \<lparr>dev_type = kCUDA, dev_index = 0\<rparr>, t_scalar = kFloat, t_ptr = 100, t_data = [1 :: int, 2]\<rparr>] ReduceOp_SUM)) \<lparr>os_sys = \<lparr>sys_comm = \<lparr>cc_stream = None, event_pool = [], cc_config = \<lparr>blocking_wait = (\<lambda>_. False), gpu_barrier = False, high_priority_stream = False, serialize = False\<rparr>\<rparr>,
         sys_dev = \<lparr>dev_log = [], next_event = 0\<rparr>, sys_team = \<lparr>xccl_handles = []\<rparr>, sys_size = 2\<rparr>, os_reqs = [], os_next = 0\<rparr>))))) 1)))) \<and>
           is_cuda (req_device (xr_super (the (map_of (os_reqs (snd (ops_step (Op_Post XCCL_OK XCCL_OK (Call_Allreduce [\<lparr>t_device = \<lparr>dev_type = kCUDA, dev_index = 0\<rparr>, t_scalar = kFloat, t_ptr = 100, t_data = [1 :: int, 2]\<rparr>] ReduceOp_SUM)) (snd (ops_step (Op_Post XCCL_OK XCCL_OK (Call_Allreduce [\<lparr>t_device = \<lparr>dev_type = kCUDA, dev_index = 0\<rparr>, t_scalar = kFloat, t_ptr = 100, t_data = [1 :: int, 2]\<rparr>] ReduceOp_SUM)) \<lparr>os_sys = \<lparr>sys_comm = \<lparr>cc_stream = None, event_pool = [], cc_config = \<lparr>blocking_wait = (\<lambda>_. False), gpu_barrier = False, high_priority_stream = False, serialize = False\<rparr>\<rparr>,
         sys_dev = \<lparr>dev_log = [], next_event = 0\<rparr>, sys_team = \<lparr>xccl_handles = []\<rparr>, sys_size = 2\<rparr>, os_reqs = [], os_next = 0\<rparr>))))) 0))))"
    by (simp add: torch_xccl_allreduce_def request_init_m_def torch_ucc_coll_request_init_def
          request_init_barrier_def request_init_src_def coll_request_new_def is_cuda_def
          event_pool_acquire_def event_record_def event_block_def map_at_def elift_def
          coll_args_init_with_stream_def post_finish_def xccl_init_and_post_def
          xccl_collective_init_def xccl_collective_post_def xccl_collective_post_dev_def xr_new_def Let_def ebind_def)
  show ?thesis
    using event_held_once [OF r2 conjunct1 [OF m] conjunct1 [OF conjunct2 [OF m]] _
                              conjunct1 [OF conjunct2 [OF conjunct2 [OF m]]] conjunct2 [OF conjunct2 [OF conjunct2 [OF m]]]] r2
    by simp
qed

lemma free_returns_event_witness:
  "\<exists>st'. ops_step (Op_Free 0) (snd (ops_step (Op_Post XCCL_OK XCCL_OK (Call_Allreduce [\<lparr>t_device = \<lparr>dev_type = kCUDA, dev_index = 0\<rparr>, t_scalar = kFloat, t_ptr = 100, t_data = [1 :: int, 2]\<rparr>] ReduceOp_SUM)) \<lparr>os_sys = \<lparr>sys_comm = \<lparr>cc_stream = None, event_pool = [], cc_config = \<lparr>blocking_wait = (\<lambda>_. False), gpu_barrier = False, high_priority_stream = False, serialize = False\<rparr>\<rparr>,
         sys_dev = \<lparr>dev_log = [], next_event = 0\<rparr>, sys_team = \<lparr>xccl_handles = []\<rparr>, sys_size = 2\<rparr>, os_reqs = [], os_next = 0\<rparr>)) = (Inr (Some TORCH_UCC_OK), st') \<and>
     event_pool (sys_comm (os_sys st')) = event_pool (sys_comm (os_sys (snd (ops_step (Op_Post XCCL_OK XCCL_OK (Call_Allreduce [\<lparr>t_device = \<lparr>dev_type = kCUDA, dev_index = 0\<rparr>, t_scalar = kFloat, t_ptr = 100, t_data = [1 :: int, 2]\<rparr>] ReduceOp_SUM)) \<lparr>os_sys = \<lparr>sys_comm = \<lparr>cc_stream = None, event_pool = [], cc_config = \<lparr>blocking_wait = (\<lambda>_. False), gpu_barrier = False, high_priority_stream = False, serialize = False\<rparr>\<rparr>,
         sys_dev = \<lparr>dev_log = [], next_event = 0\<rparr>, sys_team = \<lparr>xccl_handles = []\<rparr>, sys_size = 2\<rparr>, os_reqs = [], os_next = 0\<rparr>)))) @ [Some 0] \<and>
     ops_step (Op_Test 0) st' = (Inl Request_Use_After_Free, st')"
proof -
  have m: "map_of (os_reqs (snd (ops_step (Op_Post XCCL_OK XCCL_OK (Call_Allreduce [\<lparr>t_device = \<lparr>dev_type = kCUDA, dev_index = 0\<rparr>, t_scalar = kFloat, t_ptr = 100, t_data = [1 :: int, 2]\<rparr>] ReduceOp_SUM)) \<lparr>os_sys = \<lparr>sys_comm = \<lparr>cc_stream = None, event_pool = [], cc_config = \<lparr>blocking_wait = (\<lambda>_. False), gpu_barrier = False, high_priority_stream = False, serialize = False\<rparr>\<rparr>,
         sys_dev = \<lparr>dev_log = [], next_event = 0\<rparr>, sys_team = \<lparr>xccl_handles = []\<rparr>, sys_size = 2\<rparr>, os_reqs = [], os_next = 0\<rparr>))) 0 = Some (the (map_of (os_reqs (snd (ops_step (Op_Post XCCL_OK XCCL_OK (Call_Allreduce [\<lparr>t_device = \<lparr>dev_type = kCUDA, dev_index = 0\<rparr>, t_scalar = kFloat, t_ptr = 100, t_data = [1 :: int, 2]\<rparr>] ReduceOp_SUM)) \<lparr>os_sys = \<lparr>sys_comm = \<lparr>cc_stream = None, event_pool = [], cc_config = \<lparr>blocking_wait = (\<lambda>_. False), gpu_barrier = False, high_priority_stream = False, serialize = False\<rparr>\<rparr>,
         sys_dev = \<lparr>dev_log = [], next_event = 0\<rparr>, sys_team = \<lparr>xccl_handles = []\<rparr>, sys_size = 2\<rparr>, os_reqs = [], os_next = 0\<rparr>))) 0)) \<and>
           is_cuda (req_device (xr_super (the (map_of (os_reqs (snd (ops_step (Op_Post XCCL_OK XCCL_OK (Call_Allreduce [\<lparr>t_device = \<lparr>dev_type = kCUDA, dev_index = 0\<rparr>, t_scalar = kFloat, t_ptr = 100, t_data = [1 :: int, 2]\<rparr>] ReduceOp_SUM)) \<lparr>os_sys = \<lparr>sys_comm = \<lparr>cc_stream = None, event_pool = [], cc_config = \<lparr>blocking_wait = (\<lambda>_. False), gpu_barrier = False, high_priority_stream = False, serialize = False\<rparr>\<rparr>,
         sys_dev = \<lparr>dev_log = [], next_event = 0\<rparr>, sys_team = \<lparr>xccl_handles = []\<rparr>, sys_size = 2\<rparr>, os_reqs = [], os_next = 0\<rparr>))) 0)))) \<and>
           req_event (xr_super (the (map_of (os_reqs (snd (ops_step (Op_Post XCCL_OK XCCL_OK (Call_Allreduce [\<lparr>t_device = \<lparr>dev_type = kCUDA, dev_index = 0\<rparr>, t_scalar = kFloat, t_ptr = 100, t_data = [1 :: int, 2]\<rparr>] ReduceOp_SUM)) \<lparr>os_sys = \<lparr>sys_comm = \<lparr>cc_stream = None, event_pool = [], cc_config = \<lparr>blocking_wait = (\<lambda>_. False), gpu_barrier = False, high_priority_stream = False, serialize = False\<rparr>\<rparr>,
         sys_dev = \<lparr>dev_log = [], next_event = 0\<rparr>, sys_team = \<lparr>xccl_handles = []\<rparr>, sys_size = 2\<rparr>, os_reqs = [], os_next = 0\<rparr>))) 0))) = Some 0"
    by (simp add: torch_xccl_allreduce_def request_init_m_def torch_ucc_coll_request_init_def
          request_init_barrier_def request_init_src_def coll_request_new_def is_cuda_def
          event_pool_acquire_def event_record_def event_block_def map_at_def elift_def
          coll_args_init_with_stream_def post_finish_def xccl_init_and_post_def
          xccl_collective_init_def xccl_collective_post_def xccl_collective_post_dev_def xr_new_def Let_def ebind_def)
  show ?thesis using free_returns_event [OF conjunct1 [OF m] conjunct1 [OF conjunct2 [OF m]]] m by simp
qed

end
