(* ===== verification/Stability.thy ===== *)
theory Stability
  imports Ops "HOL-Library.Sublist"
begin

text \<open>
  What the calls of the operation table never undo, from the invariants of the
  specification's data model: the communication stream, once created, is never
  replaced (\<open>StreamBinding\<close>); the event pool grows on demand and events are never
  freed (the counter of allocated events never decreases); work handed to the device
  is never retracted (the device log only grows at its end); the configuration, the
  group size and the number of XCCL handles created never shrink or change.
  \<open>sys_grows\<close> is that relation between two process states and \<open>grows\<close> says a
  call establishes it between the state before and after, whatever it returns.
\<close>

section \<open>The relation\<close>

definition sys_grows :: "xccl_sys \<Rightarrow> xccl_sys \<Rightarrow> bool" where
  "sys_grows s s' \<longleftrightarrow>
     (\<forall>cs. cc_stream (sys_comm s) = Some cs \<longrightarrow> cc_stream (sys_comm s') = Some cs) \<and>
     cc_config (sys_comm s') = cc_config (sys_comm s) \<and>
     next_event (sys_dev s) \<le> next_event (sys_dev s') \<and>
     prefix (dev_log (sys_dev s)) (dev_log (sys_dev s')) \<and>
     length (xccl_handles (sys_team s)) \<le> length (xccl_handles (sys_team s')) \<and>
     sys_size s' = sys_size s"

definition grows :: "(xccl_sys \<Rightarrow> 'r \<times> xccl_sys) \<Rightarrow> bool" where
  "grows m \<longleftrightarrow> (\<forall>s x s'. m s = (x, s') \<longrightarrow> sys_grows s s')"

text \<open>One call of the operation table, whichever call and whatever it returns.\<close>

inductive ops_next :: "'v ops_state \<Rightarrow> 'v ops_state \<Rightarrow> bool" where
  call: "ops_step op st = (x, st') \<Longrightarrow> ops_next st st'"

section \<open>Lemmas\<close>

lemma sys_grows_refl [simp]: "sys_grows s s"
  by (simp add: sys_grows_def)

lemma sys_grows_trans: "sys_grows s1 s2 \<Longrightarrow> sys_grows s2 s3 \<Longrightarrow> sys_grows s1 s3"
  unfolding sys_grows_def by (metis order_trans prefix_order.order_trans)

lemma growsI: "(\<And>s x s'. m s = (x, s') \<Longrightarrow> sys_grows s s') \<Longrightarrow> grows m"
  by (simp add: grows_def)

lemma growsD: "grows m \<Longrightarrow> m s = (x, s') \<Longrightarrow> sys_grows s s'"
  by (simp add: grows_def)

lemma grows_ebind: "grows m \<Longrightarrow> (\<And>a. grows (f a)) \<Longrightarrow> grows (ebind m f)"
  unfolding grows_def ebind_def
  by (auto split: prod.splits sum.splits) (meson sys_grows_trans)

lemma grows_egets: "grows (egets g)"
  by (simp add: grows_def egets_def)

lemma grows_ereturn: "grows (ereturn a)"
  by (simp add: grows_def ereturn_def)

lemma grows_map_at: "grows (map_at m k)"
  by (simp add: grows_def map_at_def elift_def)

lemma grows_coll_args: "grows (coll_args_init_with_stream a r)"
  by (auto simp: grows_def coll_args_init_with_stream_def split: option.splits)

lemma grows_destroy: "grows (emodify (\<lambda>s. s\<lparr>sys_comm := coll_request_destroy (sys_comm s) q\<rparr>))"
  by (simp add: grows_def emodify_def sys_grows_def coll_request_destroy_def)

lemma request_init_grows:
  assumes "torch_ucc_coll_request_init c ct srcp dstp d = Inr (c1, q, d1)"
  shows "(\<forall>cs. cc_stream c = Some cs \<longrightarrow> cc_stream c1 = Some cs) \<and> cc_config c1 = cc_config c \<and>
         next_event d \<le> next_event d1 \<and> prefix (dev_log d) (dev_log d1)"
  using assms
  by (auto simp: torch_ucc_coll_request_init_def request_init_barrier_def request_init_src_def
                 request_init_dst_def event_pool_acquire_def event_record_def event_block_def Let_def
           split: sum.splits option.splits list.splits if_splits prod.splits)

lemma grows_request_init_m: "grows (request_init_m ct srcp dstp)"
  unfolding grows_def request_init_m_def
  by (auto simp: sys_grows_def dest: request_init_grows split: sum.splits prod.splits)

lemma grows_init_and_post: "grows (xccl_init_and_post ist pst a r)"
  unfolding grows_def sys_grows_def
  by (auto simp: xccl_init_and_post_def xccl_collective_init_def xccl_collective_post_dev_def
                 xccl_collective_post_def xccl_collective_finalize_def event_record_def Let_def
           split: if_splits option.splits sum.splits prod.splits xccl_handle.splits)

lemma grows_post_finish: "grows (post_finish ist pst a r)"
  unfolding post_finish_def
  by (rule grows_ebind [OF grows_init_and_post])
     (auto intro: grows_ebind grows_destroy grows_ereturn split: prod.split)

lemma grows_barrier: "grows (torch_xccl_barrier ist pst)"
  unfolding torch_xccl_barrier_def Let_def
proof (rule grows_ebind [OF grows_request_init_m], rule growsI)
  fix r s x s'
  assume run: "(if gpu_barrier (cc_config (sys_comm s))
     then case cc_stream (sys_comm s) of None \<Rightarrow> (Inl Null_Stream_Deref, s)
          | Some cs \<Rightarrow> (case event_record (req_event (xr_super r)) cs (sys_dev s) of Inl e \<Rightarrow> (Inl e, s)
              | Inr d \<Rightarrow> post_finish ist pst
                  (coll_args_uninit\<lparr>field_mask_stream := Some False, args_coll_type := Some XCCL_BARRIER,
                     set_by_user := Some False, src_mtype := Some UCS_MEMORY_TYPE_HOST,
                     src_mtype := Some UCS_MEMORY_TYPE_CUDA, field_mask_stream := Some True, args_stream := Some cs\<rparr>)
                  r (s\<lparr>sys_dev := d\<rparr>))
     else post_finish ist pst
            (coll_args_uninit\<lparr>field_mask_stream := Some False, args_coll_type := Some XCCL_BARRIER,
               set_by_user := Some False, src_mtype := Some UCS_MEMORY_TYPE_HOST\<rparr>) r s) = (x, s')"
  have rec: "sys_grows s (s\<lparr>sys_dev := d\<rparr>)" if "event_record e cs (sys_dev s) = Inr d" for e cs d
    using that by (auto simp: event_record_def sys_grows_def split: option.splits)
  show "sys_grows s s'"
  proof (cases "gpu_barrier (cc_config (sys_comm s))")
    case False
    then show ?thesis using run growsD [OF grows_post_finish] by simp
  next
    case True
    show ?thesis
    proof (cases "cc_stream (sys_comm s)")
      case None
      then show ?thesis using run True by simp
    next
      case (Some cs)
      show ?thesis
      proof (cases "event_record (req_event (xr_super r)) cs (sys_dev s)")
        case (Inl e)
        then show ?thesis using run True Some by simp
      next
        case (Inr d)
        then have "sys_grows (s\<lparr>sys_dev := d\<rparr>) s'"
          using run True Some growsD [OF grows_post_finish] by simp
        then show ?thesis using rec [OF Inr] sys_grows_trans by blast
      qed
    qed
  qed
qed

lemma grows_post: "grows (torch_xccl_post ist pst c)"
proof (cases c)
  case Call_Barrier
  then show ?thesis using grows_barrier by simp
qed (simp_all add: torch_xccl_allgather_def torch_xccl_alltoall_def torch_xccl_alltoallv_def
                   torch_xccl_allreduce_def torch_xccl_broadcast_def Let_def,
     (intro grows_ebind grows_request_init_m grows_egets grows_map_at grows_coll_args grows_post_finish)+)

lemma ops_step_grows:
  assumes "ops_step op st = (x, st')"
  shows "sys_grows (os_sys st) (os_sys st')"
proof (cases op)
  case (Op_Post ist pst c)
  then show ?thesis using assms growsD [OF grows_post]
    by (auto split: prod.splits sum.splits option.splits)
next
  case (Op_Progress i)
  then show ?thesis using assms
    by (auto simp: torch_xccl_progress_def sys_grows_def xccl_collective_finalize_def
             simp del: unflatten_from.simps split: option.splits sum.splits if_splits prod.splits)
next
  case (Op_Test i)
  then show ?thesis using assms by (auto split: option.splits)
next
  case (Op_Fence i)
  then show ?thesis using assms
    by (auto simp: torch_xccl_fence_def event_block_def sys_grows_def split: option.splits sum.splits if_splits prod.splits)
next
  case (Op_Free i)
  then show ?thesis using assms
    by (auto simp: torch_xccl_free_def coll_request_destroy_def sys_grows_def split: option.splits)
qed

lemma ops_next_grows: "ops_next\<^sup>*\<^sup>* st st' \<Longrightarrow> sys_grows (os_sys st) (os_sys st')"
proof (induction rule: rtranclp_induct)
  case base
  then show ?case by simp
next
  case (step st1 st2)
  then show ?case by (auto elim!: ops_next.cases dest!: ops_step_grows intro: sys_grows_trans)
qed

section \<open>Properties\<close>

text \<open>C28. Along any sequence of calls of the operation table, whatever each call
  returns: a communication stream, once created, stays the communicator's stream;
  the configuration does not change; the count of allocated events never decreases
  (the pool grows on demand and never frees an event); and the device work issued so
  far stays issued, in order, as a prefix of the device log.\<close>

theorem ops_runs_grow:
  assumes "ops_next\<^sup>*\<^sup>* st st'"
  shows "(\<forall>cs. cc_stream (sys_comm (os_sys st)) = Some cs \<longrightarrow> cc_stream (sys_comm (os_sys st')) = Some cs) \<and>
         cc_config (sys_comm (os_sys st')) = cc_config (sys_comm (os_sys st)) \<and>
         next_event (sys_dev (os_sys st)) \<le> next_event (sys_dev (os_sys st')) \<and>
         prefix (dev_log (sys_dev (os_sys st))) (dev_log (sys_dev (os_sys st')))"
  using ops_next_grows [OF assms] by (simp add: sys_grows_def)

text \<open>C29. Stream binding: once the communicator has its communication stream, a
  successful post of a non-barrier collective on a CUDA tensor makes that same
  stream wait for the caller's work and runs the collective on it, and the stream
  stays the communicator's.\<close>

theorem post_reuses_stream:
  assumes "cc_stream (sys_comm s) = Some cs"
    and "torch_xccl_post ist pst c s = (Inr (TORCH_UCC_OK, Some r), s')"
    and "c \<noteq> Call_Barrier" "is_cuda (req_device (xr_super r))"
  shows "\<exists>e. prefix (dev_log (sys_dev s) @ [Ev_Record e (Current_Stream (dev_index (req_device (xr_super r)))),
                                              Ev_Block e cs, Kernel cs ''xccl_collective''])
                    (dev_log (sys_dev s')) \<and> cc_stream (sys_comm s') = Some cs"
proof -
  obtain e cs' where log: "dev_log (sys_dev s') =
           (dev_log (sys_dev s) @ [Ev_Record e (Current_Stream (dev_index (req_device (xr_super r))))]) @
           [Ev_Block e cs'] @ ([Kernel cs' ''xccl_collective''] @
           (if blocking_wait (cc_config (sys_comm s)) (req_type (xr_super r)) then [] else [Ev_Record e cs']))"
    and st: "cc_stream (sys_comm s') = Some cs'"
    using post_cuda_log [OF assms(2-4)] by blast
  have "cc_stream (sys_comm s') = Some cs"
    using growsD [OF grows_post assms(2)] assms(1) by (simp add: sys_grows_def)
  then show ?thesis using log st by (auto simp: prefix_def)
qed

section \<open>Witnesses\<close>

lemma ops_runs_grow_witness:
  "cc_stream (sys_comm (os_sys (snd (ops_step (Op_Post XCCL_OK XCCL_OK (Call_Allreduce [\<lparr>t_device = \<lparr>dev_type = kCUDA, dev_index = 0\<rparr>, t_scalar = kFloat, t_ptr = 100, t_data = [1 :: int, 2]\<rparr>] ReduceOp_SUM)) \<lparr>os_sys = \<lparr>sys_comm = \<lparr>cc_stream = None, event_pool = [], cc_config = \<lparr>blocking_wait = (\<lambda>_. False), gpu_barrier = False, high_priority_stream = False, serialize = False\<rparr>\<rparr>,
         sys_dev = \<lparr>dev_log = [], next_event = 0\<rparr>, sys_team = \<lparr>xccl_handles = []\<rparr>, sys_size = 2\<rparr>, os_reqs = [], os_next = 0\<rparr>)))) = Some (Pool_Stream 0 False) \<and>
   cc_stream (sys_comm (os_sys (snd (ops_step (Op_Post XCCL_OK XCCL_OK (Call_Allreduce [\<lparr>t_device = \<lparr>dev_type = kCUDA, dev_index = 0\<rparr>, t_scalar = kFloat, t_ptr = 100, t_data = [1 :: int, 2]\<rparr>] ReduceOp_SUM)) (snd (ops_step (Op_Post XCCL_OK XCCL_OK (Call_Allreduce [\<lparr>t_device = \<lparr>dev_type = kCUDA, dev_index = 0\<rparr>, t_scalar = kFloat, t_ptr = 100, t_data = [1 :: int, 2]\<rparr>] ReduceOp_SUM)) \<lparr>os_sys = \<lparr>sys_comm = \<lparr>cc_stream = None, event_pool = [], cc_config = \<lparr>blocking_wait = (\<lambda>_. False), gpu_barrier = False, high_priority_stream = False, serialize = False\<rparr>\<rparr>,
         sys_dev = \<lparr>dev_log = [], next_event = 0\<rparr>, sys_team = \<lparr>xccl_handles = []\<rparr>, sys_size = 2\<rparr>, os_reqs = [], os_next = 0\<rparr>)))))) = Some (Pool_Stream 0 False)"
proof -
  have run: "ops_next\<^sup>*\<^sup>* (snd (ops_step (Op_Post XCCL_OK XCCL_OK (Call_Allreduce [\<lparr>t_device = \<lparr>dev_type = kCUDA, dev_index = 0\<rparr>, t_scalar = kFloat, t_ptr = 100, t_data = [1 :: int, 2]\<rparr>] ReduceOp_SUM)) \<lparr>os_sys = \<lparr>sys_comm = \<lparr>cc_stream = None, event_pool = [], cc_config = \<lparr>blocking_wait = (\<lambda>_. False), gpu_barrier = False, high_priority_stream = False, serialize = False\<rparr>\<rparr>,
         sys_dev = \<lparr>dev_log = [], next_event = 0\<rparr>, sys_team = \<lparr>xccl_handles = []\<rparr>, sys_size = 2\<rparr>, os_reqs = [], os_next = 0\<rparr>)) (snd (ops_step (Op_Post XCCL_OK XCCL_OK (Call_Allreduce [\<lparr>t_device = \<lparr>dev_type = kCUDA, dev_index = 0\<rparr>, t_scalar = kFloat, t_ptr = 100, t_data = [1 :: int, 2]\<rparr>] ReduceOp_SUM)) (snd (ops_step (Op_Post XCCL_OK XCCL_OK (Call_Allreduce [\<lparr>t_device = \<lparr>dev_type = kCUDA, dev_index = 0\<rparr>, t_scalar = kFloat, t_ptr = 100, t_data = [1 :: int, 2]\<rparr>] ReduceOp_SUM)) \<lparr>os_sys = \<lparr>sys_comm = \<lparr>cc_stream = None, event_pool = [], cc_config = \<lparr>blocking_wait = (\<lambda>_. False), gpu_barrier = False, high_priority_stream = False, serialize = False\<rparr>\<rparr>,
         sys_dev = \<lparr>dev_log = [], next_event = 0\<rparr>, sys_team = \<lparr>xccl_handles = []\<rparr>, sys_size = 2\<rparr>, os_reqs = [], os_next = 0\<rparr>))))"
    by (rule r_into_rtranclp, rule ops_next.call, rule prod.collapse [symmetric])
  have s1: "cc_stream (sys_comm (os_sys (snd (ops_step (Op_Post XCCL_OK XCCL_OK (Call_Allreduce [\<lparr>t_device = \<lparr>dev_type = kCUDA, dev_index = 0\<rparr>, t_scalar = kFloat, t_ptr = 100, t_data = [1 :: int, 2]\<rparr>] ReduceOp_SUM)) \<lparr>os_sys = \<lparr>sys_comm = \<lparr>cc_stream = None, event_pool = [], cc_config = \<lparr>blocking_wait = (\<lambda>_. False), gpu_barrier = False, high_priority_stream = False, serialize = False\<rparr>\<rparr>,
         sys_dev = \<lparr>dev_log = [], next_event = 0\<rparr>, sys_team = \<lparr>xccl_handles = []\<rparr>, sys_size = 2\<rparr>, os_reqs = [], os_next = 0\<rparr>)))) = Some (Pool_Stream 0 False)"
    by (simp add: torch_xccl_allreduce_def request_init_m_def torch_ucc_coll_request_init_def
          request_init_barrier_def request_init_src_def coll_request_new_def is_cuda_def
          event_pool_acquire_def event_record_def event_block_def map_at_def elift_def
          coll_args_init_with_stream_def post_finish_def xccl_init_and_post_def
          xccl_collective_init_def xccl_collective_post_def xccl_collective_post_dev_def xr_new_def Let_def ebind_def)
  show ?thesis using ops_runs_grow [OF run] s1 by simp
qed

lemma post_reuses_stream_witness:
  "\<exists>r s' e. torch_xccl_post XCCL_OK XCCL_OK (Call_Allreduce [\<lparr>t_device = \<lparr>dev_type = kCUDA, dev_index = 0\<rparr>, t_scalar = kFloat, t_ptr = 100, t_data = [1 :: int, 2]\<rparr>] ReduceOp_SUM) (os_sys (snd (ops_step (Op_Post XCCL_OK XCCL_OK (Call_Allreduce [\<lparr>t_device = \<lparr>dev_type = kCUDA, dev_index = 0\<rparr>, t_scalar = kFloat, t_ptr = 100, t_data = [1 :: int, 2]\<rparr>] ReduceOp_SUM)) \<lparr>os_sys = \<lparr>sys_comm = \<lparr>cc_stream = None, event_pool = [], cc_config = \<lparr>blocking_wait = (\<lambda>_. False), gpu_barrier = False, high_priority_stream = False, serialize = False\<rparr>\<rparr>,
         sys_dev = \<lparr>dev_log = [], next_event = 0\<rparr>, sys_team = \<lparr>xccl_handles = []\<rparr>, sys_size = 2\<rparr>, os_reqs = [], os_next = 0\<rparr>))) = (Inr (TORCH_UCC_OK, Some r), s') \<and>
     prefix (dev_log (sys_dev (os_sys (snd (ops_step (Op_Post XCCL_OK XCCL_OK (Call_Allreduce [\<lparr>t_device = \<lparr>dev_type = kCUDA, dev_index = 0\<rparr>, t_scalar = kFloat, t_ptr = 100, t_data = [1 :: int, 2]\<rparr>] ReduceOp_SUM)) \<lparr>os_sys = \<lparr>sys_comm = \<lparr>cc_stream = None, event_pool = [], cc_config = \<lparr>blocking_wait = (\<lambda>_. False), gpu_barrier = False, high_priority_stream = False, serialize = False\<rparr>\<rparr>,
         sys_dev = \<lparr>dev_log = [], next_event = 0\<rparr>, sys_team = \<lparr>xccl_handles = []\<rparr>, sys_size = 2\<rparr>, os_reqs = [], os_next = 0\<rparr>)))) @ [Ev_Record e (Current_Stream 0), Ev_Block e (Pool_Stream 0 False),
                                                  Kernel (Pool_Stream 0 False) ''xccl_collective''])
            (dev_log (sys_dev s'))"
proof -
  have s1: "cc_stream (sys_comm (os_sys (snd (ops_step (Op_Post XCCL_OK XCCL_OK (Call_Allreduce [\<lparr>t_device = \<lparr>dev_type = kCUDA, dev_index = 0\<rparr>, t_scalar = kFloat, t_ptr = 100, t_data = [1 :: int, 2]\<rparr>] ReduceOp_SUM)) \<lparr>os_sys = \<lparr>sys_comm = \<lparr>cc_stream = None, event_pool = [], cc_config = \<lparr>blocking_wait = (\<lambda>_. False), gpu_barrier = False, high_priority_stream = False, serialize = False\<rparr>\<rparr>,
         sys_dev = \<lparr>dev_log = [], next_event = 0\<rparr>, sys_team = \<lparr>xccl_handles = []\<rparr>, sys_size = 2\<rparr>, os_reqs = [], os_next = 0\<rparr>)))) = Some (Pool_Stream 0 False)"
    by (simp add: torch_xccl_allreduce_def request_init_m_def torch_ucc_coll_request_init_def
          request_init_barrier_def request_init_src_def coll_request_new_def is_cuda_def
          event_pool_acquire_def event_record_def event_block_def map_at_def elift_def
          coll_args_init_with_stream_def post_finish_def xccl_init_and_post_def
          xccl_collective_init_def xccl_collective_post_def xccl_collective_post_dev_def xr_new_def Let_def ebind_def)
  have "\<exists>r s'. torch_xccl_post XCCL_OK XCCL_OK (Call_Allreduce [\<lparr>t_device = \<lparr>dev_type = kCUDA, dev_index = 0\<rparr>, t_scalar = kFloat, t_ptr = 100, t_data = [1 :: int, 2]\<rparr>] ReduceOp_SUM) (os_sys (snd (ops_step (Op_Post XCCL_OK XCCL_OK (Call_Allreduce [\<lparr>t_device = \<lparr>dev_type = kCUDA, dev_index = 0\<rparr>, t_scalar = kFloat, t_ptr = 100, t_data = [1 :: int, 2]\<rparr>] ReduceOp_SUM)) \<lparr>os_sys = \<lparr>sys_comm = \<lparr>cc_stream = None, event_pool = [], cc_config = \<lparr>blocking_wait = (\<lambda>_. False), gpu_barrier = False, high_priority_stream = False, serialize = False\<rparr>\<rparr>,
         sys_dev = \<lparr>dev_log = [], next_event = 0\<rparr>, sys_team = \<lparr>xccl_handles = []\<rparr>, sys_size = 2\<rparr>, os_reqs = [], os_next = 0\<rparr>))) = (Inr (TORCH_UCC_OK, Some r), s') \<and>
          req_device (xr_super r) = \<lparr>dev_type = kCUDA, dev_index = 0\<rparr>"
    by (simp add: torch_xccl_allreduce_def request_init_m_def torch_ucc_coll_request_init_def
          request_init_barrier_def request_init_src_def coll_request_new_def is_cuda_def
          event_pool_acquire_def event_record_def event_block_def map_at_def elift_def
          coll_args_init_with_stream_def post_finish_def xccl_init_and_post_def
          xccl_collective_init_def xccl_collective_post_def xccl_collective_post_dev_def xr_new_def Let_def ebind_def)
  then obtain r s' where p: "torch_xccl_post XCCL_OK XCCL_OK (Call_Allreduce [\<lparr>t_device = \<lparr>dev_type = kCUDA, dev_index = 0\<rparr>, t_scalar = kFloat, t_ptr = 100, t_data = [1 :: int, 2]\<rparr>] ReduceOp_SUM) (os_sys (snd (ops_step (Op_Post XCCL_OK XCCL_OK (Call_Allreduce [\<lparr>t_device = \<lparr>dev_type = kCUDA, dev_index = 0\<rparr>, t_scalar = kFloat, t_ptr = 100, t_data = [1 :: int, 2]\<rparr>] ReduceOp_SUM)) \<lparr>os_sys = \<lparr>sys_comm = \<lparr>cc_stream = None, event_pool = [], cc_config = \<lparr>blocking_wait = (\<lambda>_. False), gpu_barrier = False, high_priority_stream = False, serialize = False\<rparr>\<rparr>,
         sys_dev = \<lparr>dev_log = [], next_event = 0\<rparr>, sys_team = \<lparr>xccl_handles = []\<rparr>, sys_size = 2\<rparr>, os_reqs = [], os_next = 0\<rparr>))) = (Inr (TORCH_UCC_OK, Some r), s')"
    and d: "req_device (xr_super r) = \<lparr>dev_type = kCUDA, dev_index = 0\<rparr>" by blast
  show ?thesis
    using post_reuses_stream [OF s1 p _ _] p d by (auto simp: is_cuda_def)
qed

end
