(* ===== verification/UcxColl.thy ===== *)
theory UcxColl
  imports Bootstrap
begin

text \<open>
  The legacy UCX collective layer declared in \<open>src/torch_ucx_coll.hpp\<close>: its
  memory kinds, configuration, communicator and request structs. The header only
  declares the operations (\<open>torch_ucx_coll_comm_init\<close>, \<open>torch_ucx_coll_test\<close>,
  \<open>torch_ucx_alltoall_start\<close>, \<open>torch_ucx_alltoall_progress\<close>,
  \<open>torch_ucx_coll_comm_close\<close>); their bodies are not in the repository and no code
  under \<open>src/\<close> reads or writes the \<open>last_tag\<close> counter, so only the data is
  modelled.
\<close>

section \<open>The structs\<close>

datatype torch_ucx_memtype = TORCH_UCX_HOST | TORCH_UCX_CUDA

record ucx_coll_config =
  uc_chunk :: int
  uc_reverse :: bool
  uc_max_polls :: int

text \<open>The communicator; \<open>cudaStream_t\<close> is a stream handle.\<close>

record ucx_coll_comm =
  uc_p2p_comm :: ucx_comm
  uc_config :: ucx_coll_config
  last_tag :: "32 word"
  uc_stream :: nat

text \<open>The request; pointers (communicator, buffers) are addresses, and the
  progress function pointer is the only progress function the header declares.\<close>

datatype ucx_progress_fn = Torch_Ucx_Alltoall_Progress

record ucx_coll_request =
  ucr_comm :: nat
  ucr_tag :: "32 word"
  ucr_status :: torch_ucc_status
  ucr_progress :: "ucx_progress_fn option"
  src_buf_mtype :: torch_ucx_memtype
  src_buffer :: nat
  dst_buf_mtype :: torch_ucx_memtype
  dst_buffer :: nat
  ucr_len :: size_t
  ucr_reqs :: "ucx_req list"
  n_sreqs :: int
  n_rreqs :: int

end
