(* ===== verification/Isolation.thy ===== *)
theory Isolation
  imports Stability
begin

text \<open>
  Which XCCL handle each live request owns. A post that returns a request gives it
  the handle \<open>xccl_collective_init\<close> has just appended to the team, so in every
  state the calls of the table reach, with the transport completing collectives in
  between, the handles of live requests are distinct and in range
  (\<open>handles_ok\<close>). The frame lemma \<open>progress_handles\<close> says what the test and
  finalize part of \<open>torch_xccl_progress\<close> touches: only its own request's handle.
  The \<open>xccl_context_progress\<close> call at line 660, which may advance any collective
  of the context, is not part of the call here; its effect is the separate transport
  step (\<open>xccl_complete\<close>) of \<open>ops_reach\<close>, which never finalizes a handle. The
  theory \<open>Leak\<close> builds on these facts.
\<close>

section \<open>Handles of live requests\<close>

definition live_handles :: "(nat \<times> 'v xccl_request) list \<Rightarrow> nat list" where
  "live_handles rs = concat (map (\<lambda>(_, r). case xr_handle r of None \<Rightarrow> [] | Some h \<Rightarrow> [h]) rs)"

definition handles_ok :: "'v ops_state \<Rightarrow> bool" where
  "handles_ok st \<longleftrightarrow>
     distinct (live_handles (os_reqs st)) \<and>
     (\<forall>h \<in> set (live_handles (os_reqs st)). h < length (xccl_handles (sys_team (os_sys st))))"

text \<open>A call that, when it returns a request, gives it the next handle of the team
  and appends that handle.\<close>

definition fresh_handle ::
  "(xccl_sys \<Rightarrow> (ucc_error + torch_ucc_status \<times> 'v xccl_request option) \<times> xccl_sys) \<Rightarrow> bool" where
  "fresh_handle m \<longleftrightarrow>
     (\<forall>s x r s'. m s = (Inr (x, Some r), s') \<longrightarrow>
        xr_handle r = Some (length (xccl_handles (sys_team s))) \<and>
        length (xccl_handles (sys_team s)) < length (xccl_handles (sys_team s')))"

definition keeps_team :: "(xccl_sys \<Rightarrow> 'r \<times> xccl_sys) \<Rightarrow> bool" where
  "keeps_team m \<longleftrightarrow> (\<forall>s x s'. m s = (x, s') \<longrightarrow> sys_team s' = sys_team s)"

section \<open>Lemmas\<close>

lemma fresh_ebind: "keeps_team m \<Longrightarrow> (\<And>a. fresh_handle (f a)) \<Longrightarrow> fresh_handle (ebind m f)"
  unfolding fresh_handle_def keeps_team_def ebind_def
  by (auto split: prod.splits sum.splits) metis+

lemma keeps_team_egets: "keeps_team (egets g)"
  by (simp add: keeps_team_def egets_def)

lemma keeps_team_map_at: "keeps_team (map_at m k)"
  by (simp add: keeps_team_def map_at_def elift_def)

lemma keeps_team_coll_args: "keeps_team (coll_args_init_with_stream a r)"
  by (auto simp: keeps_team_def coll_args_init_with_stream_def split: option.splits)

lemma keeps_team_request_init_m: "keeps_team (request_init_m ct srcp dstp)"
  by (auto simp: keeps_team_def request_init_m_def split: sum.splits prod.splits)

lemma fresh_post_finish: "fresh_handle (post_finish ist pst a r)"
  unfolding fresh_handle_def post_finish_def ebind_def
  by (auto dest!: init_and_post_ok_shape simp: emodify_def ereturn_def split: prod.splits sum.splits if_splits)

lemma fresh_barrier: "fresh_handle (torch_xccl_barrier ist pst)"
  unfolding torch_xccl_barrier_def Let_def
proof (rule fresh_ebind [OF keeps_team_request_init_m])
  fix r
  have pf: "\<And>a q s x r' s'. post_finish ist pst a q s = (Inr (x, Some r'), s') \<Longrightarrow>
              xr_handle r' = Some (length (xccl_handles (sys_team s))) \<and>
              length (xccl_handles (sys_team s)) < length (xccl_handles (sys_team s'))"
    using fresh_post_finish unfolding fresh_handle_def by blast
  show "fresh_handle (\<lambda>s. if gpu_barrier (cc_config (sys_comm s))
     then case cc_stream (sys_comm s) of None \<Rightarrow> (Inl Null_Stream_Deref, s)
          | Some cs \<Rightarrow> (case event_record (req_event (xr_super r)) cs (sys_dev s) of Inl e \<Rightarrow> (Inl e, s)
              | Inr d \<Rightarrow> post_finish ist pst
                  (coll_args_uninit\<lparr>field_mask_stream := Some False, args_coll_type := Some XCCL_BARRIER,
                     set_by_user := Some False, src_mtype := Some UCS_MEMORY_TYPE_HOST,
                     src_mtype := Some UCS_MEMORY_TYPE_CUDA, field_mask_stream := Some True, args_stream := Some cs\<rparr>)
                  r (s\<lparr>sys_dev := d\<rparr>))
     else post_finish ist pst
            (coll_args_uninit\<lparr>field_mask_stream := Some False, args_coll_type := Some XCCL_BARRIER,
               set_by_user := Some False, src_mtype := Some UCS_MEMORY_TYPE_HOST\<rparr>) r s)"
    unfolding fresh_handle_def
    by (auto split: if_splits option.splits sum.splits dest!: pf)
qed

lemma fresh_post: "fresh_handle (torch_xccl_post ist pst c)"
proof (cases c)
  case Call_Barrier
  then show ?thesis using fresh_barrier by simp
qed (simp_all add: torch_xccl_allgather_def torch_xccl_alltoall_def torch_xccl_alltoallv_def
                   torch_xccl_allreduce_def torch_xccl_broadcast_def Let_def,
     (intro fresh_ebind keeps_team_request_init_m keeps_team_egets keeps_team_map_at keeps_team_coll_args
            fresh_post_finish)+)

lemma live_handles_cons [simp]:
  "live_handles ((i, r) # rs) = (case xr_handle r of None \<Rightarrow> [] | Some h \<Rightarrow> [h]) @ live_handles rs"
  by (simp add: live_handles_def)

lemma live_handles_update:
  "map_of rs i = Some r \<Longrightarrow> xr_handle r' = xr_handle r \<Longrightarrow> live_handles (AList.update i r' rs) = live_handles rs"
  unfolding live_handles_def by (rule concat_map_update) simp_all

lemma live_handles_delete:
  "distinct (map fst rs) \<Longrightarrow> map_of rs i = Some r \<Longrightarrow>
   mset (live_handles rs) = mset ((case xr_handle r of None \<Rightarrow> [] | Some h \<Rightarrow> [h]) @ live_handles (AList.delete i rs))"
  using concat_map_delete [of rs i r "\<lambda>(_, r). case xr_handle r of None \<Rightarrow> [] | Some h \<Rightarrow> [h]"]
  by (simp add: live_handles_def)

lemma live_handles_mem: "map_of rs i = Some r \<Longrightarrow> xr_handle r = Some h \<Longrightarrow> h \<in> set (live_handles rs)"
  by (induction rs) (auto split: if_splits option.splits)

lemma live_handles_two:
  "distinct (live_handles rs) \<Longrightarrow> map_of rs i = Some ri \<Longrightarrow> map_of rs j = Some rj \<Longrightarrow> i \<noteq> j \<Longrightarrow>
   xr_handle ri = Some h \<Longrightarrow> xr_handle rj \<noteq> Some h"
proof (induction rs)
  case Nil
  then show ?case by simp
next
  case (Cons p rs)
  then show ?case
    by (cases p) (auto dest: live_handles_mem split: if_splits option.splits)
qed

text \<open>A progress call changes the team only at its request's handle, keeps the number
  of handles, and keeps its request's handle.\<close>

lemma progress_handles:
  assumes "torch_xccl_progress r s = (y, s')"
  shows "length (xccl_handles (sys_team s')) = length (xccl_handles (sys_team s)) \<and>
         (\<forall>k. (\<forall>h. xr_handle r = Some h \<longrightarrow> k \<noteq> h) \<longrightarrow>
              xccl_handles (sys_team s') ! k = xccl_handles (sys_team s) ! k) \<and>
         (\<forall>st r'. y = Inr (st, r') \<longrightarrow> xr_handle r' = xr_handle r)"
  using assms
  by (auto simp: torch_xccl_progress_def xccl_collective_finalize_def
           simp del: unflatten_from.simps split: option.splits sum.splits if_splits)

lemma ops_step_handles_post:
  assumes ok: "handles_ok st" "ops_inv st" and run: "ops_step (Op_Post ist pst c) st = (x, st')"
  shows "handles_ok st'"
proof -
  obtain y s' where p: "torch_xccl_post ist pst c (os_sys st) = (y, s')" by fastforce
  let ?n = "length (xccl_handles (sys_team (os_sys st)))"
  have len: "?n \<le> length (xccl_handles (sys_team s'))"
    using growsD [OF grows_post p] by (simp add: sys_grows_def)
  show ?thesis
  proof (cases "\<exists>v r. y = Inr (v, Some r)")
    case True
    then obtain v r where y: "y = Inr (v, Some r)" by blast
    have f: "xr_handle r = Some ?n" "?n < length (xccl_handles (sys_team s'))"
      using fresh_post p y unfolding fresh_handle_def by blast+
    have "st' = st\<lparr>os_sys := s', os_reqs := (os_next st, r) # os_reqs st, os_next := Suc (os_next st)\<rparr>"
      using run p y by simp
    then show ?thesis using ok f by (fastforce simp: handles_ok_def)
  next
    case False
    then have "st' = st\<lparr>os_sys := s'\<rparr>" using run p by (auto split: sum.splits option.splits)
    then show ?thesis using ok len by (fastforce simp: handles_ok_def)
  qed
qed

lemma ops_step_handles:
  assumes ok: "handles_ok st" "ops_inv st" and run: "ops_step op st = (x, st')"
  shows "handles_ok st'"
proof (cases op)
  case (Op_Post ist pst c)
  then show ?thesis using ops_step_handles_post ok run by blast
next
  case (Op_Progress i)
  show ?thesis
  proof (cases "map_of (os_reqs st) i")
    case (Some r)
    obtain y s' where p: "torch_xccl_progress r (os_sys st) = (y, s')" by fastforce
    note e = progress_handles [OF p]
    show ?thesis
    proof (cases y)
      case (Inl err)
      then have "st' = st\<lparr>os_sys := s'\<rparr>" using run Op_Progress Some p by auto
      then show ?thesis using ok e by (simp add: handles_ok_def)
    next
      case (Inr z)
      obtain v r' where z: "z = (v, r')" by fastforce
      have "st' = st\<lparr>os_sys := s', os_reqs := AList.update i r' (os_reqs st)\<rparr>"
        using run Op_Progress Some p Inr z by auto
      then show ?thesis
        using ok e Inr z live_handles_update [OF Some, of r'] by (simp add: handles_ok_def)
    qed
  qed (use run Op_Progress ok in auto)
next
  case (Op_Test i)
  then show ?thesis using run ok by (auto split: option.splits)
next
  case (Op_Fence i)
  show ?thesis
  proof (cases "map_of (os_reqs st) i")
    case (Some r)
    obtain y s' where p: "torch_xccl_fence r (os_sys st) = (y, s')" by fastforce
    have "sys_team s' = sys_team (os_sys st)"
      using p by (auto simp: torch_xccl_fence_def event_block_def split: if_splits option.splits)
    moreover have "st' = st\<lparr>os_sys := s'\<rparr>" using run Op_Fence Some p by (auto split: sum.splits)
    ultimately show ?thesis using ok by (simp add: handles_ok_def)
  qed (use run Op_Fence ok in auto)
next
  case (Op_Free i)
  show ?thesis
  proof (cases "map_of (os_reqs st) i")
    case (Some r)
    have keys: "distinct (map fst (os_reqs st))" using ok(2) by (simp add: ops_inv_def)
    note m = live_handles_delete [OF keys Some]
    have "st' = st\<lparr>os_sys := (os_sys st)\<lparr>sys_comm := coll_request_destroy (sys_comm (os_sys st)) (xr_super r)\<rparr>,
                   os_reqs := AList.delete i (os_reqs st)\<rparr>"
      using run Op_Free Some by (simp add: torch_xccl_free_def)
    moreover have "distinct (live_handles (AList.delete i (os_reqs st)))"
      using ok(1) m mset_eq_imp_distinct_iff [OF m] by (simp add: handles_ok_def)
    moreover have "set (live_handles (AList.delete i (os_reqs st))) \<subseteq> set (live_handles (os_reqs st))"
      using arg_cong [OF m, of set_mset] by auto
    ultimately show ?thesis using ok(1) by (auto simp: handles_ok_def)
  qed (use run Op_Free ok in auto)
qed

lemma ops_reach_handles: "ops_reach st \<Longrightarrow> handles_ok st"
proof (induction rule: ops_reach.induct)
  case (init s)
  then show ?case by (simp add: handles_ok_def live_handles_def)
next
  case (step st op x st')
  then show ?case using ops_step_handles ops_reach_inv by blast
next
  case (transport st h xs)
  then show ?case by (simp add: handles_ok_def)
qed

end
