(* ===== verification/Leak.thy ===== *)
theory Leak
  imports Isolation
begin

text \<open>
  The XCCL collective handle of a failed request. \<open>torch_xccl_progress\<close> (lines
  656--679 of \<open>torch_xccl.cpp\<close>) calls \<open>xccl_collective_finalize\<close> only when the
  collective completes with \<open>XCCL_OK\<close>; on an XCCL error it marks the request failed
  and returns, and \<open>torch_xccl_free\<close> (lines 697--701) only runs the request's
  destructor. This theory shows that the handle then outlives its request: a handle
  that exists, is not finalized and is owned by no live request (\<open>orphan\<close>) stays
  so along every continuation of calls and transport completions (\<open>ops_run\<close>),
  because every call extends the team's handle list as a prefix (\<open>team_frame\<close>)
  and a progress call changes only the handle its own request holds.
\<close>

fun is_finalized :: "xccl_handle \<Rightarrow> bool" where
  "is_finalized (XH_Finalized _) = True"
| "is_finalized _ = False"

definition orphan :: "'v ops_state \<Rightarrow> nat \<Rightarrow> bool" where
  "orphan st h \<longleftrightarrow> h < length (xccl_handles (sys_team (os_sys st))) \<and>
     \<not> is_finalized (xccl_handles (sys_team (os_sys st)) ! h) \<and> h \<notin> set (live_handles (os_reqs st))"

text \<open>A continuation: calls of the table and transport completions, in any order.\<close>

inductive ops_run :: "'v ops_state \<Rightarrow> 'v ops_state \<Rightarrow> bool" where
  refl: "ops_run st st"
| step: "ops_run st st1 \<Longrightarrow> ops_step op st1 = (x, st2) \<Longrightarrow> ops_run st st2"
| transport: "ops_run st st1 \<Longrightarrow>
              ops_run st (st1\<lparr>os_sys := (os_sys st1)\<lparr>sys_team := xccl_complete h xs (sys_team (os_sys st1))\<rparr>\<rparr>)"

definition team_frame :: "(xccl_sys \<Rightarrow> 'r \<times> xccl_sys) \<Rightarrow> bool" where
  "team_frame m \<longleftrightarrow> (\<forall>s x s'. m s = (x, s') \<longrightarrow> prefix (xccl_handles (sys_team s)) (xccl_handles (sys_team s')))"

section \<open>Calls extend the handle list\<close>

lemma prefix_update_beyond: "prefix xs ys \<Longrightarrow> length xs \<le> i \<Longrightarrow> prefix xs (ys[i := v])"
  by (auto simp: prefix_def list_update_append)

lemma team_frame_keeps: "keeps_team m \<Longrightarrow> team_frame m"
  by (simp add: team_frame_def keeps_team_def)

lemma team_frame_ebind: "team_frame m \<Longrightarrow> (\<And>a. team_frame (f a)) \<Longrightarrow> team_frame (ebind m f)"
  unfolding team_frame_def ebind_def
  by (auto split: prod.splits sum.splits) (metis prefix_order.trans)

lemma team_frame_init_and_post: "team_frame (xccl_init_and_post ist pst a r)"
  unfolding team_frame_def
  by (auto simp: xccl_init_and_post_def xccl_collective_init_def xccl_collective_post_dev_def
                 xccl_collective_post_def xccl_collective_finalize_def Let_def
           intro: prefix_update_beyond split: if_splits prod.splits option.splits sum.splits xccl_handle.splits)

lemma team_frame_post_finish: "team_frame (post_finish ist pst a r)"
  unfolding post_finish_def
  by (intro team_frame_ebind team_frame_init_and_post)
     (auto simp: team_frame_def ebind_def emodify_def ereturn_def split: prod.splits)

lemma team_frame_barrier: "team_frame (torch_xccl_barrier ist pst)"
  unfolding torch_xccl_barrier_def Let_def
proof (intro team_frame_ebind team_frame_keeps [OF keeps_team_request_init_m])
  fix r
  have pf: "\<And>a q s x s'. post_finish ist pst a q s = (x, s') \<Longrightarrow>
              prefix (xccl_handles (sys_team s)) (xccl_handles (sys_team s'))"
    using team_frame_post_finish unfolding team_frame_def by blast
  show "team_frame (\<lambda>s. if gpu_barrier (cc_config (sys_comm s))
     then case cc_stream (sys_comm s) of None \<Rightarrow> (Inl Null_Stream_Deref, s)
          | Some cs \<Rightarrow> (case event_record (req_event (xr_super r)) cs (sys_dev s) of Inl e \<Rightarrow> (Inl e, s)
              | Inr d \<Rightarrow> post_finish ist pst
                  (coll_args_uninit\<lparr>field_mask_stream := Some False, args_coll_type := Some XCCL_BARRIER,
                     set_by_user := Some False, src_mtype := Some UCS_MEMORY_TYPE_HOST,
                     src_mtype := Some UCS_MEMORY_TYPE_CUDA, field_mask_stream := Some True, args_stream := Some cs\<rparr>)
                  r (s\<lparr>sys_dev := d\<rparr>))
     else post_finish ist pst
            (coll_args_uninit\<lparr>field_mask_stream := Some False, args_coll_type := Some XCCL_BARRIER,
               set_by_user := Some False, src_mtype := Some UCS_MEMORY_TYPE_HOST\<rparr>) r s)"
    unfolding team_frame_def
    by (auto split: if_splits option.splits sum.splits dest!: pf)
qed

lemma team_frame_post: "team_frame (torch_xccl_post ist pst c)"
proof (cases c)
  case Call_Barrier
  then show ?thesis using team_frame_barrier by simp
qed (simp_all add: torch_xccl_allgather_def torch_xccl_alltoall_def torch_xccl_alltoallv_def
                   torch_xccl_allreduce_def torch_xccl_broadcast_def Let_def,
     (intro team_frame_ebind team_frame_keeps keeps_team_request_init_m keeps_team_egets keeps_team_map_at
            keeps_team_coll_args team_frame_post_finish)+)

lemma team_frameD:
  "team_frame m \<Longrightarrow> m s = (x, s') \<Longrightarrow> h < length (xccl_handles (sys_team s)) \<Longrightarrow>
   h < length (xccl_handles (sys_team s')) \<and> xccl_handles (sys_team s') ! h = xccl_handles (sys_team s) ! h"
  unfolding team_frame_def prefix_def by (fastforce simp: nth_append)

section \<open>Orphan handles stay orphan\<close>

lemma complete_finalized:
  "length (xccl_handles (xccl_complete h xs t)) = length (xccl_handles t) \<and>
   is_finalized (xccl_handles (xccl_complete h xs t) ! k) = is_finalized (xccl_handles t ! k)"
  by (auto simp: xccl_complete_def nth_list_update split: xccl_handle.splits xccl_status.splits)

lemma ops_step_orphan_post:
  assumes ok: "ops_inv st" and run: "ops_step (Op_Post ist pst c) st = (x, st')" and o: "orphan st h"
  shows "orphan st' h"
proof -
  obtain y s' where p: "torch_xccl_post ist pst c (os_sys st) = (y, s')" by fastforce
  have hl: "h < length (xccl_handles (sys_team (os_sys st)))" using o by (simp add: orphan_def)
  note tf = team_frameD [OF team_frame_post p hl]
  show ?thesis
  proof (cases "\<exists>v r. y = Inr (v, Some r)")
    case True
    then obtain v r where y: "y = Inr (v, Some r)" by blast
    have "xr_handle r = Some (length (xccl_handles (sys_team (os_sys st))))"
      using fresh_post p y unfolding fresh_handle_def by blast
    moreover have "st' = st\<lparr>os_sys := s', os_reqs := (os_next st, r) # os_reqs st, os_next := Suc (os_next st)\<rparr>"
      using run p y by simp
    ultimately show ?thesis using o tf hl by (auto simp: orphan_def)
  next
    case False
    then have "st' = st\<lparr>os_sys := s'\<rparr>" using run p by (auto split: sum.splits option.splits)
    then show ?thesis using o tf by (simp add: orphan_def)
  qed
qed

lemma ops_step_orphan_progress:
  assumes run: "ops_step (Op_Progress i) st = (x, st')" and o: "orphan st h"
  shows "orphan st' h"
proof (cases "map_of (os_reqs st) i")
  case (Some r)
  obtain y s' where p: "torch_xccl_progress r (os_sys st) = (y, s')" by fastforce
  note e = progress_handles [OF p]
  have "xr_handle r \<noteq> Some h" using o live_handles_mem [OF Some] by (auto simp: orphan_def)
  then have t: "xccl_handles (sys_team s') ! h = xccl_handles (sys_team (os_sys st)) ! h"
    "length (xccl_handles (sys_team s')) = length (xccl_handles (sys_team (os_sys st)))"
    using e by auto
  show ?thesis
  proof (cases y)
    case (Inl err)
    then have "st' = st\<lparr>os_sys := s'\<rparr>" using run Some p by auto
    then show ?thesis using o t by (simp add: orphan_def)
  next
    case (Inr z)
    obtain v r' where z: "z = (v, r')" by fastforce
    have "st' = st\<lparr>os_sys := s', os_reqs := AList.update i r' (os_reqs st)\<rparr>"
      using run Some p Inr z by auto
    then show ?thesis using o t e Inr z live_handles_update [OF Some, of r'] by (simp add: orphan_def)
  qed
qed (use run o in auto)

lemma ops_step_orphan:
  assumes ok: "ops_inv st" and run: "ops_step op st = (x, st')" and o: "orphan st h"
  shows "orphan st' h"
proof (cases op)
  case (Op_Post ist pst c)
  then show ?thesis using ops_step_orphan_post ok run o by blast
next
  case (Op_Progress i)
  then show ?thesis using ops_step_orphan_progress run o by blast
next
  case (Op_Test i)
  then show ?thesis using run o by (auto split: option.splits)
next
  case (Op_Fence i)
  show ?thesis
  proof (cases "map_of (os_reqs st) i")
    case (Some r)
    obtain y s' where p: "torch_xccl_fence r (os_sys st) = (y, s')" by fastforce
    have "sys_team s' = sys_team (os_sys st)"
      using p by (auto simp: torch_xccl_fence_def event_block_def split: if_splits option.splits)
    moreover have "st' = st\<lparr>os_sys := s'\<rparr>" using run Op_Fence Some p by (auto split: sum.splits)
    ultimately show ?thesis using o by (simp add: orphan_def)
  qed (use run Op_Fence o in auto)
next
  case (Op_Free i)
  show ?thesis
  proof (cases "map_of (os_reqs st) i")
    case (Some r)
    have keys: "distinct (map fst (os_reqs st))" using ok by (simp add: ops_inv_def)
    have "set (live_handles (AList.delete i (os_reqs st))) \<subseteq> set (live_handles (os_reqs st))"
      using arg_cong [OF live_handles_delete [OF keys Some], of set_mset] by auto
    moreover have "st' = st\<lparr>os_sys := (os_sys st)\<lparr>sys_comm := coll_request_destroy (sys_comm (os_sys st)) (xr_super r)\<rparr>,
                   os_reqs := AList.delete i (os_reqs st)\<rparr>"
      using run Op_Free Some by (simp add: torch_xccl_free_def)
    ultimately show ?thesis using o by (auto simp: orphan_def)
  qed (use run Op_Free o in auto)
qed

lemma ops_run_reach: "ops_run st st' \<Longrightarrow> ops_reach st \<Longrightarrow> ops_reach st'"
  by (induction rule: ops_run.induct) (auto intro: ops_reach.step ops_reach.transport)

lemma ops_run_orphan: "ops_run st st' \<Longrightarrow> ops_reach st \<Longrightarrow> orphan st h \<Longrightarrow> orphan st' h"
proof (induction rule: ops_run.induct)
  case (refl st)
  then show ?case by simp
next
  case (step st st1 op x st2)
  then show ?case using ops_step_orphan ops_reach_inv ops_run_reach by blast
next
  case (transport st st1 h' xs)
  then show ?case using complete_finalized [of h' xs "sys_team (os_sys st1)"] by (simp add: orphan_def)
qed

text \<open>An XCCL error reported by progress leaves the handle as it was, unfinalized.\<close>

lemma progress_error_handle:
  assumes "torch_xccl_progress r s = (Inr (TORCH_UCC_ERROR, r'), s')"
  shows "\<exists>h. xr_handle r = Some h \<and> xr_handle r' = Some h \<and> s' = s \<and>
             h < length (xccl_handles (sys_team s)) \<and> \<not> is_finalized (xccl_handles (sys_team s) ! h)"
  using assms
  by (auto simp: torch_xccl_progress_def xccl_collective_test_def simp del: unflatten_from.simps
           split: option.splits sum.splits if_splits xccl_handle.splits)

text \<open>Freeing a request whose handle is not finalized leaves that handle an orphan.\<close>

lemma free_leaves_orphan:
  assumes ok: "ops_inv st" "handles_ok st" and m: "map_of (os_reqs st) i = Some r"
    and h: "xr_handle r = Some h" "h < length (xccl_handles (sys_team (os_sys st)))"
      "\<not> is_finalized (xccl_handles (sys_team (os_sys st)) ! h)"
    and run: "ops_step (Op_Free i) st = (y, st')"
  shows "orphan st' h"
proof -
  have keys: "distinct (map fst (os_reqs st))" using ok(1) by (simp add: ops_inv_def)
  note d = live_handles_delete [OF keys m]
  have "distinct (h # live_handles (AList.delete i (os_reqs st)))"
    using ok(2) mset_eq_imp_distinct_iff [OF d] h(1) by (simp add: handles_ok_def)
  moreover have "st' = st\<lparr>os_sys := (os_sys st)\<lparr>sys_comm := coll_request_destroy (sys_comm (os_sys st)) (xr_super r)\<rparr>,
                 os_reqs := AList.delete i (os_reqs st)\<rparr>"
    using run m by (simp add: torch_xccl_free_def)
  ultimately show ?thesis using h by (simp add: orphan_def)
qed

section \<open>Properties\<close>

text \<open>C33. The XCCL handle of a collective that fails at run time is never released:
  in every reachable state, when progress on a request reports \<open>TORCH_UCC_ERROR\<close>
  and the caller then frees the request, its collective handle is left unfinalized
  with no live request owning it, and it stays so whatever calls and transport
  completions follow; nothing calls \<open>xccl_collective_finalize\<close> on it.\<close>

theorem failed_request_handle_leaks:
  assumes "ops_reach st" "map_of (os_reqs st) i = Some r"
    and "ops_step (Op_Progress i) st = (Inr (Some TORCH_UCC_ERROR), st1)"
    and "ops_step (Op_Free i) st1 = (y, st2)" and "ops_run st2 st3"
  shows "\<exists>h. xr_handle r = Some h \<and> orphan st3 h"
proof -
  obtain v r' s' where p: "torch_xccl_progress r (os_sys st) = (v, s')" and r': "v = Inr (TORCH_UCC_ERROR, r')"
    using assms(2,3) by (auto split: prod.splits sum.splits)
  obtain h where h: "xr_handle r = Some h" "xr_handle r' = Some h" "s' = os_sys st"
    "h < length (xccl_handles (sys_team (os_sys st)))" "\<not> is_finalized (xccl_handles (sys_team (os_sys st)) ! h)"
    using progress_error_handle p r' by blast
  have st1: "st1 = st\<lparr>os_reqs := AList.update i r' (os_reqs st)\<rparr>"
    using assms(2,3) p r' h(3) by simp
  have reach1: "ops_reach st1" by (rule ops_reach.step [OF assms(1,3)])
  have m1: "map_of (os_reqs st1) i = Some r'" using st1 by (simp add: AList.update_conv')
  have o2: "orphan st2 h"
    using free_leaves_orphan [OF ops_reach_inv [OF reach1] ops_reach_handles [OF reach1] m1 h(2) _ _ assms(4)]
      st1 h(4,5) by simp
  have "ops_reach st2" by (rule ops_reach.step [OF reach1 assms(4)])
  then show ?thesis using ops_run_orphan [OF assms(5) _ o2] h(1) by blast
qed

section \<open>Witnesses\<close>

lemma failed_request_handle_leaks_witness:
  "orphan (snd (ops_step (Op_Free 1) (snd (ops_step (Op_Progress 1) ((snd (ops_step (Op_Post XCCL_OK XCCL_OK (Call_Allreduce [\<lparr>t_device = \<lparr>dev_type = kCUDA, dev_index = 0\<rparr>, t_scalar = kFloat, t_ptr = 100, t_data = [1 :: int, 2]\<rparr>] ReduceOp_SUM)) (snd (ops_step (Op_Post XCCL_OK XCCL_OK (Call_Allreduce [\<lparr>t_device = \<lparr>dev_type = kCUDA, dev_index = 0\<rparr>, t_scalar = kFloat, t_ptr = 100, t_data = [1 :: int, 2]\<rparr>] ReduceOp_SUM)) \<lparr>os_sys = \<lparr>sys_comm = \<lparr>cc_stream = None, event_pool = [], cc_config = \<lparr>blocking_wait = (\<lambda>_. False), gpu_barrier = False, high_priority_stream = False, serialize = False\<rparr>\<rparr>,
         sys_dev = \<lparr>dev_log = [], next_event = 0\<rparr>, sys_team = \<lparr>xccl_handles = []\<rparr>, sys_size = 2\<rparr>, os_reqs = [], os_next = 0\<rparr>))))\<lparr>os_sys := (os_sys (snd (ops_step (Op_Post XCCL_OK XCCL_OK (Call_Allreduce [\<lparr>t_device = \<lparr>dev_type = kCUDA, dev_index = 0\<rparr>, t_scalar = kFloat, t_ptr = 100, t_data = [1 :: int, 2]\<rparr>] ReduceOp_SUM)) (snd (ops_step (Op_Post XCCL_OK XCCL_OK (Call_Allreduce [\<lparr>t_device = \<lparr>dev_type = kCUDA, dev_index = 0\<rparr>, t_scalar = kFloat, t_ptr = 100, t_data = [1 :: int, 2]\<rparr>] ReduceOp_SUM)) \<lparr>os_sys = \<lparr>sys_comm = \<lparr>cc_stream = None, event_pool = [], cc_config = \<lparr>blocking_wait = (\<lambda>_. False), gpu_barrier = False, high_priority_stream = False, serialize = False\<rparr>\<rparr>,
         sys_dev = \<lparr>dev_log = [], next_event = 0\<rparr>, sys_team = \<lparr>xccl_handles = []\<rparr>, sys_size = 2\<rparr>, os_reqs = [], os_next = 0\<rparr>)))))\<lparr>sys_team := xccl_complete 1 (XCCL_ERR (-1)) (sys_team (os_sys (snd (ops_step (Op_Post XCCL_OK XCCL_OK (Call_Allreduce [\<lparr>t_device = \<lparr>dev_type = kCUDA, dev_index = 0\<rparr>, t_scalar = kFloat, t_ptr = 100, t_data = [1 :: int, 2]\<rparr>] ReduceOp_SUM)) (snd (ops_step (Op_Post XCCL_OK XCCL_OK (Call_Allreduce [\<lparr>t_device = \<lparr>dev_type = kCUDA, dev_index = 0\<rparr>, t_scalar = kFloat, t_ptr = 100, t_data = [1 :: int, 2]\<rparr>] ReduceOp_SUM)) \<lparr>os_sys = \<lparr>sys_comm = \<lparr>cc_stream = None, event_pool = [], cc_config = \<lparr>blocking_wait = (\<lambda>_. False), gpu_barrier = False, high_priority_stream = False, serialize = False\<rparr>\<rparr>,
         sys_dev = \<lparr>dev_log = [], next_event = 0\<rparr>, sys_team = \<lparr>xccl_handles = []\<rparr>, sys_size = 2\<rparr>, os_reqs = [], os_next = 0\<rparr>))))))\<rparr>\<rparr>))))) 1"
proof -
  have r1: "ops_reach (snd (ops_step (Op_Post XCCL_OK XCCL_OK (Call_Allreduce [\<lparr>t_device = \<lparr>dev_type = kCUDA, dev_index = 0\<rparr>, t_scalar = kFloat, t_ptr = 100, t_data = [1 :: int, 2]\<rparr>] ReduceOp_SUM)) \<lparr>os_sys = \<lparr>sys_comm = \<lparr>cc_stream = None, event_pool = [], cc_config = \<lparr>blocking_wait = (\<lambda>_. False), gpu_barrier = False, high_priority_stream = False, serialize = False\<rparr>\<rparr>,
         sys_dev = \<lparr>dev_log = [], next_event = 0\<rparr>, sys_team = \<lparr>xccl_handles = []\<rparr>, sys_size = 2\<rparr>, os_reqs = [], os_next = 0\<rparr>))"
    by (rule ops_reach.step [OF ops_reach.init prod.collapse [symmetric]]) simp
  have r3: "ops_reach ((snd (ops_step (Op_Post XCCL_OK XCCL_OK (Call_Allreduce [\<lparr>t_device = \<lparr>dev_type = kCUDA, dev_index = 0\<rparr>, t_scalar = kFloat, t_ptr = 100, t_data = [1 :: int, 2]\<rparr>] ReduceOp_SUM)) (snd (ops_step (Op_Post XCCL_OK XCCL_OK (Call_Allreduce [\<lparr>t_device = \<lparr>dev_type = kCUDA, dev_index = 0\<rparr>, t_scalar = kFloat, t_ptr = 100, t_data = [1 :: int, 2]\<rparr>] ReduceOp_SUM)) \<lparr>os_sys = \<lparr>sys_comm = \<lparr>cc_stream = None, event_pool = [], cc_config = \<lparr>blocking_wait = (\<lambda>_. False), gpu_barrier = False, high_priority_stream = False, serialize = False\<rparr>\<rparr>,
         sys_dev = \<lparr>dev_log = [], next_event = 0\<rparr>, sys_team = \<lparr>xccl_handles = []\<rparr>, sys_size = 2\<rparr>, os_reqs = [], os_next = 0\<rparr>))))\<lparr>os_sys := (os_sys (snd (ops_step (Op_Post XCCL_OK XCCL_OK (Call_Allreduce [\<lparr>t_device = \<lparr>dev_type = kCUDA, dev_index = 0\<rparr>, t_scalar = kFloat, t_ptr = 100, t_data = [1 :: int, 2]\<rparr>] ReduceOp_SUM)) (snd (ops_step (Op_Post XCCL_OK XCCL_OK (Call_Allreduce [\<lparr>t_device = \<lparr>dev_type = kCUDA, dev_index = 0\<rparr>, t_scalar = kFloat, t_ptr = 100, t_data = [1 :: int, 2]\<rparr>] ReduceOp_SUM)) \<lparr>os_sys = \<lparr>sys_comm = \<lparr>cc_stream = None, event_pool = [], cc_config = \<lparr>blocking_wait = (\<lambda>_. False), gpu_barrier = False, high_priority_stream = False, serialize = False\<rparr>\<rparr>,
         sys_dev = \<lparr>dev_log = [], next_event = 0\<rparr>, sys_team = \<lparr>xccl_handles = []\<rparr>, sys_size = 2\<rparr>, os_reqs = [], os_next = 0\<rparr>)))))\<lparr>sys_team := xccl_complete 1 (XCCL_ERR (-1)) (sys_team (os_sys (snd (ops_step (Op_Post XCCL_OK XCCL_OK (Call_Allreduce [\<lparr>t_device = \<lparr>dev_type = kCUDA, dev_index = 0\<rparr>, t_scalar = kFloat, t_ptr = 100, t_data = [1 :: int, 2]\<rparr>] ReduceOp_SUM)) (snd (ops_step (Op_Post XCCL_OK XCCL_OK (Call_Allreduce [\<lparr>t_device = \<lparr>dev_type = kCUDA, dev_index = 0\<rparr>, t_scalar = kFloat, t_ptr = 100, t_data = [1 :: int, 2]\<rparr>] ReduceOp_SUM)) \<lparr>os_sys = \<lparr>sys_comm = \<lparr>cc_stream = None, event_pool = [], cc_config = \<lparr>blocking_wait = (\<lambda>_. False), gpu_barrier = False, high_priority_stream = False, serialize = False\<rparr>\<rparr>,
         sys_dev = \<lparr>dev_log = [], next_event = 0\<rparr>, sys_team = \<lparr>xccl_handles = []\<rparr>, sys_size = 2\<rparr>, os_reqs = [], os_next = 0\<rparr>))))))\<rparr>\<rparr>)"
    by (rule ops_reach.transport, rule ops_reach.step [OF r1 prod.collapse [symmetric]])
  have m: "map_of (os_reqs ((snd (ops_step (Op_Post XCCL_OK XCCL_OK (Call_Allreduce [\<lparr>t_device = \<lparr>dev_type = kCUDA, dev_index = 0\<rparr>, t_scalar = kFloat, t_ptr = 100, t_data = [1 :: int, 2]\<rparr>] ReduceOp_SUM)) (snd (ops_step (Op_Post XCCL_OK XCCL_OK (Call_Allreduce [\<lparr>t_device = \<lparr>dev_type = kCUDA, dev_index = 0\<rparr>, t_scalar = kFloat, t_ptr = 100, t_data = [1 :: int, 2]\<rparr>] ReduceOp_SUM)) \<lparr>os_sys = \<lparr>sys_comm = \<lparr>cc_stream = None, event_pool = [], cc_config = \<lparr>blocking_wait = (\<lambda>_. False), gpu_barrier = False, high_priority_stream = False, serialize = False\<rparr>\<rparr>,
         sys_dev = \<lparr>dev_log = [], next_event = 0\<rparr>, sys_team = \<lparr>xccl_handles = []\<rparr>, sys_size = 2\<rparr>, os_reqs = [], os_next = 0\<rparr>))))\<lparr>os_sys := (os_sys (snd (ops_step (Op_Post XCCL_OK XCCL_OK (Call_Allreduce [\<lparr>t_device = \<lparr>dev_type = kCUDA, dev_index = 0\<rparr>, t_scalar = kFloat, t_ptr = 100, t_data = [1 :: int, 2]\<rparr>] ReduceOp_SUM)) (snd (ops_step (Op_Post XCCL_OK XCCL_OK (Call_Allreduce [\<lparr>t_device = \<lparr>dev_type = kCUDA, dev_index = 0\<rparr>, t_scalar = kFloat, t_ptr = 100, t_data = [1 :: int, 2]\<rparr>] ReduceOp_SUM)) \<lparr>os_sys = \<lparr>sys_comm = \<lparr>cc_stream = None, event_pool = [], cc_config = \<lparr>blocking_wait = (\<lambda>_. False), gpu_barrier = False, high_priority_stream = False, serialize = False\<rparr>\<rparr>,
         sys_dev = \<lparr>dev_log = [], next_event = 0\<rparr>, sys_team = \<lparr>xccl_handles = []\<rparr>, sys_size = 2\<rparr>, os_reqs = [], os_next = 0\<rparr>)))))\<lparr>sys_team := xccl_complete 1 (XCCL_ERR (-1)) (sys_team (os_sys (snd (ops_step (Op_Post XCCL_OK XCCL_OK (Call_Allreduce [\<lparr>t_device = \<lparr>dev_type = kCUDA, dev_index = 0\<rparr>, t_scalar = kFloat, t_ptr = 100, t_data = [1 :: int, 2]\<rparr>] ReduceOp_SUM)) (snd (ops_step (Op_Post XCCL_OK XCCL_OK (Call_Allreduce [\<lparr>t_device = \<lparr>dev_type = kCUDA, dev_index = 0\<rparr>, t_scalar = kFloat, t_ptr = 100, t_data = [1 :: int, 2]\<rparr>] ReduceOp_SUM)) \<lparr>os_sys = \<lparr>sys_comm = \<lparr>cc_stream = None, event_pool = [], cc_config = \<lparr>blocking_wait = (\<lambda>_. False), gpu_barrier = False, high_priority_stream = False, serialize = False\<rparr>\<rparr>,
         sys_dev = \<lparr>dev_log = [], next_event = 0\<rparr>, sys_team = \<lparr>xccl_handles = []\<rparr>, sys_size = 2\<rparr>, os_reqs = [], os_next = 0\<rparr>))))))\<rparr>\<rparr>)) 1 = Some (the (map_of (os_reqs ((snd (ops_step (Op_Post XCCL_OK XCCL_OK (Call_Allreduce [\<lparr>t_device = \<lparr>dev_type = kCUDA, dev_index = 0\<rparr>, t_scalar = kFloat, t_ptr = 100, t_data = [1 :: int, 2]\<rparr>] ReduceOp_SUM)) (snd (ops_step (Op_Post XCCL_OK XCCL_OK (Call_Allreduce [\<lparr>t_device = \<lparr>dev_type = kCUDA, dev_index = 0\<rparr>, t_scalar = kFloat, t_ptr = 100, t_data = [1 :: int, 2]\<rparr>] ReduceOp_SUM)) \<lparr>os_sys = \<lparr>sys_comm = \<lparr>cc_stream = None, event_pool = [], cc_config = \<lparr>blocking_wait = (\<lambda>_. False), gpu_barrier = False, high_priority_stream = False, serialize = False\<rparr>\<rparr>,
         sys_dev = \<lparr>dev_log = [], next_event = 0\<rparr>, sys_team = \<lparr>xccl_handles = []\<rparr>, sys_size = 2\<rparr>, os_reqs = [], os_next = 0\<rparr>))))\<lparr>os_sys := (os_sys (snd (ops_step (Op_Post XCCL_OK XCCL_OK (Call_Allreduce [\<lparr>t_device = \<lparr>dev_type = kCUDA, dev_index = 0\<rparr>, t_scalar = kFloat, t_ptr = 100, t_data = [1 :: int, 2]\<rparr>] ReduceOp_SUM)) (snd (ops_step (Op_Post XCCL_OK XCCL_OK (Call_Allreduce [\<lparr>t_device = \<lparr>dev_type = kCUDA, dev_index = 0\<rparr>, t_scalar = kFloat, t_ptr = 100, t_data = [1 :: int, 2]\<rparr>] ReduceOp_SUM)) \<lparr>os_sys = \<lparr>sys_comm = \<lparr>cc_stream = None, event_pool = [], cc_config = \<lparr>blocking_wait = (\<lambda>_. False), gpu_barrier = False, high_priority_stream = False, serialize = False\<rparr>\<rparr>,
         sys_dev = \<lparr>dev_log = [], next_event = 0\<rparr>, sys_team = \<lparr>xccl_handles = []\<rparr>, sys_size = 2\<rparr>, os_reqs = [], os_next = 0\<rparr>)))))\<lparr>sys_team := xccl_complete 1 (XCCL_ERR (-1)) (sys_team (os_sys (snd (ops_step (Op_Post XCCL_OK XCCL_OK (Call_Allreduce [\<lparr>t_device = \<lparr>dev_type = kCUDA, dev_index = 0\<rparr>, t_scalar = kFloat, t_ptr = 100, t_data = [1 :: int, 2]\<rparr>] ReduceOp_SUM)) (snd (ops_step (Op_Post XCCL_OK XCCL_OK (Call_Allreduce [\<lparr>t_device = \<lparr>dev_type = kCUDA, dev_index = 0\<rparr>, t_scalar = kFloat, t_ptr = 100, t_data = [1 :: int, 2]\<rparr>] ReduceOp_SUM)) \<lparr>os_sys = \<lparr>sys_comm = \<lparr>cc_stream = None, event_pool = [], cc_config = \<lparr>blocking_wait = (\<lambda>_. False), gpu_barrier = False, high_priority_stream = False, serialize = False\<rparr>\<rparr>,
         sys_dev = \<lparr>dev_log = [], next_event = 0\<rparr>, sys_team = \<lparr>xccl_handles = []\<rparr>, sys_size = 2\<rparr>, os_reqs = [], os_next = 0\<rparr>))))))\<rparr>\<rparr>)) 1)) \<and>
           xr_handle (the (map_of (os_reqs ((snd (ops_step (Op_Post XCCL_OK XCCL_OK (Call_Allreduce [\<lparr>t_device = \<lparr>dev_type = kCUDA, dev_index = 0\<rparr>, t_scalar = kFloat, t_ptr = 100, t_data = [1 :: int, 2]\<rparr>] ReduceOp_SUM)) (snd (ops_step (Op_Post XCCL_OK XCCL_OK (Call_Allreduce [\<lparr>t_device = \<lparr>dev_type = kCUDA, dev_index = 0\<rparr>, t_scalar = kFloat, t_ptr = 100, t_data = [1 :: int, 2]\<rparr>] ReduceOp_SUM)) \<lparr>os_sys = \<lparr>sys_comm = \<lparr>cc_stream = None, event_pool = [], cc_config = \<lparr>blocking_wait = (\<lambda>_. False), gpu_barrier = False, high_priority_stream = False, serialize = False\<rparr>\<rparr>,
         sys_dev = \<lparr>dev_log = [], next_event = 0\<rparr>, sys_team = \<lparr>xccl_handles = []\<rparr>, sys_size = 2\<rparr>, os_reqs = [], os_next = 0\<rparr>))))\<lparr>os_sys := (os_sys (snd (ops_step (Op_Post XCCL_OK XCCL_OK (Call_Allreduce [\<lparr>t_device = \<lparr>dev_type = kCUDA, dev_index = 0\<rparr>, t_scalar = kFloat, t_ptr = 100, t_data = [1 :: int, 2]\<rparr>] ReduceOp_SUM)) (snd (ops_step (Op_Post XCCL_OK XCCL_OK (Call_Allreduce [\<lparr>t_device = \<lparr>dev_type = kCUDA, dev_index = 0\<rparr>, t_scalar = kFloat, t_ptr = 100, t_data = [1 :: int, 2]\<rparr>] ReduceOp_SUM)) \<lparr>os_sys = \<lparr>sys_comm = \<lparr>cc_stream = None, event_pool = [], cc_config = \<lparr>blocking_wait = (\<lambda>_. False), gpu_barrier = False, high_priority_stream = False, serialize = False\<rparr>\<rparr>,
         sys_dev = \<lparr>dev_log = [], next_event = 0\<rparr>, sys_team = \<lparr>xccl_handles = []\<rparr>, sys_size = 2\<rparr>, os_reqs = [], os_next = 0\<rparr>)))))\<lparr>sys_team := xccl_complete 1 (XCCL_ERR (-1)) (sys_team (os_sys (snd (ops_step (Op_Post XCCL_OK XCCL_OK (Call_Allreduce [\<lparr>t_device = \<lparr>dev_type = kCUDA, dev_index = 0\<rparr>, t_scalar = kFloat, t_ptr = 100, t_data = [1 :: int, 2]\<rparr>] ReduceOp_SUM)) (snd (ops_step (Op_Post XCCL_OK XCCL_OK (Call_Allreduce [\<lparr>t_device = \<lparr>dev_type = kCUDA, dev_index = 0\<rparr>, t_scalar = kFloat, t_ptr = 100, t_data = [1 :: int, 2]\<rparr>] ReduceOp_SUM)) \<lparr>os_sys = \<lparr>sys_comm = \<lparr>cc_stream = None, event_pool = [], cc_config = \<lparr>blocking_wait = (\<lambda>_. False), gpu_barrier = False, high_priority_stream = False, serialize = False\<rparr>\<rparr>,
         sys_dev = \<lparr>dev_log = [], next_event = 0\<rparr>, sys_team = \<lparr>xccl_handles = []\<rparr>, sys_size = 2\<rparr>, os_reqs = [], os_next = 0\<rparr>))))))\<rparr>\<rparr>)) 1)) = Some 1"
    by (simp add: torch_xccl_allreduce_def request_init_m_def torch_ucc_coll_request_init_def
          request_init_barrier_def request_init_src_def coll_request_new_def is_cuda_def
          event_pool_acquire_def event_record_def event_block_def map_at_def elift_def
          coll_args_init_with_stream_def post_finish_def xccl_init_and_post_def
          xccl_collective_init_def xccl_collective_post_def xccl_collective_post_dev_def xr_new_def Let_def ebind_def)
  have err: "fst (ops_step (Op_Progress 1) ((snd (ops_step (Op_Post XCCL_OK XCCL_OK (Call_Allreduce [\<lparr>t_device = \<lparr>dev_type = kCUDA, dev_index = 0\<rparr>, t_scalar = kFloat, t_ptr = 100, t_data = [1 :: int, 2]\<rparr>] ReduceOp_SUM)) (snd (ops_step (Op_Post XCCL_OK XCCL_OK (Call_Allreduce [\<lparr>t_device = \<lparr>dev_type = kCUDA, dev_index = 0\<rparr>, t_scalar = kFloat, t_ptr = 100, t_data = [1 :: int, 2]\<rparr>] ReduceOp_SUM)) \<lparr>os_sys = \<lparr>sys_comm = \<lparr>cc_stream = None, event_pool = [], cc_config = \<lparr>blocking_wait = (\<lambda>_. False), gpu_barrier = False, high_priority_stream = False, serialize = False\<rparr>\<rparr>,
         sys_dev = \<lparr>dev_log = [], next_event = 0\<rparr>, sys_team = \<lparr>xccl_handles = []\<rparr>, sys_size = 2\<rparr>, os_reqs = [], os_next = 0\<rparr>))))\<lparr>os_sys := (os_sys (snd (ops_step (Op_Post XCCL_OK XCCL_OK (Call_Allreduce [\<lparr>t_device = \<lparr>dev_type = kCUDA, dev_index = 0\<rparr>, t_scalar = kFloat, t_ptr = 100, t_data = [1 :: int, 2]\<rparr>] ReduceOp_SUM)) (snd (ops_step (Op_Post XCCL_OK XCCL_OK (Call_Allreduce [\<lparr>t_device = \<lparr>dev_type = kCUDA, dev_index = 0\<rparr>, t_scalar = kFloat, t_ptr = 100, t_data = [1 :: int, 2]\<rparr>] ReduceOp_SUM)) \<lparr>os_sys = \<lparr>sys_comm = \<lparr>cc_stream = None, event_pool = [], cc_config = \<lparr>blocking_wait = (\<lambda>_. False), gpu_barrier = False, high_priority_stream = False, serialize = False\<rparr>\<rparr>,
         sys_dev = \<lparr>dev_log = [], next_event = 0\<rparr>, sys_team = \<lparr>xccl_handles = []\<rparr>, sys_size = 2\<rparr>, os_reqs = [], os_next = 0\<rparr>)))))\<lparr>sys_team := xccl_complete 1 (XCCL_ERR (-1)) (sys_team (os_sys (snd (ops_step (Op_Post XCCL_OK XCCL_OK (Call_Allreduce [\<lparr>t_device = \<lparr>dev_type = kCUDA, dev_index = 0\<rparr>, t_scalar = kFloat, t_ptr = 100, t_data = [1 :: int, 2]\<rparr>] ReduceOp_SUM)) (snd (ops_step (Op_Post XCCL_OK XCCL_OK (Call_Allreduce [\<lparr>t_device = \<lparr>dev_type = kCUDA, dev_index = 0\<rparr>, t_scalar = kFloat, t_ptr = 100, t_data = [1 :: int, 2]\<rparr>] ReduceOp_SUM)) \<lparr>os_sys = \<lparr>sys_comm = \<lparr>cc_stream = None, event_pool = [], cc_config = \<lparr>blocking_wait = (\<lambda>_. False), gpu_barrier = False, high_priority_stream = False, serialize = False\<rparr>\<rparr>,
         sys_dev = \<lparr>dev_log = [], next_event = 0\<rparr>, sys_team = \<lparr>xccl_handles = []\<rparr>, sys_size = 2\<rparr>, os_reqs = [], os_next = 0\<rparr>))))))\<rparr>\<rparr>)) = Inr (Some TORCH_UCC_ERROR)"
    by (simp add: torch_xccl_allreduce_def request_init_m_def torch_ucc_coll_request_init_def
          request_init_barrier_def request_init_src_def coll_request_new_def is_cuda_def
          event_pool_acquire_def event_record_def event_block_def map_at_def elift_def
          coll_args_init_with_stream_def post_finish_def xccl_init_and_post_def
          xccl_collective_init_def xccl_collective_post_def xccl_collective_post_dev_def xr_new_def Let_def ebind_def torch_xccl_progress_def xccl_collective_test_def xccl_complete_def)
  have gen: "orphan (snd (ops_step (Op_Free 1) (snd (ops_step (Op_Progress 1) S)))) 1"
    if "ops_reach S" "map_of (os_reqs S) 1 = Some R" "xr_handle R = Some 1"
       "fst (ops_step (Op_Progress 1) S) = Inr (Some TORCH_UCC_ERROR)" for S R
  proof -
    have "ops_step (Op_Progress 1) S = (Inr (Some TORCH_UCC_ERROR), snd (ops_step (Op_Progress 1) S))"
      using that(4) by (metis prod.collapse)
    from failed_request_handle_leaks [OF that(1,2) this prod.collapse [symmetric] ops_run.refl]
    show ?thesis using that(3) by auto
  qed
  show ?thesis by (rule gen [OF r3 conjunct1 [OF m] conjunct2 [OF m] err])
qed

end
