(* ===== verification/Spec2Isabelle.thy ===== *)
theory Spec2Isabelle
  imports RingFree RingLive PostArgs Context Ops Stability UcxColl Leak
begin

text \<open>
  \<^bold>\<open>A verification development of torch-ucc's XCCL collective layer.\<close>

  The program (\<open>src/src/torch_xccl.cpp\<close>, \<open>src/include/torch_ucc_ops.hpp\<close>)
  lets a group of processes run collectives without blocking the calling thread. Its
  parts, leaves first, and the theory that models each:
  \<^item> \<open>Prelude\<close>: status codes, \<open>size_t\<close> as \<open>64 word\<close>, C's \<open>%\<close> as
    \<open>smod\<close>, buffers read and written a block at a time (\<open>memcpy\<close>), and
    \<open>ereturn\<close>/\<open>ebind\<close>: calls that return a value or throw, threading state.
  \<^item> \<open>Bootstrap\<close>: the bootstrap allgather of one process
    (\<open>xccl_oob_allgather_req_t\<close> as the record \<open>oob_req\<close>, \<open>oob_allgather\<close>,
    \<open>oob_allgather_test\<close> with its ring loop \<open>oob_ring_loop\<close>, a
    \<open>function\<close> whose measure is \<open>size - 1 - iter\<close>). A call returns the status,
    the updated record and the sends it posted; point-to-point requests are values
    with a completion flag that the transport sets between calls.
  \<^item> \<open>Ring\<close>: all processes' bootstrap requests and FIFO channels as the inductive
    step relation \<open>ring_step\<close> (polls, receive matches, send completions, any
    order), its reachable states \<open>ring_reach\<close> and the invariant \<open>ring_inv\<close>.
  \<^item> \<open>RingFree\<close>: \<open>oob_allgather_free\<close> (the deletion of a request, the heap
    as the set of deleted requests) and \<open>ring_run\<close>, the group with deletions of
    requests whose test returned \<open>XCCL_OK\<close> between its steps; \<open>req_quiet\<close>
    says a finished request's last test covered completed requests only.
  \<^item> \<open>RingLive\<close>: the progress measure \<open>ring_progress\<close> of the group (three per
    ring iteration, one per completed send or receive, one for the done flag),
    bounded by \<open>3 N^2\<close> for \<open>N\<close> processes under \<open>ring_inv\<close>.
  \<^item> \<open>Device\<close>: the device layer of \<open>torch_ucc_ops.hpp\<close>: the communicator's
    lazily created stream and FIFO event pool (\<open>coll_comm\<close>),
    \<open>torch_ucc_coll_request_init\<close> in three parts, the request destructor. CUDA is a
    log of record/block/kernel operations; \<open>dev_hb\<close> is the device's execution
    order (stream order plus waiting for the latest record of an event).
  \<^item> \<open>Xccl\<close>: the lookup tables of \<open>torch_xccl.cpp\<close> (lines 341--376), the
    operation descriptor, and XCCL's collective handles (initialised, posted with the
    status XCCL reports, finalized).
  \<^item> \<open>Collectives\<close>: \<open>xccl_init_and_post\<close> and the six post functions on the
    process state \<open>xccl_sys\<close>; XCCL's init and post answers are parameters.
  \<^item> \<open>Request\<close>: \<open>torch_xccl_progress\<close>/\<open>test\<close>/\<open>fence\<close>/\<open>free\<close>,
    the posting part of the operation table as \<open>torch_xccl_post\<close>, the request
    invariant \<open>xr_inv\<close> and \<open>req_step\<close>, a run seen from one request.
  \<^item> \<open>Sync\<close>: the decomposition of every successful post and the device ordering
    it establishes.
  \<^item> \<open>PostArgs\<close>: the descriptor a successful alltoall or allgather post hands to
    XCCL (type, buffers, byte length), followed through the post's chain of calls.
  \<^item> \<open>Context\<close>: \<open>xccl_tls_str_to_bitmap\<close>, \<open>torch_xccl_comm_init\<close> and
    \<open>torch_xccl_comm_close\<close> as functions of XCCL's answers with a log of the
    resources acquired and released.
  \<^item> \<open>Ops\<close>: the operation table \<open>torch_ucc_coll_ops_t\<close> as its caller
    uses it: \<open>ucc_op\<close> has a constructor per request-level entry (the posts of
    \<open>torch_xccl_post\<close>, progress, test, fence, free), and \<open>ops_step\<close> runs one
    on the process state and the store of live requests the caller holds
    (\<open>ops_state\<close>, an association list from pointer numbers to requests). A call
    through a pointer that was freed is the error \<open>Request_Use_After_Free\<close>.
    \<open>ops_reach\<close> is every state reached from a communicator with an empty pool
    by any sequence of calls, interleaved with the transport completing posted
    collectives (\<open>xccl_complete\<close>, successfully or with an error), and \<open>ops_inv\<close>/\<open>pool_ok\<close> the
    invariant of the event pool: the pool and the events of live CUDA requests
    contain no null event and no event twice, and every event was allocated.
  \<^item> \<open>Stability\<close>: \<open>sys_grows\<close>, what no call undoes (the stream once
    created, the configuration, the count of allocated events, the device work
    issued), \<open>grows\<close> for a call that establishes it whatever it returns, with
    rules for \<open>ebind\<close> and each primitive, and \<open>ops_next\<close>, one call of the table.
  \<^item> \<open>UcxColl\<close>: the structs of the legacy UCX collective header
    \<open>src/torch_ucx_coll.hpp\<close> (data only).
  \<^item> \<open>Isolation\<close>: which XCCL handle each live request owns
    (\<open>live_handles\<close>, \<open>handles_ok\<close>: owned handles are distinct and exist in the
    team), kept by every call of the table and by the transport, and a frame
    lemma: the test and finalize part of a progress call touches only its own
    request's handle.
  \<^item> \<open>Leak\<close>: every call extends the team's handle list as a prefix
    (\<open>team_frame\<close>); an \<open>orphan\<close> handle (not finalized, owned by no live
    request) stays so along every continuation \<open>ops_run\<close> of calls and transport
    completions.

  \<^bold>\<open>What is proved.\<close>
  The bootstrap: under any interleaving a finished process holds the rank-ordered
  concatenation of all blocks (C1); one call keeps a request well formed, never moves
  its counter back and posts one send of \<open>msglen\<close> bytes per ring iteration it runs
  (C2), a blocked poll changes nothing (C3), a group of one finishes at once (C4).
  Requests: terminal status is stable along any run (C5), a successful post reads in
  progress (C6), allgather completion copies every scratch row (C7), every request can
  be driven to a terminal status (C8), polling a completed request uses a finalized
  handle (C9). Device order: a post orders the caller's earlier work before the
  collective (C10) and a fence orders the collective before the caller's later work
  (C11). Factory error paths: the \<open>gpu_barrier\<close> barrier always dereferences a null
  pointer (C12), a failed \<open>.at\<close> lookup loses an event (C13), a rejected post returns
  it (C14). What XCCL is told: a successful alltoall posts one collective whose
  per-peer length is the input's byte size divided by the group size, rounded down
  (C15), and a successful allgather posts one collective whose length is the scratch
  size modulo \<open>2^64\<close> (C16). Context: the TLS bitmap equals its reference (C17), the
  team wait returns exactly when a test leaves in progress and otherwise spins (C18,
  C19), failure releases everything in reverse order and init/close is balanced (C20,
  C21), init returns (C22), a team error is ignored (C23), the configuration follows
  the policy except for the misspelt alltoall key (C24, C25). The operation table:
  in every reachable state an event is held by at most one live request and never
  both by a request and the pool (C26, proved by showing that every post, on every
  outcome including its error paths, every progress, test, fence, free and transport
  completion keeps \<open>ops_inv\<close>); free gives the event back and makes the pointer
  dangling (C27). Stability: along any sequence of calls the stream once created is
  kept, the configuration is unchanged, allocated events are never freed and issued
  device work is never retracted (C28); a post on a CUDA tensor reuses the existing
  communication stream for its wait and its collective (C29). Device layer: a request
  built from source tensors is well formed, holding an event exactly when it is on a
  CUDA device (C30), and events are reused first-available from the pool before any
  new one is allocated (C31). Freeing a finished bootstrap request is safe: it holds
  the result, its sends and receives are complete, no message for it is in flight and
  no later step of the group changes it (C32). A collective that fails at run time
  leaks its XCCL handle: progress reports the error without
  \<open>xccl_collective_finalize\<close>, free only runs the destructor, and no later call
  finalizes the handle (C33). The bootstrap cannot deadlock: from every reachable
  state some continuation of polls and transport events brings every process to done
  (C34).

  \<^bold>\<open>Modelling choices, bounds and fuel.\<close> Integers of the C code are \<open>int\<close>
  where they are \<open>int\<close> in C and far from overflow (ranks, the ring counter);
  byte lengths passed to XCCL are \<open>size_t\<close> words because their wrap-around is the
  point of C16. No fuel is used: the ring loop terminates by its measure; the
  TLS loop and the team wait are \<open>partial_function (option)\<close>, with theorems that
  they return (C17, C18, C22) and that the team wait does not when creation stays in
  progress (C19). The ring's liveness (C34) is proved by well-founded induction on
  \<open>3 N^2\<close> minus the progress measure: whenever a process is not done, some
  enabled step raises the measure. Answers of XCCL, UCX and CUDA are parameters or
  environment steps, so every theorem holds for every answer they may give. The real
  \<open>torch_ucx_req_test\<close> also progresses the transport, so one C call may take
  several ring steps where the model takes one per call; the model's runs are the C
  runs with the same steps spread over more calls, and no theorem bounds the number
  of iterations one call runs. Likewise \<open>xccl_context_progress\<close> (line 660, in
  \<open>torch_xccl_progress\<close>) is the transport step \<open>xccl_complete\<close> placed before
  the progress call rather than inside it. A crash (null dereference) is an
  \<open>Inl\<close> outcome; the state after it is not observed.

  \<^bold>\<open>Not modelled.\<close> The wire transport, CUDA and XCCL themselves (only the
  behaviour the code relies on), logging and \<open>fprintf\<close>, the parameter structs
  that are only handed to XCCL, the
  operations declared in \<open>src/torch_ucx_coll.hpp\<close> (their bodies are not in the
  repository, the specification does not describe them and no code under
  \<open>src/\<close> touches their state; only the structs are modelled), the
  specification's per-context tag counter (no code under \<open>src/\<close> increments
  \<open>last_tag\<close>), the composition of context creation, calls and close into one
  communicator life (each part is modelled, in \<open>Context\<close> and \<open>Ops\<close>, but the
  calls after close would need the deleted communicator as an explicit heap
  object), and \<open>src/torch_xccl.hpp\<close> and
  \<open>src/include/torch_xccl.hpp\<close>, stale declarations whose struct and
  signatures differ from the code in \<open>src/src/torch_xccl.cpp\<close>.
\<close>

end
